(* ===== verification/Paac_Prelude.thy ===== *)
theory Paac_Prelude
  imports Main "HOL-Library.AList" "HOL-Library.Char_ord" "HOL-Library.List_Lexorder"
begin

text \<open>
  Shared vocabulary of the development: results of fallible Rust code (with panics as values),
  the string operations of Rust's standard library the sources use, ordered maps
  (\<open>IndexMap\<close>) as association lists, and the interface of keyed stores with its client lemmas.

  Strings are lists of Unicode scalar values; HOL's \<open>char\<close> covers the scalars U+0000 to U+00FF,
  so every lemma is about text in that range. White space is Rust's \<open>char::is_whitespace\<close>
  restricted to it.
\<close>

named_theorems result_simps
named_theorems string_simps

section \<open>Results\<close>

datatype 'e fault = Err 'e | Panic string

type_synonym ('e, 'a) result = "'e fault + 'a"

abbreviation Ok :: "'a \<Rightarrow> ('e, 'a) result" where
  "Ok x \<equiv> Inr x"

abbreviation Fail :: "'e \<Rightarrow> ('e, 'a) result" where
  "Fail e \<equiv> Inl (Err e)"

definition and_then :: "('e, 'a) result \<Rightarrow> ('a \<Rightarrow> ('e, 'b) result) \<Rightarrow> ('e, 'b) result" where
  "and_then m f = (case m of Inl e \<Rightarrow> Inl e | Inr x \<Rightarrow> f x)"

definition map_err :: "('e \<Rightarrow> 'f) \<Rightarrow> ('e, 'a) result \<Rightarrow> ('f, 'a) result" where
  "map_err g m = (case m of Inl (Err e) \<Rightarrow> Fail (g e) | Inl (Panic s) \<Rightarrow> Inl (Panic s) | Inr x \<Rightarrow> Ok x)"

definition ok_or :: "'e \<Rightarrow> 'a option \<Rightarrow> ('e, 'a) result" where
  "ok_or e x = (case x of None \<Rightarrow> Fail e | Some v \<Rightarrow> Ok v)"

text \<open>A library call that returns \<open>Err(message)\<close> or a value.\<close>

definition lift_msg :: "(string \<Rightarrow> 'e) \<Rightarrow> string + 'a \<Rightarrow> ('e, 'a) result" where
  "lift_msg g x = (case x of Inl m \<Rightarrow> Fail (g m) | Inr v \<Rightarrow> Ok v)"

definition is_ok :: "('e, 'a) result \<Rightarrow> bool" where
  "is_ok m = (case m of Inl _ \<Rightarrow> False | Inr _ \<Rightarrow> True)"

definition unwrap_or :: "'a \<Rightarrow> ('e, 'a) result \<Rightarrow> 'a" where
  "unwrap_or d m = (case m of Inl _ \<Rightarrow> d | Inr x \<Rightarrow> x)"

text \<open>A \<open>for\<close> loop whose body uses the question-mark operator.\<close>

fun try_fold :: "('x \<Rightarrow> 's \<Rightarrow> ('e, 's) result) \<Rightarrow> 'x list \<Rightarrow> 's \<Rightarrow> ('e, 's) result" where
  "try_fold f [] s = Ok s"
| "try_fold f (x # xs) s = and_then (f x s) (try_fold f xs)"

lemma and_then_simps [simp, result_simps]:
  "and_then (Inl e) f = Inl e"
  "and_then (Inr x) f = f x"
  by (simp_all add: and_then_def)

lemma and_then_Inr_iff [result_simps]:
  "and_then m f = Inr y \<longleftrightarrow> (\<exists>x. m = Inr x \<and> f x = Inr y)"
  by (cases m) auto

lemma and_then_Inl_iff [result_simps]:
  "and_then m f = Inl e \<longleftrightarrow> m = Inl e \<or> (\<exists>x. m = Inr x \<and> f x = Inl e)"
  by (cases m) auto

lemma and_then_assoc: "and_then (and_then m f) g = and_then m (\<lambda>x. and_then (f x) g)"
  by (cases m) auto

lemma map_err_simps [simp, result_simps]:
  "map_err g (Inl (Err e)) = Inl (Err (g e))"
  "map_err g (Inl (Panic s)) = Inl (Panic s)"
  "map_err g (Inr x) = Inr x"
  by (simp_all add: map_err_def)

lemma map_err_Inr_iff [simp, result_simps]: "map_err g m = Inr y \<longleftrightarrow> m = Inr y"
  by (auto simp: map_err_def split: sum.splits fault.splits)

lemma ok_or_simps [simp, result_simps]:
  "ok_or e None = Inl (Err e)"
  "ok_or e (Some v) = Inr v"
  by (simp_all add: ok_or_def)

lemma ok_or_Inr_iff [result_simps]: "ok_or e x = Inr v \<longleftrightarrow> x = Some v"
  by (cases x) auto

lemma lift_msg_simps [simp, result_simps]:
  "lift_msg g (Inl m) = Inl (Err (g m))"
  "lift_msg g (Inr v) = Inr v"
  by (simp_all add: lift_msg_def)

lemma lift_msg_Inr_iff [result_simps]: "lift_msg g x = Inr v \<longleftrightarrow> x = Inr v"
  by (cases x) auto

lemma is_ok_simps [simp, result_simps]: "is_ok (Inl e) = False" "is_ok (Inr x) = True"
  by (simp_all add: is_ok_def)

lemma is_ok_iff: "is_ok m \<longleftrightarrow> (\<exists>x. m = Inr x)"
  by (cases m) auto

lemma result_cases: "(\<And>e. m = Inl (Err e) \<Longrightarrow> P) \<Longrightarrow> (\<And>s. m = Inl (Panic s) \<Longrightarrow> P) \<Longrightarrow> (\<And>x. m = Inr x \<Longrightarrow> P) \<Longrightarrow> P"
  by (cases m) (metis fault.exhaust)+

lemma unwrap_or_simps [simp, result_simps]:
  "unwrap_or d (Inl e) = d"
  "unwrap_or d (Inr x) = x"
  by (simp_all add: unwrap_or_def)

lemma try_fold_invariant:
  assumes "try_fold f xs s = Inr t" "P s"
    and "\<And>x s t. x \<in> set xs \<Longrightarrow> P s \<Longrightarrow> f x s = Inr t \<Longrightarrow> P t"
  shows "P t"
  using assms by (induction xs arbitrary: s) (auto simp: and_then_Inr_iff)

lemma try_fold_append:
  "try_fold f (xs @ ys) s = and_then (try_fold f xs s) (try_fold f ys)"
  by (induction xs arbitrary: s) (auto simp: and_then_def split: sum.splits)

lemma try_fold_total:
  assumes "\<And>x s. x \<in> set xs \<Longrightarrow> f x s = Inr (g x s)"
  shows "try_fold f xs s = Inr (fold g xs s)"
  using assms by (induction xs arbitrary: s) auto

text \<open>The faults a computation can end with.\<close>

definition faults_only :: "('e fault \<Rightarrow> bool) \<Rightarrow> ('e, 'a) result \<Rightarrow> bool" where
  "faults_only P m = (case m of Inl f \<Rightarrow> P f | Inr _ \<Rightarrow> True)"

lemma faults_only_simps [simp]: "faults_only P (Inl f) = P f" "faults_only P (Inr x)"
  by (simp_all add: faults_only_def)

lemma faults_onlyD: "faults_only P m \<Longrightarrow> m = Inl f \<Longrightarrow> P f"
  by simp

lemma faults_only_and_then:
  "faults_only P m \<Longrightarrow> (\<And>x. m = Inr x \<Longrightarrow> faults_only P (f x)) \<Longrightarrow> faults_only P (and_then m f)"
  by (cases m) auto

lemma faults_only_try_fold:
  assumes "\<And>x s. x \<in> set xs \<Longrightarrow> faults_only P (f x s)"
  shows "faults_only P (try_fold f xs s)"
  using assms by (induction xs arbitrary: s) (auto intro: faults_only_and_then)

lemma faults_only_mono: "faults_only P m \<Longrightarrow> (\<And>f. P f \<Longrightarrow> Q f) \<Longrightarrow> faults_only Q m"
  by (cases m) auto

lemma faults_only_lift_msg: "(\<And>m. P (Err (g m))) \<Longrightarrow> faults_only P (lift_msg g x)"
  by (cases x) auto

end
