(* ===== verification/Keyed_Store.thy ===== *)
theory Keyed_Store
  imports Paac_Prelude
begin

text \<open>
  The interface of everything in the program that is written by key and read by key: the ordered
  maps of request contexts and attributes, hash maps, the identity cache, the files of the policy
  store, the tables of the audit database. A provider promises that a written key reads back and
  that other keys are left alone; the client lemmas about sequences of writes are proved once here
  and reused through the interpretations.
\<close>

locale keyed_store =
  fixes put :: "'k \<Rightarrow> 'v \<Rightarrow> 's \<Rightarrow> 's"
    and get :: "'s \<Rightarrow> 'k \<Rightarrow> 'v option"
    and inv :: "'s \<Rightarrow> bool"
  assumes get_put: "inv s \<Longrightarrow> get (put k v s) k' = (if k' = k then Some v else get s k')"
    and inv_put: "inv s \<Longrightarrow> inv (put k v s)"
begin

lemma get_put_same: "inv s \<Longrightarrow> get (put k v s) k = Some v"
  by (simp add: get_put)

lemma get_put_other: "inv s \<Longrightarrow> k' \<noteq> k \<Longrightarrow> get (put k v s) k' = get s k'"
  by (simp add: get_put)

lemma put_present: "inv s \<Longrightarrow> get s k' \<noteq> None \<Longrightarrow> get (put k v s) k' \<noteq> None"
  by (simp add: get_put)

lemma put_twice: "inv s \<Longrightarrow> get (put k w (put k v s)) k' = get (put k w s) k'"
  by (simp add: get_put inv_put)

lemma put_commute:
  "inv s \<Longrightarrow> k \<noteq> j \<Longrightarrow> get (put k v (put j w s)) k' = get (put j w (put k v s)) k'"
  by (simp add: get_put inv_put)

lemma inv_puts: "inv s \<Longrightarrow> inv (fold (\<lambda>(k, v). put k v) kvs s)"
  by (induction kvs arbitrary: s) (auto simp: inv_put)

lemma get_puts:
  "inv s \<Longrightarrow> get (fold (\<lambda>(k, v). put k v) kvs s) k =
     (case map_of (rev kvs) k of None \<Rightarrow> get s k | Some v \<Rightarrow> Some v)"
proof (induction kvs arbitrary: s)
  case (Cons kv kvs)
  obtain j w where "kv = (j, w)" by (cases kv)
  with Cons show ?case
    by (auto simp: get_put inv_put map_add_def split: option.splits)
qed simp

lemma get_puts_other:
  "inv s \<Longrightarrow> k \<notin> fst ` set kvs \<Longrightarrow> get (fold (\<lambda>(k, v). put k v) kvs s) k = get s k"
  by (simp add: get_puts map_of_eq_None_iff [THEN iffD2])

end

text \<open>Stores from which a key can also be removed.\<close>

locale removable_store = keyed_store +
  fixes del :: "'a \<Rightarrow> 'c \<Rightarrow> 'c"
  assumes get_del: "inv s \<Longrightarrow> get (del k s) k' = (if k' = k then None else get s k')"
    and inv_del: "inv s \<Longrightarrow> inv (del k s)"
begin

lemma get_del_same: "inv s \<Longrightarrow> get (del k s) k = None"
  by (simp add: get_del)

lemma get_put_del: "inv s \<Longrightarrow> get (put k v (del k s)) k' = get (put k v s) k'"
  by (simp add: get_del get_put inv_del)

end

section \<open>Ordered maps\<close>

text \<open>\<open>IndexMap\<close>: insertion order is kept, and writing a present key keeps its place.\<close>

type_synonym 'v index_map = "(string \<times> 'v) list"

definition im_insert :: "string \<Rightarrow> 'v \<Rightarrow> 'v index_map \<Rightarrow> 'v index_map" where
  "im_insert k v m = AList.update k v m"

definition im_get :: "'v index_map \<Rightarrow> string \<Rightarrow> 'v option" where
  "im_get m k = map_of m k"

definition im_wf :: "'v index_map \<Rightarrow> bool" where
  "im_wf m \<longleftrightarrow> distinct (map fst m)"

definition im_extend :: "'v index_map \<Rightarrow> 'v index_map \<Rightarrow> 'v index_map" where
  "im_extend kvs m = fold (\<lambda>(k, v). im_insert k v) kvs m"

interpretation im: keyed_store im_insert im_get im_wf
  by unfold_locales (auto simp: im_insert_def im_get_def im_wf_def update_conv distinct_update)

lemma im_wf_Nil [simp]: "im_wf []"
  by (simp add: im_wf_def)

lemma im_wf_insert [simp]: "im_wf m \<Longrightarrow> im_wf (im_insert k v m)"
  by (rule im.inv_put)

lemma im_get_insert [simp]: "im_get (im_insert k v m) k' = (if k' = k then Some v else im_get m k')"
  by (simp add: im_insert_def im_get_def update_conv)

lemma im_wf_extend [simp]: "im_wf m \<Longrightarrow> im_wf (im_extend kvs m)"
  unfolding im_extend_def by (rule im.inv_puts)

lemma im_get_extend_other: "im_wf m \<Longrightarrow> k \<notin> fst ` set kvs \<Longrightarrow> im_get (im_extend kvs m) k = im_get m k"
  unfolding im_extend_def by (rule im.get_puts_other)

lemma im_insert_keys: "fst ` set (im_insert k v m) = insert k (fst ` set m)"
  by (auto simp: im_insert_def dom_update)

lemma im_get_Nil [simp]: "im_get [] k = None"
  by (simp add: im_get_def)

section \<open>Hash maps\<close>

definition hm_insert :: "'k \<Rightarrow> 'v \<Rightarrow> ('k \<rightharpoonup> 'v) \<Rightarrow> ('k \<rightharpoonup> 'v)" where
  "hm_insert k v m = m(k \<mapsto> v)"

definition hm_remove :: "'k \<Rightarrow> ('k \<rightharpoonup> 'v) \<Rightarrow> ('k \<rightharpoonup> 'v)" where
  "hm_remove k m = m(k := None)"

interpretation hm: removable_store hm_insert "\<lambda>m k. m k" "\<lambda>_. True" hm_remove
  by unfold_locales (auto simp: hm_insert_def hm_remove_def)

text \<open>\<open>map.entry(k).or_default().push(v)\<close>.\<close>

definition hm_push :: "'k \<Rightarrow> 'v \<Rightarrow> ('k \<rightharpoonup> 'v list) \<Rightarrow> ('k \<rightharpoonup> 'v list)" where
  "hm_push k v m = hm_insert k (case m k of None \<Rightarrow> [v] | Some vs \<Rightarrow> vs @ [v]) m"

definition hm_list :: "('k \<rightharpoonup> 'v list) \<Rightarrow> 'k \<Rightarrow> 'v list" where
  "hm_list m k = (case m k of None \<Rightarrow> [] | Some vs \<Rightarrow> vs)"

lemma hm_list_push [simp]: "hm_list (hm_push k v m) j = hm_list m j @ (if j = k then [v] else [])"
  by (auto simp: hm_list_def hm_push_def hm_insert_def split: option.splits)

lemma hm_list_empty [simp]: "hm_list Map.empty k = []"
  by (simp add: hm_list_def)

lemma hm_push_dom [simp]: "dom (hm_push k v m) = insert k (dom m)"
  by (auto simp: hm_push_def hm_insert_def)

end
