(* ===== verification/Rust_Strings.thy ===== *)
theory Rust_Strings
  imports Paac_Prelude "HOL-Library.Sublist"
begin

text \<open>
  The string operations of Rust's \<open>str\<close> and \<open>String\<close> that the sources call, over lists of
  characters, with the lemmas the parsers, generators and printers share.
\<close>

abbreviation NL :: char where "NL \<equiv> CHR 0x0A"
abbreviation CR :: char where "CR \<equiv> CHR 0x0D"
abbreviation DQ :: char where "DQ \<equiv> CHR 0x22"
abbreviation BSL :: char where "BSL \<equiv> CHR 0x5C"
abbreviation SP :: char where "SP \<equiv> CHR 0x20"

section \<open>Definitions\<close>

definition is_ws :: "char \<Rightarrow> bool" where
  "is_ws c \<longleftrightarrow> c \<in> {CHR 0x09, CHR 0x0A, CHR 0x0B, CHR 0x0C, CHR 0x0D, CHR 0x20, CHR 0x85, CHR 0xA0}"

definition trim_start :: "string \<Rightarrow> string" where
  "trim_start s = dropWhile is_ws s"

definition trim_end :: "string \<Rightarrow> string" where
  "trim_end s = rev (dropWhile is_ws (rev s))"

definition trim :: "string \<Rightarrow> string" where
  "trim s = trim_end (trim_start s)"

definition trim_start_char :: "char \<Rightarrow> string \<Rightarrow> string" where
  "trim_start_char c s = dropWhile (\<lambda>x. x = c) s"

definition trim_end_char :: "char \<Rightarrow> string \<Rightarrow> string" where
  "trim_end_char c s = rev (dropWhile (\<lambda>x. x = c) (rev s))"

fun strip_prefix :: "string \<Rightarrow> string \<Rightarrow> string option" where
  "strip_prefix [] s = Some s"
| "strip_prefix (p # ps) [] = None"
| "strip_prefix (p # ps) (c # cs) = (if p = c then strip_prefix ps cs else None)"

definition strip_suffix :: "string \<Rightarrow> string \<Rightarrow> string option" where
  "strip_suffix p s = map_option rev (strip_prefix (rev p) (rev s))"

definition starts_with :: "string \<Rightarrow> string \<Rightarrow> bool" where
  "starts_with p s \<longleftrightarrow> strip_prefix p s \<noteq> None"

definition ends_with :: "string \<Rightarrow> string \<Rightarrow> bool" where
  "ends_with p s \<longleftrightarrow> strip_suffix p s \<noteq> None"

lemma strip_prefix_Some_iff: "strip_prefix p s = Some r \<longleftrightarrow> s = p @ r"
  by (induction p s rule: strip_prefix.induct) auto

lemma strip_suffix_Some_iff: "strip_suffix p s = Some r \<longleftrightarrow> s = r @ p"
  by (auto simp: strip_suffix_def strip_prefix_Some_iff)
     (metis rev_append rev_rev_ident)+

text \<open>\<open>trim_start_matches(pattern)\<close> removes the pattern as often as it occurs in front.\<close>

function trim_start_matches :: "string \<Rightarrow> string \<Rightarrow> string" where
  "trim_start_matches p s =
     (case strip_prefix p s of
        None \<Rightarrow> s
      | Some r \<Rightarrow> if p = [] then s else trim_start_matches p r)"
  by pat_completeness auto
termination
  by (relation "measure (\<lambda>(p, s). length s)") (auto simp: strip_prefix_Some_iff)

declare trim_start_matches.simps [simp del]

definition trim_end_matches :: "string \<Rightarrow> string \<Rightarrow> string" where
  "trim_end_matches p s = rev (trim_start_matches (rev p) (rev s))"

fun split_on :: "char \<Rightarrow> string \<Rightarrow> string list" where
  "split_on d [] = [[]]"
| "split_on d (c # cs) =
     (if c = d then [] # split_on d cs
      else (case split_on d cs of [] \<Rightarrow> [[c]] | w # ws \<Rightarrow> (c # w) # ws))"

fun split_pieces :: "(char \<Rightarrow> bool) \<Rightarrow> string \<Rightarrow> string list" where
  "split_pieces f [] = [[]]"
| "split_pieces f (c # cs) =
     (if f c then [] # split_pieces f cs
      else (case split_pieces f cs of [] \<Rightarrow> [[c]] | w # ws \<Rightarrow> (c # w) # ws))"

definition split_whitespace :: "string \<Rightarrow> string list" where
  "split_whitespace s = filter (\<lambda>w. w \<noteq> []) (split_pieces is_ws s)"

text \<open>
  \<open>str::lines\<close>: pieces ended by a line feed, without it and without a carriage return before
  it; a last piece without line feed is kept as it is when it is not empty.
\<close>

definition strip_cr :: "string \<Rightarrow> string" where
  "strip_cr l = (case strip_suffix [CR] l of None \<Rightarrow> l | Some r \<Rightarrow> r)"

definition str_lines :: "string \<Rightarrow> string list" where
  "str_lines s =
     (let ps = split_on NL s
      in map strip_cr (butlast ps) @ (if last ps = [] then [] else [last ps]))"

fun join :: "string \<Rightarrow> string list \<Rightarrow> string" where
  "join sep [] = []"
| "join sep [w] = w"
| "join sep (w # v # ws) = w @ sep @ join sep (v # ws)"

definition replace_char :: "char \<Rightarrow> string \<Rightarrow> string \<Rightarrow> string" where
  "replace_char c r s = concat (map (\<lambda>x. if x = c then r else [x]) s)"

fun contains :: "string \<Rightarrow> string \<Rightarrow> bool" where
  "contains [] p = (p = [])"
| "contains (c # cs) p = (starts_with p (c # cs) \<or> contains cs p)"

text \<open>\<open>str::find\<close>: what precedes and what follows the first occurrence.\<close>

fun find_split :: "string \<Rightarrow> string \<Rightarrow> (string \<times> string) option" where
  "find_split [] p = (if p = [] then Some ([], []) else None)"
| "find_split (c # cs) p =
     (case strip_prefix p (c # cs) of
        Some r \<Rightarrow> Some ([], r)
      | None \<Rightarrow> map_option (\<lambda>(b, a). (c # b, a)) (find_split cs p))"

definition upper_char :: "char \<Rightarrow> char" where
  "upper_char c = (if (97::nat) \<le> of_char c \<and> of_char c \<le> (122::nat) then char_of (of_char c - 32 :: nat) else c)"

definition lower_char :: "char \<Rightarrow> char" where
  "lower_char c = (if (65::nat) \<le> of_char c \<and> of_char c \<le> (90::nat) then char_of (of_char c + 32 :: nat) else c)"

definition to_ascii_uppercase :: "string \<Rightarrow> string" where
  "to_ascii_uppercase s = map upper_char s"

definition to_ascii_lowercase :: "string \<Rightarrow> string" where
  "to_ascii_lowercase s = map lower_char s"

definition eq_ignore_ascii_case :: "string \<Rightarrow> string \<Rightarrow> bool" where
  "eq_ignore_ascii_case a b \<longleftrightarrow> to_ascii_lowercase a = to_ascii_lowercase b"

text \<open>\<open>len\<close>: the number of UTF-8 bytes.\<close>

definition char_len :: "char \<Rightarrow> nat" where
  "char_len c = (if of_char c < (128::nat) then 1 else 2)"

definition str_len :: "string \<Rightarrow> nat" where
  "str_len s = sum_list (map char_len s)"

definition quoted :: "string \<Rightarrow> string" where
  "quoted s = DQ # s @ [DQ]"

fun show_nat :: "nat \<Rightarrow> string" where
  "show_nat n = (if n < 10 then [char_of (48 + n)] else show_nat (n div 10) @ [char_of (48 + n mod 10)])"

declare show_nat.simps [simp del]


section \<open>Prefixes, suffixes and occurrences\<close>

lemma starts_with_iff [string_simps]: "starts_with p s \<longleftrightarrow> prefix p s"
  by (cases "strip_prefix p s") (auto simp: starts_with_def strip_prefix_Some_iff prefix_def, metis option.distinct(1) strip_prefix_Some_iff)

lemma ends_with_iff [string_simps]: "ends_with p s \<longleftrightarrow> suffix p s"
  by (cases "strip_suffix p s") (auto simp: ends_with_def strip_suffix_Some_iff suffix_def, metis option.distinct(1) strip_suffix_Some_iff)

lemma strip_prefix_append [simp]: "strip_prefix p (p @ r) = Some r"
  by (simp add: strip_prefix_Some_iff)

lemma contains_iff [string_simps]: "contains s p \<longleftrightarrow> sublist p s"
  by (induction s p rule: contains.induct) (auto simp: starts_with_iff sublist_Cons_right)

lemma contains_append_left: "contains a p \<Longrightarrow> contains (a @ b) p"
  by (auto simp: contains_iff sublist_def) (metis append.assoc)

lemma find_split_Some: "find_split s p = Some (b, a) \<Longrightarrow> s = b @ p @ a"
  by (induction s p arbitrary: b a rule: find_split.induct)
     (auto simp: strip_prefix_Some_iff split: option.splits if_splits)

lemma find_split_None_iff: "find_split s p = None \<longleftrightarrow> \<not> contains s p"
  by (induction s p rule: find_split.induct)
     (auto simp: starts_with_def split: option.splits)

lemma trim_start_matches_none [simp]: "strip_prefix p s = None \<Longrightarrow> trim_start_matches p s = s"
  by (subst trim_start_matches.simps) simp

lemma trim_start_matches_result:
  "p \<noteq> [] \<Longrightarrow> strip_prefix p (trim_start_matches p s) = None"
proof (induction p s rule: trim_start_matches.induct)
  case (1 p s)
  then show ?case
    by (cases "strip_prefix p s") (simp_all add: trim_start_matches.simps [of p s])
qed

lemma trim_start_matches_suffix: "\<exists>b. s = b @ trim_start_matches p s"
proof (induction p s rule: trim_start_matches.induct)
  case (1 p s)
  show ?case
  proof (cases "strip_prefix p s")
    case None
    then show ?thesis by simp
  next
    case (Some r)
    show ?thesis
    proof (cases "p = []")
      case True
      then show ?thesis by (simp add: trim_start_matches.simps [of "[]" s])
    next
      case False
      with 1 Some obtain b where "r = b @ trim_start_matches p r" by blast
      moreover have "s = p @ r" using Some by (simp add: strip_prefix_Some_iff)
      moreover have "trim_start_matches p s = trim_start_matches p r"
        using Some False by (simp add: trim_start_matches.simps [of p s])
      ultimately have "s = (p @ b) @ trim_start_matches p s" by simp
      then show ?thesis by blast
    qed
  qed
qed

section \<open>Trimming\<close>

lemma not_ws_simps [simp]: "\<not> is_ws DQ" "\<not> is_ws (CHR ''['')" "\<not> is_ws (CHR '']'')" "\<not> is_ws (CHR '','')"
    "is_ws SP" "is_ws NL" "is_ws CR"
  by (simp_all add: is_ws_def)

lemma dropWhile_Nil_iff: "dropWhile f s = [] \<longleftrightarrow> (\<forall>c\<in>set s. f c)"
  by (induction s) auto

lemma trim_Nil_iff: "trim s = [] \<longleftrightarrow> (\<forall>c\<in>set s. is_ws c)"
proof
  assume "trim s = []"
  then have "\<forall>c\<in>set (dropWhile is_ws s). is_ws c"
    by (simp add: trim_def trim_end_def trim_start_def dropWhile_Nil_iff)
  then have "dropWhile is_ws s = []"
    by (metis hd_dropWhile hd_in_set)
  then show "\<forall>c\<in>set s. is_ws c" by (simp add: dropWhile_Nil_iff)
next
  assume "\<forall>c\<in>set s. is_ws c"
  then show "trim s = []"
    by (auto simp: trim_def trim_end_def trim_start_def dropWhile_Nil_iff dest: set_dropWhileD)
qed

lemma trim_Nil [simp]: "trim [] = []"
  by (simp add: trim_Nil_iff)

definition trimmed :: "string \<Rightarrow> bool" where
  "trimmed s \<longleftrightarrow> s = [] \<or> (\<not> is_ws (hd s) \<and> \<not> is_ws (last s))"

lemma trim_trimmed: "trimmed (trim s)"
proof (cases "trim s = []")
  case True
  then show ?thesis by (simp add: trimmed_def)
next
  case False
  let ?u = "dropWhile is_ws s"
  have t: "trim s = rev (dropWhile is_ws (rev ?u))"
    by (simp add: trim_def trim_end_def trim_start_def)
  then have u: "?u \<noteq> []" using False by (metis dropWhile.simps(1) rev.simps(1))
  have ne: "dropWhile is_ws (rev ?u) \<noteq> []" using False t by (metis rev.simps(1))
  have l: "\<not> is_ws (last (trim s))"
    unfolding t using ne by (metis hd_dropWhile last_rev)
  obtain v where v: "rev ?u = v @ dropWhile is_ws (rev ?u)"
    by (metis takeWhile_dropWhile_id)
  then have "?u = trim s @ rev v" unfolding t by (metis rev_append rev_rev_ident)
  then have "hd (trim s) = hd ?u" using False by (metis hd_append2)
  then have "\<not> is_ws (hd (trim s))" using u by (simp add: hd_dropWhile)
  with l show ?thesis by (simp add: trimmed_def)
qed

lemma trim_id [simp]: "trimmed s \<Longrightarrow> trim s = s"
proof (cases s)
  case (Cons c cs)
  assume "trimmed s"
  with Cons have h: "\<not> is_ws c" and l: "\<not> is_ws (last s)" by (auto simp: trimmed_def)
  have "rev s = last s # rev (butlast s)"
    using Cons by (metis append_butlast_last_id list.discI rev.simps(2) rev_rev_ident)
  then have "dropWhile is_ws (rev s) = rev s" using l by (metis dropWhile.simps(2))
  then show "trim s = s" using h Cons by (simp add: trim_def trim_end_def trim_start_def)
qed simp

lemma trim_idem [simp]: "trim (trim s) = trim s"
  by (rule trim_id [OF trim_trimmed])

lemma set_trim: "set (trim s) \<subseteq> set s"
  unfolding trim_def trim_end_def trim_start_def
  by (auto dest!: set_dropWhileD)

lemma trim_Cons_ws [simp]: "is_ws c \<Longrightarrow> trim (c # s) = trim s"
  by (simp add: trim_def trim_start_def)

lemma no_ws_trimmed: "\<forall>c\<in>set s. \<not> is_ws c \<Longrightarrow> trimmed s"
  by (cases s) (auto simp: trimmed_def)

lemma trimmed_append: "trimmed a \<Longrightarrow> trimmed b \<Longrightarrow> a \<noteq> [] \<Longrightarrow> b \<noteq> [] \<Longrightarrow> trimmed (a @ c @ b)"
  by (auto simp: trimmed_def)

lemma trimmed_no_trailing_sp: "trimmed (p @ r) \<Longrightarrow> p \<noteq> [] \<Longrightarrow> is_ws (last p) \<Longrightarrow> trim r \<noteq> []"
  by (metis Nil_is_append_conv append_Nil2 last_append last_in_set trim_Nil_iff trimmed_def)

section \<open>Splitting\<close>

lemma split_on_ne [simp]: "split_on d s \<noteq> []"
  by (induction s) (auto split: list.splits)

lemma split_on_clean: "w \<in> set (split_on d s) \<Longrightarrow> d \<notin> set w"
  by (induction s arbitrary: w) (force split: list.splits if_splits)+

lemma split_on_no [simp]: "d \<notin> set s \<Longrightarrow> split_on d s = [s]"
  by (induction s) auto

lemma split_on_append: "d \<notin> set a \<Longrightarrow> split_on d (a @ d # b) = a # split_on d b"
  by (induction a) auto

lemma join_split_on: "join [d] (split_on d s) = s"
proof (induction s)
  case (Cons c cs)
  then show ?case
    by (cases "split_on d cs" rule: remdups_adj.cases) auto
qed simp

lemma split_on_join:
  "ws \<noteq> [] \<Longrightarrow> \<forall>w\<in>set ws. d \<notin> set w \<Longrightarrow> split_on d (join [d] ws) = ws"
  by (induction "[d]" ws rule: join.induct) (auto simp: split_on_append)

lemma split_pieces_ne [simp]: "split_pieces f s \<noteq> []"
  by (induction s) (auto split: list.splits)

lemma split_pieces_no: "\<forall>c\<in>set s. \<not> f c \<Longrightarrow> split_pieces f s = [s]"
  by (induction s) auto

lemma split_pieces_append:
  "\<forall>c\<in>set a. \<not> f c \<Longrightarrow> f d \<Longrightarrow> split_pieces f (a @ d # b) = a # split_pieces f b"
  by (induction a) auto

lemma split_pieces_clean: "w \<in> set (split_pieces f s) \<Longrightarrow> c \<in> set w \<Longrightarrow> \<not> f c"
  by (induction s arbitrary: w) (force split: list.splits if_splits)+

lemma split_whitespace_words:
  "w \<in> set (split_whitespace s) \<Longrightarrow> w \<noteq> [] \<and> (\<forall>c\<in>set w. \<not> is_ws c)"
  by (auto simp: split_whitespace_def dest: split_pieces_clean)

lemma split_whitespace_word [simp]:
  "w \<noteq> [] \<Longrightarrow> \<forall>c\<in>set w. \<not> is_ws c \<Longrightarrow> split_whitespace w = [w]"
  by (simp add: split_whitespace_def split_pieces_no)

lemma split_whitespace_Cons:
  "w \<noteq> [] \<Longrightarrow> \<forall>c\<in>set w. \<not> is_ws c \<Longrightarrow> is_ws d \<Longrightarrow>
   split_whitespace (w @ d # s) = w # split_whitespace s"
  by (simp add: split_whitespace_def split_pieces_append)

lemma split_pieces_Nil_iff: "filter (\<lambda>w. w \<noteq> []) (split_pieces f s) = [] \<longleftrightarrow> (\<forall>c\<in>set s. f c)"
  by (induction s) (auto split: list.splits)

lemma split_whitespace_Nil_iff: "split_whitespace s = [] \<longleftrightarrow> trim s = []"
  by (simp add: split_whitespace_def split_pieces_Nil_iff trim_Nil_iff)

section \<open>Lines\<close>

lemma str_lines_Nil [simp]: "str_lines [] = []"
  by (simp add: str_lines_def)

lemma str_lines_append:
  "NL \<notin> set l \<Longrightarrow> str_lines (l @ NL # r) = strip_cr l # str_lines r"
  by (simp add: str_lines_def split_on_append Let_def)

lemma strip_cr_id [simp]: "CR \<notin> set l \<Longrightarrow> strip_cr l = l"
  by (auto simp: strip_cr_def strip_suffix_Some_iff split: option.splits)

lemma str_lines_block:
  "\<forall>l\<in>set ls. NL \<notin> set l \<and> CR \<notin> set l \<Longrightarrow>
   str_lines (concat (map (\<lambda>l. l @ [NL]) ls) @ r) = ls @ str_lines r"
  by (induction ls) (auto simp: str_lines_append)

section \<open>Letter case\<close>

lemma of_char_upper:
  "(of_char (upper_char c) :: nat) = (if (97::nat) \<le> of_char c \<and> of_char c \<le> (122::nat) then of_char c - 32 else of_char c)"
  by (auto simp: upper_char_def mod_less)

lemma of_char_lower:
  "(of_char (lower_char c) :: nat) = (if (65::nat) \<le> of_char c \<and> of_char c \<le> (90::nat) then of_char c + 32 else of_char c)"
  by (simp add: lower_char_def)

lemma of_char_inject: "(of_char c :: nat) = of_char d \<Longrightarrow> c = d"
  by (metis char_of_char)

lemma upper_char_idem [simp]: "upper_char (upper_char c) = upper_char c"
  by (rule of_char_inject) (auto simp: of_char_upper)

lemma lower_upper_char [simp]: "lower_char (upper_char c) = lower_char c"
  by (rule of_char_inject) (auto simp: of_char_upper of_char_lower)

lemma upper_lower_char [simp]: "upper_char (lower_char c) = upper_char c"
  by (rule of_char_inject) (auto simp: of_char_upper of_char_lower)

lemma to_ascii_uppercase_idem [simp]: "to_ascii_uppercase (to_ascii_uppercase s) = to_ascii_uppercase s"
  by (simp add: to_ascii_uppercase_def)

lemma eq_ignore_ascii_case_upper: "eq_ignore_ascii_case a b \<longleftrightarrow> to_ascii_uppercase a = to_ascii_uppercase b"
  unfolding eq_ignore_ascii_case_def to_ascii_lowercase_def to_ascii_uppercase_def
proof
  assume "map lower_char a = map lower_char b"
  then have "map upper_char (map lower_char a) = map upper_char (map lower_char b)" by simp
  then show "map upper_char a = map upper_char b" by (simp add: comp_def)
next
  assume "map upper_char a = map upper_char b"
  then have "map lower_char (map upper_char a) = map lower_char (map upper_char b)" by simp
  then show "map lower_char a = map lower_char b" by (simp add: comp_def)
qed

lemma upper_char_fixed: "(of_char c :: nat) < 97 \<or> (122::nat) < of_char c \<Longrightarrow> upper_char c = c"
  by (auto simp: upper_char_def)

lemma upper_char_cases: "upper_char c = c \<or> ((65::nat) \<le> of_char (upper_char c) \<and> of_char (upper_char c) \<le> (90::nat))"
  by (auto simp: of_char_upper upper_char_def)

end
