(* ===== verification/Core_Request.thy ===== *)
theory Core_Request
  imports Rust_Strings Keyed_Store
begin

text \<open>
  The request side of \<open>authz-core\<close>: errors (\<open>error.rs\<close>), validated identifiers (\<open>ids.rs\<close>), the
  canonical authorization request and its validation (\<open>request.rs\<close>), and the request builder
  (\<open>builder.rs\<close>). A struct is a record whose fields carry a two-letter prefix; the builder's
  methods take \<open>self\<close> as their last argument.
\<close>

section \<open>Errors\<close>

datatype authz_error =
    InvalidRequest string
  | AuthzPolicy string
  | AuthzCedar string
  | AuthzEntity string

fun authz_error_text :: "authz_error \<Rightarrow> string" where
  "authz_error_text (InvalidRequest m) = ''invalid request: '' @ m"
| "authz_error_text (AuthzPolicy m) = ''policy error: '' @ m"
| "authz_error_text (AuthzCedar m) = ''cedar error: '' @ m"
| "authz_error_text (AuthzEntity m) = ''entity error: '' @ m"

section \<open>Validated identifiers\<close>

text \<open>\<open>id_newtype!\<close>: one constructor for the six newtypes; the label is the macro's argument.\<close>

definition id_new :: "string \<Rightarrow> string \<Rightarrow> (authz_error, string) result" where
  "id_new label v =
     (let t = trim v
      in if t = [] then Fail (InvalidRequest (label @ '' must be non-empty'')) else Ok t)"

definition principal_id_new :: "string \<Rightarrow> (authz_error, string) result" where
  "principal_id_new = id_new ''principal id''"

definition resource_kind_new :: "string \<Rightarrow> (authz_error, string) result" where
  "resource_kind_new = id_new ''resource kind''"

definition resource_id_new :: "string \<Rightarrow> (authz_error, string) result" where
  "resource_id_new = id_new ''resource id''"

definition action_name_new :: "string \<Rightarrow> (authz_error, string) result" where
  "action_name_new = id_new ''action name''"

definition agent_id_new :: "string \<Rightarrow> (authz_error, string) result" where
  "agent_id_new = id_new ''agent id''"

lemmas id_new_defs = principal_id_new_def resource_kind_new_def resource_id_new_def
  action_name_new_def agent_id_new_def id_new_def

section \<open>The canonical request\<close>

record principal =
  pr_id :: string
  pr_roles :: "string list"
  pr_groups :: "string list"
  pr_attrs :: "string index_map"

record action =
  ac_name :: string

record resource =
  rs_kind :: string
  rs_id :: "string option"
  rs_attrs :: "string index_map"

record subject =
  sj_id :: string
  sj_kind :: string
  sj_groups :: "string list"
  sj_attrs :: "string index_map"

record context_map =
  cx_values :: "string index_map"

datatype relationship_kind = ManagerOf | DirectReports | GroupMember | Delegation

record relationship =
  rl_kind :: relationship_kind
  rl_from :: string
  rl_to :: string

record authz_request =
  rq_principal :: principal
  rq_action :: action
  rq_resource :: resource
  rq_subject :: "subject option"
  rq_context :: context_map
  rq_relationships :: "relationship list"
  rq_acting_as :: "string option"
  rq_on_behalf_of :: "string option"

definition validate :: "authz_request \<Rightarrow> (authz_error, unit) result" where
  "validate r =
     (if trim (pr_id (rq_principal r)) = [] then Fail (InvalidRequest ''principal.id is required'')
      else if trim (ac_name (rq_action r)) = [] then Fail (InvalidRequest ''action.name is required'')
      else if trim (rs_kind (rq_resource r)) = [] then Fail (InvalidRequest ''resource.kind is required'')
      else Ok ())"

definition action_new :: "string \<Rightarrow> action" where
  "action_new name = \<lparr>ac_name = name\<rparr>"

definition resource_of_kind :: "string \<Rightarrow> resource" where
  "resource_of_kind kind = \<lparr>rs_kind = kind, rs_id = None, rs_attrs = []\<rparr>"

definition with_roles :: "string \<Rightarrow> string list \<Rightarrow> principal" where
  "with_roles i roles = \<lparr>pr_id = i, pr_roles = roles, pr_groups = [], pr_attrs = []\<rparr>"

definition empty_context :: context_map where
  "empty_context = \<lparr>cx_values = []\<rparr>"

section \<open>The builder\<close>

record authz_request_builder =
  bd_principal :: "principal option"
  bd_action :: "action option"
  bd_resource :: "resource option"
  bd_subject :: "subject option"
  bd_context :: context_map
  bd_relationships :: "relationship list"
  bd_acting_as :: "string option"
  bd_on_behalf_of :: "string option"
  bd_delegation_chain :: "string list"

definition builder_new :: authz_request_builder where
  "builder_new = \<lparr>bd_principal = None, bd_action = None, bd_resource = None, bd_subject = None,
     bd_context = empty_context, bd_relationships = [], bd_acting_as = None, bd_on_behalf_of = None,
     bd_delegation_chain = []\<rparr>"

type_synonym builder_result = "(authz_error, authz_request_builder) result"

definition bd_set_principal :: "string \<Rightarrow> string list \<Rightarrow> authz_request_builder \<Rightarrow> builder_result" where
  "bd_set_principal i roles b =
     and_then (principal_id_new i) (\<lambda>pid. Ok (b\<lparr>bd_principal := Some (with_roles pid roles)\<rparr>))"

definition bd_principal_obj :: "principal \<Rightarrow> authz_request_builder \<Rightarrow> builder_result" where
  "bd_principal_obj p b =
     and_then (principal_id_new (pr_id p)) (\<lambda>_. Ok (b\<lparr>bd_principal := Some p\<rparr>))"

definition bd_agent_principal ::
  "string \<Rightarrow> string list \<Rightarrow> string \<Rightarrow> authz_request_builder \<Rightarrow> builder_result" where
  "bd_agent_principal agent_id roles on_behalf_of b =
     and_then (agent_id_new agent_id) (\<lambda>agent.
     and_then (principal_id_new on_behalf_of) (\<lambda>human.
       Ok (b\<lparr>bd_principal := Some (with_roles agent roles),
              bd_acting_as := Some agent,
              bd_on_behalf_of := Some human\<rparr>)))"

definition bd_set_action :: "string \<Rightarrow> authz_request_builder \<Rightarrow> builder_result" where
  "bd_set_action name b =
     and_then (action_name_new name) (\<lambda>a. Ok (b\<lparr>bd_action := Some (action_new a)\<rparr>))"

definition bd_resource_kind :: "string \<Rightarrow> authz_request_builder \<Rightarrow> builder_result" where
  "bd_resource_kind kind b =
     and_then (resource_kind_new kind) (\<lambda>k. Ok (b\<lparr>bd_resource := Some (resource_of_kind k)\<rparr>))"

definition bd_set_resource ::
  "string \<Rightarrow> string option \<Rightarrow> string index_map \<Rightarrow> authz_request_builder \<Rightarrow> builder_result" where
  "bd_set_resource kind i attrs b =
     and_then (resource_kind_new kind) (\<lambda>k.
     and_then (case i of Some j \<Rightarrow> and_then (resource_id_new j) (\<lambda>r. Ok (Some r)) | None \<Rightarrow> Ok None) (\<lambda>rid.
       Ok (b\<lparr>bd_resource := Some \<lparr>rs_kind = k, rs_id = rid, rs_attrs = attrs\<rparr>\<rparr>)))"

definition bd_set_subject :: "string \<Rightarrow> string list \<Rightarrow> authz_request_builder \<Rightarrow> builder_result" where
  "bd_set_subject i groups b =
     and_then (principal_id_new i) (\<lambda>sid.
       Ok (b\<lparr>bd_subject := Some \<lparr>sj_id = sid, sj_kind = ''Employee'', sj_groups = groups, sj_attrs = []\<rparr>\<rparr>))"

definition bd_context_kv :: "string \<Rightarrow> string \<Rightarrow> authz_request_builder \<Rightarrow> authz_request_builder" where
  "bd_context_kv k v b = b\<lparr>bd_context := \<lparr>cx_values = im_insert k v (cx_values (bd_context b))\<rparr>\<rparr>"

definition bd_relationship :: "relationship \<Rightarrow> authz_request_builder \<Rightarrow> authz_request_builder" where
  "bd_relationship rel b = b\<lparr>bd_relationships := bd_relationships b @ [rel]\<rparr>"

definition bd_delegation_hop :: "string \<Rightarrow> authz_request_builder \<Rightarrow> builder_result" where
  "bd_delegation_hop pid b =
     and_then (principal_id_new pid) (\<lambda>i.
       Ok (b\<lparr>bd_delegation_chain := bd_delegation_chain b @ [i]\<rparr>))"

definition add_delegation :: "string list \<Rightarrow> context_map \<Rightarrow> context_map" where
  "add_delegation chain ctx =
     (if chain = [] then ctx
      else \<lparr>cx_values =
        im_insert ''delegation_depth'' (show_nat (length chain))
          (im_insert ''delegation_chain'' (join ''>'' chain) (cx_values ctx))\<rparr>)"

definition build :: "authz_request_builder \<Rightarrow> (authz_error, authz_request) result" where
  "build b =
     and_then (ok_or (InvalidRequest ''principal required'') (bd_principal b)) (\<lambda>p.
     and_then (ok_or (InvalidRequest ''action required'') (bd_action b)) (\<lambda>a.
     and_then (ok_or (InvalidRequest ''resource required'') (bd_resource b)) (\<lambda>r.
       let req = \<lparr>rq_principal = p, rq_action = a, rq_resource = r, rq_subject = bd_subject b,
                  rq_context = add_delegation (bd_delegation_chain b) (bd_context b),
                  rq_relationships = bd_relationships b, rq_acting_as = bd_acting_as b,
                  rq_on_behalf_of = bd_on_behalf_of b\<rparr>
       in and_then (validate req) (\<lambda>_. Ok req))))"


section \<open>Identifiers: laws\<close>

lemma id_new_Ok_iff: "id_new label v = Ok t \<longleftrightarrow> t = trim v \<and> t \<noteq> []"
  by (auto simp: id_new_def Let_def)

lemma id_new_Fail: "trim v = [] \<Longrightarrow> id_new label v = Fail (InvalidRequest (label @ '' must be non-empty''))"
  by (simp add: id_new_def Let_def)

lemma id_new_idem: "id_new label v = Ok t \<Longrightarrow> id_new label t = Ok t"
  by (auto simp: id_new_Ok_iff)

section \<open>Builder states the public methods can reach\<close>

text \<open>A builder value obtained from \<open>new()\<close> by any sequence of successful method calls.\<close>

inductive built :: "authz_request_builder \<Rightarrow> bool" where
  built_new: "built builder_new"
| built_principal: "built b \<Longrightarrow> bd_set_principal i roles b = Ok b' \<Longrightarrow> built b'"
| built_principal_obj: "built b \<Longrightarrow> bd_principal_obj p b = Ok b' \<Longrightarrow> built b'"
| built_agent: "built b \<Longrightarrow> bd_agent_principal i roles obo b = Ok b' \<Longrightarrow> built b'"
| built_action: "built b \<Longrightarrow> bd_set_action n b = Ok b' \<Longrightarrow> built b'"
| built_kind: "built b \<Longrightarrow> bd_resource_kind k b = Ok b' \<Longrightarrow> built b'"
| built_resource: "built b \<Longrightarrow> bd_set_resource k rid attrs b = Ok b' \<Longrightarrow> built b'"
| built_subject: "built b \<Longrightarrow> bd_set_subject i groups b = Ok b' \<Longrightarrow> built b'"
| built_context: "built b \<Longrightarrow> built (bd_context_kv k v b)"
| built_relationship: "built b \<Longrightarrow> built (bd_relationship rel b)"
| built_hop: "built b \<Longrightarrow> bd_delegation_hop i b = Ok b' \<Longrightarrow> built b'"

definition nonblank :: "string \<Rightarrow> bool" where
  "nonblank s \<longleftrightarrow> trim s \<noteq> []"

definition opt_all :: "('a \<Rightarrow> bool) \<Rightarrow> 'a option \<Rightarrow> bool" where
  "opt_all P x = (case x of None \<Rightarrow> True | Some v \<Rightarrow> P v)"

lemma opt_all_simps [simp]: "opt_all P None = True" "opt_all P (Some v) = P v"
  by (simp_all add: opt_all_def)

definition builder_inv :: "authz_request_builder \<Rightarrow> bool" where
  "builder_inv b \<longleftrightarrow>
     opt_all (\<lambda>p. nonblank (pr_id p)) (bd_principal b) \<and>
     opt_all (\<lambda>a. nonblank (ac_name a)) (bd_action b) \<and>
     opt_all (\<lambda>r. nonblank (rs_kind r) \<and> opt_all nonblank (rs_id r)) (bd_resource b) \<and>
     opt_all (\<lambda>s. nonblank (sj_id s)) (bd_subject b) \<and>
     im_wf (cx_values (bd_context b)) \<and>
     list_all nonblank (bd_delegation_chain b)"

lemmas builder_op_defs = bd_set_principal_def bd_principal_obj_def bd_agent_principal_def
  bd_set_action_def bd_resource_kind_def bd_set_resource_def bd_set_subject_def bd_context_kv_def
  bd_relationship_def bd_delegation_hop_def

lemma built_inv: "built b \<Longrightarrow> builder_inv b"
proof (induction rule: built.induct)
  case built_new
  show ?case by (simp add: builder_inv_def builder_new_def empty_context_def)
qed (auto simp: builder_inv_def builder_op_defs id_new_defs nonblank_def and_then_Inr_iff Let_def
       with_roles_def action_new_def resource_of_kind_def split: if_splits option.splits)

lemma add_delegation_wf: "im_wf (cx_values ctx) \<Longrightarrow> im_wf (cx_values (add_delegation chain ctx))"
  by (simp add: add_delegation_def)

text \<open>What \<open>validate\<close> accepts.\<close>

lemma validate_Ok_iff:
  "validate r = Ok () \<longleftrightarrow>
     nonblank (pr_id (rq_principal r)) \<and> nonblank (ac_name (rq_action r)) \<and> nonblank (rs_kind (rq_resource r))"
  by (auto simp: validate_def nonblank_def)

lemma is_ok_validate: "is_ok (validate r) \<longleftrightarrow> validate r = Ok ()"
  by (cases "validate r") auto


definition example_builder :: builder_result where
  "example_builder =
     and_then (bd_agent_principal '' agent:bot '' [''EMPLOYEE''] ''user:hr-head'' builder_new) (\<lambda>b.
     and_then (bd_set_action ''READ'' b) (\<lambda>b.
     and_then (bd_resource_kind ''EMPLOYEE_PROFILE'' b) (bd_delegation_hop ''user:hr-head'')))"

lemma example_builder_built: "example_builder = Ok b \<Longrightarrow> built b"
proof -
  assume "example_builder = Ok b"
  then obtain b1 b2 b3 where
      1: "bd_agent_principal '' agent:bot '' [''EMPLOYEE''] ''user:hr-head'' builder_new = Ok b1"
    and 2: "bd_set_action ''READ'' b1 = Ok b2"
    and 3: "bd_resource_kind ''EMPLOYEE_PROFILE'' b2 = Ok b3"
    and 4: "bd_delegation_hop ''user:hr-head'' b3 = Ok b"
    unfolding example_builder_def and_then_Inr_iff by blast
  show "built b"
    by (rule built_hop [OF built_kind [OF built_action [OF built_agent [OF built_new 1] 2] 3] 4])
qed


text \<open>A non-empty delegation chain always reaches the policy context: whatever context values
  were added before, \<open>delegation_chain\<close> and \<open>delegation_depth\<close> of a built request are the joined
  chain and its length, and every other context value is the one that was set.\<close>

theorem build_delegation_context:
  assumes "build b = Ok r" "bd_delegation_chain b \<noteq> []" "im_wf (cx_values (bd_context b))"
  shows "im_get (cx_values (rq_context r)) k =
     (if k = ''delegation_depth'' then Some (show_nat (length (bd_delegation_chain b)))
      else if k = ''delegation_chain'' then Some (join ''>'' (bd_delegation_chain b))
      else im_get (cx_values (bd_context b)) k)"
  using assms by (auto simp: build_def Let_def and_then_Inr_iff add_delegation_def)

theorem build_delegation_context_witness:
  "\<exists>b r. build b = Ok r \<and> im_get (cx_values (rq_context r)) ''delegation_depth'' = Some ''2''"
proof -
  let ?b = "builder_new\<lparr>bd_principal := Some (with_roles ''agent:bot'' []), bd_action := Some (action_new ''READ''),
    bd_resource := Some (resource_of_kind ''X''), bd_delegation_chain := [''user:hr-head'', ''agent:bot'']\<rparr>"
  have ok: "is_ok (build ?b)" by code_simp
  then obtain r where r: "build ?b = Ok r" by (auto simp: is_ok_iff)
  have c: "bd_delegation_chain ?b \<noteq> []" "im_wf (cx_values (bd_context ?b))"
    by (simp_all add: builder_new_def empty_context_def)
  have "show_nat (length (bd_delegation_chain ?b)) = ''2''" by code_simp
  then have "im_get (cx_values (rq_context r)) ''delegation_depth'' = Some ''2''"
    using build_delegation_context [OF r c, of "''delegation_depth''"] by simp
  then show ?thesis using r by blast
qed

end
