(* ===== verification/Identity_Cache.thy ===== *)
theory Identity_Cache
  imports Keyed_Store Core_Request
begin

text \<open>
  \<open>authz-identity\<close>, the canonical identity model (model.rs), its errors (error.rs) and the
  short-lived identity cache (cache.rs). Instants are numbers of nanoseconds; \<open>elapsed\<close> saturates
  at zero as the standard library's does. The \<open>RwLock\<close> makes every operation atomic.
\<close>

section \<open>Model\<close>

record canonical_identity =
  ci_id :: string
  ci_display_name :: string
  ci_email :: "string option"
  ci_source :: string
  ci_roles :: "string list"
  ci_groups :: "string list"
  ci_attrs :: "string index_map"

record group =
  gr_id :: string
  gr_name :: string
  gr_members :: "string list"
  gr_source :: string

record relationship_edge =
  re_kind :: relationship_kind
  re_from :: string
  re_to :: string
  re_source :: string

record identity_snapshot =
  is_users :: "canonical_identity list"
  is_groups :: "group list"
  is_relationships :: "relationship_edge list"
  is_synced_at :: "string option"

definition snapshot_default :: identity_snapshot where
  "snapshot_default = \<lparr>is_users = [], is_groups = [], is_relationships = [], is_synced_at = None\<rparr>"

datatype identity_error = IdMsg string | IdIo string | IdJwt string

fun identity_error_text :: "identity_error \<Rightarrow> string" where
  "identity_error_text (IdMsg m) = ''identity error: '' @ m"
| "identity_error_text (IdIo e) = e"
| "identity_error_text (IdJwt m) = ''jwt error: '' @ m"

section \<open>The cache\<close>

type_synonym instant = nat

definition elapsed :: "instant \<Rightarrow> instant \<Rightarrow> nat" where
  "elapsed now t = now - t"

record cached_identity =
  ca_identity :: canonical_identity
  ca_provenance :: string
  ca_inserted_at :: instant

record identity_cache =
  ic_ttl :: nat
  ic_inner :: "string \<rightharpoonup> cached_identity"

definition cache_new :: "nat \<Rightarrow> identity_cache" where
  "cache_new ttl = \<lparr>ic_ttl = ttl, ic_inner = Map.empty\<rparr>"

definition cache_get_with_provenance :: "instant \<Rightarrow> identity_cache \<Rightarrow> string \<Rightarrow> cached_identity option" where
  "cache_get_with_provenance now c key =
     (case ic_inner c key of
        None \<Rightarrow> None
      | Some entry \<Rightarrow> if elapsed now (ca_inserted_at entry) > ic_ttl c then None else Some entry)"

definition cache_get :: "instant \<Rightarrow> identity_cache \<Rightarrow> string \<Rightarrow> canonical_identity option" where
  "cache_get now c key =
     (case ic_inner c key of
        None \<Rightarrow> None
      | Some entry \<Rightarrow> if elapsed now (ca_inserted_at entry) > ic_ttl c then None else Some (ca_identity entry))"

definition cache_put :: "instant \<Rightarrow> string \<Rightarrow> canonical_identity \<Rightarrow> string \<Rightarrow> identity_cache \<Rightarrow> identity_cache" where
  "cache_put now key identity provenance c =
     c\<lparr>ic_inner := hm_insert key
        \<lparr>ca_identity = identity, ca_provenance = provenance, ca_inserted_at = now\<rparr> (ic_inner c)\<rparr>"

definition cache_invalidate :: "string \<Rightarrow> identity_cache \<Rightarrow> identity_cache" where
  "cache_invalidate key c = c\<lparr>ic_inner := hm_remove key (ic_inner c)\<rparr>"

definition cache_clear_expired :: "instant \<Rightarrow> identity_cache \<Rightarrow> identity_cache" where
  "cache_clear_expired now c =
     c\<lparr>ic_inner := (\<lambda>k. case ic_inner c k of
         None \<Rightarrow> None
       | Some v \<Rightarrow> if elapsed now (ca_inserted_at v) \<le> ic_ttl c then Some v else None)\<rparr>"

lemmas cache_defs = cache_get_def cache_put_def cache_invalidate_def cache_clear_expired_def
  cache_get_with_provenance_def hm_insert_def hm_remove_def elapsed_def

text \<open>At one instant the cache is a store with removal: what was just put reads back, whatever its
  time to live.\<close>

interpretation ic: removable_store
  "\<lambda>k v. cache_put now k (fst v) (snd v)" "\<lambda>c k. map_option (\<lambda>e. (ca_identity e, ca_provenance e)) (cache_get_with_provenance now c k)"
  "\<lambda>_. True" cache_invalidate for now :: instant
  by unfold_locales (auto simp: cache_defs split: option.splits)

lemma cache_get_provenance: "cache_get now c k = map_option ca_identity (cache_get_with_provenance now c k)"
  by (auto simp: cache_defs split: option.splits)

lemma cache_get_put:
  "cache_get now (cache_put now k i p c) k' = (if k' = k then Some i else cache_get now c k')"
  by (auto simp: cache_defs split: option.splits)

lemma cache_put_sequence:
  "map_option (\<lambda>e. (ca_identity e, ca_provenance e))
     (cache_get_with_provenance now (fold (\<lambda>(k, v). cache_put now k (fst v) (snd v)) kvs c) k) =
   (case map_of (rev kvs) k of
      None \<Rightarrow> map_option (\<lambda>e. (ca_identity e, ca_provenance e)) (cache_get_with_provenance now c k)
    | Some v \<Rightarrow> Some v)"
  using ic.get_puts [where now = now and s = c and kvs = kvs and k = k] by simp

section \<open>Histories\<close>

text \<open>A history is what was done to the cache and when. Its specification has no cache at all: the
  answer for a key is the identity of the latest write of that key that no invalidation followed,
  if that write is at most the time to live old.\<close>

datatype cache_op = OpPut string canonical_identity string | OpInvalidate string | OpClear

fun cache_step :: "instant \<times> cache_op \<Rightarrow> identity_cache \<Rightarrow> identity_cache" where
  "cache_step (now, OpPut k i p) c = cache_put now k i p c"
| "cache_step (now, OpInvalidate k) c = cache_invalidate k c"
| "cache_step (now, OpClear) c = cache_clear_expired now c"

definition cache_run :: "nat \<Rightarrow> (instant \<times> cache_op) list \<Rightarrow> identity_cache" where
  "cache_run ttl ops = fold cache_step ops (cache_new ttl)"

text \<open>The latest write, searching the history backwards.\<close>

fun latest_write :: "string \<Rightarrow> (instant \<times> cache_op) list \<Rightarrow> (instant \<times> canonical_identity) option" where
  "latest_write k [] = None"
| "latest_write k ((t, OpPut j i p) # rest) = (if j = k then Some (t, i) else latest_write k rest)"
| "latest_write k ((t, OpInvalidate j) # rest) = (if j = k then None else latest_write k rest)"
| "latest_write k ((t, OpClear) # rest) = latest_write k rest"

definition spec_answer :: "nat \<Rightarrow> instant \<Rightarrow> (instant \<times> cache_op) list \<Rightarrow> string \<Rightarrow> canonical_identity option" where
  "spec_answer ttl now ops k =
     (case latest_write k (rev ops) of
        None \<Rightarrow> None
      | Some (t, i) \<Rightarrow> if now - t \<le> ttl then Some i else None)"

definition times_sorted :: "instant \<Rightarrow> (instant \<times> cache_op) list \<Rightarrow> bool" where
  "times_sorted now ops \<longleftrightarrow> sorted (map fst ops @ [now])"

lemma cache_run_snoc: "cache_run ttl (ops @ [op]) = cache_step op (cache_run ttl ops)"
  by (simp add: cache_run_def)

lemma cache_step_ttl [simp]: "ic_ttl (cache_step op c) = ic_ttl c"
  by (cases op; cases "snd op") (auto simp: cache_defs)

lemma cache_run_ttl [simp]: "ic_ttl (cache_run ttl ops) = ttl"
  by (induction ops rule: rev_induct) (simp_all add: cache_run_snoc, simp add: cache_run_def cache_new_def)

lemma times_sorted_snoc: "times_sorted now (ops @ [(t, op)]) \<Longrightarrow> times_sorted t ops \<and> t \<le> now"
  by (auto simp: times_sorted_def sorted_append)

lemma cache_get_step:
  assumes "t \<le> now"
  shows "cache_get now (cache_step (t, op) c) k =
    (case op of
       OpPut j i p \<Rightarrow> if j = k then (if now - t \<le> ic_ttl c then Some i else None) else cache_get now c k
     | OpInvalidate j \<Rightarrow> if j = k then None else cache_get now c k
     | OpClear \<Rightarrow> cache_get now c k)"
  using assms by (cases op) (auto simp: cache_defs split: option.splits)

lemma cache_run_spec:
  "times_sorted now ops \<Longrightarrow> cache_get now (cache_run ttl ops) k = spec_answer ttl now ops k"
proof (induction ops arbitrary: now rule: rev_induct)
  case Nil
  then show ?case by (simp add: cache_run_def cache_new_def spec_answer_def cache_get_def)
next
  case (snoc op ops)
  obtain t x where op: "op = (t, x)" by (cases op)
  have s: "times_sorted t ops" "t \<le> now" using snoc.prems times_sorted_snoc op by auto
  then have "times_sorted now ops" by (auto simp: times_sorted_def sorted_append)
  with snoc.IH have IH: "cache_get now (cache_run ttl ops) k = spec_answer ttl now ops k" by blast
  show ?case
    unfolding op cache_run_snoc cache_get_step [OF s(2)] IH
    by (cases x) (auto simp: spec_answer_def)
qed

text \<open>C11: Whatever was put, invalidated and swept before, and in whatever order, the identity the
  cache returns for a key is exactly the one of the latest write of that key which no invalidation
  followed, and only while that write is at most the time to live old: no stale, removed or foreign
  identity is ever returned, and sweeping expired entries is invisible.\<close>

theorem cache_history:
  assumes "times_sorted now ops"
  shows "cache_get now (cache_run ttl ops) k = spec_answer ttl now ops k \<and>
    (\<forall>e. cache_get_with_provenance now (cache_run ttl ops) k = Some e \<longrightarrow>
       spec_answer ttl now ops k = Some (ca_identity e))"
  using cache_run_spec [OF assms, of ttl k] by (auto simp: cache_get_provenance simp flip: cache_run_spec [OF assms])

definition example_identity :: "string \<Rightarrow> canonical_identity" where
  "example_identity n =
     \<lparr>ci_id = n, ci_display_name = ''U'', ci_email = None, ci_source = ''test'', ci_roles = [],
      ci_groups = [], ci_attrs = []\<rparr>"

definition example_history :: "(instant \<times> cache_op) list" where
  "example_history =
     [(0, OpPut ''u1'' (example_identity ''u1'') ''unit-test''), (5, OpPut ''u2'' (example_identity ''u2'') ''unit-test''),
      (7, OpInvalidate ''u2''), (35, OpClear)]"

theorem cache_history_witness:
  "cache_get 30 (cache_run 30 [(0, OpPut ''u1'' (example_identity ''u1'') ''unit-test'')]) ''u1'' = Some (example_identity ''u1'') \<and>
   cache_get 40 (cache_run 30 example_history) ''u1'' = None"
  using cache_history [of 30 "[(0, OpPut ''u1'' (example_identity ''u1'') ''unit-test'')]" 30 "''u1''"]
    cache_history [of 40 example_history 30 "''u1''"]
  by (simp add: times_sorted_def spec_answer_def example_history_def)

end
