(* ===== verification/Identity_Jwt.thy ===== *)
theory Identity_Jwt
  imports Identity_Cache Rust_Strings
begin

text \<open>
  \<open>authz-identity\<close>, the JWT / OIDC part of adapters.rs. The \<open>jsonwebtoken\<close> crate, base64, the JSON
  reader of claims and the HTTP fetch of a key set are the record \<open>jwt_lib\<close>, a parameter; what the
  code relies on is \<open>jwt_documented\<close>. Everything the adapter itself decides (which algorithm goes
  where, which key is chosen, which checks are switched off) is modelled as written.
\<close>

section \<open>Types\<close>

record claims =
  cl_sub :: string
  cl_name :: "string option"
  cl_email :: "string option"
  cl_roles :: "string list"
  cl_groups :: "string list"
  cl_exp :: "int option"

record jwk =
  jk_kid :: "string option"
  jk_kty :: string
  jk_n :: "string option"
  jk_e :: "string option"
  jk_alg :: "string option"

datatype algorithm = HS256 | HS384 | HS512 | RS256 | RS384 | RS512 | ES256 | ES384 | PS256 | PS384 | PS512 | EdDSA

fun show_alg :: "algorithm \<Rightarrow> string" where
  "show_alg HS256 = ''HS256''" | "show_alg HS384 = ''HS384''" | "show_alg HS512 = ''HS512''"
| "show_alg RS256 = ''RS256''" | "show_alg RS384 = ''RS384''" | "show_alg RS512 = ''RS512''"
| "show_alg ES256 = ''ES256''" | "show_alg ES384 = ''ES384''" | "show_alg PS256 = ''PS256''"
| "show_alg PS384 = ''PS384''" | "show_alg PS512 = ''PS512''" | "show_alg EdDSA = ''EdDSA''"

text \<open>The fields of \<open>Validation\<close> the code sets; \<open>Validation::new\<close> requires the claim \<open>exp\<close>.\<close>

record validation =
  va_algorithms :: "algorithm list"
  va_validate_exp :: bool
  va_required :: "string list"

definition validation_new :: "algorithm \<Rightarrow> validation" where
  "validation_new alg = \<lparr>va_algorithms = [alg], va_validate_exp = True, va_required = [''exp'']\<rparr>"

record 'k jwt_lib =
  jl_decode_header :: "string \<Rightarrow> string + (algorithm \<times> string option)"
  jl_decode :: "string \<Rightarrow> 'k \<Rightarrow> validation \<Rightarrow> string + claims"
  jl_from_secret :: "string \<Rightarrow> 'k"
  jl_from_rsa_components :: "string \<Rightarrow> string \<Rightarrow> string + 'k"
  jl_fetch_jwks :: "string \<Rightarrow> string + jwk list"
  jl_url_safe_no_pad :: "string \<Rightarrow> string + string"
  jl_url_safe :: "string \<Rightarrow> string + string"
  jl_claims_from_slice :: "string \<Rightarrow> string + claims"

record jwt_oidc_adapter =
  jo_hmac_secret :: "string option"
  jo_jwks_url :: "string option"
  jo_require_exp :: bool

definition jwt_adapter_default :: jwt_oidc_adapter where
  "jwt_adapter_default = \<lparr>jo_hmac_secret = None, jo_jwks_url = None, jo_require_exp = False\<rparr>"

section \<open>The adapter\<close>

definition claims_to_identity :: "claims \<Rightarrow> string \<Rightarrow> canonical_identity" where
  "claims_to_identity cl source =
     \<lparr>ci_id = cl_sub cl, ci_display_name = (case cl_name cl of None \<Rightarrow> [] | Some n \<Rightarrow> n), ci_email = cl_email cl,
      ci_source = source, ci_roles = cl_roles cl, ci_groups = cl_groups cl, ci_attrs = []\<rparr>"

definition base64url_decode :: "'k jwt_lib \<Rightarrow> string \<Rightarrow> (identity_error, string) result" where
  "base64url_decode jl s =
     lift_msg IdJwt
       (case jl_url_safe_no_pad jl (trim_end_char (CHR ''='') s) of
          Inr b \<Rightarrow> Inr b
        | Inl _ \<Rightarrow>
            let padded = (if str_len s mod 4 = 2 then s @ ''=='' else if str_len s mod 4 = 3 then s @ ''='' else s)
            in jl_url_safe jl padded)"

definition normalize_unverified :: "'k jwt_lib \<Rightarrow> string \<Rightarrow> (identity_error, canonical_identity) result" where
  "normalize_unverified jl token =
     (let parts = split_on (CHR ''.'') token
      in if length parts < 2 then Fail (IdJwt ''invalid jwt'')
         else and_then (base64url_decode jl (parts ! 1)) (\<lambda>payload.
              and_then (lift_msg IdJwt (jl_claims_from_slice jl payload)) (\<lambda>cl.
                Ok (claims_to_identity cl ''jwt-unverified''))))"

definition adapter_validation :: "jwt_oidc_adapter \<Rightarrow> algorithm \<Rightarrow> validation" where
  "adapter_validation ad alg =
     (let v = (validation_new alg)\<lparr>va_validate_exp := jo_require_exp ad\<rparr>
      in if jo_require_exp ad then v else v\<lparr>va_required := []\<rparr>)"

definition normalize_hs256 :: "'k jwt_lib \<Rightarrow> jwt_oidc_adapter \<Rightarrow> string \<Rightarrow> (identity_error, canonical_identity) result" where
  "normalize_hs256 jl ad token =
     and_then (ok_or (IdJwt ''no hmac secret configured'') (jo_hmac_secret ad)) (\<lambda>secret.
     and_then (lift_msg IdJwt (jl_decode jl token (jl_from_secret jl secret) (adapter_validation ad HS256))) (\<lambda>cl.
       Ok (claims_to_identity cl ''jwt-hs256'')))"

text \<open>The first RSA key of the set, or the first with the token's key id when it names one.\<close>

definition find_jwk :: "string option \<Rightarrow> jwk list \<Rightarrow> jwk option" where
  "find_jwk kid keys =
     List.find (\<lambda>k. (case kid of None \<Rightarrow> True | Some i \<Rightarrow> jk_kid k = Some i) \<and> jk_kty k = ''RSA'') keys"

definition normalize_rs_jwks ::
  "'k jwt_lib \<Rightarrow> jwt_oidc_adapter \<Rightarrow> string \<Rightarrow> string option \<Rightarrow> algorithm \<Rightarrow> (identity_error, canonical_identity) result" where
  "normalize_rs_jwks jl ad token kid alg =
     and_then (ok_or (IdJwt ''jwks_url not configured for RS JWT'') (jo_jwks_url ad)) (\<lambda>url.
     and_then (lift_msg IdJwt (jl_fetch_jwks jl url)) (\<lambda>keys.
     and_then (ok_or (IdJwt ''no matching JWK'') (find_jwk kid keys)) (\<lambda>jwk.
     and_then (ok_or (IdJwt ''jwk missing n'') (jk_n jwk)) (\<lambda>n.
     and_then (ok_or (IdJwt ''jwk missing e'') (jk_e jwk)) (\<lambda>e.
     and_then (lift_msg IdJwt (jl_from_rsa_components jl n e)) (\<lambda>key.
     and_then (lift_msg IdJwt (jl_decode jl token key (adapter_validation ad alg))) (\<lambda>cl.
       Ok (claims_to_identity cl ''jwt-jwks''))))))))"

definition normalize :: "'k jwt_lib \<Rightarrow> jwt_oidc_adapter \<Rightarrow> string \<Rightarrow> (identity_error, canonical_identity) result" where
  "normalize jl ad token =
     and_then (lift_msg IdJwt (jl_decode_header jl token)) (\<lambda>(alg, kid).
       if alg \<in> {HS256, HS384, HS512} then normalize_hs256 jl ad token
       else if alg \<in> {RS256, RS384, RS512} then normalize_rs_jwks jl ad token kid alg
       else Fail (IdJwt (''unsupported alg '' @ show_alg alg)))"

section \<open>What a normalised token guarantees\<close>

text \<open>Documented behaviour of the crate: a token decodes only if the algorithm of its header is one of
  the validation's, its claims hold what the validation requires, and its signature checks under the
  key. Which signatures check is the predicate \<open>signed\<close>.\<close>

definition jwt_documented :: "'k jwt_lib \<Rightarrow> (string \<Rightarrow> 'k \<Rightarrow> claims \<Rightarrow> bool) \<Rightarrow> (claims \<Rightarrow> bool) \<Rightarrow> bool" where
  "jwt_documented jl signed live \<longleftrightarrow>
     (\<forall>token key v cl. jl_decode jl token key v = Inr cl \<longrightarrow>
        signed token key cl \<and>
        (\<exists>alg kid. jl_decode_header jl token = Inr (alg, kid) \<and> alg \<in> set (va_algorithms v)) \<and>
        (va_validate_exp v \<longrightarrow> live cl) \<and> (''exp'' \<in> set (va_required v) \<longrightarrow> cl_exp cl \<noteq> None))"

lemma adapter_validation_fields:
  "va_algorithms (adapter_validation ad alg) = [alg]" "va_validate_exp (adapter_validation ad alg) = jo_require_exp ad"
  "va_required (adapter_validation ad alg) = (if jo_require_exp ad then [''exp''] else [])"
  by (simp_all add: adapter_validation_def validation_new_def Let_def)

lemma normalize_hs256_OkD:
  assumes "normalize_hs256 jl ad token = Ok i"
  obtains secret cl where "jo_hmac_secret ad = Some secret" "i = claims_to_identity cl ''jwt-hs256''"
    "jl_decode jl token (jl_from_secret jl secret) (adapter_validation ad HS256) = Inr cl"
  using assms by (auto simp: normalize_hs256_def and_then_Inr_iff ok_or_Inr_iff lift_msg_Inr_iff)

lemma find_jwk_Some:
  assumes "find_jwk kid keys = Some k"
  shows "k \<in> set keys \<and> jk_kty k = ''RSA'' \<and> (kid = None \<or> jk_kid k = kid)"
  using assms unfolding find_jwk_def
  by (cases kid) (auto dest!: find_Some_iff [THEN iffD1])

lemma normalize_rs_OkD:
  assumes "normalize_rs_jwks jl ad token kid alg = Ok i"
  obtains url keys k n e key cl where "jo_jwks_url ad = Some url" "jl_fetch_jwks jl url = Inr keys" "find_jwk kid keys = Some k"
    "jk_n k = Some n" "jk_e k = Some e" "jl_from_rsa_components jl n e = Inr key"
    "jl_decode jl token key (adapter_validation ad alg) = Inr cl" "i = claims_to_identity cl ''jwt-jwks''"
  using assms by (auto simp: normalize_rs_jwks_def and_then_Inr_iff ok_or_Inr_iff lift_msg_Inr_iff)

text \<open>The keys an adapter trusts: its own secret for the HMAC algorithm, and the RSA keys its key set
  publishes, matched by key id when the token names one, for the RSA algorithms.\<close>

definition trusted_key :: "'k jwt_lib \<Rightarrow> jwt_oidc_adapter \<Rightarrow> algorithm \<Rightarrow> string option \<Rightarrow> 'k \<Rightarrow> bool" where
  "trusted_key jl ad alg kid key \<longleftrightarrow>
     (alg = HS256 \<and> (\<exists>s. jo_hmac_secret ad = Some s \<and> key = jl_from_secret jl s)) \<or>
     (alg \<in> {RS256, RS384, RS512} \<and>
      (\<exists>url keys k n e. jo_jwks_url ad = Some url \<and> jl_fetch_jwks jl url = Inr keys \<and> k \<in> set keys \<and> jk_kty k = ''RSA'' \<and>
         (kid = None \<or> jk_kid k = kid) \<and> jk_n k = Some n \<and> jk_e k = Some e \<and> jl_from_rsa_components jl n e = Inr key))"

text \<open>C12: A token is turned into an identity only if its signature checks under a key the adapter
  trusts for the token's own algorithm (no algorithm can be confused with another, an unsigned or
  elliptic-curve token is refused, an HMAC token never reaches an RSA key); the identity is exactly
  the token's claims; and where expiry is required the claims carry a live \<open>exp\<close>. Tokens of the HMAC
  algorithms other than HS256 are never accepted, although the dispatch lets them through. Every
  failure is a JWT error, never a panic.\<close>

theorem normalize_trusted:
  assumes "jwt_documented jl signed live"
  shows "(\<forall>i. normalize jl ad token = Ok i \<longrightarrow>
      (\<exists>alg kid key cl. jl_decode_header jl token = Inr (alg, kid) \<and> trusted_key jl ad alg kid key \<and>
         signed token key cl \<and> i = claims_to_identity cl (if alg = HS256 then ''jwt-hs256'' else ''jwt-jwks'') \<and>
         (jo_require_exp ad \<longrightarrow> live cl \<and> cl_exp cl \<noteq> None))) \<and>
    faults_only (\<lambda>f. \<exists>m. f = Err (IdJwt m)) (normalize jl ad token)"
proof (intro conjI allI impI)
  fix i assume ok: "normalize jl ad token = Ok i"
  obtain alg kid where h: "jl_decode_header jl token = Inr (alg, kid)"
    using ok by (auto simp: normalize_def and_then_Inr_iff lift_msg_Inr_iff)
  have doc: "signed token key cl \<and> alg \<in> set (va_algorithms v) \<and> (va_validate_exp v \<longrightarrow> live cl) \<and>
      (''exp'' \<in> set (va_required v) \<longrightarrow> cl_exp cl \<noteq> None)" if "jl_decode jl token key v = Inr cl" for key v cl
    using assms that h unfolding jwt_documented_def by fastforce
  have "\<exists>key cl. trusted_key jl ad alg kid key \<and> signed token key cl \<and>
      i = claims_to_identity cl (if alg = HS256 then ''jwt-hs256'' else ''jwt-jwks'') \<and>
      (jo_require_exp ad \<longrightarrow> live cl \<and> cl_exp cl \<noteq> None)"
  proof (cases "alg \<in> {RS256, RS384, RS512}")
    case True
    then have rs: "normalize_rs_jwks jl ad token kid alg = Ok i" using ok h by (auto simp: normalize_def)
    show ?thesis
    proof (rule normalize_rs_OkD [OF rs])
      fix url keys k n e key cl
      assume r: "jo_jwks_url ad = Some url" "jl_fetch_jwks jl url = Inr keys" "find_jwk kid keys = Some k"
        "jk_n k = Some n" "jk_e k = Some e" "jl_from_rsa_components jl n e = Inr key"
        "jl_decode jl token key (adapter_validation ad alg) = Inr cl" "i = claims_to_identity cl ''jwt-jwks''"
      have "trusted_key jl ad alg kid key"
        using True r(1-6) find_jwk_Some [OF r(3)] unfolding trusted_key_def by blast
      then show ?thesis using doc [OF r(7)] r(8) True by (intro exI [of _ key] exI [of _ cl]) (auto simp: adapter_validation_fields)
    qed
  next
    case False
    then have hs: "normalize_hs256 jl ad token = Ok i" using ok h by (auto simp: normalize_def split: if_splits)
    show ?thesis
    proof (rule normalize_hs256_OkD [OF hs])
      fix secret cl
      assume r: "jo_hmac_secret ad = Some secret" "i = claims_to_identity cl ''jwt-hs256''"
        "jl_decode jl token (jl_from_secret jl secret) (adapter_validation ad HS256) = Inr cl"
      then show ?thesis using doc [OF r(3)]
        by (intro exI [of _ "jl_from_secret jl secret"] exI [of _ cl]) (auto simp: adapter_validation_fields trusted_key_def)
    qed
  qed
  then show "\<exists>alg kid key cl. jl_decode_header jl token = Inr (alg, kid) \<and> trusted_key jl ad alg kid key \<and>
         signed token key cl \<and> i = claims_to_identity cl (if alg = HS256 then ''jwt-hs256'' else ''jwt-jwks'') \<and>
         (jo_require_exp ad \<longrightarrow> live cl \<and> cl_exp cl \<noteq> None)"
    using h by blast
next
  have ok_or: "faults_only (\<lambda>f. \<exists>m. f = Err (IdJwt m)) (ok_or (IdJwt e) x)" for e and x :: "'z option"
    by (cases x) auto
  have lift: "faults_only (\<lambda>f. \<exists>m. f = Err (IdJwt m)) (lift_msg IdJwt x)" for x :: "string + 'z"
    by (rule faults_only_lift_msg) auto
  have "faults_only (\<lambda>f. \<exists>m. f = Err (IdJwt m)) (normalize_hs256 jl ad token)"
    "\<And>kid alg. faults_only (\<lambda>f. \<exists>m. f = Err (IdJwt m)) (normalize_rs_jwks jl ad token kid alg)"
    unfolding normalize_hs256_def normalize_rs_jwks_def
    by (intro faults_only_and_then ok_or lift faults_only_simps)+
  then show "faults_only (\<lambda>f. \<exists>m. f = Err (IdJwt m)) (normalize jl ad token)"
    unfolding normalize_def by (intro faults_only_and_then lift) (auto split: prod.split)
qed

text \<open>An instance of the library: a token is the text of its algorithm, a dot and the secret.\<close>

definition example_claims :: claims where
  "example_claims = \<lparr>cl_sub = ''user:hr-head'', cl_name = Some ''Alex'', cl_email = None, cl_roles = [''HR_HEAD''],
     cl_groups = [''HR''], cl_exp = Some 99\<rparr>"

definition example_jwt_lib :: "string jwt_lib" where
  "example_jwt_lib =
     \<lparr>jl_decode_header = (\<lambda>t. if t = ''HS256.secret'' then Inr (HS256, None) else Inl ''InvalidToken''),
      jl_decode = (\<lambda>t k v. if t = ''HS256.secret'' \<and> k = ''secret'' \<and> HS256 \<in> set (va_algorithms v)
                     then Inr example_claims else Inl ''InvalidSignature''),
      jl_from_secret = (\<lambda>s. s), jl_from_rsa_components = (\<lambda>n e. Inr (n @ e)), jl_fetch_jwks = (\<lambda>_. Inr []),
      jl_url_safe_no_pad = Inr, jl_url_safe = Inr, jl_claims_from_slice = (\<lambda>_. Inr example_claims)\<rparr>"

definition example_jwt_adapter :: jwt_oidc_adapter where
  "example_jwt_adapter = jwt_adapter_default\<lparr>jo_hmac_secret := Some ''secret'', jo_require_exp := True\<rparr>"

theorem normalize_trusted_witness:
  "normalize example_jwt_lib example_jwt_adapter ''HS256.secret'' = Ok (claims_to_identity example_claims ''jwt-hs256'') \<and>
   trusted_key example_jwt_lib example_jwt_adapter HS256 None ''secret''"
proof -
  have n: "normalize example_jwt_lib example_jwt_adapter ''HS256.secret'' = Ok (claims_to_identity example_claims ''jwt-hs256'')"
    by (simp add: normalize_def example_jwt_lib_def example_jwt_adapter_def jwt_adapter_default_def normalize_hs256_def
        adapter_validation_def validation_new_def)
  have "jwt_documented example_jwt_lib (\<lambda>t k cl. k = ''secret'') (\<lambda>cl. cl_exp cl = Some 99)"
    by (auto simp: jwt_documented_def example_jwt_lib_def example_claims_def split: if_splits)
  from normalize_trusted [OF this, of example_jwt_adapter "''HS256.secret''"] n
  show ?thesis by (auto simp: example_jwt_lib_def)
qed

end
