(* ===== verification/Policy_Dsl.thy ===== *)
theory Policy_Dsl
  imports Rust_Strings
begin

text \<open>
  The policy language (\<open>authz-policy/src/dsl.rs\<close>, \<open>error.rs\<close>): the line parser of the source, one
  definition per function, what every accepted document is like, and the round trip with a printer.
\<close>

section \<open>Data\<close>

datatype policy_error =
    PolicyParse string
  | PolicyValidate string
  | PolicyStoreErr string
  | PolicyCrypto string
  | PolicyCedar string
  | PolicyIo string

fun policy_error_text :: "policy_error \<Rightarrow> string" where
  "policy_error_text (PolicyParse m) = ''parse error: '' @ m"
| "policy_error_text (PolicyValidate m) = ''validation error: '' @ m"
| "policy_error_text (PolicyStoreErr m) = ''store error: '' @ m"
| "policy_error_text (PolicyCrypto m) = ''crypto error: '' @ m"
| "policy_error_text (PolicyCedar m) = ''cedar error: '' @ m"
| "policy_error_text (PolicyIo m) = m"

datatype dsl_effect = DAllow | DDeny | DReview

record dsl_policy =
  dp_id :: string
  dp_effect :: dsl_effect
  dp_action :: string
  dp_resource :: string
  dp_when_roles :: "string list"
  dp_where_subjects :: "string list"
  dp_unless_roles :: "string list"
  dp_where_subject_groups :: "string list"
  dp_raw :: string

record partial =
  pt_id :: string
  pt_effect :: "dsl_effect option"
  pt_action :: "string option"
  pt_resource :: "string option"
  pt_when_roles :: "string list"
  pt_where_subjects :: "string list"
  pt_where_subject_groups :: "string list"
  pt_unless_roles :: "string list"
  pt_raw :: string

definition partial_new :: "string \<Rightarrow> string \<Rightarrow> partial" where
  "partial_new i raw =
     \<lparr>pt_id = i, pt_effect = None, pt_action = None, pt_resource = None, pt_when_roles = [],
      pt_where_subjects = [], pt_where_subject_groups = [], pt_unless_roles = [], pt_raw = raw\<rparr>"

definition finish :: "partial \<Rightarrow> (policy_error, dsl_policy) result" where
  "finish p =
     and_then (ok_or (PolicyParse (''policy '' @ pt_id p @ '': missing allow/deny/review'')) (pt_effect p)) (\<lambda>effect.
     and_then (ok_or (PolicyParse (''policy '' @ pt_id p @ '': missing action'')) (pt_action p)) (\<lambda>act.
     and_then (ok_or (PolicyParse (''policy '' @ pt_id p @ '': missing resource'')) (pt_resource p)) (\<lambda>res.
       Ok \<lparr>dp_id = pt_id p, dp_effect = effect, dp_action = act, dp_resource = res,
           dp_when_roles = pt_when_roles p, dp_where_subjects = pt_where_subjects p,
           dp_unless_roles = pt_unless_roles p, dp_where_subject_groups = pt_where_subject_groups p,
           dp_raw = pt_raw p\<rparr>)))"

section \<open>The parser\<close>

definition strip_comment :: "string \<Rightarrow> string" where
  "strip_comment line = (case find_split line ''#'' of Some (a, _) \<Rightarrow> a | None \<Rightarrow> line)"

definition parse_quoted_name :: "string \<Rightarrow> string option" where
  "parse_quoted_name s =
     (let s = trim s in
      case Option.bind (strip_prefix [DQ] s) (strip_suffix [DQ]) of
        Some inner \<Rightarrow> Some inner
      | None \<Rightarrow> (case split_whitespace s of [] \<Rightarrow> None | ident # _ \<Rightarrow> Some ident))"

definition parse_list :: "string \<Rightarrow> string list" where
  "parse_list s =
     filter (\<lambda>x. x \<noteq> []) (map trim (split_on (CHR '','')
       (trim_end_char (CHR '']'') (trim_start_char (CHR ''['') (trim s)))))"

definition line_error :: "nat \<Rightarrow> string \<Rightarrow> policy_error" where
  "line_error loc m = PolicyParse (''line '' @ show_nat loc @ '': '' @ m)"

definition parse_when :: "string \<Rightarrow> partial \<Rightarrow> nat \<Rightarrow> (policy_error, partial) result" where
  "parse_when rest p loc =
     (let rest = trim rest in
      case strip_prefix ''role =='' rest of
        Some r \<Rightarrow> Ok (p\<lparr>pt_when_roles := pt_when_roles p @ [trim r]\<rparr>)
      | None \<Rightarrow>
          (case strip_prefix ''role in '' rest of
             Some r \<Rightarrow> Ok (p\<lparr>pt_when_roles := pt_when_roles p @ parse_list r\<rparr>)
           | None \<Rightarrow> Fail (line_error loc (''unsupported when: '' @ rest))))"

definition parse_action_resource :: "string \<Rightarrow> partial \<Rightarrow> nat \<Rightarrow> (policy_error, partial) result" where
  "parse_action_resource rest p loc =
     (case split_whitespace rest of
        a # r # _ \<Rightarrow> Ok (p\<lparr>pt_action := Some (to_ascii_uppercase a), pt_resource := Some (to_ascii_uppercase r)\<rparr>)
      | _ \<Rightarrow> Fail (line_error loc ''expected ACTION RESOURCE''))"

definition where_subject_in :: "string \<Rightarrow> partial \<Rightarrow> partial" where
  "where_subject_in name p =
     (if name = ''DIRECT_REPORTS'' then p\<lparr>pt_where_subjects := pt_where_subjects p @ [''DIRECT_REPORTS'']\<rparr>
      else if ends_with ''_GROUP'' name \<or> name = ''EXECUTIVE_GROUP'' \<or> contains name ''GROUP''
      then p\<lparr>pt_where_subject_groups := pt_where_subject_groups p @ [trim_end_matches ''_GROUP'' name]\<rparr>
      else p\<lparr>pt_where_subject_groups := pt_where_subject_groups p @ [name]\<rparr>)"

definition parse_where :: "string \<Rightarrow> partial \<Rightarrow> nat \<Rightarrow> (policy_error, partial) result" where
  "parse_where rest p loc =
     (let rest = trim rest in
      if rest = ''subject == SELF'' \<or> rest = ''subject==SELF''
      then Ok (p\<lparr>pt_where_subjects := pt_where_subjects p @ [''SELF'']\<rparr>)
      else case strip_prefix ''subject in '' rest of
        Some r \<Rightarrow> Ok (where_subject_in (trim r) p)
      | None \<Rightarrow>
          (case strip_prefix ''subject == '' rest of
             Some r \<Rightarrow> Ok (p\<lparr>pt_where_subjects := pt_where_subjects p @ [trim r]\<rparr>)
           | None \<Rightarrow> Fail (line_error loc (''unsupported where: '' @ rest))))"

definition parse_unless :: "string \<Rightarrow> partial \<Rightarrow> nat \<Rightarrow> (policy_error, partial) result" where
  "parse_unless rest p loc =
     (let rest = trim rest in
      case strip_prefix ''role =='' rest of
        Some r \<Rightarrow> Ok (p\<lparr>pt_unless_roles := pt_unless_roles p @ [trim r]\<rparr>)
      | None \<Rightarrow>
          (case strip_prefix ''role in '' rest of
             Some r \<Rightarrow> Ok (p\<lparr>pt_unless_roles := pt_unless_roles p @ parse_list r\<rparr>)
           | None \<Rightarrow> Fail (line_error loc (''unsupported unless: '' @ rest))))"

text \<open>The statements, tried in the order of the source; the effect is set before its operands are read.\<close>

definition parse_statement :: "string \<Rightarrow> partial \<Rightarrow> nat \<Rightarrow> (policy_error, partial) result" where
  "parse_statement line p loc =
     (case strip_prefix ''when '' line of Some rest \<Rightarrow> parse_when rest p loc | None \<Rightarrow>
     (case strip_prefix ''allow '' line of Some rest \<Rightarrow> parse_action_resource rest (p\<lparr>pt_effect := Some DAllow\<rparr>) loc | None \<Rightarrow>
     (case strip_prefix ''deny '' line of Some rest \<Rightarrow> parse_action_resource rest (p\<lparr>pt_effect := Some DDeny\<rparr>) loc | None \<Rightarrow>
     (case strip_prefix ''review '' line of Some rest \<Rightarrow> parse_action_resource rest (p\<lparr>pt_effect := Some DReview\<rparr>) loc | None \<Rightarrow>
     (case strip_prefix ''where '' line of Some rest \<Rightarrow> parse_where rest p loc | None \<Rightarrow>
     (case strip_prefix ''or '' line of Some rest \<Rightarrow> parse_where rest p loc | None \<Rightarrow>
     (case strip_prefix ''unless '' line of Some rest \<Rightarrow> parse_unless rest p loc | None \<Rightarrow>
        Fail (line_error loc (''unknown statement: '' @ line)))))))))"

record dsl_state =
  ds_policies :: "dsl_policy list"
  ds_current :: "partial option"

definition take_current :: "dsl_state \<Rightarrow> (policy_error, dsl_policy list) result" where
  "take_current st =
     (case ds_current st of
        None \<Rightarrow> Ok (ds_policies st)
      | Some p \<Rightarrow> and_then (finish p) (\<lambda>d. Ok (ds_policies st @ [d])))"

definition parse_line :: "nat \<times> string \<Rightarrow> dsl_state \<Rightarrow> (policy_error, dsl_state) result" where
  "parse_line numbered st =
     (let (lineno, raw_line) = numbered;
          line = trim (strip_comment raw_line);
          loc = lineno + 1
      in if line = [] then Ok st
         else case strip_prefix ''policy '' line of
           Some rest \<Rightarrow>
             and_then (take_current st) (\<lambda>ps.
             and_then (ok_or (line_error loc (''expected policy '' @ quoted ''name'')) (parse_quoted_name rest)) (\<lambda>i.
               Ok \<lparr>ds_policies = ps, ds_current = Some (partial_new i raw_line)\<rparr>))
         | None \<Rightarrow>
             and_then (ok_or (line_error loc ''statement outside policy'') (ds_current st)) (\<lambda>p.
             and_then (parse_statement line (p\<lparr>pt_raw := pt_raw p @ NL # raw_line\<rparr>) loc) (\<lambda>p'.
               Ok (st\<lparr>ds_current := Some p'\<rparr>))))"

definition parse_dsl :: "string \<Rightarrow> (policy_error, dsl_policy list) result" where
  "parse_dsl text =
     and_then (try_fold parse_line (enumerate 0 (str_lines text)) \<lparr>ds_policies = [], ds_current = None\<rparr>) take_current"

section \<open>What an accepted document is like\<close>

text \<open>A policy's name cannot be missing: the trimmed line has text after the keyword.\<close>

lemma parse_quoted_name_total:
  assumes "strip_prefix ''policy '' (trim l) = Some rest"
  shows "\<exists>i. parse_quoted_name rest = Some i"
proof -
  have "trimmed (''policy '' @ rest)"
    using assms trim_trimmed [of l] by (simp add: strip_prefix_Some_iff)
  then have "trim rest \<noteq> []"
    by (rule trimmed_no_trailing_sp) (simp_all add: is_ws_def)
  then have "split_whitespace (trim rest) \<noteq> []"
    by (simp add: split_whitespace_Nil_iff)
  then show ?thesis
    by (auto simp: parse_quoted_name_def Let_def split: option.split list.split)
qed

definition header_name :: "string \<Rightarrow> string option" where
  "header_name raw_line = Option.bind (strip_prefix ''policy '' (trim (strip_comment raw_line))) parse_quoted_name"

definition policy_names :: "string \<Rightarrow> string list" where
  "policy_names text = List.map_filter header_name (str_lines text)"

definition upper_word :: "string \<Rightarrow> bool" where
  "upper_word w \<longleftrightarrow> w \<noteq> [] \<and> (\<forall>c\<in>set w. \<not> is_ws c) \<and> to_ascii_uppercase w = w"

definition trimmed_all :: "string list \<Rightarrow> bool" where
  "trimmed_all ws \<longleftrightarrow> (\<forall>w\<in>set ws. trim w = w)"

definition dsl_wf :: "dsl_policy \<Rightarrow> bool" where
  "dsl_wf p \<longleftrightarrow> upper_word (dp_action p) \<and> upper_word (dp_resource p) \<and>
     trimmed_all (dp_when_roles p) \<and> trimmed_all (dp_where_subjects p) \<and> trimmed_all (dp_unless_roles p)"

definition partial_wf :: "partial \<Rightarrow> bool" where
  "partial_wf p \<longleftrightarrow> pred_option upper_word (pt_action p) \<and> pred_option upper_word (pt_resource p) \<and>
     trimmed_all (pt_when_roles p) \<and> trimmed_all (pt_where_subjects p) \<and> trimmed_all (pt_unless_roles p)"

definition state_wf :: "dsl_state \<Rightarrow> bool" where
  "state_wf st \<longleftrightarrow> (\<forall>p\<in>set (ds_policies st). dsl_wf p) \<and> pred_option partial_wf (ds_current st)"

definition state_names :: "dsl_state \<Rightarrow> string list" where
  "state_names st = map dp_id (ds_policies st) @ (case ds_current st of None \<Rightarrow> [] | Some p \<Rightarrow> [pt_id p])"

lemma trimmed_all_simps [simp]:
  "trimmed_all []" "trimmed_all (w # ws) \<longleftrightarrow> trim w = w \<and> trimmed_all ws"
  "trimmed_all (xs @ ys) \<longleftrightarrow> trimmed_all xs \<and> trimmed_all ys"
  by (auto simp: trimmed_all_def)

lemma trimmed_all_parse_list [simp]: "trimmed_all (parse_list s)"
  by (auto simp: trimmed_all_def parse_list_def)

lemma trim_SELF [simp]: "trim ''SELF'' = ''SELF''" "trim ''DIRECT_REPORTS'' = ''DIRECT_REPORTS''"
  by (auto intro!: trim_id no_ws_trimmed simp: is_ws_def)

lemma upper_char_ws: "is_ws (upper_char c) \<longleftrightarrow> is_ws c"
proof -
  have "upper_char c = c \<or> \<not> is_ws (upper_char c) \<and> \<not> is_ws c"
  proof (cases "(97::nat) \<le> of_char c \<and> of_char c \<le> (122::nat)")
    case True
    then have "of_char (upper_char c) \<ge> (65::nat)" "of_char (upper_char c) \<le> (90::nat)"
      by (auto simp: of_char_upper)
    then have "\<not> is_ws (upper_char c)" by (auto simp: is_ws_def)
    moreover have "\<not> is_ws c" using True by (auto simp: is_ws_def)
    ultimately show ?thesis by simp
  qed (auto simp: upper_char_def)
  then show ?thesis by metis
qed

lemma upper_word_split:
  "w \<in> set (split_whitespace s) \<Longrightarrow> upper_word (to_ascii_uppercase w)"
  by (auto simp: upper_word_def to_ascii_uppercase_def upper_char_ws dest: split_whitespace_words)

lemma parse_action_resource_wf:
  "parse_action_resource rest p loc = Ok q \<Longrightarrow> partial_wf p \<Longrightarrow> partial_wf q \<and> pt_id q = pt_id p"
  using upper_word_split [of _ rest]
  by (auto simp: parse_action_resource_def partial_wf_def split: list.splits)

lemma where_subject_in_wf: "partial_wf p \<Longrightarrow> partial_wf (where_subject_in n p) \<and> pt_id (where_subject_in n p) = pt_id p"
  by (simp add: where_subject_in_def partial_wf_def)

lemma parse_clause_wf:
  "parse_when rest p loc = Ok q \<Longrightarrow> partial_wf p \<Longrightarrow> partial_wf q \<and> pt_id q = pt_id p"
  "parse_where rest p loc = Ok q \<Longrightarrow> partial_wf p \<Longrightarrow> partial_wf q \<and> pt_id q = pt_id p"
  "parse_unless rest p loc = Ok q \<Longrightarrow> partial_wf p \<Longrightarrow> partial_wf q \<and> pt_id q = pt_id p"
  using where_subject_in_wf
  by (auto simp: parse_when_def parse_where_def parse_unless_def Let_def partial_wf_def split: option.splits if_splits)

lemma parse_statement_wf:
  assumes "parse_statement line p loc = Ok q" "partial_wf p"
  shows "partial_wf q \<and> pt_id q = pt_id p"
proof -
  have "partial_wf (p\<lparr>pt_effect := e\<rparr>)" for e
    using assms(2) by (simp add: partial_wf_def)
  then show ?thesis
    using assms by (auto simp: parse_statement_def split: option.splits
        dest!: parse_clause_wf parse_action_resource_wf)
qed

lemma finish_wf: "finish p = Ok d \<Longrightarrow> partial_wf p \<Longrightarrow> dsl_wf d \<and> dp_id d = pt_id p"
  by (auto simp: finish_def and_then_Inr_iff ok_or_Inr_iff partial_wf_def dsl_wf_def)

lemma take_current_wf:
  "take_current st = Ok ps \<Longrightarrow> state_wf st \<Longrightarrow> (\<forall>p\<in>set ps. dsl_wf p) \<and> map dp_id ps = state_names st"
  by (auto simp: take_current_def state_wf_def state_names_def and_then_Inr_iff split: option.splits dest: finish_wf)

lemma partial_new_wf [simp]: "partial_wf (partial_new i r)"
  by (simp add: partial_wf_def partial_new_def)

lemma parse_line_wf:
  assumes "parse_line (n, raw) st = Ok st'" "state_wf st"
  shows "state_wf st' \<and> state_names st' = state_names st @ (case header_name raw of None \<Rightarrow> [] | Some i \<Rightarrow> [i])"
proof (cases "trim (strip_comment raw) = []")
  case True
  then show ?thesis using assms by (simp add: parse_line_def Let_def header_name_def)
next
  case line: False
  show ?thesis
  proof (cases "strip_prefix ''policy '' (trim (strip_comment raw))")
    case None
    then obtain p p' where "ds_current st = Some p"
        "parse_statement (trim (strip_comment raw)) (p\<lparr>pt_raw := pt_raw p @ NL # raw\<rparr>) (n + 1) = Ok p'"
        "st' = st\<lparr>ds_current := Some p'\<rparr>"
      using assms(1) line by (auto simp: parse_line_def Let_def and_then_Inr_iff ok_or_Inr_iff)
    moreover from this have "partial_wf (p\<lparr>pt_raw := pt_raw p @ NL # raw\<rparr>)"
      using assms(2) by (simp add: state_wf_def partial_wf_def)
    ultimately show ?thesis
      using parse_statement_wf assms(2) None
      by (fastforce simp: state_wf_def state_names_def header_name_def)
  next
    case (Some rest)
    then obtain ps i where "take_current st = Ok ps" "parse_quoted_name rest = Some i"
        "st' = \<lparr>ds_policies = ps, ds_current = Some (partial_new i raw)\<rparr>"
      using assms(1) line by (auto simp: parse_line_def Let_def and_then_Inr_iff ok_or_Inr_iff)
    then show ?thesis
      using take_current_wf assms(2) Some partial_new_wf [of i raw]
      by (auto simp: state_wf_def state_names_def header_name_def partial_new_def)
  qed
qed

lemma parse_lines_wf:
  assumes "try_fold parse_line (enumerate n ls) st = Ok st'" "state_wf st"
  shows "state_wf st' \<and> state_names st' = state_names st @ List.map_filter header_name ls"
  using assms
proof (induction ls arbitrary: n st)
  case (Cons l ls)
  then obtain s1 where "parse_line (n, l) st = Ok s1" "try_fold parse_line (enumerate (Suc n) ls) s1 = Ok st'"
    by (auto simp: and_then_Inr_iff)
  then show ?case
    using Cons.IH [of "Suc n" s1] parse_line_wf [of n l st s1] Cons.prems(2)
    by (auto simp: List.map_filter_def split: option.splits)
qed (simp add: List.map_filter_def)

text \<open>C19: An accepted document yields one policy per \<open>policy\<close> line, in the order of the lines and with
  the names those lines give; every policy's action and resource are upper-case words and its roles
  and subjects carry no surrounding white space.\<close>

theorem parse_dsl_policies:
  assumes "parse_dsl text = Ok ps"
  shows "map dp_id ps = policy_names text \<and> (\<forall>p\<in>set ps. dsl_wf p)"
proof -
  obtain st where "try_fold parse_line (enumerate 0 (str_lines text)) \<lparr>ds_policies = [], ds_current = None\<rparr> = Ok st"
      "take_current st = Ok ps"
    using assms by (auto simp: parse_dsl_def and_then_Inr_iff)
  note run = this
  have "state_wf st \<and> state_names st = policy_names text"
    using parse_lines_wf [OF run(1)] by (simp add: state_wf_def state_names_def policy_names_def)
  then show ?thesis
    using take_current_wf [OF run(2)] by simp
qed

section \<open>A printer and the round trip\<close>

text \<open>The clauses of a policy as the language's documentation writes them, one per line.\<close>

definition word :: "string \<Rightarrow> bool" where
  "word w \<longleftrightarrow> w \<noteq> [] \<and> (\<forall>c\<in>set w. \<not> is_ws c \<and> c \<notin> {CHR ''#'', CHR '','', CHR ''['', CHR '']''})"

fun effect_word :: "dsl_effect \<Rightarrow> string" where
  "effect_word DAllow = ''allow ''"
| "effect_word DDeny = ''deny ''"
| "effect_word DReview = ''review ''"

definition role_clause :: "string \<Rightarrow> string list \<Rightarrow> string list" where
  "role_clause kw rs = (if rs = [] then [] else [kw @ '' role in ['' @ join '', '' rs @ '']''])"

definition policy_lines :: "dsl_policy \<Rightarrow> string list" where
  "policy_lines p =
     (''policy '' @ quoted (dp_id p)) #
     role_clause ''when'' (dp_when_roles p) @
     (effect_word (dp_effect p) @ dp_action p @ SP # dp_resource p) #
     map (\<lambda>s. ''where subject == '' @ s) (dp_where_subjects p) @
     map (\<lambda>g. ''where subject in '' @ g @ ''_GROUP'') (dp_where_subject_groups p) @
     role_clause ''unless'' (dp_unless_roles p)"

definition print_policies :: "dsl_policy list \<Rightarrow> string" where
  "print_policies ps = concat (map (\<lambda>l. l @ [NL]) (concat (map policy_lines ps)))"

definition printable :: "dsl_policy \<Rightarrow> bool" where
  "printable p \<longleftrightarrow>
     (\<forall>c\<in>set (dp_id p). c \<notin> {NL, CR, CHR ''#''}) \<and>
     upper_word (dp_action p) \<and> word (dp_action p) \<and> upper_word (dp_resource p) \<and> word (dp_resource p) \<and>
     (\<forall>r\<in>set (dp_when_roles p). word r) \<and> (\<forall>r\<in>set (dp_unless_roles p). word r) \<and>
     (\<forall>s\<in>set (dp_where_subjects p). word s) \<and>
     (\<forall>g\<in>set (dp_where_subject_groups p). word g \<and> \<not> suffix ''_GROUP'' g) \<and>
     dp_raw p = join [NL] (policy_lines p)"

definition clean_line :: "string \<Rightarrow> bool" where
  "clean_line l \<longleftrightarrow> trimmed l \<and> l \<noteq> [] \<and> CHR ''#'' \<notin> set l"

lemma strip_comment_clean [simp]: "CHR ''#'' \<notin> set l \<Longrightarrow> strip_comment l = l"
proof -
  assume h: "CHR ''#'' \<notin> set l"
  have "find_split l ''#'' = None"
    unfolding find_split_None_iff contains_iff using h by (auto simp: sublist_def)
  then show ?thesis by (simp add: strip_comment_def)
qed

definition statement :: "string \<Rightarrow> (partial \<Rightarrow> partial) \<Rightarrow> bool" where
  "statement l f \<longleftrightarrow> clean_line l \<and> strip_prefix ''policy '' l = None \<and> (\<forall>q loc. parse_statement l q loc = Ok (f q))"

definition add_raw :: "string \<Rightarrow> partial \<Rightarrow> partial" where
  "add_raw l q = q\<lparr>pt_raw := pt_raw q @ NL # l\<rparr>"

definition run_statements :: "(string \<times> (partial \<Rightarrow> partial)) list \<Rightarrow> partial \<Rightarrow> partial" where
  "run_statements lfs q = fold (\<lambda>lf q. snd lf (add_raw (fst lf) q)) lfs q"

lemma parse_line_statement:
  "statement l f \<Longrightarrow> parse_line (n, l) \<lparr>ds_policies = ps, ds_current = Some q\<rparr> =
     Ok \<lparr>ds_policies = ps, ds_current = Some (f (add_raw l q))\<rparr>"
  by (simp add: statement_def clean_line_def parse_line_def Let_def add_raw_def)

lemma parse_line_header:
  assumes "\<forall>c\<in>set i. c \<notin> {NL, CR, CHR ''#''}"
  shows "parse_line (n, ''policy '' @ quoted i) st =
     and_then (take_current st) (\<lambda>ps. Ok \<lparr>ds_policies = ps, ds_current = Some (partial_new i (''policy '' @ quoted i))\<rparr>)"
proof -
  have t: "trimmed (''policy '' @ quoted i)" "trimmed (quoted i)"
    by (simp_all add: trimmed_def quoted_def is_ws_def)
  have "CHR ''#'' \<notin> set (''policy '' @ quoted i)"
    using assms by (auto simp: quoted_def)
  moreover have "parse_quoted_name (quoted i) = Some i"
    using t(2) by (simp add: parse_quoted_name_def quoted_def strip_suffix_def)
  ultimately show ?thesis
    using t by (simp add: parse_line_def Let_def)
qed

lemma run_statements_parse:
  "\<forall>lf\<in>set lfs. statement (fst lf) (snd lf) \<Longrightarrow>
   try_fold parse_line (enumerate n (map fst lfs)) \<lparr>ds_policies = ps, ds_current = Some q\<rparr> =
     Ok \<lparr>ds_policies = ps, ds_current = Some (run_statements lfs q)\<rparr>"
  by (induction lfs arbitrary: n q) (auto simp: parse_line_statement run_statements_def)

lemma word_ends: "word w \<Longrightarrow> trimmed w \<and> w \<noteq> [] \<and> CHR ''#'' \<notin> set w"
  by (auto simp: word_def no_ws_trimmed)

lemma trimmed_around: "\<not> is_ws c \<Longrightarrow> trimmed b \<Longrightarrow> b \<noteq> [] \<Longrightarrow> trimmed (c # a @ b)"
  by (auto simp: trimmed_def)

lemma join_Cons_char: "join sep ((c # w) # ws) = c # join sep (w # ws)"
  by (cases ws) auto

lemma join_comma_sp: "join '', '' (r # rs) = join '','' (r # map (Cons SP) rs)"
  by (induction rs arbitrary: r) (auto simp: join_Cons_char)

lemma parse_list_print:
  assumes "\<forall>r\<in>set rs. word r" "rs \<noteq> []"
  shows "parse_list (''['' @ join '', '' rs @ '']'') = rs"
proof -
  obtain r rest where rs: "rs = r # rest" using assms(2) by (cases rs) auto
  let ?b = "join '', '' rs"
  have ends: "?b \<noteq> []" "hd ?b \<noteq> CHR ''[''" "last ?b \<noteq> CHR '']''"
    using assms
    by (induction "'', ''" rs rule: join.induct) (auto simp: word_def last_append)
  have "trim (''['' @ ?b @ '']'') = ''['' @ ?b @ '']''"
    by (rule trim_id) (simp add: trimmed_def is_ws_def)
  moreover have "trim_start_char (CHR ''['') (''['' @ ?b @ '']'') = ?b @ '']''"
    using ends by (cases ?b) (simp_all add: trim_start_char_def)
  moreover have "trim_end_char (CHR '']'') (?b @ '']'') = ?b"
    using ends by (cases ?b rule: rev_cases) (simp_all add: trim_end_char_def)
  moreover have "split_on (CHR '','') ?b = r # map (Cons SP) rest"
    unfolding rs join_comma_sp
    by (rule split_on_join) (use assms(1) rs in \<open>auto simp: word_def\<close>)
  moreover have "map trim (r # map (Cons SP) rest) = rs"
    using assms(1) rs by (auto simp: word_ends intro!: map_idI trim_id)
  moreover have "filter (\<lambda>x. x \<noteq> []) rs = rs"
    using assms(1) by (auto simp: word_def filter_id_conv)
  ultimately show ?thesis by (simp only: parse_list_def)
qed

definition role_stmt :: "string \<Rightarrow> (string list \<Rightarrow> partial \<Rightarrow> partial) \<Rightarrow> string list \<Rightarrow> (string \<times> (partial \<Rightarrow> partial)) list" where
  "role_stmt kw f rs = map (\<lambda>l. (l, f rs)) (role_clause kw rs)"

definition add_when :: "string list \<Rightarrow> partial \<Rightarrow> partial" where
  "add_when rs q = q\<lparr>pt_when_roles := pt_when_roles q @ rs\<rparr>"

definition add_unless :: "string list \<Rightarrow> partial \<Rightarrow> partial" where
  "add_unless rs q = q\<lparr>pt_unless_roles := pt_unless_roles q @ rs\<rparr>"

definition add_subject :: "string \<Rightarrow> partial \<Rightarrow> partial" where
  "add_subject s q = q\<lparr>pt_where_subjects := pt_where_subjects q @ [s]\<rparr>"

definition add_group :: "string \<Rightarrow> partial \<Rightarrow> partial" where
  "add_group g q = q\<lparr>pt_where_subject_groups := pt_where_subject_groups q @ [g]\<rparr>"

definition set_rule :: "dsl_effect \<Rightarrow> string \<Rightarrow> string \<Rightarrow> partial \<Rightarrow> partial" where
  "set_rule e a r q = q\<lparr>pt_effect := Some e, pt_action := Some a, pt_resource := Some r\<rparr>"

lemmas statement_updates = add_when_def add_unless_def add_subject_def add_group_def set_rule_def add_raw_def

lemma role_line_clean:
  "\<forall>r\<in>set rs. word r \<Longrightarrow> CHR ''#'' \<notin> set (join '', '' rs)"
  by (induction "'', ''" rs rule: join.induct) (auto simp: word_def)

lemma role_in_trim: "trim (''role in ['' @ b @ '']'') = ''role in ['' @ b @ '']''"
  by (rule trim_id) (simp add: trimmed_def is_ws_def)

lemma when_statement:
  assumes "\<forall>r\<in>set rs. word r" "rs \<noteq> []"
  shows "statement (''when role in ['' @ join '', '' rs @ '']'') (add_when rs)"
  using parse_list_print [OF assms] role_line_clean [OF assms(1)] role_in_trim [of "join '', '' rs"]
  by (simp add: statement_def clean_line_def trimmed_def is_ws_def parse_statement_def parse_when_def Let_def add_when_def)

lemma unless_statement:
  assumes "\<forall>r\<in>set rs. word r" "rs \<noteq> []"
  shows "statement (''unless role in ['' @ join '', '' rs @ '']'') (add_unless rs)"
  using parse_list_print [OF assms] role_line_clean [OF assms(1)] role_in_trim [of "join '', '' rs"]
  by (simp add: statement_def clean_line_def trimmed_def is_ws_def parse_statement_def parse_unless_def Let_def add_unless_def)

lemma upper_id: "upper_word w \<Longrightarrow> to_ascii_uppercase w = w"
  by (simp add: upper_word_def)

lemma rule_statement:
  assumes "upper_word a" "word a" "upper_word r" "word r"
  shows "statement (effect_word e @ a @ SP # r) (set_rule e a r)"
proof -
  have "split_whitespace (a @ SP # r) = [a, r]"
    using assms by (simp add: split_whitespace_Cons word_def)
  then have "parse_action_resource (a @ SP # r) q loc = Ok (q\<lparr>pt_action := Some a, pt_resource := Some r\<rparr>)" for q loc
    using assms by (simp add: parse_action_resource_def upper_id)
  moreover have "last r \<in> set r" "\<not> is_ws (last r)" "CHR ''#'' \<notin> set a" "CHR ''#'' \<notin> set r"
    using assms by (auto simp: word_def)
  ultimately show ?thesis
    using assms by (cases e) (auto simp: statement_def clean_line_def trimmed_def parse_statement_def set_rule_def word_def is_ws_def)
qed

lemma subject_statement:
  assumes "word s"
  shows "statement (''where subject == '' @ s) (add_subject s)"
proof -
  have t: "trimmed s" "s \<noteq> []" "CHR ''#'' \<notin> set s" using word_ends [OF assms] by auto
  then have "trim (''subject == '' @ s) = ''subject == '' @ s"
    by (intro trim_id) (auto simp: trimmed_def is_ws_def)
  then have "parse_where (''subject == '' @ s) q loc = Ok (add_subject s q)" for q loc
    using t by (simp add: parse_where_def Let_def add_subject_def)
  then show ?thesis
    using t by (auto simp: statement_def clean_line_def parse_statement_def trimmed_def is_ws_def)
qed

lemma trim_end_matches_once:
  assumes "p \<noteq> []" "\<not> suffix p g"
  shows "trim_end_matches p (g @ p) = g"
proof -
  have "strip_prefix (rev p) (rev g) = None"
    using assms(2) by (cases "strip_prefix (rev p) (rev g)") (auto simp: strip_prefix_Some_iff suffix_def,
      metis rev_append rev_rev_ident)
  then have "trim_start_matches (rev p) (rev g) = rev g" by simp
  moreover have "trim_start_matches (rev p) (rev p @ rev g) = trim_start_matches (rev p) (rev g)"
    using assms(1) by (subst trim_start_matches.simps) simp
  ultimately show ?thesis by (simp add: trim_end_matches_def)
qed

lemma group_statement:
  assumes "word g" "\<not> suffix ''_GROUP'' g"
  shows "statement (''where subject in '' @ g @ ''_GROUP'') (add_group g)"
proof -
  have t: "trimmed (g @ ''_GROUP'')" "g \<noteq> []" "CHR ''#'' \<notin> set g"
    using word_ends [OF assms(1)] by (auto simp: trimmed_def is_ws_def)
  have "g @ ''_GROUP'' \<noteq> ''DIRECT_REPORTS''"
    by (auto dest: arg_cong [of _ _ last])
  moreover have "ends_with ''_GROUP'' (g @ ''_GROUP'')"
    unfolding ends_with_iff by (rule suffixI) simp
  ultimately have "where_subject_in (g @ ''_GROUP'') q = add_group g q" for q
    using trim_end_matches_once [OF _ assms(2)] by (simp add: where_subject_in_def add_group_def)
  moreover have "trim (''subject in '' @ g @ ''_GROUP'') = ''subject in '' @ g @ ''_GROUP''"
    by (rule trim_id) (simp add: trimmed_def is_ws_def)
  ultimately have "parse_where (''subject in '' @ g @ ''_GROUP'') q loc = Ok (add_group g q)" for q loc
    using t(1) by (simp add: parse_where_def Let_def)
  then show ?thesis
    using t by (auto simp: statement_def clean_line_def parse_statement_def trimmed_def is_ws_def)
qed

definition policy_statements :: "dsl_policy \<Rightarrow> (string \<times> (partial \<Rightarrow> partial)) list" where
  "policy_statements p =
     role_stmt ''when'' add_when (dp_when_roles p) @
     [(effect_word (dp_effect p) @ dp_action p @ SP # dp_resource p, set_rule (dp_effect p) (dp_action p) (dp_resource p))] @
     map (\<lambda>s. (''where subject == '' @ s, add_subject s)) (dp_where_subjects p) @
     map (\<lambda>g. (''where subject in '' @ g @ ''_GROUP'', add_group g)) (dp_where_subject_groups p) @
     role_stmt ''unless'' add_unless (dp_unless_roles p)"

lemma policy_lines_statements:
  "policy_lines p = (''policy '' @ quoted (dp_id p)) # map fst (policy_statements p)"
  by (simp add: policy_lines_def policy_statements_def role_stmt_def comp_def)

lemma role_stmts_ok:
  assumes "\<forall>r\<in>set rs. word r"
  shows "\<forall>lf\<in>set (role_stmt ''when'' add_when rs). statement (fst lf) (snd lf)"
    and "\<forall>lf\<in>set (role_stmt ''unless'' add_unless rs). statement (fst lf) (snd lf)"
  using when_statement [OF assms] unless_statement [OF assms]
  by (cases "rs = []"; simp add: role_stmt_def role_clause_def)+

lemma policy_statements_ok:
  assumes "printable p"
  shows "\<forall>lf\<in>set (policy_statements p). statement (fst lf) (snd lf)"
proof -
  have "\<forall>r\<in>set (dp_when_roles p). word r" "\<forall>r\<in>set (dp_unless_roles p). word r"
    "\<forall>s\<in>set (dp_where_subjects p). statement (''where subject == '' @ s) (add_subject s)"
    "\<forall>g\<in>set (dp_where_subject_groups p). statement (''where subject in '' @ g @ ''_GROUP'') (add_group g)"
    "statement (effect_word (dp_effect p) @ dp_action p @ SP # dp_resource p) (set_rule (dp_effect p) (dp_action p) (dp_resource p))"
    using assms unfolding printable_def by (blast intro: subject_statement group_statement rule_statement)+
  then show ?thesis
    unfolding policy_statements_def set_append ball_Un
    using role_stmts_ok [of "dp_when_roles p"] role_stmts_ok [of "dp_unless_roles p"]
    by (simp del: append.simps)
qed

definition partial_of :: "dsl_policy \<Rightarrow> partial" where
  "partial_of p =
     \<lparr>pt_id = dp_id p, pt_effect = Some (dp_effect p), pt_action = Some (dp_action p),
      pt_resource = Some (dp_resource p), pt_when_roles = dp_when_roles p,
      pt_where_subjects = dp_where_subjects p, pt_where_subject_groups = dp_where_subject_groups p,
      pt_unless_roles = dp_unless_roles p, pt_raw = dp_raw p\<rparr>"

lemma finish_partial_of [simp]: "finish (partial_of p) = Ok p"
  by (simp add: finish_def partial_of_def)

lemma run_subjects:
  "run_statements (map (\<lambda>s. (h s, add_subject s)) ss) q =
     q\<lparr>pt_where_subjects := pt_where_subjects q @ ss, pt_raw := pt_raw q @ concat (map (\<lambda>s. NL # h s) ss)\<rparr>"
  by (induction ss arbitrary: q) (simp_all add: run_statements_def statement_updates)

lemma run_groups:
  "run_statements (map (\<lambda>g. (h g, add_group g)) gs) q =
     q\<lparr>pt_where_subject_groups := pt_where_subject_groups q @ gs, pt_raw := pt_raw q @ concat (map (\<lambda>g. NL # h g) gs)\<rparr>"
  by (induction gs arbitrary: q) (simp_all add: run_statements_def statement_updates)

lemma run_append: "run_statements (xs @ ys) q = run_statements ys (run_statements xs q)"
  by (simp add: run_statements_def)

lemma run_roles:
  "run_statements (role_stmt kw add_when rs) q =
     q\<lparr>pt_when_roles := pt_when_roles q @ rs, pt_raw := pt_raw q @ concat (map (Cons NL) (role_clause kw rs))\<rparr>"
  "run_statements (role_stmt kw add_unless rs) q =
     q\<lparr>pt_unless_roles := pt_unless_roles q @ rs, pt_raw := pt_raw q @ concat (map (Cons NL) (role_clause kw rs))\<rparr>"
  by (simp_all add: run_statements_def role_stmt_def role_clause_def statement_updates)

lemma join_NL: "join [NL] (h # ls) = h @ concat (map (Cons NL) ls)"
  by (induction ls arbitrary: h) auto

lemma run_policy_statements:
  assumes "printable p"
  shows "run_statements (policy_statements p) (partial_new (dp_id p) (''policy '' @ quoted (dp_id p))) = partial_of p"
proof -
  have raw: "dp_raw p = (''policy '' @ quoted (dp_id p)) @ concat (map (Cons NL) (map fst (policy_statements p)))"
    using assms unfolding printable_def policy_lines_statements join_NL by simp
  have rule: "run_statements [(l, f)] q = f (add_raw l q)" for l f q
    by (simp add: run_statements_def)
  show ?thesis
    unfolding policy_statements_def run_append run_roles run_subjects run_groups rule
    by (simp add: partial_of_def partial_new_def statement_updates raw)
       (simp add: policy_statements_def role_stmt_def comp_def)
qed

definition one_line :: "string \<Rightarrow> bool" where
  "one_line l \<longleftrightarrow> NL \<notin> set l \<and> CR \<notin> set l"

lemma no_newline: "\<forall>c\<in>set l. c \<notin> {NL, CR, CHR ''#''} \<Longrightarrow> one_line l"
  unfolding one_line_def by blast

lemma one_line_simps [simp]:
  "one_line []" "one_line (c # l) \<longleftrightarrow> c \<noteq> NL \<and> c \<noteq> CR \<and> one_line l"
  "one_line (a @ b) \<longleftrightarrow> one_line a \<and> one_line b"
  by (auto simp: one_line_def)

lemma one_line_word:
  assumes "word w"
  shows "one_line w"
proof -
  have "\<forall>c\<in>set w. \<not> is_ws c" using assms by (simp add: word_def)
  moreover have "is_ws NL" "is_ws CR" by simp_all
  ultimately show ?thesis unfolding one_line_def by blast
qed

lemma one_line_join: "\<forall>r\<in>set rs. one_line r \<Longrightarrow> one_line (join '', '' rs)"
  by (induction "'', ''" rs rule: join.induct) auto

lemma one_line_role_clause:
  assumes "\<forall>r\<in>set rs. word r" "one_line kw"
  shows "\<forall>l\<in>set (role_clause kw rs). one_line l"
proof -
  have "one_line (join '', '' rs)"
    using assms(1) by (intro one_line_join) (simp add: one_line_word)
  then show ?thesis using assms(2) by (simp add: role_clause_def)
qed

lemma printableD:
  assumes "printable p"
  shows "\<forall>c\<in>set (dp_id p). c \<notin> {NL, CR, CHR ''#''}" "word (dp_action p)" "word (dp_resource p)"
    "\<forall>s\<in>set (dp_where_subjects p). word s"
    "\<forall>g\<in>set (dp_where_subject_groups p). word g \<and> \<not> suffix ''_GROUP'' g"
    "\<forall>r\<in>set (dp_when_roles p). word r" "\<forall>r\<in>set (dp_unless_roles p). word r"
  by (insert assms [unfolded printable_def], elim conjE, assumption)+

lemma policy_lines_clean:
  assumes "printable p"
  shows "\<forall>l\<in>set (policy_lines p). one_line l"
proof -
  have words: "word (dp_action p)" "word (dp_resource p)" "\<forall>s\<in>set (dp_where_subjects p). word s"
      "\<forall>g\<in>set (dp_where_subject_groups p). word g \<and> \<not> suffix ''_GROUP'' g"
      and ident: "\<forall>c\<in>set (dp_id p). c \<notin> {NL, CR, CHR ''#''}"
    by (intro printableD [OF assms])+
  have "one_line (dp_id p)" "one_line (dp_action p)" "one_line (dp_resource p)"
    by (rule no_newline [OF ident], rule one_line_word [OF words(1)], rule one_line_word [OF words(2)])
  moreover have "\<forall>s\<in>set (dp_where_subjects p). one_line s" "\<forall>g\<in>set (dp_where_subject_groups p). one_line g"
    using words(3,4) one_line_word by metis+
  moreover have "\<forall>l\<in>set (role_clause ''when'' (dp_when_roles p)). one_line l"
      "\<forall>l\<in>set (role_clause ''unless'' (dp_unless_roles p)). one_line l"
    by (rule one_line_role_clause; (rule printableD [OF assms])?; simp)+
  moreover have "one_line (effect_word e)" for e
    by (cases e) simp_all
  ultimately show ?thesis
    by (simp add: policy_lines_def ball_Un quoted_def)
qed

lemma parse_policy:
  assumes "printable p" "take_current st = Ok qs"
  shows "try_fold parse_line (enumerate n (policy_lines p)) st = Ok \<lparr>ds_policies = qs, ds_current = Some (partial_of p)\<rparr>"
proof -
  let ?h = "''policy '' @ quoted (dp_id p)"
  have "\<forall>c\<in>set (dp_id p). c \<notin> {NL, CR, CHR ''#''}"
    using assms(1) unfolding printable_def by blast
  from parse_line_header [OF this]
  have "parse_line (n, ?h) st = Ok \<lparr>ds_policies = qs, ds_current = Some (partial_new (dp_id p) ?h)\<rparr>"
    by (simp only: assms(2) and_then_simps)
  then show ?thesis
    by (simp only: policy_lines_statements enumerate_simps try_fold.simps and_then_simps
        run_statements_parse [OF policy_statements_ok [OF assms(1)]] run_policy_statements [OF assms(1)])
qed

lemma parse_policies:
  assumes "\<forall>p\<in>set ps. printable p" "take_current st = Ok qs"
  shows "and_then (try_fold parse_line (enumerate n (concat (map policy_lines ps))) st) take_current = Ok (qs @ ps)"
  using assms
proof (induction ps arbitrary: n st qs)
  case (Cons p ps)
  have "take_current \<lparr>ds_policies = qs, ds_current = Some (partial_of p)\<rparr> = Ok (qs @ [p])"
    by (simp add: take_current_def)
  then show ?case
    using Cons.IH [of "\<lparr>ds_policies = qs, ds_current = Some (partial_of p)\<rparr>" "qs @ [p]" "n + length (policy_lines p)"]
      Cons.prems parse_policy [of p st qs n]
    by (simp add: enumerate_append_eq try_fold_append)
qed simp


definition example_dsl_policy :: dsl_policy where
  "example_dsl_policy =
     \<lparr>dp_id = ''executive_expense'', dp_effect = DDeny, dp_action = ''READ'', dp_resource = ''TRAVEL_EXPENSE'',
      dp_when_roles = [], dp_where_subjects = [''SELF''], dp_unless_roles = [''CFO'', ''CEO''],
      dp_where_subject_groups = [''EXECUTIVE''],
      dp_raw = join [NL] [''policy '' @ quoted ''executive_expense'', ''deny READ TRAVEL_EXPENSE'',
        ''where subject == SELF'', ''where subject in EXECUTIVE_GROUP'', ''unless role in [CFO, CEO]'']\<rparr>"

lemma example_dsl_policy_printable: "printable example_dsl_policy"
  by (simp add: printable_def example_dsl_policy_def upper_word_def word_def is_ws_def to_ascii_uppercase_def
      upper_char_def policy_lines_def role_clause_def suffix_def)


theorem parse_dsl_policies_witness:
  "map dp_id [example_dsl_policy] = policy_names (print_policies [example_dsl_policy]) \<and> dsl_wf example_dsl_policy"
proof -
  have "parse_dsl (print_policies [example_dsl_policy]) = Ok [example_dsl_policy]"
    using parse_policies [of "[example_dsl_policy]" "\<lparr>ds_policies = [], ds_current = None\<rparr>" "[]" 0]
      str_lines_block [of "policy_lines example_dsl_policy" "[]"] policy_lines_clean [OF example_dsl_policy_printable]
    by (simp add: print_policies_def parse_dsl_def take_current_def example_dsl_policy_printable one_line_def)
  then show ?thesis using parse_dsl_policies by fastforce
qed

end
