(* ===== verification/Draft_Policies.thy ===== *)
theory Draft_Policies
  imports Identity_Cache Policy_Dsl
begin

text \<open>
  The draft policies identity adapters write from group names (adapters.rs, idp.rs). Every generator
  prints a commented header and, per group, a few policies of three shapes. The interface
  \<open>draft_generator\<close> states what a generator prints; its client lemmas (the printed text parses, to
  exactly the intended policies, and the only thing a draft ever allows is reading one's own
  profile) are proved once and hold for each generator through its interpretation.
\<close>

section \<open>Lines and the policies they give\<close>

definition unlines :: "string list \<Rightarrow> string" where
  "unlines ls = concat (map (\<lambda>l. l @ [NL]) ls)"

lemma unlines_append [simp]: "unlines (a @ b) = unlines a @ unlines b"
  by (simp add: unlines_def)

lemma unlines_concat: "unlines (concat lss) = concat (map unlines lss)"
  by (induction lss) (simp_all, simp add: unlines_def)

definition gives :: "string list \<Rightarrow> dsl_policy list \<Rightarrow> bool" where
  "gives ls ps \<longleftrightarrow> (\<forall>l\<in>set ls. one_line l) \<and>
     (\<forall>n st qs. take_current st = Ok qs \<longrightarrow>
        and_then (try_fold parse_line (enumerate n ls) st) take_current = Ok (qs @ ps))"

lemma gives_Nil [intro, simp]: "gives [] []"
  by (simp add: gives_def)

lemma gives_append:
  assumes "gives ls ps" "gives ks rs"
  shows "gives (ls @ ks) (ps @ rs)"
  unfolding gives_def
proof (intro conjI allI impI)
  show "\<forall>l\<in>set (ls @ ks). one_line l" using assms by (auto simp: gives_def)
  fix n st qs assume "take_current st = Ok qs"
  then have "and_then (try_fold parse_line (enumerate n ls) st) take_current = Ok (qs @ ps)"
    using assms(1) by (simp add: gives_def)
  then obtain st' where st': "try_fold parse_line (enumerate n ls) st = Ok st'" "take_current st' = Ok (qs @ ps)"
    by (auto simp: and_then_Inr_iff)
  then have "and_then (try_fold parse_line (enumerate (n + length ls) ks) st') take_current = Ok ((qs @ ps) @ rs)"
    using assms(2) unfolding gives_def by blast
  then show "and_then (try_fold parse_line (enumerate n (ls @ ks)) st) take_current = Ok (qs @ ps @ rs)"
    using st'(1) by (simp add: enumerate_append_eq try_fold_append)
qed

lemma gives_concat: "(\<And>x. x \<in> set xs \<Longrightarrow> gives (f x) (g x)) \<Longrightarrow> gives (concat (map f xs)) (concat (map g xs))"
  by (induction xs) (auto intro: gives_append)

lemma gives_blank: "gives [[]] []"
  by (simp add: gives_def parse_line_def strip_comment_def Let_def)

lemma gives_comment: "one_line l \<Longrightarrow> gives [CHR ''#'' # l] []"
  by (simp add: gives_def parse_line_def strip_comment_def Let_def)

lemma gives_policy:
  assumes i: "\<forall>c\<in>set i. c \<notin> {NL, CR, CHR ''#''}"
    and s: "\<forall>lf\<in>set lfs. statement (fst lf) (snd lf) \<and> one_line (fst lf)"
    and p: "finish (run_statements lfs (partial_new i (''policy '' @ quoted i))) = Ok p"
  shows "gives ((''policy '' @ quoted i) # map fst lfs) [p]"
  unfolding gives_def
proof (intro conjI allI impI)
  show "\<forall>l\<in>set ((''policy '' @ quoted i) # map fst lfs). one_line l"
    using s no_newline [OF i] by (simp add: quoted_def)
  fix n st qs assume t: "take_current st = Ok qs"
  have "\<forall>lf\<in>set lfs. statement (fst lf) (snd lf)" using s by blast
  note run = run_statements_parse [OF this]
  have h: "parse_line (n, ''policy '' @ quoted i) st =
      Ok \<lparr>ds_policies = qs, ds_current = Some (partial_new i (''policy '' @ quoted i))\<rparr>"
    using parse_line_header [OF i, of n st] t by simp
  show "and_then (try_fold parse_line (enumerate n ((''policy '' @ quoted i) # map fst lfs)) st) take_current = Ok (qs @ [p])"
    by (simp only: enumerate_simps try_fold.simps h and_then_simps run take_current_def p dsl_state.simps option.case)
qed

lemma gives_parse:
  assumes "gives ls ps"
  shows "parse_dsl (unlines ls) = Ok ps"
proof -
  have "str_lines (unlines ls) = ls"
    using str_lines_block [of ls "[]"] assms by (simp add: unlines_def gives_def one_line_def str_lines_def)
  then show ?thesis
    using assms by (simp add: parse_dsl_def gives_def take_current_def)
qed

section \<open>The shapes of drafted policies\<close>

text \<open>The roles the bracketed list of a \<open>when role in\<close> clause names.\<close>

definition group_roles :: "string \<Rightarrow> string list" where
  "group_roles gid = parse_list (''['' @ gid @ '']'')"

definition self_profile_lines :: "string \<Rightarrow> string \<Rightarrow> string list" where
  "self_profile_lines i gid =
     [''policy '' @ quoted i, ''when role in ['' @ gid @ '']'', ''allow READ EMPLOYEE_PROFILE'', ''where subject == SELF'']"

definition exec_expense_lines :: "string \<Rightarrow> string list" where
  "exec_expense_lines i =
     [''policy '' @ quoted i, ''deny READ TRAVEL_EXPENSE'', ''where subject in EXECUTIVE_GROUP'', ''unless role in [CFO, CEO]'']"

definition payroll_lines :: "string \<Rightarrow> string list" where
  "payroll_lines i = [''policy '' @ quoted i, ''deny EXPORT SALARY'', ''unless role == PAYROLL_ADMIN'']"

definition self_profile_policy :: "string \<Rightarrow> string \<Rightarrow> dsl_policy" where
  "self_profile_policy i gid =
     \<lparr>dp_id = i, dp_effect = DAllow, dp_action = ''READ'', dp_resource = ''EMPLOYEE_PROFILE'', dp_when_roles = group_roles gid,
      dp_where_subjects = [''SELF''], dp_unless_roles = [], dp_where_subject_groups = [],
      dp_raw = join [NL] (self_profile_lines i gid)\<rparr>"

definition exec_expense_policy :: "string \<Rightarrow> dsl_policy" where
  "exec_expense_policy i =
     \<lparr>dp_id = i, dp_effect = DDeny, dp_action = ''READ'', dp_resource = ''TRAVEL_EXPENSE'', dp_when_roles = [],
      dp_where_subjects = [], dp_unless_roles = [''CFO'', ''CEO''], dp_where_subject_groups = [''EXECUTIVE''],
      dp_raw = join [NL] (exec_expense_lines i)\<rparr>"

definition payroll_policy :: "string \<Rightarrow> dsl_policy" where
  "payroll_policy i =
     \<lparr>dp_id = i, dp_effect = DDeny, dp_action = ''EXPORT'', dp_resource = ''SALARY'', dp_when_roles = [],
      dp_where_subjects = [], dp_unless_roles = [''PAYROLL_ADMIN''], dp_where_subject_groups = [],
      dp_raw = join [NL] (payroll_lines i)\<rparr>"

text \<open>Names that stay on their line and start no comment.\<close>

definition plain_name :: "string \<Rightarrow> bool" where
  "plain_name s \<longleftrightarrow> (\<forall>c\<in>set s. c \<notin> {NL, CR, CHR ''#''})"

lemma plain_name_simps [simp]:
  "plain_name []" "plain_name (c # s) \<longleftrightarrow> c \<notin> {NL, CR, CHR ''#''} \<and> plain_name s"
  "plain_name (a @ b) \<longleftrightarrow> plain_name a \<and> plain_name b"
  by (simp_all add: plain_name_def ball_Un)

lemma plain_name_no_hash: "plain_name s \<Longrightarrow> CHR ''#'' \<notin> set s"
  unfolding plain_name_def by blast

lemma plain_name_one_line: "plain_name s \<Longrightarrow> one_line s"
  unfolding plain_name_def by (rule no_newline)

lemma upper_char_low_iff:
  assumes "(of_char d :: nat) < 65"
  shows "upper_char c = d \<longleftrightarrow> c = d"
proof
  assume u: "upper_char c = d"
  from upper_char_cases [of c] show "c = d"
  proof
    assume "upper_char c = c" with u show "c = d" by simp
  next
    assume "(65::nat) \<le> of_char (upper_char c) \<and> of_char (upper_char c) \<le> (90::nat)"
    then show "c = d" using u assms by simp
  qed
next
  assume "c = d" then show "upper_char c = d" using assms upper_char_fixed by simp
qed

lemma plain_name_upper [simp]: "plain_name (to_ascii_uppercase s) \<longleftrightarrow> plain_name s"
  by (simp add: plain_name_def to_ascii_uppercase_def upper_char_low_iff)

lemma plain_name_replace: "plain_name s \<Longrightarrow> plain_name r \<Longrightarrow> plain_name (replace_char c r s)"
  by (induction s) (simp_all add: replace_char_def)

lemma rule_draft:
  "statement ''allow READ EMPLOYEE_PROFILE'' (set_rule DAllow ''READ'' ''EMPLOYEE_PROFILE'')"
  "statement ''deny READ TRAVEL_EXPENSE'' (set_rule DDeny ''READ'' ''TRAVEL_EXPENSE'')"
  "statement ''deny EXPORT SALARY'' (set_rule DDeny ''EXPORT'' ''SALARY'')"
  using rule_statement [of "''READ''" "''EMPLOYEE_PROFILE''" DAllow] rule_statement [of "''READ''" "''TRAVEL_EXPENSE''" DDeny]
    rule_statement [of "''EXPORT''" "''SALARY''" DDeny]
  by (simp_all add: upper_word_def word_def is_ws_def to_ascii_uppercase_def upper_char_def)

lemma when_group_statement:
  assumes "plain_name gid"
  shows "statement (''when role in ['' @ gid @ '']'') (add_when (group_roles gid))"
  using plain_name_no_hash [OF assms] role_in_trim [of gid]
  by (simp add: statement_def clean_line_def trimmed_def is_ws_def parse_statement_def parse_when_def Let_def add_when_def
      group_roles_def)

lemma unless_admin_statement: "statement ''unless role == PAYROLL_ADMIN'' (add_unless [''PAYROLL_ADMIN''])"
  by (simp add: statement_def clean_line_def parse_statement_def parse_unless_def add_unless_def trimmed_def is_ws_def)

lemma unless_chiefs_statement: "statement ''unless role in [CFO, CEO]'' (add_unless [''CFO'', ''CEO''])"
  using unless_statement [of "[''CFO'', ''CEO'']"] by (simp add: word_def is_ws_def)

lemma self_statement: "statement ''where subject == SELF'' (add_subject ''SELF'')"
  using subject_statement [of "''SELF''"] by (simp add: word_def is_ws_def)

lemma executive_statement: "statement ''where subject in EXECUTIVE_GROUP'' (add_group ''EXECUTIVE'')"
  using group_statement [of "''EXECUTIVE''"] by (simp add: word_def is_ws_def suffix_def)

lemmas draft_statements = when_group_statement rule_draft unless_admin_statement unless_chiefs_statement self_statement
  executive_statement

lemma gives_self_profile:
  assumes "plain_name i" "plain_name gid"
  shows "gives (self_profile_lines i gid) [self_profile_policy i gid]"
  using gives_policy [of i "[(''when role in ['' @ gid @ '']'', add_when (group_roles gid)),
      (''allow READ EMPLOYEE_PROFILE'', set_rule DAllow ''READ'' ''EMPLOYEE_PROFILE''),
      (''where subject == SELF'', add_subject ''SELF'')]"] assms plain_name_one_line [OF assms(2)]
    when_group_statement [OF assms(2)]
  by (simp add: plain_name_def [of i] draft_statements run_statements_def partial_new_def finish_def statement_updates
      self_profile_lines_def self_profile_policy_def)

lemma gives_exec_expense:
  assumes "plain_name i"
  shows "gives (exec_expense_lines i) [exec_expense_policy i]"
  using gives_policy [of i "[(''deny READ TRAVEL_EXPENSE'', set_rule DDeny ''READ'' ''TRAVEL_EXPENSE''),
      (''where subject in EXECUTIVE_GROUP'', add_group ''EXECUTIVE''),
      (''unless role in [CFO, CEO]'', add_unless [''CFO'', ''CEO''])]"] assms
  by (simp add: plain_name_def [of i] draft_statements run_statements_def partial_new_def finish_def statement_updates
      exec_expense_lines_def exec_expense_policy_def)

lemma gives_payroll:
  assumes "plain_name i"
  shows "gives (payroll_lines i) [payroll_policy i]"
  using gives_policy [of i "[(''deny EXPORT SALARY'', set_rule DDeny ''EXPORT'' ''SALARY''),
      (''unless role == PAYROLL_ADMIN'', add_unless [''PAYROLL_ADMIN''])]"] assms
  by (simp add: plain_name_def [of i] draft_statements run_statements_def partial_new_def finish_def statement_updates
      payroll_lines_def payroll_policy_def)

text \<open>A policy's lines with the blank line after them, and an optional block.\<close>

lemma gives_stanza: "gives ls ps \<Longrightarrow> gives (ls @ [[]]) ps"
  using gives_append [OF _ gives_blank] by fastforce

lemma gives_if: "(b \<Longrightarrow> gives ls ps) \<Longrightarrow> gives (if b then ls else []) (if b then ps else [])"
  by simp

section \<open>The interface of generators\<close>

text \<open>A drafted policy allows at most reading one's own profile.\<close>

definition cautious :: "dsl_policy \<Rightarrow> bool" where
  "cautious p \<longleftrightarrow> dp_effect p = DAllow \<longrightarrow>
     dp_action p = ''READ'' \<and> dp_resource p = ''EMPLOYEE_PROFILE'' \<and> dp_where_subjects p = [''SELF'']"

lemma cautious_drafts [simp]:
  "cautious (self_profile_policy i gid)" "cautious (exec_expense_policy i)" "cautious (payroll_policy i)"
  by (simp_all add: cautious_def self_profile_policy_def exec_expense_policy_def payroll_policy_def)

locale draft_generator =
  fixes gen :: "identity_snapshot \<Rightarrow> string"
    and header :: "string list"
    and block :: "group \<Rightarrow> string list"
    and policies :: "group \<Rightarrow> dsl_policy list"
  assumes gen_lines: "gen s = unlines (header @ concat (map block (is_groups s)))"
    and header_gives: "gives header []"
    and block_gives: "plain_name (gr_name g) \<Longrightarrow> gives (block g) (policies g)"
    and block_cautious: "p \<in> set (policies g) \<Longrightarrow> cautious p"
begin

lemma drafts_parse:
  assumes "\<forall>g\<in>set (is_groups s). plain_name (gr_name g)"
  shows "parse_dsl (gen s) = Ok (concat (map policies (is_groups s)))"
proof -
  have "gives (concat (map block (is_groups s))) (concat (map policies (is_groups s)))"
    using assms by (intro gives_concat block_gives) blast
  from gives_append [OF header_gives this] show ?thesis
    unfolding gen_lines by (intro gives_parse) simp
qed

lemma drafts_cautious:
  assumes "\<forall>g\<in>set (is_groups s). plain_name (gr_name g)" "parse_dsl (gen s) = Ok ps" "p \<in> set ps"
  shows "cautious p"
  using drafts_parse [OF assms(1)] assms(2,3) block_cautious by auto

lemma drafts_append:
  "gen (s\<lparr>is_groups := is_groups s @ gs\<rparr>) = gen s @ unlines (concat (map block gs))"
  by (simp add: gen_lines)

end

end
