(* ===== verification/Core_Entities.thy ===== *)
theory Core_Entities
  imports Core_Request
begin

text \<open>
  The interface to the Cedar engine and \<open>authz-core/src/entities.rs\<close>. Cedar (\<open>cedar-policy\<close>) is not
  part of the repository: the operations the code calls on it are the fields of the record
  \<open>cedar\<close>, an argument of every definition that uses them. \<open>Inl\<close> of such a call is Cedar's error
  message. Hash sets and hash maps that the code iterates over are lists in insertion order.
\<close>

section \<open>The Cedar interface\<close>

datatype entity_uid = EntityUid string string

datatype cedar_decision = CAllow | CDeny

record cedar_response =
  rp_decision :: cedar_decision
  rp_reason :: "string list"
  rp_errors :: "string list"

record 'rx entity =
  en_uid :: entity_uid
  en_attrs :: "string \<rightharpoonup> 'rx"
  en_parents :: "entity_uid set"

record ('ps, 'rx, 'ctx, 'es, 'rq) cedar =
  cd_type_name :: "string \<Rightarrow> string + string"
  cd_entity_id :: "string \<Rightarrow> string + string"
  cd_restricted :: "string \<Rightarrow> string + 'rx"
  cd_entity :: "entity_uid \<Rightarrow> (string \<rightharpoonup> 'rx) \<Rightarrow> entity_uid set \<Rightarrow> string + 'rx entity"
  cd_same_entity :: "'rx entity \<Rightarrow> 'rx entity \<Rightarrow> bool"
  cd_from_entities :: "'rx entity list \<Rightarrow> string + 'es"
  cd_context :: "string \<Rightarrow> string + 'ctx"
  cd_request :: "entity_uid \<Rightarrow> entity_uid \<Rightarrow> entity_uid \<Rightarrow> 'ctx \<Rightarrow> string + 'rq"
  cd_authorize :: "'rq \<Rightarrow> 'ps \<Rightarrow> 'es \<Rightarrow> cedar_response"
  cd_policy_annotation :: "'ps \<Rightarrow> string \<Rightarrow> string option"
  cd_set_annotation :: "'ps \<Rightarrow> string \<Rightarrow> string option"
  cd_parse_policies :: "string \<Rightarrow> string + 'ps"
  cd_validation_errors :: "'ps \<Rightarrow> string list"

section \<open>Identifiers and attribute values\<close>

definition entity_uid_of ::
  "('ps, 'rx, 'ctx, 'es, 'rq) cedar \<Rightarrow> string \<Rightarrow> string \<Rightarrow> (authz_error, entity_uid) result" where
  "entity_uid_of c type_name i =
     and_then (lift_msg (\<lambda>e. AuthzEntity (''type '' @ type_name @ '': '' @ e)) (cd_type_name c type_name)) (\<lambda>tn.
     and_then (lift_msg (\<lambda>e. AuthzEntity (''id '' @ i @ '': '' @ e)) (cd_entity_id c i)) (\<lambda>eid.
       Ok (EntityUid tn eid)))"

text \<open>\<open>.expect(...)\<close> panics when Cedar does not accept the text of the literal.\<close>

definition attr_literal :: "string \<Rightarrow> string" where
  "attr_literal v = quoted (replace_char DQ [BSL, DQ] v)"

definition str_attr ::
  "('ps, 'rx, 'ctx, 'es, 'rq) cedar \<Rightarrow> string \<Rightarrow> (authz_error, 'rx) result" where
  "str_attr c v = (case cd_restricted c (attr_literal v) of Inl _ \<Rightarrow> Inl (Panic ''string attr'') | Inr x \<Rightarrow> Ok x)"

definition set_attr ::
  "('ps, 'rx, 'ctx, 'es, 'rq) cedar \<Rightarrow> string list \<Rightarrow> (authz_error, 'rx) result" where
  "set_attr c vals =
     (case cd_restricted c (''['' @ join '', '' (map attr_literal vals) @ '']'') of
        Inl _ \<Rightarrow> Inl (Panic ''set attr'') | Inr x \<Rightarrow> Ok x)"

definition insert_str_attr ::
  "('ps, 'rx, 'ctx, 'es, 'rq) cedar \<Rightarrow> string \<times> string \<Rightarrow> (string \<rightharpoonup> 'rx) \<Rightarrow> (authz_error, string \<rightharpoonup> 'rx) result" where
  "insert_str_attr c kv attrs =
     and_then (str_attr c (snd kv)) (\<lambda>x. Ok (hm_insert (fst kv) x attrs))"

section \<open>The relationship graph of a request\<close>

record links =
  lk_manager_of :: "string \<rightharpoonup> string list"
  lk_direct_reports :: "string \<rightharpoonup> string list"
  lk_group_links :: "string list index_map"
  lk_parents :: "string \<rightharpoonup> entity_uid set"

definition no_links :: links where
  "no_links = \<lparr>lk_manager_of = Map.empty, lk_direct_reports = Map.empty, lk_group_links = [],
     lk_parents = Map.empty\<rparr>"

definition parents_of :: "links \<Rightarrow> string \<Rightarrow> entity_uid set" where
  "parents_of l i = (case lk_parents l i of None \<Rightarrow> {} | Some ps \<Rightarrow> ps)"

definition add_parent :: "string \<Rightarrow> entity_uid \<Rightarrow> links \<Rightarrow> links" where
  "add_parent i u l = l\<lparr>lk_parents := hm_insert i (insert u (parents_of l i)) (lk_parents l)\<rparr>"

definition add_group_link :: "string \<Rightarrow> string \<Rightarrow> links \<Rightarrow> links" where
  "add_group_link g m l =
     l\<lparr>lk_group_links := im_insert g ((case im_get (lk_group_links l) g of None \<Rightarrow> [] | Some ms \<Rightarrow> ms) @ [m])
         (lk_group_links l)\<rparr>"

definition collect_relationship ::
  "('ps, 'rx, 'ctx, 'es, 'rq) cedar \<Rightarrow> relationship \<Rightarrow> links \<Rightarrow> (authz_error, links) result" where
  "collect_relationship c rel l =
     (case rl_kind rel of
        ManagerOf \<Rightarrow> Ok (l\<lparr>lk_manager_of := hm_push (rl_from rel) (rl_to rel) (lk_manager_of l)\<rparr>)
      | DirectReports \<Rightarrow> Ok (l\<lparr>lk_direct_reports := hm_push (rl_from rel) (rl_to rel) (lk_direct_reports l)\<rparr>)
      | GroupMember \<Rightarrow>
          and_then (entity_uid_of c ''Group'' (rl_to rel)) (\<lambda>u.
            Ok (add_parent (rl_from rel) u (add_group_link (rl_to rel) (rl_from rel) l)))
      | Delegation \<Rightarrow> Ok l)"

definition collect_member ::
  "('ps, 'rx, 'ctx, 'es, 'rq) cedar \<Rightarrow> string \<Rightarrow> string \<Rightarrow> links \<Rightarrow> (authz_error, links) result" where
  "collect_member c g m l =
     and_then (entity_uid_of c ''Group'' g) (\<lambda>u. Ok (add_group_link g m (add_parent m u l)))"

definition collect_group ::
  "('ps, 'rx, 'ctx, 'es, 'rq) cedar \<Rightarrow> string \<times> string list \<Rightarrow> links \<Rightarrow> (authz_error, links) result" where
  "collect_group c gm l = try_fold (collect_member c (fst gm)) (snd gm) l"

definition collect_links ::
  "('ps, 'rx, 'ctx, 'es, 'rq) cedar \<Rightarrow> authz_request \<Rightarrow> string list index_map \<Rightarrow> (authz_error, links) result" where
  "collect_links c req group_members =
     and_then (try_fold (collect_relationship c) (rq_relationships req) no_links)
       (try_fold (collect_group c) group_members)"

section \<open>The entities\<close>

definition new_entity ::
  "('ps, 'rx, 'ctx, 'es, 'rq) cedar \<Rightarrow> entity_uid \<Rightarrow> (string \<rightharpoonup> 'rx) \<Rightarrow> entity_uid set \<Rightarrow>
   (authz_error, 'rx entity) result" where
  "new_entity c u attrs parents = lift_msg AuthzEntity (cd_entity c u attrs parents)"

definition insert_entity ::
  "('ps, 'rx, 'ctx, 'es, 'rq) cedar \<Rightarrow> 'rx entity \<Rightarrow> 'rx entity list \<Rightarrow> 'rx entity list" where
  "insert_entity c e es = (if \<exists>x\<in>set es. cd_same_entity c x e then es else es @ [e])"

definition add_group_parent ::
  "('ps, 'rx, 'ctx, 'es, 'rq) cedar \<Rightarrow> string \<Rightarrow> entity_uid set \<Rightarrow> (authz_error, entity_uid set) result" where
  "add_group_parent c g ps = and_then (entity_uid_of c ''Group'' g) (\<lambda>u. Ok (insert u ps))"

definition opt_attr ::
  "('ps, 'rx, 'ctx, 'es, 'rq) cedar \<Rightarrow> string \<Rightarrow> string option \<Rightarrow> (string \<rightharpoonup> 'rx) \<Rightarrow>
   (authz_error, string \<rightharpoonup> 'rx) result" where
  "opt_attr c k v attrs = (case v of None \<Rightarrow> Ok attrs | Some s \<Rightarrow> insert_str_attr c (k, s) attrs)"

definition principal_attrs ::
  "('ps, 'rx, 'ctx, 'es, 'rq) cedar \<Rightarrow> authz_request \<Rightarrow> links \<Rightarrow> (authz_error, string \<rightharpoonup> 'rx) result" where
  "principal_attrs c req l =
     (let p = rq_principal req in
      and_then (set_attr c (pr_roles p)) (\<lambda>roles.
      and_then (set_attr c (pr_groups p)) (\<lambda>groups.
      and_then (try_fold (insert_str_attr c) (pr_attrs p)
                 (hm_insert ''groups'' groups (hm_insert ''roles'' roles Map.empty))) (\<lambda>attrs.
      and_then (set_attr c (case lk_direct_reports l (pr_id p) of None \<Rightarrow> [] | Some rs \<Rightarrow> rs)) (\<lambda>reports.
      and_then (case lk_manager_of l (pr_id p) of
                  None \<Rightarrow> Ok (hm_insert ''direct_reports'' reports attrs)
                | Some ms \<Rightarrow> and_then (set_attr c ms) (\<lambda>managed.
                    Ok (hm_insert ''manages'' managed (hm_insert ''direct_reports'' reports attrs)))) (\<lambda>attrs.
      and_then (opt_attr c ''on_behalf_of'' (rq_on_behalf_of req) attrs)
        (opt_attr c ''acting_as'' (rq_acting_as req))))))))"

definition principal_entity ::
  "('ps, 'rx, 'ctx, 'es, 'rq) cedar \<Rightarrow> authz_request \<Rightarrow> links \<Rightarrow> (authz_error, 'rx entity) result" where
  "principal_entity c req l =
     and_then (principal_attrs c req l) (\<lambda>attrs.
     and_then (entity_uid_of c ''User'' (pr_id (rq_principal req))) (\<lambda>u.
     and_then (try_fold (add_group_parent c) (pr_groups (rq_principal req))
                 (parents_of l (pr_id (rq_principal req)))) (\<lambda>parents.
       new_entity c u attrs parents)))"

definition subject_type :: "subject \<Rightarrow> string" where
  "subject_type s =
     (let kind = (if sj_kind s = [] then ''Employee'' else sj_kind s)
      in if eq_ignore_ascii_case kind ''user'' then ''Employee'' else kind)"

definition subject_entity ::
  "('ps, 'rx, 'ctx, 'es, 'rq) cedar \<Rightarrow> subject \<Rightarrow> links \<Rightarrow> (authz_error, 'rx entity) result" where
  "subject_entity c s l =
     and_then (set_attr c (sj_groups s)) (\<lambda>groups.
     and_then (try_fold (insert_str_attr c) (sj_attrs s) (hm_insert ''groups'' groups Map.empty)) (\<lambda>attrs.
     and_then (entity_uid_of c (subject_type s) (sj_id s)) (\<lambda>u.
     and_then (try_fold (add_group_parent c) (sj_groups s) (parents_of l (sj_id s))) (\<lambda>parents.
       new_entity c u attrs parents))))"

definition resource_id :: "resource \<Rightarrow> string" where
  "resource_id r = (case rs_id r of None \<Rightarrow> rs_kind r | Some i \<Rightarrow> i)"

definition resource_entity ::
  "('ps, 'rx, 'ctx, 'es, 'rq) cedar \<Rightarrow> resource \<Rightarrow> (authz_error, 'rx entity) result" where
  "resource_entity c r =
     and_then (str_attr c (rs_kind r)) (\<lambda>kind.
     and_then (try_fold (insert_str_attr c) (rs_attrs r) (hm_insert ''kind'' kind Map.empty)) (\<lambda>attrs.
     and_then (entity_uid_of c ''Resource'' (resource_id r)) (\<lambda>u. new_entity c u attrs {})))"

definition all_groups :: "authz_request \<Rightarrow> links \<Rightarrow> string list index_map \<Rightarrow> string list" where
  "all_groups req l group_members =
     remdups (pr_groups (rq_principal req) @
       (case rq_subject req of None \<Rightarrow> [] | Some s \<Rightarrow> sj_groups s) @
       map fst (lk_group_links l) @ map fst group_members)"

definition add_group_entity ::
  "('ps, 'rx, 'ctx, 'es, 'rq) cedar \<Rightarrow> string \<Rightarrow> 'rx entity list \<Rightarrow> (authz_error, 'rx entity list) result" where
  "add_group_entity c g es =
     and_then (entity_uid_of c ''Group'' g) (\<lambda>u.
     and_then (new_entity c u Map.empty {}) (\<lambda>e. Ok (insert_entity c e es)))"

definition action_entity ::
  "('ps, 'rx, 'ctx, 'es, 'rq) cedar \<Rightarrow> action \<Rightarrow> (authz_error, 'rx entity) result" where
  "action_entity c a =
     and_then (entity_uid_of c ''Action'' (to_ascii_uppercase (ac_name a))) (\<lambda>u. new_entity c u Map.empty {})"

definition build_entities ::
  "('ps, 'rx, 'ctx, 'es, 'rq) cedar \<Rightarrow> authz_request \<Rightarrow> string list index_map \<Rightarrow>
   (authz_error, 'rx entity list) result" where
  "build_entities c req group_members =
     and_then (collect_links c req group_members) (\<lambda>l.
     and_then (principal_entity c req l) (\<lambda>p.
     and_then (case rq_subject req of
                 None \<Rightarrow> Ok (insert_entity c p [])
               | Some s \<Rightarrow> and_then (subject_entity c s l) (\<lambda>e. Ok (insert_entity c e (insert_entity c p [])))) (\<lambda>es.
     and_then (resource_entity c (rq_resource req)) (\<lambda>r.
     and_then (try_fold (add_group_entity c) (all_groups req l group_members) (insert_entity c r es)) (\<lambda>es.
     and_then (action_entity c (rq_action req)) (\<lambda>a. Ok (insert_entity c a es)))))))"


section \<open>A concrete instance of the interface\<close>

text \<open>
  The witnesses run the code's model against this instance: names and identifiers are accepted as
  they are, attribute values and entities are kept as written, and the three parts that decide a
  request (policies, contexts, the decision itself) are its arguments.
\<close>

type_synonym cedar_call = "entity_uid \<times> entity_uid \<times> entity_uid"

definition reference_cedar ::
  "(string \<Rightarrow> string + 'ps) \<Rightarrow> (string \<Rightarrow> string + 'ctx) \<Rightarrow> (cedar_call \<Rightarrow> 'ctx \<Rightarrow> 'ps \<Rightarrow> cedar_response) \<Rightarrow>
   ('ps, string, 'ctx, string entity list, cedar_call \<times> 'ctx) cedar" where
  "reference_cedar parse ctx auth =
     \<lparr>cd_type_name = Inr, cd_entity_id = Inr, cd_restricted = Inr,
      cd_entity = (\<lambda>u a ps. Inr \<lparr>en_uid = u, en_attrs = a, en_parents = ps\<rparr>),
      cd_same_entity = (\<lambda>a b. en_uid a = en_uid b),
      cd_from_entities = Inr, cd_context = ctx,
      cd_request = (\<lambda>p a r x. Inr ((p, a, r), x)),
      cd_authorize = (\<lambda>(call, x) ps es. auth call x ps),
      cd_policy_annotation = (\<lambda>ps i. None), cd_set_annotation = (\<lambda>ps i. None),
      cd_parse_policies = parse, cd_validation_errors = (\<lambda>ps. [])\<rparr>"

lemma reference_cedar_simps [simp]:
  "cd_type_name (reference_cedar parse ctx auth) = Inr"
  "cd_entity_id (reference_cedar parse ctx auth) = Inr"
  "cd_restricted (reference_cedar parse ctx auth) = Inr"
  "cd_entity (reference_cedar parse ctx auth) u attrs parents = Inr \<lparr>en_uid = u, en_attrs = attrs, en_parents = parents\<rparr>"
  "cd_from_entities (reference_cedar parse ctx auth) = Inr"
  "cd_context (reference_cedar parse ctx auth) = ctx"
  "cd_request (reference_cedar parse ctx auth) u1 u2 u3 x = Inr ((u1, u2, u3), x)"
  "cd_authorize (reference_cedar parse ctx auth) (call, x) qs es = auth call x qs"
  "cd_parse_policies (reference_cedar parse ctx auth) = parse"
  "cd_validation_errors (reference_cedar parse ctx auth) = (\<lambda>qs. [])"
  by (simp_all add: reference_cedar_def)

section \<open>The group hierarchy of a request\<close>

text \<open>Documented behaviour of Cedar: the five type names are valid, every string is an entity id,
  and a new entity has the given identity, attributes and parents.\<close>

definition cedar_entities_documented :: "('ps, 'rx, 'ctx, 'es, 'rq) cedar \<Rightarrow> bool" where
  "cedar_entities_documented c \<longleftrightarrow>
     (\<forall>t\<in>{''User'', ''Group'', ''Resource'', ''Action'', ''Employee''}. cd_type_name c t = Inr t) \<and>
     (\<forall>i. cd_entity_id c i = Inr i) \<and>
     (\<forall>u a ps e. cd_entity c u a ps = Inr e \<longrightarrow> en_uid e = u \<and> en_attrs e = a \<and> en_parents e = ps)"

lemma reference_cedar_documented: "cedar_entities_documented (reference_cedar parse ctx auth)"
  by (simp add: cedar_entities_documented_def)

lemma group_uid: "cedar_entities_documented c \<Longrightarrow> entity_uid_of c ''Group'' g = Ok (EntityUid ''Group'' g)"
  by (simp add: cedar_entities_documented_def entity_uid_of_def)

definition rel_parents :: "relationship list \<Rightarrow> string \<Rightarrow> entity_uid set" where
  "rel_parents rels i = {EntityUid ''Group'' (rl_to r) | r. r \<in> set rels \<and> rl_kind r = GroupMember \<and> rl_from r = i}"

definition member_parents :: "string list index_map \<Rightarrow> string \<Rightarrow> entity_uid set" where
  "member_parents gm i = {EntityUid ''Group'' g | g ms. (g, ms) \<in> set gm \<and> i \<in> set ms}"

definition targets :: "relationship_kind \<Rightarrow> relationship list \<Rightarrow> string \<Rightarrow> string list" where
  "targets k rels i = map rl_to (filter (\<lambda>r. rl_kind r = k \<and> rl_from r = i) rels)"

lemma parents_of_add_parent [simp]:
  "parents_of (add_parent j u l) i = (if i = j then insert u (parents_of l i) else parents_of l i)"
  by (auto simp: parents_of_def add_parent_def hm_insert_def)

lemma add_group_link_frame [simp]:
  "parents_of (add_group_link g u l) i = parents_of l i"
  "lk_direct_reports (add_group_link g u l) = lk_direct_reports l"
  "lk_manager_of (add_group_link g u l) = lk_manager_of l"
  "lk_direct_reports (add_parent j e l) = lk_direct_reports l"
  "lk_manager_of (add_parent j e l) = lk_manager_of l"
  "parents_of (l\<lparr>lk_manager_of := m\<rparr>) i = parents_of l i"
  "parents_of (l\<lparr>lk_direct_reports := m\<rparr>) i = parents_of l i"
  by (simp_all add: parents_of_def add_group_link_def add_parent_def)

text \<open>The pure update each loop body makes when Cedar accepts the group names.\<close>

definition relationship_update :: "relationship \<Rightarrow> links \<Rightarrow> links" where
  "relationship_update rel l =
     (case rl_kind rel of
        ManagerOf \<Rightarrow> l\<lparr>lk_manager_of := hm_push (rl_from rel) (rl_to rel) (lk_manager_of l)\<rparr>
      | DirectReports \<Rightarrow> l\<lparr>lk_direct_reports := hm_push (rl_from rel) (rl_to rel) (lk_direct_reports l)\<rparr>
      | GroupMember \<Rightarrow> add_parent (rl_from rel) (EntityUid ''Group'' (rl_to rel)) (add_group_link (rl_to rel) (rl_from rel) l)
      | Delegation \<Rightarrow> l)"

definition member_update :: "string \<Rightarrow> string \<Rightarrow> links \<Rightarrow> links" where
  "member_update g m l = add_group_link g m (add_parent m (EntityUid ''Group'' g) l)"

lemma collect_links_eq:
  assumes "cedar_entities_documented c"
  shows "collect_links c req gm =
    Ok (fold (\<lambda>gm l. fold (member_update (fst gm)) (snd gm) l) gm
          (fold relationship_update (rq_relationships req) no_links))"
proof -
  have "try_fold (collect_relationship c) rels l = Ok (fold relationship_update rels l)" for rels l
    by (rule try_fold_total)
       (simp add: collect_relationship_def relationship_update_def group_uid [OF assms] split: relationship_kind.split)
  moreover have "collect_group c g l = Ok (fold (member_update (fst g)) (snd g) l)" for g l
    unfolding collect_group_def
    by (rule try_fold_total) (simp add: collect_member_def member_update_def group_uid [OF assms])
  then have "try_fold (collect_group c) gm l = Ok (fold (\<lambda>gm l. fold (member_update (fst gm)) (snd gm) l) gm l)" for l
    by (intro try_fold_total) simp
  ultimately show ?thesis by (simp add: collect_links_def)
qed

lemma relationship_fold_parents:
  "parents_of (fold relationship_update rels l) i = parents_of l i \<union> rel_parents rels i"
proof (induction rels arbitrary: l)
  case (Cons r rels)
  have "parents_of (relationship_update r l) i = parents_of l i \<union> rel_parents [r] i"
    by (auto simp: relationship_update_def rel_parents_def split: relationship_kind.split)
  moreover have "rel_parents (r # rels) i = rel_parents [r] i \<union> rel_parents rels i"
    by (auto simp: rel_parents_def)
  ultimately show ?case using Cons.IH by auto
qed (simp add: rel_parents_def)

lemma relationship_fold_reports:
  "hm_list (lk_direct_reports (fold relationship_update rels l)) i = hm_list (lk_direct_reports l) i @ targets DirectReports rels i"
  by (induction rels arbitrary: l)
     (simp_all add: relationship_update_def targets_def split: relationship_kind.split)

lemma relationship_fold_managers:
  "hm_list (lk_manager_of (fold relationship_update rels l)) i = hm_list (lk_manager_of l) i @ targets ManagerOf rels i"
  by (induction rels arbitrary: l)
     (simp_all add: relationship_update_def targets_def split: relationship_kind.split)

lemmas relationship_fold = relationship_fold_parents relationship_fold_reports relationship_fold_managers

lemma member_fold:
  "parents_of (fold (member_update g) ms l) i = parents_of l i \<union> (if i \<in> set ms then {EntityUid ''Group'' g} else {})"
  "lk_direct_reports (fold (member_update g) ms l) = lk_direct_reports l"
  "lk_manager_of (fold (member_update g) ms l) = lk_manager_of l"
  by (induction ms arbitrary: l) (auto simp: member_update_def)

lemma group_fold:
  "parents_of (fold (\<lambda>gm l. fold (member_update (fst gm)) (snd gm) l) gm l) i = parents_of l i \<union> member_parents gm i"
  "lk_direct_reports (fold (\<lambda>gm l. fold (member_update (fst gm)) (snd gm) l) gm l) = lk_direct_reports l"
  "lk_manager_of (fold (\<lambda>gm l. fold (member_update (fst gm)) (snd gm) l) gm l) = lk_manager_of l"
  by (induction gm arbitrary: l) (auto simp: member_fold member_parents_def)

lemma collect_links_graph:
  assumes "cedar_entities_documented c" "collect_links c req gm = Ok l"
  shows "parents_of l i = rel_parents (rq_relationships req) i \<union> member_parents gm i"
    and "hm_list (lk_direct_reports l) i = targets DirectReports (rq_relationships req) i"
    and "hm_list (lk_manager_of l) i = targets ManagerOf (rq_relationships req) i"
  using assms(2)
  by (auto simp: collect_links_eq [OF assms(1)] group_fold relationship_fold no_links_def parents_of_def [of "\<lparr>lk_manager_of = _, lk_direct_reports = _, lk_group_links = _, lk_parents = _\<rparr>"])

lemma add_group_parents:
  assumes "cedar_entities_documented c"
  shows "try_fold (add_group_parent c) gs ps = Ok (ps \<union> {EntityUid ''Group'' g | g. g \<in> set gs})"
proof -
  have "try_fold (add_group_parent c) gs ps = Ok (fold (\<lambda>g. insert (EntityUid ''Group'' g)) gs ps)"
    by (rule try_fold_total) (simp add: add_group_parent_def group_uid [OF assms])
  moreover have "fold (\<lambda>g. insert (EntityUid ''Group'' g)) gs ps = ps \<union> {EntityUid ''Group'' g | g. g \<in> set gs}"
    by (induction gs arbitrary: ps) auto
  ultimately show ?thesis by simp
qed

text \<open>C18: The principal's entity is \<open>User::id\<close>, and its parents in the policy hierarchy are exactly the
  groups it lists itself, the groups a \<open>GroupMember\<close> relationship puts it in, and the groups the
  configured membership table puts it in.\<close>

theorem principal_entity_parents:
  assumes "cedar_entities_documented c"
    and "collect_links c req group_members = Ok l" "principal_entity c req l = Ok e"
  shows "en_uid e = EntityUid ''User'' (pr_id (rq_principal req)) \<and>
    en_parents e = {EntityUid ''Group'' g | g. g \<in> set (pr_groups (rq_principal req))
      \<or> (\<exists>r\<in>set (rq_relationships req). rl_kind r = GroupMember \<and> rl_from r = pr_id (rq_principal req) \<and> rl_to r = g)
      \<or> (\<exists>ms. (g, ms) \<in> set group_members \<and> pr_id (rq_principal req) \<in> set ms)}"
proof -
  from assms(3) obtain attrs u ps where
      u: "entity_uid_of c ''User'' (pr_id (rq_principal req)) = Ok u"
    and ps: "try_fold (add_group_parent c) (pr_groups (rq_principal req)) (parents_of l (pr_id (rq_principal req))) = Ok ps"
    and e: "cd_entity c u attrs ps = Inr e"
    by (auto simp: principal_entity_def new_entity_def and_then_Inr_iff lift_msg_Inr_iff)
  have "u = EntityUid ''User'' (pr_id (rq_principal req))"
    using u assms(1) by (simp add: entity_uid_of_def cedar_entities_documented_def)
  moreover have "ps = parents_of l (pr_id (rq_principal req)) \<union> {EntityUid ''Group'' g | g. g \<in> set (pr_groups (rq_principal req))}"
    using ps add_group_parents [OF assms(1)] by simp
  moreover have "en_uid e = u" "en_parents e = ps"
    using e assms(1) by (auto simp: cedar_entities_documented_def)
  ultimately show ?thesis
    using collect_links_graph(1) [OF assms(1,2)] by (auto simp: rel_parents_def member_parents_def)
qed

definition example_member_request :: authz_request where
  "example_member_request =
     \<lparr>rq_principal = (with_roles ''u'' [])\<lparr>pr_groups := [''HR'']\<rparr>, rq_action = action_new ''READ'',
      rq_resource = resource_of_kind ''X'', rq_subject = None, rq_context = empty_context,
      rq_relationships = [\<lparr>rl_kind = GroupMember, rl_from = ''u'', rl_to = ''ENG''\<rparr>],
      rq_acting_as = None, rq_on_behalf_of = None\<rparr>"

theorem principal_entity_parents_witness:
  "\<exists>e. principal_entity (reference_cedar (Inr :: string \<Rightarrow> string + string) (Inr :: string \<Rightarrow> string + string) (\<lambda>_ _ _. undefined))
      example_member_request (projr (collect_links (reference_cedar (Inr :: string \<Rightarrow> string + string)
        (Inr :: string \<Rightarrow> string + string) (\<lambda>_ _ _. undefined)) example_member_request [(''FIN'', [''u''])])) = Ok e
    \<and> EntityUid ''Group'' ''FIN'' \<in> en_parents e"
proof -
  let ?c = "reference_cedar (Inr :: string \<Rightarrow> string + string) (Inr :: string \<Rightarrow> string + string) (\<lambda>_ _ _. undefined)"
  note doc = reference_cedar_documented [of "Inr :: string \<Rightarrow> string + string" "Inr :: string \<Rightarrow> string + string" "\<lambda>_ _ _. undefined"]
  obtain l where l: "collect_links ?c example_member_request [(''FIN'', [''u''])] = Ok l"
    using collect_links_eq [OF doc] by blast
  have uid: "entity_uid_of ?c ''User'' i = Ok (EntityUid ''User'' i)" for i by (simp add: entity_uid_of_def)
  have "is_ok (principal_entity ?c example_member_request l)"
    by (simp add: principal_entity_def principal_attrs_def set_attr_def Let_def example_member_request_def with_roles_def
        opt_attr_def uid add_group_parent_def group_uid [OF doc] new_entity_def split: option.split)
  then obtain e where e: "principal_entity ?c example_member_request l = Ok e" by (auto simp: is_ok_iff)
  have "EntityUid ''Group'' ''FIN'' \<in> en_parents e"
    using principal_entity_parents [OF doc l e] by (auto simp: example_member_request_def with_roles_def)
  then show ?thesis using e l by auto
qed

end
