(* ===== verification/Core_Evaluate.thy ===== *)
theory Core_Evaluate
  imports Core_Entities
begin

text \<open>
  The evaluator of \<open>authz-core\<close>: decisions and evidence (\<open>decision.rs\<close>), the policy context and
  \<open>evaluate\<close> (\<open>evaluate.rs\<close>), the hot bundle cache (\<open>hot_cache.rs\<close>) and the embedded engine
  (\<open>sdk.rs\<close>). The fresh decision id and the clock reading are the fields of \<open>eval_env\<close>.
\<close>

section \<open>Decisions\<close>

datatype decision_effect = Allow | Deny | Review

record matched_policy =
  mp_id :: string
  mp_effect :: decision_effect
  mp_reason :: "string option"

record evidence =
  ev_decision_id :: string
  ev_effect :: decision_effect
  ev_request :: authz_request
  ev_matched_policies :: "matched_policy list"
  ev_determining_policy :: "matched_policy option"
  ev_policy_revision :: string
  ev_policy_signature :: "string option"
  ev_engine_version :: string
  ev_timestamp :: nat
  ev_notes :: "string list"

record authz_decision =
  ad_effect :: decision_effect
  ad_evidence :: evidence

record eval_env =
  env_uuid :: string
  env_now :: nat

definition deny_default :: "eval_env \<Rightarrow> authz_request \<Rightarrow> string \<Rightarrow> string \<Rightarrow> authz_decision" where
  "deny_default env req revision version =
     \<lparr>ad_effect = Deny, ad_evidence =
       \<lparr>ev_decision_id = env_uuid env, ev_effect = Deny, ev_request = req, ev_matched_policies = [],
        ev_determining_policy = None, ev_policy_revision = revision, ev_policy_signature = None,
        ev_engine_version = version, ev_timestamp = env_now env,
        ev_notes = [''deny-by-default: no permitting policy matched'']\<rparr>\<rparr>"

section \<open>The policy context\<close>

definition ENGINE_VERSION :: string where
  "ENGINE_VERSION = ''0.1.0''"

record 'ps evaluator_config =
  ec_policy_set :: 'ps
  ec_policy_revision :: string
  ec_policy_signature :: "string option"
  ec_group_members :: "string list index_map"

definition request_uid_of ::
  "('ps, 'rx, 'ctx, 'es, 'rq) cedar \<Rightarrow> string \<Rightarrow> string \<Rightarrow> (authz_error, entity_uid) result" where
  "request_uid_of c type_name i =
     and_then (lift_msg (\<lambda>e. AuthzCedar (''type '' @ type_name @ '': '' @ e)) (cd_type_name c type_name)) (\<lambda>tn.
     and_then (lift_msg (\<lambda>e. AuthzCedar (''id '' @ i @ '': '' @ e)) (cd_entity_id c i)) (\<lambda>eid.
       Ok (EntityUid tn eid)))"

fun effect_from_cedar :: "cedar_decision \<Rightarrow> decision_effect" where
  "effect_from_cedar CAllow = Allow"
| "effect_from_cedar CDeny = Deny"

definition subject_is_self :: "authz_request \<Rightarrow> bool" where
  "subject_is_self req =
     (case rq_subject req of Some s \<Rightarrow> sj_id s = pr_id (rq_principal req) | None \<Rightarrow> False)"

definition subject_in_direct_reports :: "authz_request \<Rightarrow> bool" where
  "subject_in_direct_reports req =
     (case rq_subject req of
        None \<Rightarrow> False
      | Some s \<Rightarrow> (\<exists>rel\<in>set (rq_relationships req).
          (rl_kind rel = DirectReports \<or> rl_kind rel = ManagerOf) \<and>
          rl_from rel = pr_id (rq_principal req) \<and> rl_to rel = sj_id s))"

definition escape :: "string \<Rightarrow> string" where
  "escape s = replace_char DQ [BSL, DQ] (replace_char BSL [BSL, BSL] s)"

definition json_pair :: "string \<Rightarrow> string \<Rightarrow> string" where
  "json_pair k v = quoted k @ '': '' @ v"

definition json_strings :: "string list \<Rightarrow> string" where
  "json_strings xs = ''['' @ join '', '' (map (\<lambda>g. quoted (escape g)) xs) @ '']''"

definition json_bool :: "bool \<Rightarrow> string" where
  "json_bool b = (if b then ''true'' else ''false'')"

definition context_pairs :: "authz_request \<Rightarrow> string list" where
  "context_pairs req =
     [json_pair ''action_name'' (quoted (to_ascii_uppercase (ac_name (rq_action req)))),
      json_pair ''resource_kind'' (quoted (to_ascii_uppercase (rs_kind (rq_resource req)))),
      json_pair ''subject_is_self'' (json_bool (subject_is_self req)),
      json_pair ''subject_in_direct_reports'' (json_bool (subject_in_direct_reports req))] @
     (case rq_subject req of
        Some s \<Rightarrow> [json_pair ''subject_id'' (quoted (escape (sj_id s))),
                   json_pair ''subject_groups'' (json_strings (sj_groups s))]
      | None \<Rightarrow> [json_pair ''subject_id'' (quoted []), json_pair ''subject_groups'' ''[]'']) @
     map (\<lambda>(k, v). json_pair (escape k) (quoted (escape v))) (cx_values (rq_context req)) @
     [json_pair ''principal_roles'' (json_strings (pr_roles (rq_principal req))),
      json_pair ''principal_groups'' (json_strings (pr_groups (rq_principal req)))]"

definition build_context_json :: "authz_request \<Rightarrow> string" where
  "build_context_json req = ''{'' @ join '', '' (context_pairs req) @ ''}''"

section \<open>Evaluation\<close>

definition matched_of ::
  "('ps, 'rx, 'ctx, 'es, 'rq) cedar \<Rightarrow> 'ps \<Rightarrow> cedar_response \<Rightarrow> matched_policy list" where
  "matched_of c ps resp =
     map (\<lambda>i. \<lparr>mp_id = (case cd_policy_annotation c ps i of
                          Some s \<Rightarrow> s
                        | None \<Rightarrow> (case cd_set_annotation c ps i of Some s \<Rightarrow> s | None \<Rightarrow> i)),
              mp_effect = effect_from_cedar (rp_decision resp),
              mp_reason = Some ''matched by Cedar evaluator''\<rparr>) (rp_reason resp)"

definition determining_of :: "matched_policy list \<Rightarrow> decision_effect \<Rightarrow> matched_policy option" where
  "determining_of matched effect =
     (case matched of
        m # _ \<Rightarrow> Some m
      | [] \<Rightarrow> if effect = Deny
              then Some \<lparr>mp_id = ''deny-by-default'', mp_effect = Deny,
                          mp_reason = Some ''no permit matched or explicit forbid''\<rparr>
              else None)"

definition notes_of :: "cedar_response \<Rightarrow> matched_policy list \<Rightarrow> decision_effect \<Rightarrow> string list" where
  "notes_of resp matched effect =
     map (\<lambda>e. ''cedar diagnostic: '' @ e) (rp_errors resp) @
     (if matched = [] \<and> effect = Deny then [''deny-by-default: no permitting policy matched''] else [])"

definition decision_of ::
  "('ps, 'rx, 'ctx, 'es, 'rq) cedar \<Rightarrow> eval_env \<Rightarrow> authz_request \<Rightarrow> 'ps evaluator_config \<Rightarrow>
   cedar_response \<Rightarrow> authz_decision" where
  "decision_of c env req cfg resp =
     (let matched = matched_of c (ec_policy_set cfg) resp;
          effect = effect_from_cedar (rp_decision resp)
      in \<lparr>ad_effect = effect, ad_evidence =
           \<lparr>ev_decision_id = env_uuid env, ev_effect = effect, ev_request = req,
            ev_matched_policies = matched, ev_determining_policy = determining_of matched effect,
            ev_policy_revision = ec_policy_revision cfg, ev_policy_signature = ec_policy_signature cfg,
            ev_engine_version = ENGINE_VERSION, ev_timestamp = env_now env,
            ev_notes = notes_of resp matched effect\<rparr>\<rparr>)"

definition cedar_response_of ::
  "('ps, 'rx, 'ctx, 'es, 'rq) cedar \<Rightarrow> authz_request \<Rightarrow> 'ps evaluator_config \<Rightarrow>
   (authz_error, cedar_response) result" where
  "cedar_response_of c req cfg =
     and_then (validate req) (\<lambda>_.
     and_then (build_entities c req (ec_group_members cfg)) (\<lambda>entity_set.
     and_then (lift_msg AuthzCedar (cd_from_entities c entity_set)) (\<lambda>entities.
     and_then (request_uid_of c ''User'' (pr_id (rq_principal req))) (\<lambda>p.
     and_then (request_uid_of c ''Action'' (to_ascii_uppercase (ac_name (rq_action req)))) (\<lambda>a.
     and_then (request_uid_of c ''Resource'' (resource_id (rq_resource req))) (\<lambda>r.
     and_then (lift_msg (\<lambda>e. AuthzCedar (''context: '' @ e)) (cd_context c (build_context_json req))) (\<lambda>ctx.
     and_then (lift_msg AuthzCedar (cd_request c p a r ctx)) (\<lambda>rq.
       Ok (cd_authorize c rq (ec_policy_set cfg) entities)))))))))"

definition evaluate ::
  "('ps, 'rx, 'ctx, 'es, 'rq) cedar \<Rightarrow> eval_env \<Rightarrow> authz_request \<Rightarrow> 'ps evaluator_config \<Rightarrow>
   (authz_error, authz_decision) result" where
  "evaluate c env req cfg =
     and_then (cedar_response_of c req cfg) (\<lambda>resp. Ok (decision_of c env req cfg resp))"

section \<open>The bundle cache and the embedded engine\<close>

record 'ps hot_bundle =
  hb_policy_set :: 'ps
  hb_policy_revision :: string
  hb_policy_signature :: "string option"
  hb_signature_key_id :: "string option"
  hb_content_sha256 :: "string option"
  hb_group_members :: "string list index_map"

definition to_evaluator_config :: "'ps hot_bundle \<Rightarrow> 'ps evaluator_config" where
  "to_evaluator_config h =
     \<lparr>ec_policy_set = hb_policy_set h, ec_policy_revision = hb_policy_revision h,
      ec_policy_signature = hb_policy_signature h, ec_group_members = hb_group_members h\<rparr>"

record 'ps bundle_cache =
  bc_inner :: "'ps hot_bundle"

definition bundle_cache_new :: "'ps hot_bundle \<Rightarrow> 'ps bundle_cache" where
  "bundle_cache_new h = \<lparr>bc_inner = h\<rparr>"

definition bc_load :: "'ps bundle_cache \<Rightarrow> 'ps hot_bundle" where
  "bc_load b = bc_inner b"

definition bc_store :: "'ps hot_bundle \<Rightarrow> 'ps bundle_cache \<Rightarrow> 'ps bundle_cache" where
  "bc_store h b = b\<lparr>bc_inner := h\<rparr>"

definition bc_evaluator_config :: "'ps bundle_cache \<Rightarrow> 'ps evaluator_config" where
  "bc_evaluator_config b = to_evaluator_config (bc_load b)"

record 'ps paac_engine =
  pe_config :: "'ps evaluator_config"

definition paac_engine_new :: "'ps \<Rightarrow> string \<Rightarrow> 'ps paac_engine" where
  "paac_engine_new ps revision =
     \<lparr>pe_config = \<lparr>ec_policy_set = ps, ec_policy_revision = revision, ec_policy_signature = None,
        ec_group_members = []\<rparr>\<rparr>"

definition paac_engine_evaluate ::
  "('ps, 'rx, 'ctx, 'es, 'rq) cedar \<Rightarrow> eval_env \<Rightarrow> 'ps paac_engine \<Rightarrow> authz_request \<Rightarrow>
   (authz_error, authz_decision) result" where
  "paac_engine_evaluate c env e req = evaluate c env req (pe_config e)"

section \<open>The evidence of a decision\<close>

definition evidence_consistent :: "authz_request \<Rightarrow> authz_decision \<Rightarrow> bool" where
  "evidence_consistent req d \<longleftrightarrow>
     (let ev = ad_evidence d in
      ev_request ev = req \<and> ev_effect ev = ad_effect d \<and> ad_effect d \<noteq> Review \<and>
      (\<forall>m\<in>set (ev_matched_policies ev). mp_effect m = ad_effect d) \<and>
      (case ev_determining_policy ev of
         None \<Rightarrow> ad_effect d = Allow \<and> ev_matched_policies ev = []
       | Some m \<Rightarrow> mp_effect m = ad_effect d \<and>
           (if ev_matched_policies ev = [] then mp_id m = ''deny-by-default'' \<and> ad_effect d = Deny
            else m = hd (ev_matched_policies ev))) \<and>
      (ad_effect d = Deny \<and> ev_matched_policies ev = [] \<longrightarrow>
         ''deny-by-default: no permitting policy matched'' \<in> set (ev_notes ev)))"

lemma effect_from_cedar_not_review [simp]: "effect_from_cedar e \<noteq> Review"
  by (cases e) simp_all

lemma decision_of_consistent: "evidence_consistent req (decision_of c env req cfg resp)"
proof -
  have effects: "\<forall>m\<in>set (matched_of c ps resp). mp_effect m = effect_from_cedar (rp_decision resp)" for ps
    by (auto simp: matched_of_def)
  show ?thesis
    using effects [of "ec_policy_set cfg"]
    by (cases "matched_of c (ec_policy_set cfg) resp"; cases "rp_decision resp")
       (simp_all add: evidence_consistent_def decision_of_def Let_def determining_of_def notes_of_def)
qed

lemma evaluate_Ok_iff:
  "evaluate c env req cfg = Ok d \<longleftrightarrow>
     (\<exists>resp. cedar_response_of c req cfg = Ok resp \<and> d = decision_of c env req cfg resp)"
  by (auto simp: evaluate_def and_then_Inr_iff)

definition read_request :: "string \<Rightarrow> authz_request" where
  "read_request kind =
     \<lparr>rq_principal = with_roles ''u'' [''HR''], rq_action = action_new ''READ'',
      rq_resource = resource_of_kind kind, rq_subject = None, rq_context = empty_context,
      rq_relationships = [], rq_acting_as = None, rq_on_behalf_of = None\<rparr>"

definition plain_config :: "string evaluator_config" where
  "plain_config = \<lparr>ec_policy_set = ''p'', ec_policy_revision = ''r1'', ec_policy_signature = None,
     ec_group_members = []\<rparr>"

definition deny_all :: "cedar_call \<Rightarrow> string \<Rightarrow> string \<Rightarrow> cedar_response" where
  "deny_all q x ps = \<lparr>rp_decision = CDeny, rp_reason = [], rp_errors = []\<rparr>"

lemmas read_request_simps = read_request_def with_roles_def action_new_def resource_of_kind_def
  empty_context_def plain_config_def deny_all_def

lemmas entity_simps = build_entities_def collect_links_def no_links_def principal_entity_def principal_attrs_def
  set_attr_def str_attr_def opt_attr_def insert_str_attr_def entity_uid_of_def new_entity_def insert_entity_def
  add_group_parent_def resource_entity_def resource_id_def all_groups_def add_group_entity_def action_entity_def
  parents_of_def request_uid_of_def

text \<open>C16: A decision the evaluator returns is about the request it was given, never \<open>Review\<close>; its
  evidence repeats the effect, every matched policy and the determining policy carry that effect, the
  determining policy is the first matched one (or the deny-by-default marker when nothing matched and
  the effect is \<open>Deny\<close>), and the request was valid.\<close>

theorem evaluate_evidence:
  assumes "evaluate c env req cfg = Ok d"
  shows "evidence_consistent req d \<and> validate req = Ok () \<and>
    ev_policy_revision (ad_evidence d) = ec_policy_revision cfg \<and>
    ev_decision_id (ad_evidence d) = env_uuid env"
  using assms decision_of_consistent
  by (auto simp: evaluate_Ok_iff cedar_response_of_def and_then_Inr_iff decision_of_def Let_def)

theorem evaluate_evidence_witness:
  "evidence_consistent (read_request ''X'') (projr (evaluate (reference_cedar Inr Inr deny_all)
      \<lparr>env_uuid = ''id'', env_now = 7\<rparr> (read_request ''X'') plain_config))"
proof -
  have "is_ok (evaluate (reference_cedar Inr Inr deny_all) \<lparr>env_uuid = ''id'', env_now = 7\<rparr> (read_request ''X'') plain_config)"
    by (simp add: evaluate_def cedar_response_of_def validate_def trim_Nil_iff entity_simps read_request_simps is_ws_def)
  then obtain d where d: "evaluate (reference_cedar Inr Inr deny_all) \<lparr>env_uuid = ''id'', env_now = 7\<rparr>
      (read_request ''X'') plain_config = Ok d"
    by (auto simp: is_ok_iff)
  show ?thesis using evaluate_evidence [OF d] d by simp
qed

section \<open>The faults of the evaluator\<close>

definition cedar_literals_documented :: "('ps, 'rx, 'ctx, 'es, 'rq) cedar \<Rightarrow> bool" where
  "cedar_literals_documented c \<longleftrightarrow>
     (\<forall>v m. BSL \<notin> set v \<longrightarrow> cd_restricted c (attr_literal v) \<noteq> Inl m) \<and>
     (\<forall>vs m. (\<forall>v\<in>set vs. BSL \<notin> set v) \<longrightarrow>
        cd_restricted c (''['' @ join '', '' (map attr_literal vs) @ '']'') \<noteq> Inl m)"

definition attr_texts :: "authz_request \<Rightarrow> string list" where
  "attr_texts req =
     (let p = rq_principal req; r = rq_resource req in
      pr_roles p @ pr_groups p @ map snd (pr_attrs p) @ map rl_to (rq_relationships req) @
      (case rq_on_behalf_of req of None \<Rightarrow> [] | Some s \<Rightarrow> [s]) @
      (case rq_acting_as req of None \<Rightarrow> [] | Some s \<Rightarrow> [s]) @
      (case rq_subject req of None \<Rightarrow> [] | Some s \<Rightarrow> sj_groups s @ map snd (sj_attrs s)) @
      rs_kind r # map snd (rs_attrs r))"

definition entity_fault :: "string list \<Rightarrow> authz_error fault \<Rightarrow> bool" where
  "entity_fault texts f =
     (case f of Err e \<Rightarrow> (\<exists>m. e = AuthzEntity m) | Panic _ \<Rightarrow> (\<exists>v\<in>set texts. BSL \<in> set v))"

lemma entity_fault_Entity [simp]: "entity_fault ts (Err (AuthzEntity m))"
  by (simp add: entity_fault_def)

lemma entity_uid_fault: "faults_only (entity_fault ts) (entity_uid_of c t i)"
  by (auto simp: entity_uid_of_def intro!: faults_only_and_then faults_only_lift_msg)

lemma new_entity_fault: "faults_only (entity_fault ts) (new_entity c u a ps)"
  by (auto simp: new_entity_def intro!: faults_only_lift_msg)

lemma str_attr_fault:
  "cedar_literals_documented c \<Longrightarrow> v \<in> set ts \<Longrightarrow> faults_only (entity_fault ts) (str_attr c v)"
  by (fastforce simp: cedar_literals_documented_def str_attr_def entity_fault_def split: sum.split)

lemma set_attr_fault:
  "cedar_literals_documented c \<Longrightarrow> set vs \<subseteq> set ts \<Longrightarrow> faults_only (entity_fault ts) (set_attr c vs)"
  by (fastforce simp: cedar_literals_documented_def set_attr_def entity_fault_def split: sum.split)

lemma insert_attrs_fault:
  "cedar_literals_documented c \<Longrightarrow> set (map snd kvs) \<subseteq> set ts \<Longrightarrow>
   faults_only (entity_fault ts) (try_fold (insert_str_attr c) kvs m)"
  by (force simp: insert_str_attr_def intro!: faults_only_try_fold faults_only_and_then str_attr_fault)

lemma opt_attr_fault:
  "cedar_literals_documented c \<Longrightarrow> set_option v \<subseteq> set ts \<Longrightarrow> faults_only (entity_fault ts) (opt_attr c k v m)"
  by (auto simp: opt_attr_def insert_str_attr_def intro!: faults_only_and_then str_attr_fault split: option.split)

lemma parents_fault: "faults_only (entity_fault ts) (try_fold (add_group_parent c) gs ps)"
  by (auto simp: add_group_parent_def intro!: faults_only_try_fold faults_only_and_then entity_uid_fault)

lemma collect_links_fault: "faults_only (entity_fault ts) (collect_links c req gm)"
  by (auto simp: collect_links_def collect_relationship_def collect_group_def collect_member_def
      split: relationship_kind.split intro!: faults_only_try_fold faults_only_and_then entity_uid_fault)

lemma add_group_entity_fault: "faults_only (entity_fault ts) (try_fold (add_group_entity c) gs es)"
  by (auto simp: add_group_entity_def
      intro!: faults_only_try_fold faults_only_and_then entity_uid_fault new_entity_fault)

lemma action_entity_fault: "faults_only (entity_fault ts) (action_entity c a)"
  by (auto simp: action_entity_def intro!: faults_only_and_then entity_uid_fault new_entity_fault)

lemmas attr_faults = set_attr_fault insert_attrs_fault opt_attr_fault str_attr_fault

definition link_texts_within :: "string set \<Rightarrow> links \<Rightarrow> bool" where
  "link_texts_within ts l \<longleftrightarrow>
     (\<forall>i. set (hm_list (lk_direct_reports l) i) \<subseteq> ts) \<and> (\<forall>i. set (hm_list (lk_manager_of l) i) \<subseteq> ts)"

lemma collect_links_texts:
  assumes "collect_links c req gm = Ok l"
  shows "link_texts_within (rl_to ` set (rq_relationships req)) l"
proof -
  let ?P = "link_texts_within (rl_to ` set (rq_relationships req))"
  from assms obtain l1 where
      1: "try_fold (collect_relationship c) (rq_relationships req) no_links = Ok l1"
    and 2: "try_fold (collect_group c) gm l1 = Ok l"
    by (auto simp: collect_links_def and_then_Inr_iff)
  have start: "?P no_links" by (simp add: link_texts_within_def no_links_def)
  have rel: "?P t" if "r \<in> set (rq_relationships req)" "?P s" "collect_relationship c r s = Ok t" for r s t
    using that
    by (fastforce simp: collect_relationship_def link_texts_within_def and_then_Inr_iff split: relationship_kind.splits)
  have member: "?P t" if "?P s" "collect_member c g m s = Ok t" for g m s t
    using that by (fastforce simp: collect_member_def link_texts_within_def and_then_Inr_iff)
  have grp: "?P t" if "?P s" "collect_group c g s = Ok t" for g s t
    using that member unfolding collect_group_def by (blast intro: try_fold_invariant [of _ _ s t ?P])
  show ?thesis
    by (rule try_fold_invariant [OF 2, where P = ?P])
       (use try_fold_invariant [OF 1, where P = ?P] start rel grp in blast)+
qed

lemma hm_get_list: "(case m k of None \<Rightarrow> [] | Some vs \<Rightarrow> vs) = hm_list m k"
  by (simp add: hm_list_def)

lemma principal_entity_fault:
  assumes c: "cedar_literals_documented c" and l: "collect_links c req gm = Ok l"
  shows "faults_only (entity_fault (attr_texts req)) (principal_entity c req l)"
proof -
  have links: "set (hm_list (lk_direct_reports l) i) \<subseteq> set (attr_texts req)"
      "set (hm_list (lk_manager_of l) i) \<subseteq> set (attr_texts req)" for i
    using collect_links_texts [OF l] by (fastforce simp: link_texts_within_def attr_texts_def Let_def)+
  have managers: "lk_manager_of l i = Some ms \<Longrightarrow> set ms \<subseteq> set (attr_texts req)" for i ms
    using links(2) [of i] by (simp add: hm_list_def)
  have own: "set (pr_roles (rq_principal req)) \<subseteq> set (attr_texts req)"
      "set (pr_groups (rq_principal req)) \<subseteq> set (attr_texts req)"
      "set (map snd (pr_attrs (rq_principal req))) \<subseteq> set (attr_texts req)"
      "set_option (rq_on_behalf_of req) \<subseteq> set (attr_texts req)"
      "set_option (rq_acting_as req) \<subseteq> set (attr_texts req)"
    by (auto simp: attr_texts_def Let_def)
  have "faults_only (entity_fault (attr_texts req)) (principal_attrs c req l)"
    unfolding principal_attrs_def Let_def hm_get_list
    by (intro faults_only_and_then attr_faults c own links; simp split: option.split)
       (auto intro!: faults_only_and_then attr_faults c own links dest: managers)
  then show ?thesis
    by (auto simp: principal_entity_def
        intro!: faults_only_and_then entity_uid_fault parents_fault new_entity_fault)
qed

lemma subject_entity_fault:
  assumes c: "cedar_literals_documented c" and s: "rq_subject req = Some s"
  shows "faults_only (entity_fault (attr_texts req)) (subject_entity c s l)"
  unfolding subject_entity_def
  by (intro faults_only_and_then entity_uid_fault parents_fault new_entity_fault attr_faults c)
     (auto simp: attr_texts_def Let_def s)

lemma resource_entity_fault:
  assumes c: "cedar_literals_documented c"
  shows "faults_only (entity_fault (attr_texts req)) (resource_entity c (rq_resource req))"
  unfolding resource_entity_def
  by (intro faults_only_and_then entity_uid_fault new_entity_fault attr_faults c)
     (auto simp: attr_texts_def Let_def)

lemma build_entities_fault:
  assumes c: "cedar_literals_documented c"
  shows "faults_only (entity_fault (attr_texts req)) (build_entities c req gm)"
  unfolding build_entities_def
  by (intro faults_only_and_then collect_links_fault principal_entity_fault [OF c]
        resource_entity_fault [OF c] add_group_entity_fault action_entity_fault)
     (auto split: option.split intro!: faults_only_and_then subject_entity_fault [OF c])

definition cedar_fault :: "authz_error fault \<Rightarrow> bool" where
  "cedar_fault f \<longleftrightarrow> (\<exists>m. f = Err (AuthzCedar m))"

lemma cedar_fault_Cedar [simp]: "cedar_fault (Err (AuthzCedar m))"
  by (simp add: cedar_fault_def)

lemma request_uid_fault: "faults_only cedar_fault (request_uid_of c t i)"
  by (auto simp: request_uid_of_def intro!: faults_only_and_then faults_only_lift_msg)

lemma evaluate_fault_cases:
  assumes "evaluate c env req cfg = Inl f"
  obtains "validate req = Inl f"
    | "validate req = Ok ()" "build_entities c req (ec_group_members cfg) = Inl f"
    | "is_ok (build_entities c req (ec_group_members cfg))" "cedar_fault f"
proof -
  let ?rest = "\<lambda>es. and_then (lift_msg AuthzCedar (cd_from_entities c es)) (\<lambda>entities.
     and_then (request_uid_of c ''User'' (pr_id (rq_principal req))) (\<lambda>p.
     and_then (request_uid_of c ''Action'' (to_ascii_uppercase (ac_name (rq_action req)))) (\<lambda>a.
     and_then (request_uid_of c ''Resource'' (resource_id (rq_resource req))) (\<lambda>r.
     and_then (lift_msg (\<lambda>e. AuthzCedar (''context: '' @ e)) (cd_context c (build_context_json req))) (\<lambda>ctx.
     and_then (lift_msg AuthzCedar (cd_request c p a r ctx)) (\<lambda>rq.
       Ok (cd_authorize c rq (ec_policy_set cfg) entities)))))))"
  have "faults_only cedar_fault (?rest es)" for es
    by (intro faults_only_and_then request_uid_fault faults_only_lift_msg) simp_all
  note rest = faults_onlyD [OF this]
  have resp: "cedar_response_of c req cfg = Inl f"
    using assms by (simp add: evaluate_def and_then_Inl_iff)
  show thesis
  proof (cases "validate req")
    case valid: (Inr u)
    show ?thesis
    proof (cases "build_entities c req (ec_group_members cfg)")
      case (Inl f')
      then show ?thesis using resp valid that by (simp add: cedar_response_of_def)
    next
      case (Inr es)
      then show ?thesis using resp valid rest [of es f] that(3) by (simp add: cedar_response_of_def)
    qed
  qed (use resp that in \<open>simp add: cedar_response_of_def\<close>)
qed


text \<open>Cedar's part in the witnesses: a literal whose closing quote is escaped is rejected.\<close>

definition literal_cedar :: "(string, string, string, string entity list, cedar_call \<times> string) cedar" where
  "literal_cedar = (reference_cedar Inr Inr deny_all)
     \<lparr>cd_restricted := (\<lambda>s. if ends_with [BSL, DQ] s then Inl ''unterminated'' else Inr s)\<rparr>"

lemma replace_DQ_no_suffix: "BSL \<notin> set v \<Longrightarrow> \<not> suffix [BSL, DQ] (attr_literal v)"
proof (cases v rule: rev_cases)
  case (snoc w c)
  moreover assume "BSL \<notin> set v"
  ultimately show ?thesis
    by (auto simp: attr_literal_def quoted_def replace_char_def suffix_def)
qed (auto simp: attr_literal_def quoted_def replace_char_def suffix_def Cons_eq_append_conv)

lemma literal_cedar_documented: "cedar_literals_documented literal_cedar"
  using replace_DQ_no_suffix
  by (auto simp: cedar_literals_documented_def literal_cedar_def ends_with_iff suffix_def)


end
