(* ===== verification/Json_Context.thy ===== *)
theory Json_Context
  imports Core_Evaluate
begin

text \<open>
  What the policy context text denotes. \<open>parse_context\<close> reads a JSON object (RFC 8259) whose
  values are strings, booleans and arrays of strings, the shapes \<open>build_context_json\<close> writes;
  the theorem says which key/value list the written text denotes and for which requests it is
  JSON at all. The reader is the specification side of \<open>evaluate.rs\<close>: it rejects raw control
  characters inside strings, as the grammar does. \<open>\u\<close> escapes are outside the fragment.
\<close>

section \<open>A reader for the context fragment of JSON\<close>

datatype ctx_value = CStr string | CBool bool | CStrs "string list"

definition is_control :: "char \<Rightarrow> bool" where
  "is_control c \<longleftrightarrow> (of_char c :: nat) < 32"

definition json_ws :: "char \<Rightarrow> bool" where
  "json_ws c \<longleftrightarrow> c \<in> {SP, NL, CR, CHR 0x09}"

definition skip_ws :: "string \<Rightarrow> string" where
  "skip_ws s = dropWhile json_ws s"

definition unescape :: "char \<Rightarrow> char option" where
  "unescape d =
     (if d = DQ \<or> d = BSL \<or> d = CHR ''/'' then Some d
      else if d = CHR ''n'' then Some NL
      else if d = CHR ''r'' then Some CR
      else if d = CHR ''t'' then Some (CHR 0x09)
      else if d = CHR ''b'' then Some (CHR 0x08)
      else if d = CHR ''f'' then Some (CHR 0x0C)
      else None)"

text \<open>The rest of a string literal after its opening quote: its value and what follows.\<close>

fun scan_string :: "string \<Rightarrow> (string \<times> string) option" where
  "scan_string [] = None"
| "scan_string (c # cs) =
     (if c = DQ then Some ([], cs)
      else if c = BSL then
        (case cs of
           [] \<Rightarrow> None
         | d # ds \<Rightarrow> (case unescape d of
             None \<Rightarrow> None
           | Some x \<Rightarrow> map_option (\<lambda>(s, r). (x # s, r)) (scan_string ds)))
      else if is_control c then None
      else map_option (\<lambda>(s, r). (c # s, r)) (scan_string cs))"

lemma scan_string_shorter: "scan_string s = Some (v, r) \<Longrightarrow> length r < length s"
  by (induction s arbitrary: v rule: scan_string.induct)
     (fastforce split: if_splits list.splits option.splits)+

lemma skip_ws_length: "length (skip_ws s) \<le> length s"
  by (simp add: skip_ws_def length_dropWhile_le)

text \<open>The items of an array of strings, from the first item on.\<close>

function scan_items :: "string \<Rightarrow> (string list \<times> string) option" where
  "scan_items s =
     (case strip_prefix [DQ] s of
        None \<Rightarrow> None
      | Some cs \<Rightarrow> (case scan_string cs of
          None \<Rightarrow> None
        | Some (x, r) \<Rightarrow> (case skip_ws r of
            [] \<Rightarrow> None
          | d # r' \<Rightarrow> (if d = CHR '']'' then Some ([x], r')
              else if d = CHR '','' then map_option (\<lambda>(xs, r''). (x # xs, r'')) (scan_items (skip_ws r'))
              else None))))"
  by pat_completeness auto
termination
proof (relation "measure length", goal_cases)
  case (2 s cs p x r d r')
  from 2(3) have "length r < length cs" using 2(2) scan_string_shorter by (metis prod.collapse)
  moreover have "length (skip_ws r') < length (skip_ws r)"
    using skip_ws_length [of r'] 2(4) by simp
  moreover have "length (skip_ws r) \<le> length r" by (rule skip_ws_length)
  ultimately show ?case using 2(1) by (simp add: strip_prefix_Some_iff)
qed simp

declare scan_items.simps [simp del]

definition scan_value :: "string \<Rightarrow> (ctx_value \<times> string) option" where
  "scan_value s =
     (case s of
        [] \<Rightarrow> None
      | c # cs \<Rightarrow>
          if c = DQ then map_option (\<lambda>(v, r). (CStr v, r)) (scan_string cs)
          else if c = CHR ''['' then
            (case strip_prefix '']'' (skip_ws cs) of
               Some r \<Rightarrow> Some (CStrs [], r)
             | None \<Rightarrow> map_option (\<lambda>(xs, r). (CStrs xs, r)) (scan_items (skip_ws cs)))
          else (case strip_prefix ''true'' s of
                  Some r \<Rightarrow> Some (CBool True, r)
                | None \<Rightarrow> map_option (\<lambda>r. (CBool False, r)) (strip_prefix ''false'' s)))"

definition scan_member :: "string \<Rightarrow> ((string \<times> ctx_value) \<times> string) option" where
  "scan_member s =
     (case strip_prefix [DQ] s of
        None \<Rightarrow> None
      | Some cs \<Rightarrow> (case scan_string cs of
          None \<Rightarrow> None
        | Some (k, r) \<Rightarrow> (case strip_prefix '':'' (skip_ws r) of
            None \<Rightarrow> None
          | Some r' \<Rightarrow> map_option (\<lambda>(v, t). ((k, v), t)) (scan_value (skip_ws r')))))"

text \<open>The members of an object, from the first member to the closing brace; the fuel is the
  number of members that may follow.\<close>

fun scan_members :: "nat \<Rightarrow> string \<Rightarrow> ((string \<times> ctx_value) list \<times> string) option" where
  "scan_members 0 s = None"
| "scan_members (Suc n) s =
     (case scan_member s of
        None \<Rightarrow> None
      | Some (kv, r) \<Rightarrow> (case skip_ws r of
          [] \<Rightarrow> None
        | d # r' \<Rightarrow> (if d = CHR ''}'' then Some ([kv], r')
            else if d = CHR '','' then map_option (\<lambda>(kvs, t). (kv # kvs, t)) (scan_members n (skip_ws r'))
            else None)))"

definition parse_context :: "string \<Rightarrow> (string \<times> ctx_value) list option" where
  "parse_context s =
     (case strip_prefix ''{'' (skip_ws s) of
        None \<Rightarrow> None
      | Some r \<Rightarrow> (case scan_members (length s) (skip_ws r) of
          Some (kvs, t) \<Rightarrow> if skip_ws t = [] then Some kvs else None
        | None \<Rightarrow> None))"

section \<open>What a request means to the policies\<close>

definition context_values :: "authz_request \<Rightarrow> (string \<times> ctx_value) list" where
  "context_values req =
     [(''action_name'', CStr (to_ascii_uppercase (ac_name (rq_action req)))),
      (''resource_kind'', CStr (to_ascii_uppercase (rs_kind (rq_resource req)))),
      (''subject_is_self'', CBool (subject_is_self req)),
      (''subject_in_direct_reports'', CBool (subject_in_direct_reports req)),
      (''subject_id'', CStr (case rq_subject req of None \<Rightarrow> [] | Some s \<Rightarrow> sj_id s)),
      (''subject_groups'', CStrs (case rq_subject req of None \<Rightarrow> [] | Some s \<Rightarrow> sj_groups s))] @
     map (\<lambda>(k, v). (k, CStr v)) (cx_values (rq_context req)) @
     [(''principal_roles'', CStrs (pr_roles (rq_principal req))),
      (''principal_groups'', CStrs (pr_groups (rq_principal req)))]"

definition json_clean :: "string \<Rightarrow> bool" where
  "json_clean s \<longleftrightarrow> (\<forall>c\<in>set s. \<not> is_control c)"

definition plain :: "string \<Rightarrow> bool" where
  "plain s \<longleftrightarrow> (\<forall>c\<in>set s. \<not> is_control c \<and> c \<noteq> DQ \<and> c \<noteq> BSL)"

text \<open>Every free text of the request that reaches the context.\<close>

definition free_texts :: "authz_request \<Rightarrow> string list" where
  "free_texts req =
     (case rq_subject req of None \<Rightarrow> [] | Some s \<Rightarrow> sj_id s # sj_groups s) @
     concat (map (\<lambda>(k, v). [k, v]) (cx_values (rq_context req))) @
     pr_roles (rq_principal req) @ pr_groups (rq_principal req)"

section \<open>Reading back what is written\<close>

lemma escape_simps:
  "escape [] = []"
  "escape (c # s) = (if c = BSL then [BSL, BSL] else if c = DQ then [BSL, DQ] else [c]) @ escape s"
  by (auto simp: escape_def replace_char_def)

lemma skip_ws_simps [simp]:
  "skip_ws (SP # s) = skip_ws s"
  "skip_ws [] = []"
  "\<not> json_ws c \<Longrightarrow> skip_ws (c # s) = c # s"
  by (simp_all add: skip_ws_def json_ws_def)

lemma json_ws_simps [simp]: "\<not> json_ws DQ" "\<not> json_ws (CHR '','')" "\<not> json_ws (CHR '']'')"
    "\<not> json_ws (CHR ''}'')" "\<not> json_ws (CHR ''['')" "\<not> json_ws (CHR '':'')" "\<not> json_ws (CHR ''{'')"
    "\<not> json_ws (CHR ''t'')" "\<not> json_ws (CHR ''f'')"
  by (simp_all add: json_ws_def)

lemma is_control_simps [simp]: "\<not> is_control DQ" "\<not> is_control BSL" "\<not> is_control SP" "is_control NL" "is_control CR"
  by (simp_all add: is_control_def)

lemma scan_escape:
  "scan_string (escape s @ DQ # r) = (if json_clean s then Some (s, r) else None)"
  by (induction s) (auto simp: escape_simps json_clean_def unescape_def)

lemma scan_plain: "plain s \<Longrightarrow> scan_string (s @ DQ # r) = Some (s, r)"
  by (induction s) (auto simp: plain_def)

lemma plain_clean: "plain s \<Longrightarrow> json_clean s"
  by (auto simp: plain_def json_clean_def)

lemma scan_items_json:
  "xs \<noteq> [] \<Longrightarrow>
   scan_items (join '', '' (map (\<lambda>g. quoted (escape g)) xs) @ CHR '']'' # r) =
     (if list_all json_clean xs then Some (xs, r) else None)"
proof (induction xs)
  case (Cons x xs)
  show ?case
  proof (cases xs)
    case Nil
    then show ?thesis
      by (subst scan_items.simps) (simp add: quoted_def scan_escape)
  next
    case (Cons y ys)
    let ?t = "join '', '' (map (\<lambda>g. quoted (escape g)) xs) @ CHR '']'' # r"
    have "scan_items ?t = (if list_all json_clean xs then Some (xs, r) else None)"
      using Cons.IH Cons by simp
    moreover have "skip_ws ?t = ?t" using Cons by (cases ys) (simp_all add: quoted_def)
    moreover have "join '', '' (map (\<lambda>g. quoted (escape g)) (x # xs)) @ CHR '']'' # r
        = DQ # escape x @ DQ # CHR '','' # SP # ?t"
      using Cons by (simp add: quoted_def)
    ultimately show ?thesis
      by (subst scan_items.simps) (simp add: scan_escape)
  qed
qed simp

lemma scan_value_strings:
  "scan_value (json_strings xs @ r) = (if list_all json_clean xs then Some (CStrs xs, r) else None)"
proof (cases xs)
  case (Cons x xs')
  let ?t = "join '', '' (map (\<lambda>g. quoted (escape g)) xs) @ CHR '']'' # r"
  have "skip_ws ?t = ?t" "strip_prefix '']'' ?t = None"
    using Cons by (cases xs'; simp add: quoted_def)+
  moreover have "scan_items ?t = (if list_all json_clean xs then Some (xs, r) else None)"
    using scan_items_json Cons by blast
  ultimately show ?thesis by (simp add: json_strings_def scan_value_def)
qed (simp add: json_strings_def scan_value_def)

lemma scan_value_string:
  "scan_value (quoted (escape v) @ r) = (if json_clean v then Some (CStr v, r) else None)"
  by (simp add: quoted_def scan_value_def scan_escape)

lemma scan_value_plain: "plain v \<Longrightarrow> scan_value (quoted v @ r) = Some (CStr v, r)"
  by (simp add: quoted_def scan_value_def scan_plain)

lemma scan_value_bool: "scan_value (json_bool b @ r) = Some (CBool b, r)"
  by (simp add: json_bool_def scan_value_def)

text \<open>A text that always reads as one member (or never does).\<close>

definition reads :: "string \<Rightarrow> (string \<times> ctx_value) option \<Rightarrow> bool" where
  "reads t m \<longleftrightarrow> (\<exists>t'. t = DQ # t') \<and> (\<forall>r. scan_member (t @ r) = map_option (\<lambda>kv. (kv, r)) m)"

definition guarded :: "bool \<Rightarrow> 'a \<Rightarrow> 'a option" where
  "guarded b x = (if b then Some x else None)"

lemma guarded_simps [simp]: "guarded True x = Some x" "guarded False x = None"
  by (simp_all add: guarded_def)

lemma reads_pair:
  assumes "\<And>r. scan_string (k' @ DQ # r) = (if a then Some (k, r) else None)"
    and "\<And>r. scan_value (t @ r) = (if b then Some (v, r) else None)"
    and "t \<noteq> []" "\<not> json_ws (hd t)"
  shows "reads (json_pair k' t) (guarded (a \<and> b) (k, v))"
proof -
  obtain c cs where "t = c # cs" "\<not> json_ws c" using assms(3,4) by (cases t) auto
  then have "\<And>r. skip_ws (t @ r) = t @ r" by simp
  then show ?thesis
    using assms(1,2)
    by (auto simp: reads_def json_pair_def quoted_def scan_member_def guarded_def)
qed

text \<open>A list of texts that read as members, written as an object, reads as the list of them.\<close>

fun all_some :: "'a option list \<Rightarrow> 'a list option" where
  "all_some [] = Some []"
| "all_some (None # xs) = None"
| "all_some (Some x # xs) = map_option (Cons x) (all_some xs)"

lemma all_some_map_Some [simp]: "all_some (map Some xs) = Some xs"
  by (induction xs) auto

lemma all_some_append:
  "all_some (xs @ ys) = (case all_some xs of None \<Rightarrow> None | Some as \<Rightarrow> map_option (\<lambda>bs. as @ bs) (all_some ys))"
  by (cases "all_some ys"; induction xs rule: all_some.induct) (auto split: option.splits)

lemma all_some_guard:
  "all_some (map (\<lambda>x. guarded (P x) (f x)) xs) = guarded (list_all P xs) (map f xs)"
  by (induction xs) (auto simp: guarded_def)

lemma all_some_guarded [simp]: "all_some (guarded b x # xs) = (if b then map_option (Cons x) (all_some xs) else None)"
  by (simp add: guarded_def)

lemma scan_members_reads:
  assumes "list_all2 reads ts ms" "ts \<noteq> []" "length ts \<le> n"
  shows "scan_members n (join '', '' ts @ CHR ''}'' # r) = map_option (\<lambda>kvs. (kvs, r)) (all_some ms)"
  using assms
proof (induction ts ms arbitrary: n rule: list_all2_induct)
  case (Cons t ts m ms)
  then obtain k where n: "n = Suc k" by (cases n) auto
  show ?case
  proof (cases ts)
    case Nil
    with Cons.hyps have "ms = []" by simp
    with Nil Cons.hyps n show ?thesis by (cases m) (auto simp: reads_def)
  next
    case (Cons u us)
    let ?t = "join '', '' ts @ CHR ''}'' # r"
    obtain u' where "u = DQ # u'" using Cons.hyps(2) Cons by (auto simp: reads_def list_all2_Cons1)
    then have s: "skip_ws ?t = ?t" using Cons by (cases us) simp_all
    have e: "join '', '' (t # ts) @ CHR ''}'' # r = t @ CHR '','' # SP # ?t" using Cons by simp
    have "scan_members k ?t = map_option (\<lambda>kvs. (kvs, r)) (all_some ms)"
      using Cons.IH [of k] Cons.prems n Cons by simp
    then show ?thesis
      using Cons.hyps(1) n unfolding e
      by (cases m) (simp_all add: reads_def s option.map_comp comp_def)
  qed
qed simp


text \<open>The members \<open>build_context_json\<close> writes.\<close>

lemma reads_string:
  "plain k \<Longrightarrow> reads (json_pair k (quoted (escape v))) (guarded (json_clean v) (k, CStr v))"
  by (rule reads_pair [where a = True, simplified])
     (simp_all add: scan_plain scan_value_string [simplified quoted_def, simplified] quoted_def)

lemma reads_plain: "plain k \<Longrightarrow> plain v \<Longrightarrow> reads (json_pair k (quoted v)) (Some (k, CStr v))"
  by (rule reads_pair [where a = True and b = True, simplified])
     (simp_all add: scan_plain scan_value_plain [simplified quoted_def, simplified] quoted_def)

lemma reads_bool: "plain k \<Longrightarrow> reads (json_pair k (json_bool b)) (Some (k, CBool b))"
  by (rule reads_pair [where a = True and b = True, simplified])
     (simp_all add: scan_plain scan_value_bool, simp_all add: json_bool_def)

lemma reads_strings:
  "plain k \<Longrightarrow> reads (json_pair k (json_strings xs)) (guarded (list_all json_clean xs) (k, CStrs xs))"
  by (rule reads_pair [where a = True, simplified])
     (simp_all add: scan_plain scan_value_strings, simp_all add: json_strings_def)

lemma reads_context:
  "reads (json_pair (escape k) (quoted (escape v))) (guarded (json_clean k \<and> json_clean v) (k, CStr v))"
  by (rule reads_pair)
     (simp_all add: scan_escape scan_value_string [simplified quoted_def, simplified] quoted_def)

lemma upper_char_eq_iff:
  "upper_char c = DQ \<longleftrightarrow> c = DQ" "upper_char c = BSL \<longleftrightarrow> c = BSL" "is_control (upper_char c) \<longleftrightarrow> is_control c"
proof -
  have "(of_char (upper_char c) :: nat) = of_char DQ \<longleftrightarrow> (of_char c :: nat) = of_char DQ"
    by (simp add: of_char_upper) arith
  then show "upper_char c = DQ \<longleftrightarrow> c = DQ" by (simp only: of_char_eq_iff)
  have "(of_char (upper_char c) :: nat) = of_char BSL \<longleftrightarrow> (of_char c :: nat) = of_char BSL"
    by (simp add: of_char_upper) arith
  then show "upper_char c = BSL \<longleftrightarrow> c = BSL" by (simp only: of_char_eq_iff)
  show "is_control (upper_char c) \<longleftrightarrow> is_control c"
    by (simp add: is_control_def of_char_upper) arith
qed

lemma plain_upper [simp]: "plain (to_ascii_uppercase s) \<longleftrightarrow> plain s"
  by (simp add: plain_def to_ascii_uppercase_def upper_char_eq_iff)

lemma plain_simps [simp]: "plain []" "plain (c # s) \<longleftrightarrow> \<not> is_control c \<and> c \<noteq> DQ \<and> c \<noteq> BSL \<and> plain s"
  by (auto simp: plain_def)

lemma plain_keys:
  "plain ''action_name''" "plain ''resource_kind''" "plain ''subject_is_self''"
  "plain ''subject_in_direct_reports''" "plain ''subject_id''" "plain ''subject_groups''"
  "plain ''principal_roles''" "plain ''principal_groups''"
  by (simp_all add: is_control_def)

definition subject_text :: "authz_request \<Rightarrow> string" where
  "subject_text req = (case rq_subject req of None \<Rightarrow> [] | Some s \<Rightarrow> sj_id s)"

definition subject_group_texts :: "authz_request \<Rightarrow> string list" where
  "subject_group_texts req = (case rq_subject req of None \<Rightarrow> [] | Some s \<Rightarrow> sj_groups s)"

definition context_reads :: "authz_request \<Rightarrow> (string \<times> ctx_value) option list" where
  "context_reads req =
     [Some (''action_name'', CStr (to_ascii_uppercase (ac_name (rq_action req)))),
      Some (''resource_kind'', CStr (to_ascii_uppercase (rs_kind (rq_resource req)))),
      Some (''subject_is_self'', CBool (subject_is_self req)),
      Some (''subject_in_direct_reports'', CBool (subject_in_direct_reports req)),
      guarded (json_clean (subject_text req)) (''subject_id'', CStr (subject_text req)),
      guarded (list_all json_clean (subject_group_texts req)) (''subject_groups'', CStrs (subject_group_texts req))] @
     map (\<lambda>kv. guarded (json_clean (fst kv) \<and> json_clean (snd kv)) (fst kv, CStr (snd kv))) (cx_values (rq_context req)) @
     [guarded (list_all json_clean (pr_roles (rq_principal req))) (''principal_roles'', CStrs (pr_roles (rq_principal req))),
      guarded (list_all json_clean (pr_groups (rq_principal req))) (''principal_groups'', CStrs (pr_groups (rq_principal req)))]"

lemma context_pairs_eq:
  "context_pairs req =
     [json_pair ''action_name'' (quoted (to_ascii_uppercase (ac_name (rq_action req)))),
      json_pair ''resource_kind'' (quoted (to_ascii_uppercase (rs_kind (rq_resource req)))),
      json_pair ''subject_is_self'' (json_bool (subject_is_self req)),
      json_pair ''subject_in_direct_reports'' (json_bool (subject_in_direct_reports req)),
      json_pair ''subject_id'' (quoted (escape (subject_text req))),
      json_pair ''subject_groups'' (json_strings (subject_group_texts req))] @
     map (\<lambda>kv. json_pair (escape (fst kv)) (quoted (escape (snd kv)))) (cx_values (rq_context req)) @
     [json_pair ''principal_roles'' (json_strings (pr_roles (rq_principal req))),
      json_pair ''principal_groups'' (json_strings (pr_groups (rq_principal req)))]"
  by (auto simp: context_pairs_def subject_text_def subject_group_texts_def escape_simps json_strings_def
      split: option.splits prod.splits)

lemma context_pairs_reads:
  assumes "plain (ac_name (rq_action req))" "plain (rs_kind (rq_resource req))"
  shows "list_all2 reads (context_pairs req) (context_reads req)"
  unfolding context_pairs_eq context_reads_def using assms
  by (auto simp: list_all2_append list_all2_map1 list_all2_map2 list_all2_same
      intro!: reads_string reads_plain reads_bool reads_strings reads_context plain_keys
      simp del: plain_simps)

lemma free_texts_clean:
  "list_all json_clean (free_texts req) \<longleftrightarrow>
     json_clean (subject_text req) \<and> list_all json_clean (subject_group_texts req) \<and>
     list_all (\<lambda>kv. json_clean (fst kv) \<and> json_clean (snd kv)) (cx_values (rq_context req)) \<and>
     list_all json_clean (pr_roles (rq_principal req)) \<and> list_all json_clean (pr_groups (rq_principal req))"
proof -
  have "list_all json_clean (concat (map (\<lambda>(k, v). [k, v]) kvs)) \<longleftrightarrow>
      list_all (\<lambda>kv. json_clean (fst kv) \<and> json_clean (snd kv)) kvs" for kvs :: "string index_map"
    by (induction kvs) auto
  moreover have "json_clean []" by (simp add: json_clean_def)
  ultimately show ?thesis
    by (auto simp: free_texts_def subject_text_def subject_group_texts_def split: option.splits)
qed

lemma context_reads_values:
  "all_some (context_reads req) =
     (if list_all json_clean (free_texts req) then Some (context_values req) else None)"
  unfolding free_texts_clean
  by (simp add: context_reads_def all_some_append all_some_guard context_values_def)
     (simp add: guarded_def subject_text_def subject_group_texts_def case_prod_unfold split: option.splits)

lemma parse_context_build:
  assumes "plain (ac_name (rq_action req))" "plain (rs_kind (rq_resource req))"
  shows "parse_context (build_context_json req) =
     (if list_all json_clean (free_texts req) then Some (context_values req) else None)"
proof -
  let ?t = "join '', '' (context_pairs req) @ CHR ''}'' # []"
  have ne: "context_pairs req \<noteq> []" by (simp add: context_pairs_def)
  then obtain p ps where ps: "context_pairs req = p # ps" by (cases "context_pairs req") auto
  with context_pairs_reads [OF assms] obtain p' where p: "p = DQ # p'"
    by (auto simp: list_all2_Cons1 reads_def)
  have s: "skip_ws ?t = ?t" unfolding ps p by (cases ps) simp_all
  have "length (context_pairs req) \<le> length (build_context_json req)"
  proof -
    have "length ts \<le> Suc (length (join '', '' ts))" for ts :: "string list"
      by (induction "'', ''" ts rule: join.induct) auto
    then show ?thesis by (simp add: build_context_json_def le_SucI)
  qed
  then have "scan_members (length (build_context_json req)) ?t =
      map_option (\<lambda>kvs. (kvs, [])) (all_some (context_reads req))"
    using scan_members_reads [OF context_pairs_reads [OF assms] ne] by blast
  then show ?thesis
    using s by (simp add: parse_context_def build_context_json_def context_reads_values)
qed

text \<open>C17: The policy context of a request whose action and resource kind hold no quote, backslash
  or control character is the JSON text of exactly its context values: action and kind in upper
  case, the two subject flags, the subject, the request's own context values and the principal's
  roles and groups, with every quote and backslash in a free text escaped. It is not JSON at all
  exactly when one of the free texts (such as a chat prompt) contains a control character, because
  \<open>escape\<close> leaves control characters as they are.\<close>

theorem context_json_denotes:
  assumes "plain (ac_name (rq_action req))" "plain (rs_kind (rq_resource req))"
  shows "parse_context (build_context_json req) =
     (if list_all json_clean (free_texts req) then Some (context_values req) else None)"
  using parse_context_build [OF assms] .

definition example_request :: authz_request where
  "example_request =
     \<lparr>rq_principal = with_roles ''user:hr-head'' [''HR_HEAD''], rq_action = action_new ''READ'',
      rq_resource = resource_of_kind ''TRAVEL_EXPENSE'',
      rq_subject = Some \<lparr>sj_id = ''employee:alice'', sj_kind = ''Employee'', sj_groups = [''ENGINEERING''], sj_attrs = []\<rparr>,
      rq_context = \<lparr>cx_values = [(''nl_utterance'', ''show alice expenses'')]\<rparr>,
      rq_relationships = [\<lparr>rl_kind = DirectReports, rl_from = ''user:hr-head'', rl_to = ''employee:alice''\<rparr>],
      rq_acting_as = None, rq_on_behalf_of = None\<rparr>"

theorem context_json_denotes_witness:
  "parse_context (build_context_json example_request) = Some (context_values example_request)
   \<and> parse_context (build_context_json (example_request\<lparr>rq_context := \<lparr>cx_values = [(''nl_utterance'', [NL])]\<rparr>\<rparr>)) = None"
proof -
  let ?r2 = "example_request\<lparr>rq_context := \<lparr>cx_values = [(''nl_utterance'', [NL])]\<rparr>\<rparr>"
  have p: "plain (ac_name (rq_action example_request))" "plain (rs_kind (rq_resource example_request))"
    by (simp_all add: example_request_def action_new_def resource_of_kind_def is_control_def)
  have c: "list_all json_clean (free_texts example_request)" "\<not> list_all json_clean (free_texts ?r2)"
    by (simp_all add: example_request_def free_texts_def with_roles_def json_clean_def is_control_def)
  show ?thesis
    using context_json_denotes [OF p] context_json_denotes [of ?r2] p c by simp
qed

end
