(* ===== verification/Policy_Translate.thy ===== *)
theory Policy_Translate
  imports Policy_Dsl Json_Context
begin

text \<open>
  The translation of DSL policies to Cedar text (\<open>authz-policy/src/translate.rs\<close>), the conditions
  that text denotes, and their meaning for a request: the text is the rendering of a small abstract
  syntax, and under the values of the policy context a policy's conditions hold exactly when the
  request has the roles, subject and groups the DSL policy asks for.
\<close>

section \<open>The translation\<close>

definition role_check :: "string \<Rightarrow> string" where
  "role_check r = ''context.principal_roles.contains('' @ quoted r @ '')''"

definition subject_check :: "string \<Rightarrow> string" where
  "subject_check s =
     (if s = ''SELF'' then ''context.subject_is_self''
      else if s = ''DIRECT_REPORTS'' then ''context.subject_in_direct_reports''
      else ''context.subject_id == '' @ quoted s)"

definition group_check :: "string \<Rightarrow> string" where
  "group_check g = ''context.subject_groups.contains('' @ quoted g @ '')''"

definition any_part :: "string \<Rightarrow> (string \<Rightarrow> string) \<Rightarrow> string list \<Rightarrow> string list" where
  "any_part open_paren f xs = (if xs = [] then [] else [open_paren @ join '' || '' (map f xs) @ '')''])"

definition when_parts :: "dsl_policy \<Rightarrow> string list" where
  "when_parts p =
     [''context.resource_kind == '' @ quoted (dp_resource p), ''context.action_name == '' @ quoted (dp_action p)] @
     any_part ''('' role_check (dp_when_roles p) @
     any_part ''('' subject_check (dp_where_subjects p) @
     any_part ''('' group_check (dp_where_subject_groups p) @
     any_part ''!('' role_check (dp_unless_roles p)"

definition cedar_keyword :: "dsl_effect \<Rightarrow> string" where
  "cedar_keyword e = (case e of DAllow \<Rightarrow> ''permit'' | DDeny \<Rightarrow> ''forbid'' | DReview \<Rightarrow> ''forbid'')"

definition policy_text :: "string \<Rightarrow> string \<Rightarrow> string \<Rightarrow> string list \<Rightarrow> string" where
  "policy_text i effect act parts =
     ''@id('' @ quoted i @ '')'' @ NL # effect @ '' ('' @ NL # ''  principal,'' @ NL #
     ''  action == Action::'' @ quoted act @ '','' @ NL # ''  resource'' @ NL # '') when {'' @ NL # ''  '' @
     join ('' &&'' @ NL # ''  '') parts @ NL # ''};'' @ [NL]"

definition translate_one :: "dsl_policy \<Rightarrow> (policy_error, string) result" where
  "translate_one p = Ok (policy_text (dp_id p) (cedar_keyword (dp_effect p)) (dp_action p) (when_parts p))"

definition append_translation :: "dsl_policy \<Rightarrow> string \<Rightarrow> (policy_error, string) result" where
  "append_translation p out = and_then (translate_one p) (\<lambda>t. Ok (out @ t @ [NL]))"

definition dsl_to_cedar :: "dsl_policy list \<Rightarrow> (policy_error, string) result" where
  "dsl_to_cedar policies =
     try_fold append_translation policies (''// Generated by authz-policy from PAAC DSL'' @ [NL])"

definition cedar_policy_set_from_dsl ::
  "('ps, 'rx, 'ctx, 'es, 'rq) cedar \<Rightarrow> dsl_policy list \<Rightarrow> (policy_error, 'ps) result" where
  "cedar_policy_set_from_dsl c policies =
     and_then (dsl_to_cedar policies) (\<lambda>t. lift_msg PolicyCedar (cd_parse_policies c t))"

section \<open>The conditions a translated policy states\<close>

datatype atom = AttrIs string string | AttrTrue string | AttrHas string string

datatype clause = Atom atom | AnyOf "atom list" | NoneOf "atom list"

datatype cedar_effect = Permit | Forbid

record cedar_policy =
  cp_id :: string
  cp_effect :: cedar_effect
  cp_action :: string
  cp_when :: "clause list"

fun render_atom :: "atom \<Rightarrow> string" where
  "render_atom (AttrIs k v) = ''context.'' @ k @ '' == '' @ quoted v"
| "render_atom (AttrTrue k) = ''context.'' @ k"
| "render_atom (AttrHas k v) = ''context.'' @ k @ ''.contains('' @ quoted v @ '')''"

fun render_clause :: "clause \<Rightarrow> string" where
  "render_clause (Atom a) = render_atom a"
| "render_clause (AnyOf as) = ''('' @ join '' || '' (map render_atom as) @ '')''"
| "render_clause (NoneOf as) = ''!('' @ join '' || '' (map render_atom as) @ '')''"

definition render_policy :: "cedar_policy \<Rightarrow> string" where
  "render_policy p =
     policy_text (cp_id p) (case cp_effect p of Permit \<Rightarrow> ''permit'' | Forbid \<Rightarrow> ''forbid'') (cp_action p)
       (map render_clause (cp_when p))"

definition render_document :: "cedar_policy list \<Rightarrow> string" where
  "render_document ps =
     ''// Generated by authz-policy from PAAC DSL'' @ [NL] @ concat (map (\<lambda>p. render_policy p @ [NL]) ps)"

definition subject_atom :: "string \<Rightarrow> atom" where
  "subject_atom s =
     (if s = ''SELF'' then AttrTrue ''subject_is_self''
      else if s = ''DIRECT_REPORTS'' then AttrTrue ''subject_in_direct_reports''
      else AttrIs ''subject_id'' s)"

definition any_of :: "(string \<Rightarrow> atom) \<Rightarrow> string list \<Rightarrow> clause list" where
  "any_of f xs = (if xs = [] then [] else [AnyOf (map f xs)])"

definition policy_ast :: "dsl_policy \<Rightarrow> cedar_policy" where
  "policy_ast p =
     \<lparr>cp_id = dp_id p, cp_effect = (if dp_effect p = DAllow then Permit else Forbid), cp_action = dp_action p,
      cp_when =
        [Atom (AttrIs ''resource_kind'' (dp_resource p)), Atom (AttrIs ''action_name'' (dp_action p))] @
        any_of (AttrHas ''principal_roles'') (dp_when_roles p) @
        any_of subject_atom (dp_where_subjects p) @
        any_of (AttrHas ''subject_groups'') (dp_where_subject_groups p) @
        (if dp_unless_roles p = [] then [] else [NoneOf (map (AttrHas ''principal_roles'') (dp_unless_roles p))])\<rparr>"

lemma render_checks:
  "render_atom (AttrHas ''principal_roles'' r) = role_check r"
  "render_atom (AttrHas ''subject_groups'' r) = group_check r"
  "render_atom (subject_atom s) = subject_check s"
  by (simp_all add: role_check_def group_check_def subject_check_def subject_atom_def)

lemma render_clauses:
  "map render_clause (cp_when (policy_ast p)) = when_parts p"
proof -
  have r: "map render_clause (any_of f xs) = any_part ''('' (\<lambda>x. render_atom (f x)) xs" for f xs
    by (simp add: any_of_def any_part_def comp_def)
  have n: "map render_clause (if xs = [] then [] else [NoneOf (map f xs)]) = any_part ''!('' (\<lambda>x. render_atom (f x)) xs" for f xs
    by (simp add: any_part_def comp_def)
  show ?thesis
    unfolding policy_ast_def when_parts_def cedar_policy.select_convs map_append r n render_checks
    by simp
qed

lemma translate_one_ast: "translate_one p = Ok (render_policy (policy_ast p))"
  unfolding translate_one_def render_policy_def render_clauses
  by (cases "dp_effect p") (simp_all add: policy_ast_def cedar_keyword_def)

lemma dsl_to_cedar_document:
  "dsl_to_cedar ps = Ok (render_document (map policy_ast ps))"
proof -
  have "try_fold append_translation ps s = Ok (s @ concat (map (\<lambda>p. render_policy p @ [NL]) (map policy_ast ps)))" for s
    by (induction ps arbitrary: s) (simp_all add: append_translation_def translate_one_ast)
  then show ?thesis by (simp add: dsl_to_cedar_def render_document_def)
qed

text \<open>The Cedar document made from a list of policies is the rendering of one abstract policy per
  DSL policy, in order: \<open>permit\<close> for \<open>allow\<close> and \<open>forbid\<close> for both \<open>deny\<close> and \<open>review\<close>, with the kind,
  the action, the roles, the subjects, the subject groups and the negated exempt roles as its
  conditions. The translation never fails.\<close>

theorem dsl_to_cedar_renders:
  "dsl_to_cedar ps = Ok (render_document (map policy_ast ps))"
  by (rule dsl_to_cedar_document)

section \<open>The meaning of the conditions\<close>

text \<open>Cedar's evaluation of these expressions: \<open>None\<close> is an evaluation error (an attribute that is
  missing or of another type), \<open>||\<close> and \<open>&&\<close> stop at the first operand that decides them.\<close>

fun eval_atom :: "(string \<rightharpoonup> ctx_value) \<Rightarrow> atom \<Rightarrow> bool option" where
  "eval_atom ctx (AttrIs k v) = (case ctx k of None \<Rightarrow> None | Some x \<Rightarrow> Some (x = CStr v))"
| "eval_atom ctx (AttrTrue k) = (case ctx k of Some (CBool b) \<Rightarrow> Some b | _ \<Rightarrow> None)"
| "eval_atom ctx (AttrHas k v) = (case ctx k of Some (CStrs xs) \<Rightarrow> Some (v \<in> set xs) | _ \<Rightarrow> None)"

fun eval_any :: "(string \<rightharpoonup> ctx_value) \<Rightarrow> atom list \<Rightarrow> bool option" where
  "eval_any ctx [] = Some False"
| "eval_any ctx (a # as) =
     (case eval_atom ctx a of None \<Rightarrow> None | Some True \<Rightarrow> Some True | Some False \<Rightarrow> eval_any ctx as)"

fun eval_clause :: "(string \<rightharpoonup> ctx_value) \<Rightarrow> clause \<Rightarrow> bool option" where
  "eval_clause ctx (Atom a) = eval_atom ctx a"
| "eval_clause ctx (AnyOf as) = eval_any ctx as"
| "eval_clause ctx (NoneOf as) = map_option Not (eval_any ctx as)"

fun eval_all :: "(string \<rightharpoonup> ctx_value) \<Rightarrow> clause list \<Rightarrow> bool option" where
  "eval_all ctx [] = Some True"
| "eval_all ctx (b # bs) =
     (case eval_clause ctx b of None \<Rightarrow> None | Some False \<Rightarrow> Some False | Some True \<Rightarrow> eval_all ctx bs)"

definition satisfied :: "(string \<rightharpoonup> ctx_value) \<Rightarrow> string \<Rightarrow> cedar_policy \<Rightarrow> bool" where
  "satisfied ctx act p \<longleftrightarrow> act = cp_action p \<and> eval_all ctx (cp_when p) = Some True"

text \<open>What the DSL policy asks of a request, read off the policy and the request directly.\<close>

definition subject_matches :: "authz_request \<Rightarrow> string \<Rightarrow> bool" where
  "subject_matches req s \<longleftrightarrow>
     (if s = ''SELF'' then subject_is_self req
      else if s = ''DIRECT_REPORTS'' then subject_in_direct_reports req
      else s = subject_text req)"

definition policy_applies :: "authz_request \<Rightarrow> dsl_policy \<Rightarrow> bool" where
  "policy_applies req p \<longleftrightarrow>
     to_ascii_uppercase (ac_name (rq_action req)) = dp_action p \<and>
     to_ascii_uppercase (rs_kind (rq_resource req)) = dp_resource p \<and>
     (dp_when_roles p = [] \<or> (\<exists>r\<in>set (dp_when_roles p). r \<in> set (pr_roles (rq_principal req)))) \<and>
     (dp_where_subjects p = [] \<or> (\<exists>s\<in>set (dp_where_subjects p). subject_matches req s)) \<and>
     (dp_where_subject_groups p = [] \<or> (\<exists>g\<in>set (dp_where_subject_groups p). g \<in> set (subject_group_texts req))) \<and>
     \<not> (\<exists>r\<in>set (dp_unless_roles p). r \<in> set (pr_roles (rq_principal req)))"

definition context_of :: "authz_request \<Rightarrow> string \<rightharpoonup> ctx_value" where
  "context_of req = map_of (context_values req)"

definition own_context_keys :: "authz_request \<Rightarrow> bool" where
  "own_context_keys req \<longleftrightarrow> distinct (map fst (context_values req))"

lemma context_of_simps:
  assumes "own_context_keys req"
  shows "context_of req ''action_name'' = Some (CStr (to_ascii_uppercase (ac_name (rq_action req))))"
    and "context_of req ''resource_kind'' = Some (CStr (to_ascii_uppercase (rs_kind (rq_resource req))))"
    and "context_of req ''subject_is_self'' = Some (CBool (subject_is_self req))"
    and "context_of req ''subject_in_direct_reports'' = Some (CBool (subject_in_direct_reports req))"
    and "context_of req ''subject_id'' = Some (CStr (subject_text req))"
    and "context_of req ''subject_groups'' = Some (CStrs (subject_group_texts req))"
    and "context_of req ''principal_roles'' = Some (CStrs (pr_roles (rq_principal req)))"
proof -
  have get: "(k, v) \<in> set (context_values req) \<Longrightarrow> context_of req k = Some v" for k v
    using assms by (simp add: context_of_def own_context_keys_def)
  show "context_of req ''action_name'' = Some (CStr (to_ascii_uppercase (ac_name (rq_action req))))"
      "context_of req ''resource_kind'' = Some (CStr (to_ascii_uppercase (rs_kind (rq_resource req))))"
      "context_of req ''subject_is_self'' = Some (CBool (subject_is_self req))"
      "context_of req ''subject_in_direct_reports'' = Some (CBool (subject_in_direct_reports req))"
      "context_of req ''subject_id'' = Some (CStr (subject_text req))"
      "context_of req ''subject_groups'' = Some (CStrs (subject_group_texts req))"
      "context_of req ''principal_roles'' = Some (CStrs (pr_roles (rq_principal req)))"
    by (rule get, simp add: context_values_def subject_text_def subject_group_texts_def)+
qed

lemma eval_any_total:
  "\<forall>a\<in>set as. eval_atom ctx a = Some (f a) \<Longrightarrow> eval_any ctx as = Some (\<exists>a\<in>set as. f a)"
  by (induction as) (auto split: bool.split)

lemma eval_all_total:
  "\<forall>b\<in>set bs. eval_clause ctx b = Some (f b) \<Longrightarrow> eval_all ctx bs = Some (\<forall>b\<in>set bs. f b)"
  by (induction bs) (auto split: bool.split)

lemma eval_any_map:
  "\<forall>x\<in>set xs. eval_atom ctx (g x) = Some (P x) \<Longrightarrow> eval_any ctx (map g xs) = Some (\<exists>x\<in>set xs. P x)"
  by (induction xs) (auto split: bool.split)

lemma eval_all_append:
  "eval_all ctx (xs @ ys) = Some True \<longleftrightarrow> eval_all ctx xs = Some True \<and> eval_all ctx ys = Some True"
  by (induction xs) (auto split: option.split bool.split)

lemma eval_any_of:
  assumes "\<forall>x\<in>set xs. eval_atom ctx (g x) = Some (P x)"
  shows "eval_all ctx (any_of g xs) = Some True \<longleftrightarrow> xs = [] \<or> (\<exists>x\<in>set xs. P x)"
    and "eval_all ctx (if xs = [] then [] else [NoneOf (map g xs)]) = Some True \<longleftrightarrow> \<not> (\<exists>x\<in>set xs. P x)"
  using eval_any_map [OF assms] by (auto simp: any_of_def split: bool.splits)

lemma satisfied_iff_applies:
  assumes "own_context_keys req"
  shows "satisfied (context_of req) (to_ascii_uppercase (ac_name (rq_action req))) (policy_ast p) \<longleftrightarrow> policy_applies req p"
proof -
  note ctx = context_of_simps [OF assms]
  have subj: "eval_atom (context_of req) (subject_atom s) = Some (subject_matches req s)" for s
    by (auto simp: subject_atom_def subject_matches_def ctx)
  have roles: "eval_atom (context_of req) (AttrHas ''principal_roles'' r) = Some (r \<in> set (pr_roles (rq_principal req)))"
    and groups: "eval_atom (context_of req) (AttrHas ''subject_groups'' r) = Some (r \<in> set (subject_group_texts req))" for r
    by (simp_all add: ctx)
  have fixed: "eval_all (context_of req)
      [Atom (AttrIs ''resource_kind'' (dp_resource p)), Atom (AttrIs ''action_name'' (dp_action p))] = Some True \<longleftrightarrow>
      to_ascii_uppercase (rs_kind (rq_resource req)) = dp_resource p \<and>
      to_ascii_uppercase (ac_name (rq_action req)) = dp_action p"
    by (auto simp: ctx split: bool.split)
  show ?thesis
    unfolding satisfied_def policy_ast_def cedar_policy.select_convs eval_all_append fixed
      eval_any_of(1) [OF ballI, OF roles] eval_any_of(1) [OF ballI, OF groups] eval_any_of(1) [OF ballI, OF subj]
      eval_any_of(2) [OF ballI, OF roles] policy_applies_def
    by blast
qed



end
