(* ===== verification/Policy_Decision.thy ===== *)
theory Policy_Decision
  imports Policy_Translate Core_Evaluate
begin

text \<open>
  The end-to-end meaning of a policy document: what \<open>evaluate\<close> decides when its policy set was made
  from DSL policies. Cedar is the record \<open>cedar\<close>; the predicates below state its documented
  behaviour (how it reads this context text and these policies, and that it allows a request when a
  permit holds and no forbid does) through readings \<open>policies\<close>, \<open>context\<close> and \<open>query\<close> of its values.
\<close>

section \<open>Documented behaviour of Cedar\<close>

definition cedar_reads_context ::
  "('ps, 'rx, 'ctx, 'es, 'rq) cedar \<Rightarrow> ('ctx \<Rightarrow> string \<rightharpoonup> ctx_value) \<Rightarrow> bool" where
  "cedar_reads_context c context_reading \<longleftrightarrow>
     (\<forall>text kvs x. parse_context text = Some kvs \<longrightarrow> cd_context c text = Inr x \<longrightarrow> context_reading x = map_of kvs)"

definition cedar_reads_policies ::
  "('ps, 'rx, 'ctx, 'es, 'rq) cedar \<Rightarrow> ('ps \<Rightarrow> cedar_policy list) \<Rightarrow> cedar_policy list \<Rightarrow> bool" where
  "cedar_reads_policies c policies_reading ps \<longleftrightarrow>
     (\<forall>set. cd_parse_policies c (render_document ps) = Inr set \<longrightarrow> policies_reading set = ps)"

definition cedar_authorizes ::
  "('ps, 'rx, 'ctx, 'es, 'rq) cedar \<Rightarrow> ('ps \<Rightarrow> cedar_policy list) \<Rightarrow> ('ctx \<Rightarrow> string \<rightharpoonup> ctx_value) \<Rightarrow> bool" where
  "cedar_authorizes c policies_reading context_reading \<longleftrightarrow>
     (\<forall>p act r x q ps es. cd_request c p (EntityUid ''Action'' act) r x = Inr q \<longrightarrow>
        (rp_decision (cd_authorize c q ps es) = CAllow \<longleftrightarrow>
          (\<exists>pol\<in>set (policies_reading ps). cp_effect pol = Permit \<and> satisfied (context_reading x) act pol) \<and>
          \<not> (\<exists>pol\<in>set (policies_reading ps). cp_effect pol = Forbid \<and> satisfied (context_reading x) act pol)))"

text \<open>Texts the translation interpolates between quotes without escaping.\<close>

definition request_readable :: "authz_request \<Rightarrow> bool" where
  "request_readable req \<longleftrightarrow> plain (ac_name (rq_action req)) \<and> plain (rs_kind (rq_resource req)) \<and>
     list_all json_clean (free_texts req) \<and> own_context_keys req"

lemma evaluate_response:
  assumes "evaluate c env req cfg = Ok d" "cedar_entities_documented c" "request_readable req"
    and "cedar_reads_context c context_reading"
  obtains p r x q es where
    "cd_request c p (EntityUid ''Action'' (to_ascii_uppercase (ac_name (rq_action req)))) r x = Inr q"
    "context_reading x = context_of req"
    "ad_effect d = effect_from_cedar (rp_decision (cd_authorize c q (ec_policy_set cfg) es))"
proof -
  have read: "parse_context (build_context_json req) = Some (context_values req)"
    using assms(3) by (simp add: parse_context_build request_readable_def)
  have uid: "request_uid_of c ''Action'' i = Ok a \<Longrightarrow> a = EntityUid ''Action'' i" for i a
    using assms(2) by (auto simp: request_uid_of_def cedar_entities_documented_def)
  from assms(1) obtain p r x q es where
      "cd_context c (build_context_json req) = Inr x"
      "cd_request c p (EntityUid ''Action'' (to_ascii_uppercase (ac_name (rq_action req)))) r x = Inr q"
      "d = decision_of c env req cfg (cd_authorize c q (ec_policy_set cfg) es)"
    by (auto simp: evaluate_Ok_iff cedar_response_of_def and_then_Inr_iff lift_msg_Inr_iff dest!: uid)
  moreover from this have "context_reading x = context_of req"
    using assms(4) read by (auto simp: cedar_reads_context_def context_of_def)
  ultimately show thesis
    using that by (simp add: decision_of_def Let_def)
qed

definition permitted :: "dsl_policy list \<Rightarrow> authz_request \<Rightarrow> bool" where
  "permitted ps req \<longleftrightarrow>
     (\<exists>p\<in>set ps. dp_effect p = DAllow \<and> policy_applies req p) \<and>
     (\<forall>p\<in>set ps. dp_effect p \<noteq> DAllow \<longrightarrow> \<not> policy_applies req p)"

lemma policies_decide:
  assumes "cedar_policy_set_from_dsl c ps = Ok pset"
    and "cedar_entities_documented c" "cedar_reads_context c context_reading"
    and "cedar_reads_policies c policies_reading (map policy_ast ps)"
    and "cedar_authorizes c policies_reading context_reading"
    and "request_readable req"
    and "evaluate c env req (cfg\<lparr>ec_policy_set := pset\<rparr>) = Ok d"
  shows "ad_effect d = (if permitted ps req then Allow else Deny)"
proof -
  have pols: "policies_reading pset = map policy_ast ps"
    using assms(1,4)
    by (auto simp: cedar_policy_set_from_dsl_def dsl_to_cedar_document cedar_reads_policies_def lift_msg_Inr_iff)
  from assms(6) have keys: "own_context_keys req" by (simp add: request_readable_def)
  obtain p r x q es where
      q: "cd_request c p (EntityUid ''Action'' (to_ascii_uppercase (ac_name (rq_action req)))) r x = Inr q"
    and x: "context_reading x = context_of req"
    and d: "ad_effect d = effect_from_cedar (rp_decision (cd_authorize c q pset es))"
    by (rule evaluate_response [OF assms(7,2,6,3)]) (rule that, simp_all)
  have eff: "cp_effect (policy_ast p) = (if dp_effect p = DAllow then Permit else Forbid)" for p
    by (simp add: policy_ast_def)
  have "rp_decision (cd_authorize c q pset es) = CAllow \<longleftrightarrow>
      (\<exists>p\<in>set ps. cp_effect (policy_ast p) = Permit \<and> policy_applies req p) \<and>
      \<not> (\<exists>p\<in>set ps. cp_effect (policy_ast p) = Forbid \<and> policy_applies req p)"
    using assms(5) q unfolding cedar_authorizes_def
    by (simp add: x pols satisfied_iff_applies [OF keys])
  then have "rp_decision (cd_authorize c q pset es) = CAllow \<longleftrightarrow> permitted ps req"
    by (auto simp: permitted_def eff)
  then show ?thesis
    using d by (cases "rp_decision (cd_authorize c q pset es)") auto
qed


section \<open>A run on the example policies\<close>

definition authorize_reading :: "cedar_call \<Rightarrow> (string \<times> ctx_value) list \<Rightarrow> cedar_policy list \<Rightarrow> cedar_response" where
  "authorize_reading call kvs ps =
     (let act = (case call of (_, EntityUid _ a, _) \<Rightarrow> a);
          holds = (\<lambda>e. filter (\<lambda>p. cp_effect p = e \<and> satisfied (map_of kvs) act p) ps)
      in if holds Forbid = [] \<and> holds Permit \<noteq> []
         then \<lparr>rp_decision = CAllow, rp_reason = map cp_id (holds Permit), rp_errors = []\<rparr>
         else \<lparr>rp_decision = CDeny, rp_reason = map cp_id (holds Forbid), rp_errors = []\<rparr>)"

definition reading_cedar ::
  "cedar_policy list \<Rightarrow>
   (cedar_policy list, string, (string \<times> ctx_value) list, string entity list,
    cedar_call \<times> (string \<times> ctx_value) list) cedar" where
  "reading_cedar ps =
     reference_cedar (\<lambda>text. if text = render_document ps then Inr ps else Inl ''policies'')
       (\<lambda>text. case parse_context text of None \<Rightarrow> Inl ''context'' | Some kvs \<Rightarrow> Inr kvs) authorize_reading"

lemma reading_cedar_documented:
  "cedar_entities_documented (reading_cedar ps)" "cedar_reads_context (reading_cedar ps) map_of"
  "cedar_reads_policies (reading_cedar ps) (\<lambda>s. s) ps" "cedar_authorizes (reading_cedar ps) (\<lambda>s. s) map_of"
  by (auto simp: reading_cedar_def reference_cedar_documented cedar_reads_context_def cedar_reads_policies_def
      cedar_authorizes_def authorize_reading_def Let_def filter_empty_conv split: option.splits)

definition example_allow :: dsl_policy where
  "example_allow =
     \<lparr>dp_id = ''hr_team_expense_read'', dp_effect = DAllow, dp_action = ''READ'', dp_resource = ''TRAVEL_EXPENSE'',
      dp_when_roles = [''HR_HEAD''], dp_where_subjects = [''SELF'', ''DIRECT_REPORTS''], dp_unless_roles = [],
      dp_where_subject_groups = [], dp_raw = []\<rparr>"

lemma evaluate_total:
  assumes "cd_context (reference_cedar parse ctx auth) (build_context_json req) = Inr x" "validate req = Ok ()"
  shows "is_ok (evaluate (reference_cedar parse ctx auth) env req cfg)"
proof -
  let ?c = "reference_cedar parse ctx auth"
  note doc = reference_cedar_documented [of parse ctx auth]
  have uid: "entity_uid_of ?c t i = Ok (EntityUid t i)" "request_uid_of ?c t i = Ok (EntityUid t i)" for t i
    by (simp_all add: entity_uid_of_def request_uid_of_def)
  have attr: "str_attr ?c v = Ok (attr_literal v)" "\<exists>y. set_attr ?c vs = Ok y" "new_entity ?c u a ps = Ok \<lparr>en_uid = u, en_attrs = a, en_parents = ps\<rparr>"
    for v vs u a ps by (simp_all add: str_attr_def set_attr_def new_entity_def)
  obtain sa where sa: "\<And>vs. set_attr ?c vs = Ok (sa vs)" using attr(2) by metis
  have ins: "try_fold (insert_str_attr ?c) kvs m = Ok (fold (\<lambda>kv m. hm_insert (fst kv) (attr_literal (snd kv)) m) kvs m)" for kvs m
    by (rule try_fold_total) (simp add: insert_str_attr_def attr)
  have opt: "\<exists>m'. opt_attr ?c k v m = Ok m'" for k v m
    by (cases v) (simp_all add: opt_attr_def insert_str_attr_def attr)
  have grp: "try_fold (add_group_entity ?c) gs es = Ok (fold (\<lambda>g. insert_entity ?c \<lparr>en_uid = EntityUid ''Group'' g, en_attrs = Map.empty, en_parents = {}\<rparr>) gs es)" for gs es
    by (rule try_fold_total) (simp add: add_group_entity_def uid attr)
  obtain l where l: "collect_links ?c req (ec_group_members cfg) = Ok l"
    using collect_links_eq [OF doc] by blast
  have pa: "\<exists>m. principal_attrs ?c req l = Ok m"
    using opt by (simp add: principal_attrs_def Let_def sa ins split: option.split) (metis and_then_simps(2) opt)
  then obtain p where p: "principal_entity ?c req l = Ok p"
    by (auto simp: principal_entity_def uid attr add_group_parents [OF doc])
  have s: "\<exists>e. subject_entity ?c s l = Ok e" for s
    by (simp add: subject_entity_def sa ins uid attr add_group_parents [OF doc])
  have r: "\<exists>e. resource_entity ?c r = Ok e" for r
    by (simp add: resource_entity_def ins uid attr)
  have "\<exists>es. build_entities ?c req (ec_group_members cfg) = Ok es"
    using s r by (auto simp: build_entities_def l p grp action_entity_def uid attr split: option.split) (metis and_then_simps(2) r s)+
  then show ?thesis
    using assms by (auto simp: evaluate_def cedar_response_of_def uid is_ok_iff)
qed


end
