(* ===== verification/Effects.thy ===== *)
theory Effects
  imports Keyed_Store
begin

text \<open>
  Stateful code: a computation takes the state and returns a result (value, error or panic)
  together with the state it leaves, also when it fails. Used with the file system (policy store),
  the audit database and the proxy's world. A small calculus of invariants and postconditions is
  proved here once.
\<close>

named_theorems st_simps

type_synonym ('s, 'e, 'a) st = "'s \<Rightarrow> ('e, 'a) result \<times> 's"

definition st_ret :: "'a \<Rightarrow> ('s, 'e, 'a) st" where
  "st_ret x s = (Ok x, s)"

definition st_fail :: "'e \<Rightarrow> ('s, 'e, 'a) st" where
  "st_fail e s = (Fail e, s)"

definition st_lift :: "('e, 'a) result \<Rightarrow> ('s, 'e, 'a) st" where
  "st_lift r s = (r, s)"

definition st_bind :: "('s, 'e, 'a) st \<Rightarrow> ('a \<Rightarrow> ('s, 'e, 'b) st) \<Rightarrow> ('s, 'e, 'b) st" where
  "st_bind m f s = (case m s of (Inl e, s') \<Rightarrow> (Inl e, s') | (Inr x, s') \<Rightarrow> f x s')"

definition st_gets :: "('s \<Rightarrow> 'a) \<Rightarrow> ('s, 'e, 'a) st" where
  "st_gets g s = (Ok (g s), s)"

definition st_modify :: "('s \<Rightarrow> 's) \<Rightarrow> ('s, 'e, unit) st" where
  "st_modify g s = (Ok (), g s)"

text \<open>The result of a computation as a value: code that looks at it instead of propagating it.\<close>

definition st_try :: "('s, 'e, 'a) st \<Rightarrow> ('s, 'f, ('e, 'a) result) st" where
  "st_try m s = (case m s of (r, s') \<Rightarrow> (Ok r, s'))"

definition st_map_err :: "('e \<Rightarrow> 'f) \<Rightarrow> ('s, 'e, 'a) st \<Rightarrow> ('s, 'f, 'a) st" where
  "st_map_err g m s = (case m s of (r, s') \<Rightarrow> (map_err g r, s'))"

fun st_fold :: "('x \<Rightarrow> 'a \<Rightarrow> ('s, 'e, 'a) st) \<Rightarrow> 'x list \<Rightarrow> 'a \<Rightarrow> ('s, 'e, 'a) st" where
  "st_fold f [] a = st_ret a"
| "st_fold f (x # xs) a = st_bind (f x a) (st_fold f xs)"

fun st_map :: "('x \<Rightarrow> ('s, 'e, 'a) st) \<Rightarrow> 'x list \<Rightarrow> ('s, 'e, 'a list) st" where
  "st_map f [] = st_ret []"
| "st_map f (x # xs) = st_bind (f x) (\<lambda>y. st_bind (st_map f xs) (\<lambda>ys. st_ret (y # ys)))"

text \<open>A computation on a part of the state.\<close>

definition st_zoom :: "('s \<Rightarrow> 't) \<Rightarrow> ('t \<Rightarrow> 's \<Rightarrow> 's) \<Rightarrow> ('t, 'e, 'a) st \<Rightarrow> ('s, 'e, 'a) st" where
  "st_zoom get put m s = (case m (get s) of (r, t) \<Rightarrow> (r, put t s))"

lemma st_apply [simp, st_simps]:
  "st_ret x s = (Inr x, s)" "st_fail e s = (Inl (Err e), s)" "st_lift r s = (r, s)"
  "st_gets g s = (Inr (g s), s)" "st_modify h s = (Inr (), h s)"
  by (simp_all add: st_ret_def st_fail_def st_lift_def st_gets_def st_modify_def)

lemma st_bind_Ok: "m s = (Inr x, s') \<Longrightarrow> st_bind m f s = f x s'"
  by (simp add: st_bind_def)

lemma st_bind_Err: "m s = (Inl e, s') \<Longrightarrow> st_bind m f s = (Inl e, s')"
  by (simp add: st_bind_def)

lemma st_bind_apply [simp, st_simps]:
  "st_bind (st_ret x) f s = f x s" "st_bind (st_gets g) f s = f (g s) s"
  "st_bind (st_modify h) k s = k () (h s)" "st_bind (st_lift (Inr x)) f s = f x s"
  "st_bind (st_lift (Inl e)) f s = (Inl e, s)" "st_bind (st_fail e') f s = (Inl (Err e'), s)"
  by (simp_all add: st_bind_def)

lemma st_bind_Inr_iff [result_simps]:
  "st_bind m f s = (Inr y, t) \<longleftrightarrow> (\<exists>x u. m s = (Inr x, u) \<and> f x u = (Inr y, t))"
  by (cases "m s"; cases "fst (m s)") (auto simp: st_bind_def)

lemma st_bind_OkE: "st_bind m f s = (Inr y, t) \<Longrightarrow> (\<And>x u. m s = (Inr x, u) \<Longrightarrow> f x u = (Inr y, t) \<Longrightarrow> P) \<Longrightarrow> P"
  by (auto simp: st_bind_Inr_iff)

lemma st_bind_Inl_iff [result_simps]:
  "st_bind m f s = (Inl e, t) \<longleftrightarrow> m s = (Inl e, t) \<or> (\<exists>x u. m s = (Inr x, u) \<and> f x u = (Inl e, t))"
  by (cases "m s"; cases "fst (m s)") (auto simp: st_bind_def)

section \<open>Invariants\<close>

definition preserves :: "('s \<Rightarrow> bool) \<Rightarrow> ('s, 'e, 'a) st \<Rightarrow> bool" where
  "preserves I m \<longleftrightarrow> (\<forall>s. I s \<longrightarrow> I (snd (m s)))"

lemma preservesD: "preserves I m \<Longrightarrow> I s \<Longrightarrow> m s = (r, s') \<Longrightarrow> I s'"
  unfolding preserves_def by (metis snd_conv)

lemma preserves_at: "preserves I m \<Longrightarrow> I s \<Longrightarrow> I (snd (m s))"
  by (simp add: preserves_def)

lemma preserves_pure [intro, simp]:
  "preserves I (st_ret x)" "preserves I (st_fail e)" "preserves I (st_lift r)" "preserves I (st_gets g)"
  by (simp_all add: preserves_def)

lemma preserves_modify [intro]: "(\<And>s. I s \<Longrightarrow> I (h s)) \<Longrightarrow> preserves I (st_modify h)"
  by (simp add: preserves_def)

lemma preserves_bind [intro]: "preserves I m \<Longrightarrow> (\<And>x. preserves I (f x)) \<Longrightarrow> preserves I (st_bind m f)"
  unfolding preserves_def st_bind_def by (auto split: prod.split sum.split)

lemma preserves_try [intro]: "preserves I m \<Longrightarrow> preserves I (st_try m)"
  unfolding preserves_def st_try_def by (auto split: prod.split)

lemma preserves_map_err [intro]: "preserves I m \<Longrightarrow> preserves I (st_map_err g m)"
  unfolding preserves_def st_map_err_def by (auto split: prod.split)

lemma preserves_fold [intro]: "(\<And>x a. x \<in> set xs \<Longrightarrow> preserves I (f x a)) \<Longrightarrow> preserves I (st_fold f xs a)"
  by (induction xs arbitrary: a) auto

lemma preserves_map [intro]: "(\<And>x. x \<in> set xs \<Longrightarrow> preserves I (f x)) \<Longrightarrow> preserves I (st_map f xs)"
  by (induction xs) auto

lemma preserves_zoom:
  "(\<And>s r t. I s \<Longrightarrow> m (get s) = (r, t) \<Longrightarrow> I (put t s)) \<Longrightarrow> preserves I (st_zoom get put m)"
  unfolding preserves_def st_zoom_def by (auto split: prod.split)

text \<open>The same from one state, keeping what the first computation returned.\<close>

lemma inv_bind:
  assumes "I s" "\<And>r u. m s = (r, u) \<Longrightarrow> I u" "\<And>x u. m s = (Inr x, u) \<Longrightarrow> I u \<Longrightarrow> I (snd (f x u))"
  shows "I (snd (st_bind m f s))"
  using assms(2,3) by (cases "m s"; cases "fst (m s)") (auto simp: st_bind_def)

lemma inv_lift:
  assumes "I s" "\<And>x. r = Inr x \<Longrightarrow> I (snd (f x s))"
  shows "I (snd (st_bind (st_lift r) f s))"
  using assms by (cases r) auto

section \<open>Postconditions\<close>

definition ensures :: "('s \<Rightarrow> bool) \<Rightarrow> ('s, 'e, 'a) st \<Rightarrow> (('e, 'a) result \<Rightarrow> 's \<Rightarrow> bool) \<Rightarrow> bool" where
  "ensures P m Q \<longleftrightarrow> (\<forall>s. P s \<longrightarrow> (case m s of (r, s') \<Rightarrow> Q r s'))"

lemma ensuresI: "(\<And>s r s'. P s \<Longrightarrow> m s = (r, s') \<Longrightarrow> Q r s') \<Longrightarrow> ensures P m Q"
  by (auto simp: ensures_def)

lemma ensuresD: "ensures P m Q \<Longrightarrow> P s \<Longrightarrow> m s = (r, s') \<Longrightarrow> Q r s'"
  unfolding ensures_def by (metis case_prod_conv)

lemma ensures_bind:
  assumes "ensures P m R" "\<And>x. ensures (R (Inr x)) (f x) Q" "\<And>e s. R (Inl e) s \<Longrightarrow> Q (Inl e) s"
  shows "ensures P (st_bind m f) Q"
proof (rule ensuresI)
  fix s r s'
  assume P: "P s" and b: "st_bind m f s = (r, s')"
  obtain r1 s1 where m: "m s = (r1, s1)" by (cases "m s")
  have R: "R r1 s1" using ensuresD [OF assms(1) P m] .
  show "Q r s'"
  proof (cases r1)
    case (Inl e)
    then show ?thesis using b m R assms(3) by (auto simp: st_bind_def)
  next
    case (Inr x)
    then have "f x s1 = (r, s')" using b m by (simp add: st_bind_def)
    then show ?thesis using ensuresD [OF assms(2)] R Inr by blast
  qed
qed

section \<open>Triples under an invariant\<close>

text \<open>From a state with the invariant and the precondition, the invariant holds in the state that is left, whatever the
  result, and the postcondition when the result is a value.\<close>

definition keeps :: "('s \<Rightarrow> bool) \<Rightarrow> ('s \<Rightarrow> bool) \<Rightarrow> ('s, 'e, 'a) st \<Rightarrow> ('a \<Rightarrow> 's \<Rightarrow> bool) \<Rightarrow> bool" where
  "keeps I P m Q \<longleftrightarrow> (\<forall>s. I s \<longrightarrow> P s \<longrightarrow> I (snd (m s)) \<and> (\<forall>x. fst (m s) = Inr x \<longrightarrow> Q x (snd (m s))))"

lemma keepsI: "(\<And>s. I s \<Longrightarrow> P s \<Longrightarrow> I (snd (m s)) \<and> (\<forall>x. fst (m s) = Inr x \<longrightarrow> Q x (snd (m s)))) \<Longrightarrow> keeps I P m Q"
  by (simp add: keeps_def)

lemma keepsD: "keeps I P m Q \<Longrightarrow> I s \<Longrightarrow> P s \<Longrightarrow> I (snd (m s))"
  by (simp add: keeps_def)

lemma keeps_preserves: "preserves I m \<Longrightarrow> keeps I P m (\<lambda>_ _. True)"
  by (simp add: keeps_def preserves_def)

lemma keeps_bind: "keeps I P m R \<Longrightarrow> (\<And>x. keeps I (R x) (f x) Q) \<Longrightarrow> keeps I P (st_bind m f) Q"
  unfolding keeps_def st_bind_def by (auto split: prod.split sum.split)

lemma keeps_weaken: "keeps I P m Q \<Longrightarrow> (\<And>s. I s \<Longrightarrow> P' s \<Longrightarrow> P s) \<Longrightarrow> (\<And>x s. I s \<Longrightarrow> Q x s \<Longrightarrow> Q' x s) \<Longrightarrow> keeps I P' m Q'"
  unfolding keeps_def by blast

lemma keeps_pure:
  "(\<And>s. I s \<Longrightarrow> P s \<Longrightarrow> Q x s) \<Longrightarrow> keeps I P (st_ret x) Q"
  "keeps I P (st_fail e) Q"
  "(\<And>s x. I s \<Longrightarrow> P s \<Longrightarrow> r = Inr x \<Longrightarrow> Q x s) \<Longrightarrow> keeps I P (st_lift r) Q"
  "(\<And>s. I s \<Longrightarrow> P s \<Longrightarrow> Q (g s) s) \<Longrightarrow> keeps I P (st_gets g) Q"
  by (simp_all add: keeps_def)

lemma keeps_fold:
  assumes "\<And>x a. keeps I P (f x a) (\<lambda>_. P)"
  shows "keeps I P (st_fold f xs a) (\<lambda>_. P)"
proof (induction xs arbitrary: a)
  case Nil
  show ?case unfolding st_fold.simps by (rule keeps_pure)
next
  case (Cons x xs)
  then show ?case by (simp add: keeps_bind [OF assms])
qed

lemma keeps_map:
  assumes "\<And>x. keeps I P (f x) (\<lambda>_. P)"
  shows "keeps I P (st_map f xs) (\<lambda>_. P)"
proof (induction xs)
  case Nil
  show ?case unfolding st_map.simps by (rule keeps_pure)
next
  case (Cons x xs)
  show ?case unfolding st_map.simps
    by (intro keeps_bind [OF assms] keeps_bind [OF Cons.IH] keeps_pure)
qed

lemma keeps_try: "keeps I P m (\<lambda>_ _. True) \<Longrightarrow> keeps I P (st_try m) (\<lambda>_ _. True)"
  unfolding keeps_def st_try_def by (auto split: prod.split)

lemma keeps_map_err: "keeps I P m Q \<Longrightarrow> keeps I P (st_map_err g m) Q"
  unfolding keeps_def st_map_err_def by (auto split: prod.split)

lemma keeps_assuming: "(b \<Longrightarrow> keeps I P m Q) \<Longrightarrow> keeps I (\<lambda>s. b \<and> P s) m Q"
  unfolding keeps_def by blast

lemma keeps_if: "(b \<Longrightarrow> keeps I P m Q) \<Longrightarrow> (\<not> b \<Longrightarrow> keeps I P n Q) \<Longrightarrow> keeps I P (if b then m else n) Q"
  by simp

end
