(* ===== verification/Policy_Store.thy ===== *)
theory Policy_Store
  imports Policy_Decision Effects
begin

text \<open>
  Signing (\<open>authz-policy/src/sign.rs\<close>), load-time validation (\<open>schema.rs\<close>) and the policy store on
  disk (\<open>store.rs\<close>). The file system is a map from paths (lists of components) to contents; hashing,
  Ed25519, hexadecimal and base64 are the fields of \<open>crypto\<close>, the JSON form of a revision those of
  \<open>codec\<close>, the clock \<open>store_clock\<close>; Cedar is the record of \<open>Core_Entities\<close>.
\<close>

section \<open>Signing\<close>

record crypto =
  cr_sha256 :: "string \<Rightarrow> string"
  cr_hex :: "string \<Rightarrow> string"
  cr_unhex :: "string \<Rightarrow> string + string"
  cr_public :: "string \<Rightarrow> string"
  cr_sign :: "string \<Rightarrow> string \<Rightarrow> string"
  cr_signature :: "string \<Rightarrow> string + string"
  cr_verifying_key :: "string \<Rightarrow> string + string"
  cr_verify :: "string \<Rightarrow> string \<Rightarrow> string \<Rightarrow> bool"
  cr_b64 :: "string \<Rightarrow> string"
  cr_unb64 :: "string \<Rightarrow> string + string"

record bundle_signer =
  bs_key_id :: string
  bs_sign :: "string \<Rightarrow> (policy_error, string) result"
  bs_public :: string

record signing_key_pair =
  kp_key_id :: string
  kp_secret_hex :: string
  kp_public_hex :: string

record local_signer =
  ls_key_id :: string
  ls_signing :: string

definition signer_generate :: "crypto \<Rightarrow> string \<Rightarrow> string \<Rightarrow> local_signer \<times> signing_key_pair" where
  "signer_generate cr secret key_id =
     (\<lparr>ls_key_id = key_id, ls_signing = secret\<rparr>,
      \<lparr>kp_key_id = key_id, kp_secret_hex = cr_hex cr secret, kp_public_hex = cr_hex cr (cr_public cr secret)\<rparr>)"

definition signer_from_keypair :: "crypto \<Rightarrow> signing_key_pair \<Rightarrow> (policy_error, local_signer) result" where
  "signer_from_keypair cr pair =
     and_then (lift_msg PolicyCrypto (cr_unhex cr (kp_secret_hex pair))) (\<lambda>bytes.
       if length bytes = 32 then Ok \<lparr>ls_key_id = kp_key_id pair, ls_signing = bytes\<rparr>
       else Fail (PolicyCrypto ''invalid secret length''))"

definition local_bundle_signer :: "crypto \<Rightarrow> local_signer \<Rightarrow> bundle_signer" where
  "local_bundle_signer cr s =
     \<lparr>bs_key_id = ls_key_id s, bs_sign = (\<lambda>m. Ok (cr_sign cr (ls_signing s) m)),
      bs_public = cr_public cr (ls_signing s)\<rparr>"

record signed_bundle =
  sb_revision :: string
  sb_content_sha256 :: string
  sb_cedar :: string
  sb_dsl :: string
  sb_signature_b64 :: string
  sb_key_id :: string
  sb_signed_at :: string

record store_clock =
  ck_timestamp :: nat
  ck_rfc3339 :: string

definition content_digest :: "crypto \<Rightarrow> string \<Rightarrow> string" where
  "content_digest cr cedar = cr_hex cr (cr_sha256 cr cedar)"

definition bundle_message :: "string \<Rightarrow> string \<Rightarrow> string" where
  "bundle_message revision digest = revision @ NL # digest"

definition sign_bundle ::
  "crypto \<Rightarrow> store_clock \<Rightarrow> bundle_signer \<Rightarrow> string \<Rightarrow> string \<Rightarrow> string \<Rightarrow> (policy_error, signed_bundle) result" where
  "sign_bundle cr ck signer revision cedar dsl =
     (let digest = content_digest cr cedar in
      and_then (bs_sign signer (bundle_message revision digest)) (\<lambda>sig.
        Ok \<lparr>sb_revision = revision, sb_content_sha256 = digest, sb_cedar = cedar, sb_dsl = dsl,
            sb_signature_b64 = cr_b64 cr sig, sb_key_id = bs_key_id signer, sb_signed_at = ck_rfc3339 ck\<rparr>))"

definition verify_bundle :: "crypto \<Rightarrow> signed_bundle \<Rightarrow> string \<Rightarrow> (policy_error, bool) result" where
  "verify_bundle cr b public_key_bytes =
     (if content_digest cr (sb_cedar b) \<noteq> sb_content_sha256 b then Ok False
      else and_then (lift_msg PolicyCrypto (cr_unb64 cr (sb_signature_b64 b))) (\<lambda>sig_bytes.
        and_then (lift_msg PolicyCrypto (cr_signature cr sig_bytes)) (\<lambda>sig.
        and_then (if length public_key_bytes = 32 then Ok public_key_bytes
                  else Fail (PolicyCrypto ''public key must be 32 bytes'')) (\<lambda>pk.
        and_then (lift_msg PolicyCrypto (cr_verifying_key cr pk)) (\<lambda>vk.
          Ok (cr_verify cr vk (bundle_message (sb_revision b) (sb_content_sha256 b)) sig))))))"

section \<open>Load-time validation\<close>

definition validate_cedar_policy_set :: "('ps, 'rx, 'ctx, 'es, 'rq) cedar \<Rightarrow> 'ps \<Rightarrow> (policy_error, unit) result" where
  "validate_cedar_policy_set c pset =
     (let errs = cd_validation_errors c pset in
      if errs = [] then Ok ()
      else Fail (PolicyCedar (''Cedar schema validation failed: '' @ join ''; '' errs)))"

section \<open>Files\<close>

type_synonym path = "string list"

record disk =
  dk_files :: "(path \<times> string) list"
  dk_dirs :: "path set"
  dk_denied :: "path \<Rightarrow> string option"

type_synonym 'a disk_io = "(disk, policy_error, 'a) st"

definition path_join :: "path \<Rightarrow> string \<Rightarrow> path" where
  "path_join p s = (if starts_with ''/'' s then split_on (CHR ''/'') s else p @ split_on (CHR ''/'') s)"

definition path_of :: "string \<Rightarrow> path" where
  "path_of s = path_join [] s"

definition file_put :: "path \<Rightarrow> string \<Rightarrow> disk \<Rightarrow> disk" where
  "file_put p s d = d\<lparr>dk_files := AList.update p s (dk_files d)\<rparr>"

definition file_get :: "disk \<Rightarrow> path \<Rightarrow> string option" where
  "file_get d p = map_of (dk_files d) p"

interpretation files: keyed_store file_put file_get "\<lambda>_. True"
  by unfold_locales (auto simp: file_put_def file_get_def update_conv)

lemma file_put_frame [simp]: "dk_dirs (file_put p s d) = dk_dirs d" "dk_denied (file_put p s d) = dk_denied d"
  by (simp_all add: file_put_def)

lemma file_get_put [simp]: "file_get (file_put p s d) q = (if q = p then Some s else file_get d q)"
  by (rule files.get_put) simp

text \<open>\<open>fs::write\<close>, \<open>fs::read_to_string\<close>, \<open>Path::exists\<close>, \<open>fs::create_dir_all\<close>.\<close>

definition fs_write :: "path \<Rightarrow> string \<Rightarrow> unit disk_io" where
  "fs_write p s d = (case dk_denied d p of Some e \<Rightarrow> (Fail (PolicyIo e), d) | None \<Rightarrow> (Ok (), file_put p s d))"

definition fs_read :: "path \<Rightarrow> string disk_io" where
  "fs_read p d = (ok_or (PolicyIo ''No such file or directory (os error 2)'') (file_get d p), d)"

definition fs_exists :: "path \<Rightarrow> disk \<Rightarrow> bool" where
  "fs_exists p d \<longleftrightarrow> file_get d p \<noteq> None"

definition fs_create_dir_all :: "path \<Rightarrow> unit disk_io" where
  "fs_create_dir_all p d =
     (case dk_denied d p of Some e \<Rightarrow> (Fail (PolicyIo e), d) | None \<Rightarrow> (Ok (), d\<lparr>dk_dirs := insert p (dk_dirs d)\<rparr>))"

section \<open>The store\<close>

record stored_policy =
  sp_id :: string
  sp_dsl :: string
  sp_status :: string

record policy_revision =
  rv_revision :: string
  rv_message :: string
  rv_created_at :: string
  rv_cedar :: string
  rv_dsl :: string
  rv_bundle :: "signed_bundle option"

record codec =
  jc_revision :: "policy_revision \<Rightarrow> string"
  jc_parse_revision :: "string \<Rightarrow> string + policy_revision"

record policy_store =
  po_root :: path

definition store_open :: "path \<Rightarrow> policy_store disk_io" where
  "store_open root =
     st_bind (fs_create_dir_all (path_join root ''drafts'')) (\<lambda>_.
     st_bind (fs_create_dir_all (path_join root ''revisions'')) (\<lambda>_.
     st_bind (fs_create_dir_all (path_join root ''deployed'')) (\<lambda>_.
       st_ret \<lparr>po_root = root\<rparr>)))"

definition active_path :: "policy_store \<Rightarrow> path" where
  "active_path st = path_join (po_root st) ''active.dsl''"

definition head_path :: "policy_store \<Rightarrow> path" where
  "head_path st = path_join (po_root st) ''HEAD''"

definition revision_path :: "policy_store \<Rightarrow> string \<Rightarrow> path" where
  "revision_path st revision = path_join (path_join (po_root st) ''revisions'') (revision @ ''.json'')"

definition deployed_path :: "policy_store \<Rightarrow> path" where
  "deployed_path st = path_join (path_join (po_root st) ''deployed'') ''current.json''"

definition draft_path :: "policy_store \<Rightarrow> string \<Rightarrow> path" where
  "draft_path st name = path_join (path_join (po_root st) ''drafts'') (name @ ''.dsl'')"

definition write_active_dsl :: "policy_store \<Rightarrow> string \<Rightarrow> unit disk_io" where
  "write_active_dsl st dsl = fs_write (active_path st) dsl"

definition read_active_dsl :: "policy_store \<Rightarrow> string disk_io" where
  "read_active_dsl st d = (if fs_exists (active_path st) d then fs_read (active_path st) d else (Ok [], d))"

definition validate_dsl ::
  "('ps, 'rx, 'ctx, 'es, 'rq) cedar \<Rightarrow> string \<Rightarrow> (policy_error, dsl_policy list) result" where
  "validate_dsl c dsl =
     and_then (parse_dsl dsl) (\<lambda>policies.
     and_then (dsl_to_cedar policies) (\<lambda>_.
     and_then (cedar_policy_set_from_dsl c policies) (\<lambda>pset.
     and_then (validate_cedar_policy_set c pset) (\<lambda>_.
       if policies = [] then Fail (PolicyValidate ''no policies found'') else Ok policies))))"

definition revision_id :: "crypto \<Rightarrow> store_clock \<Rightarrow> string \<Rightarrow> string \<Rightarrow> string" where
  "revision_id cr ck cedar message = cr_hex cr (take 8 (cr_sha256 cr (cedar @ message @ show_nat (ck_timestamp ck))))"

definition commit ::
  "('ps, 'rx, 'ctx, 'es, 'rq) cedar \<Rightarrow> crypto \<Rightarrow> codec \<Rightarrow> store_clock \<Rightarrow> policy_store \<Rightarrow> string \<Rightarrow> policy_revision disk_io" where
  "commit c cr js ck st message =
     st_bind (read_active_dsl st) (\<lambda>dsl.
     st_bind (st_lift (validate_dsl c dsl)) (\<lambda>policies.
     st_bind (st_lift (dsl_to_cedar policies)) (\<lambda>cedar.
       let revision = revision_id cr ck cedar message;
           rev = \<lparr>rv_revision = revision, rv_message = message, rv_created_at = ck_rfc3339 ck, rv_cedar = cedar,
                  rv_dsl = dsl, rv_bundle = None\<rparr>
       in st_bind (fs_write (revision_path st revision) (jc_revision js rev)) (\<lambda>_.
          st_bind (fs_write (head_path st) revision) (\<lambda>_. st_ret rev)))))"

definition head_revision :: "policy_store \<Rightarrow> string option disk_io" where
  "head_revision st d =
     (if fs_exists (head_path st) d then st_bind (fs_read (head_path st)) (\<lambda>s. st_ret (Some (trim s))) d else (Ok None, d))"

definition load_revision :: "codec \<Rightarrow> policy_store \<Rightarrow> string \<Rightarrow> policy_revision disk_io" where
  "load_revision js st revision =
     st_bind (fs_read (revision_path st revision)) (\<lambda>data. st_lift (lift_msg PolicyStoreErr (jc_parse_revision js data)))"

definition sign_head ::
  "crypto \<Rightarrow> codec \<Rightarrow> store_clock \<Rightarrow> policy_store \<Rightarrow> bundle_signer \<Rightarrow> signed_bundle disk_io" where
  "sign_head cr js ck st signer =
     st_bind (head_revision st) (\<lambda>h.
     st_bind (st_lift (ok_or (PolicyStoreErr ''no HEAD revision; run policy commit first'') h)) (\<lambda>rev_id.
     st_bind (load_revision js st rev_id) (\<lambda>rev.
     st_bind (st_lift (sign_bundle cr ck signer (rv_revision rev) (rv_cedar rev) (rv_dsl rev))) (\<lambda>b.
     st_bind (fs_write (revision_path st rev_id) (jc_revision js (rev\<lparr>rv_bundle := Some b\<rparr>))) (\<lambda>_.
       st_ret b)))))"

definition deploy_head :: "codec \<Rightarrow> policy_store \<Rightarrow> policy_revision disk_io" where
  "deploy_head js st =
     st_bind (head_revision st) (\<lambda>h.
     st_bind (st_lift (ok_or (PolicyStoreErr ''no HEAD revision'') h)) (\<lambda>rev_id.
     st_bind (load_revision js st rev_id) (\<lambda>rev.
       if rv_bundle rev = None then st_fail (PolicyStoreErr ''HEAD is not signed; run policy sign first'')
       else st_bind (fs_write (deployed_path st) (jc_revision js rev)) (\<lambda>_. st_ret rev))))"

definition load_deployed :: "codec \<Rightarrow> policy_store \<Rightarrow> policy_revision option disk_io" where
  "load_deployed js st d =
     (if fs_exists (deployed_path st) d
      then st_bind (fs_read (deployed_path st)) (\<lambda>data.
             st_bind (st_lift (lift_msg PolicyStoreErr (jc_parse_revision js data))) (\<lambda>rev. st_ret (Some rev))) d
      else (Ok None, d))"

definition policy_set_from_deployed ::
  "('ps, 'rx, 'ctx, 'es, 'rq) cedar \<Rightarrow> codec \<Rightarrow> policy_store \<Rightarrow> ('ps \<times> policy_revision) disk_io" where
  "policy_set_from_deployed c js st =
     st_bind (load_deployed js st) (\<lambda>r.
     st_bind (st_lift (ok_or (PolicyStoreErr ''no deployed policy bundle'') r)) (\<lambda>rev.
     st_bind (st_lift (lift_msg PolicyCedar (cd_parse_policies c (rv_cedar rev)))) (\<lambda>pset.
       st_ret (pset, rev))))"

definition write_draft :: "policy_store \<Rightarrow> string \<Rightarrow> string \<Rightarrow> path disk_io" where
  "write_draft st name dsl = st_bind (fs_write (draft_path st name) dsl) (\<lambda>_. st_ret (draft_path st name))"

definition draft_stem :: "policy_store \<Rightarrow> path \<Rightarrow> string option" where
  "draft_stem st p =
     (if p \<noteq> [] \<and> butlast p = path_join (po_root st) ''drafts''
      then (case strip_suffix ''.dsl'' (last p) of Some s \<Rightarrow> if s = [] then None else Some s | None \<Rightarrow> None)
      else None)"

definition list_drafts :: "policy_store \<Rightarrow> string list disk_io" where
  "list_drafts st d =
     (if path_join (po_root st) ''drafts'' \<in> dk_dirs d
      then (Ok (sort (List.map_filter (\<lambda>f. draft_stem st (fst f)) (dk_files d))), d)
      else (Fail (PolicyIo ''No such file or directory (os error 2)''), d))"

definition line_at :: "string list \<Rightarrow> nat \<Rightarrow> string" where
  "line_at ls i = (if i < length ls then ls ! i else [])"

definition diff_line :: "string \<Rightarrow> string \<Rightarrow> string" where
  "diff_line a b =
     (if a \<noteq> b then (if a \<noteq> [] then ''- '' @ a @ [NL] else []) @ (if b \<noteq> [] then ''+ '' @ b @ [NL] else []) else [])"

definition simple_diff :: "string \<Rightarrow> string \<Rightarrow> string" where
  "simple_diff old new =
     (let ol = str_lines old; nl = str_lines new;
          out = concat (map (\<lambda>i. diff_line (line_at ol i) (line_at nl i)) [0..<max (length ol) (length nl)])
      in if out = [] then ''(no differences)'' @ [NL] else out)"

definition diff_active_vs_revision :: "codec \<Rightarrow> policy_store \<Rightarrow> string \<Rightarrow> string disk_io" where
  "diff_active_vs_revision js st revision =
     st_bind (read_active_dsl st) (\<lambda>active.
     st_bind (load_revision js st revision) (\<lambda>rev. st_ret (simple_diff (rv_dsl rev) active)))"

section \<open>Signatures\<close>

text \<open>Documented behaviour of the primitives: hexadecimal text has no slash, base64 and the JSON form
  round trip, and a signature made with a key verifies under its 32-byte public key.\<close>

definition crypto_documented :: "crypto \<Rightarrow> bool" where
  "crypto_documented cr \<longleftrightarrow>
     (\<forall>s. CHR ''/'' \<notin> set (cr_hex cr s)) \<and> (\<forall>s. \<forall>ch\<in>set (cr_hex cr s). \<not> is_ws ch) \<and>
     (\<forall>s. cr_unb64 cr (cr_b64 cr s) = Inr s) \<and>
     (\<forall>k m. cr_signature cr (cr_sign cr k m) = Inr (cr_sign cr k m)) \<and>
     (\<forall>k. length (cr_public cr k) = 32 \<and> cr_verifying_key cr (cr_public cr k) = Inr (cr_public cr k)) \<and>
     (\<forall>k m. cr_verify cr (cr_public cr k) m (cr_sign cr k m))"

definition codec_documented :: "codec \<Rightarrow> bool" where
  "codec_documented js \<longleftrightarrow> (\<forall>r. jc_parse_revision js (jc_revision js r) = Inr r)"

lemma sign_bundle_Ok:
  "sign_bundle cr ck (local_bundle_signer cr k) r cedar dsl =
     Ok \<lparr>sb_revision = r, sb_content_sha256 = content_digest cr cedar, sb_cedar = cedar, sb_dsl = dsl,
         sb_signature_b64 = cr_b64 cr (cr_sign cr (ls_signing k) (bundle_message r (content_digest cr cedar))),
         sb_key_id = ls_key_id k, sb_signed_at = ck_rfc3339 ck\<rparr>"
  by (simp add: sign_bundle_def local_bundle_signer_def Let_def)

lemma sign_bundle_verifies:
  assumes "crypto_documented cr" "sign_bundle cr ck (local_bundle_signer cr k) r cedar dsl = Ok b"
  shows "verify_bundle cr b (cr_public cr (ls_signing k)) = Ok True"
  using assms by (auto simp: sign_bundle_Ok verify_bundle_def crypto_documented_def)

text \<open>C22: A bundle signed with a local key verifies under that key's public half, and stops verifying
  (with \<open>Ok(false)\<close>, not an error) as soon as its Cedar text is replaced by one with another digest.\<close>

theorem sign_verify_bundle:
  assumes "crypto_documented cr" "sign_bundle cr ck (local_bundle_signer cr k) r cedar dsl = Ok b"
  shows "verify_bundle cr b (bs_public (local_bundle_signer cr k)) = Ok True \<and>
    (content_digest cr cedar' \<noteq> content_digest cr cedar \<longrightarrow>
       verify_bundle cr (b\<lparr>sb_cedar := cedar'\<rparr>) (bs_public (local_bundle_signer cr k)) = Ok False)"
proof -
  have "bs_public (local_bundle_signer cr k) = cr_public cr (ls_signing k)"
    by (simp add: local_bundle_signer_def)
  moreover have "sb_content_sha256 b = content_digest cr cedar"
    using assms(2) unfolding sign_bundle_Ok by auto
  ultimately show ?thesis
    using sign_bundle_verifies [OF assms] by (simp add: verify_bundle_def)
qed

section \<open>The life cycle of the store\<close>

definition signed_ok :: "crypto \<Rightarrow> string \<Rightarrow> policy_revision \<Rightarrow> bool" where
  "signed_ok cr pk rv \<longleftrightarrow>
     (\<exists>b. rv_bundle rv = Some b \<and> sb_cedar b = rv_cedar rv \<and> sb_dsl b = rv_dsl rv \<and>
        sb_revision b = rv_revision rv \<and> verify_bundle cr b pk = Ok True)"

definition revision_ok :: "crypto \<Rightarrow> string \<Rightarrow> policy_revision \<Rightarrow> bool" where
  "revision_ok cr pk rv \<longleftrightarrow> rv_bundle rv = None \<or> signed_ok cr pk rv"

definition slash_free :: "string \<Rightarrow> bool" where
  "slash_free s \<longleftrightarrow> CHR ''/'' \<notin> set s"

definition store_inv :: "crypto \<Rightarrow> codec \<Rightarrow> string \<Rightarrow> policy_store \<Rightarrow> disk \<Rightarrow> bool" where
  "store_inv cr js pk st d \<longleftrightarrow>
     (\<forall>r data rv. slash_free r \<longrightarrow> file_get d (revision_path st r) = Some data \<longrightarrow>
        jc_parse_revision js data = Inr rv \<longrightarrow> revision_ok cr pk rv) \<and>
     (\<forall>data rv. file_get d (deployed_path st) = Some data \<longrightarrow> jc_parse_revision js data = Inr rv \<longrightarrow> signed_ok cr pk rv) \<and>
     (\<forall>h. file_get d (head_path st) = Some h \<longrightarrow> slash_free h)"

text \<open>The store's operations as steps: what the command line can do to a store with one signing key.\<close>

inductive store_run ::
  "('ps, 'rx, 'ctx, 'es, 'rq) cedar \<Rightarrow> crypto \<Rightarrow> codec \<Rightarrow> local_signer \<Rightarrow> policy_store \<Rightarrow> disk \<Rightarrow> bool"
  for c :: "('ps, 'rx, 'ctx, 'es, 'rq) cedar" and cr :: crypto and js :: codec and k :: local_signer
    and st :: policy_store where
  run_open: "dk_files d = [] \<Longrightarrow> store_open (po_root st) d = (r, d') \<Longrightarrow> store_run c cr js k st d'"
| run_write: "store_run c cr js k st d \<Longrightarrow> write_active_dsl st dsl d = (r, d') \<Longrightarrow> store_run c cr js k st d'"
| run_commit: "store_run c cr js k st d \<Longrightarrow> commit c cr js ck st msg d = (r', d') \<Longrightarrow> store_run c cr js k st d'"
| run_sign: "store_run c cr js k st d \<Longrightarrow> sign_head cr js ck st (local_bundle_signer cr k) d = (r'', d') \<Longrightarrow>
    store_run c cr js k st d'"
| run_deploy: "store_run c cr js k st d \<Longrightarrow> deploy_head js st d = (r', d') \<Longrightarrow> store_run c cr js k st d'"
| run_draft: "store_run c cr js k st d \<Longrightarrow> write_draft st name dsl d = (p, d') \<Longrightarrow> store_run c cr js k st d'"

lemma last_split_on: "d \<notin> set t \<Longrightarrow> \<exists>u. last (split_on d (s @ t)) = u @ t"
proof (induction s)
  case (Cons a s)
  then obtain u where "last (split_on d (s @ t)) = u @ t" by auto
  then show ?case by (cases "split_on d (s @ t)") (auto split: if_splits)
qed simp

lemma last_path_join: "CHR ''/'' \<notin> set t \<Longrightarrow> \<exists>u. last (path_join p (s @ t)) = u @ t"
  using last_split_on [of "CHR ''/''" t s] by (simp add: path_join_def)

lemma path_join_plain: "CHR ''/'' \<notin> set s \<Longrightarrow> path_join p s = p @ [s]"
  by (auto simp: path_join_def starts_with_iff prefix_def)

lemma revision_path_slash_free: "slash_free r \<Longrightarrow> revision_path st r = po_root st @ [''revisions'', r @ ''.json'']"
  by (simp add: revision_path_def path_join_plain slash_free_def)

lemma store_paths:
  "deployed_path st = po_root st @ [''deployed'', ''current.json'']" "head_path st = po_root st @ [''HEAD'']"
  "active_path st = po_root st @ [''active.dsl'']"
  by (simp_all add: deployed_path_def head_path_def active_path_def path_join_plain)

lemma draft_path_last: "\<exists>u. last (draft_path st name) = u @ ''.dsl''"
  unfolding draft_path_def by (rule last_path_join) simp

lemma revision_path_last: "\<exists>u. last (revision_path st r) = u @ ''.json''"
  unfolding revision_path_def by (rule last_path_join) simp

definition store_path :: "policy_store \<Rightarrow> path \<Rightarrow> bool" where
  "store_path st p \<longleftrightarrow> p = deployed_path st \<or> p = head_path st \<or> (\<exists>r. slash_free r \<and> p = revision_path st r)"

lemma store_path_last: "store_path st p \<Longrightarrow> last p = ''HEAD'' \<or> (\<exists>u. last p = u @ ''.json'')"
proof -
  assume "store_path st p"
  then consider "p = deployed_path st" | "p = head_path st" | r where "p = revision_path st r"
    unfolding store_path_def by blast
  then show ?thesis
  proof cases
    case 1
    then have "last p = ''current'' @ ''.json''" by (simp add: store_paths)
    then show ?thesis by blast
  next
    case 2
    then show ?thesis by (simp add: store_paths)
  next
    case 3
    then show ?thesis using revision_path_last [of st r] by simp
  qed
qed

lemma dsl_path_not_store: "last p = u @ ''.dsl'' \<Longrightarrow> \<not> store_path st p"
proof
  assume l: "last p = u @ ''.dsl''" and s: "store_path st p"
  have "last (last p) = CHR ''l''" using l by simp
  moreover have "last (last p) = CHR ''D'' \<or> last (last p) = CHR ''n''"
    using store_path_last [OF s] by auto
  ultimately show False by simp
qed

lemma store_inv_put_other: "store_inv cr js pk st d \<Longrightarrow> \<not> store_path st p \<Longrightarrow> store_inv cr js pk st (file_put p s d)"
  unfolding store_inv_def store_path_def by (auto split: if_splits)

lemma write_other_inv: "\<not> store_path st p \<Longrightarrow> preserves (store_inv cr js pk st) (fs_write p s)"
  by (auto simp: preserves_def fs_write_def store_inv_put_other split: option.split)

lemma write_revision_inv:
  assumes "codec_documented js" "slash_free r" "revision_ok cr pk rv"
  shows "preserves (store_inv cr js pk st) (fs_write (revision_path st r) (jc_revision js rv))"
  using assms
  by (auto simp: preserves_def fs_write_def store_inv_def revision_path_slash_free store_paths codec_documented_def
      split: option.split if_splits)

lemma write_head_inv:
  assumes "slash_free h"
  shows "preserves (store_inv cr js pk st) (fs_write (head_path st) h)"
  using assms
  by (auto simp: preserves_def fs_write_def store_inv_def revision_path_slash_free store_paths
      split: option.split if_splits)

lemma write_deployed_inv:
  assumes "codec_documented js" "signed_ok cr pk rv"
  shows "preserves (store_inv cr js pk st) (fs_write (deployed_path st) (jc_revision js rv))"
  using assms
  by (auto simp: preserves_def fs_write_def store_inv_def revision_path_slash_free store_paths codec_documented_def
      split: option.split if_splits)

lemma reads_keep [simp]:
  "snd (fs_read p d) = d" "snd (read_active_dsl st d) = d" "snd (head_revision st d) = d"
  "snd (load_revision js st r d) = d" "snd (load_deployed js st d) = d"
  by (auto simp: fs_read_def read_active_dsl_def head_revision_def load_revision_def load_deployed_def st_bind_def
      ok_or_def lift_msg_def split: option.split sum.split prod.split)

lemma preserves_reads [intro, simp]:
  "preserves I (fs_read p)" "preserves I (read_active_dsl st)" "preserves I (head_revision st)"
  "preserves I (load_revision js st r)" "preserves I (load_deployed js st)"
  by (simp_all add: preserves_def)

lemma head_revision_slash_free:
  assumes "store_inv cr js pk st d" "head_revision st d = (Ok (Some r), d')"
  shows "slash_free r"
  using assms set_trim
  by (fastforce simp: head_revision_def fs_read_def st_bind_def ok_or_def store_inv_def slash_free_def
      split: if_splits option.splits)

lemma load_revision_ok:
  assumes "store_inv cr js pk st d" "slash_free r" "load_revision js st r d = (Ok rv, d')"
  shows "revision_ok cr pk rv"
  using assms by (auto simp: load_revision_def fs_read_def result_simps store_inv_def)

lemma commit_inv:
  assumes "crypto_documented cr" "codec_documented js"
  shows "preserves (store_inv cr js pk st) (commit c cr js ck st msg)"
proof -
  have "slash_free (revision_id cr ck cedar m)" for cedar m
    using assms(1) by (simp add: slash_free_def revision_id_def crypto_documented_def)
  then show ?thesis
    unfolding commit_def Let_def
    by (intro preserves_bind preserves_pure preserves_reads write_head_inv write_revision_inv assms(2))
       (simp_all add: revision_ok_def)
qed

lemma inv_read:
  assumes "I d" "snd (m d) = d" "\<And>x. m d = (Inr x, d) \<Longrightarrow> I (snd (f x d))"
  shows "I (snd (st_bind m f d))"
  by (rule inv_bind) (use assms in \<open>auto simp: prod_eq_iff\<close>)

lemma sign_head_inv:
  assumes "crypto_documented cr" "codec_documented js" "pk = cr_public cr (ls_signing k)"
    and inv: "store_inv cr js pk st d"
  shows "store_inv cr js pk st (snd (sign_head cr js ck st (local_bundle_signer cr k) d))"
  unfolding sign_head_def
proof (rule inv_read [of "store_inv cr js pk st" d "head_revision st", OF inv reads_keep(3)], rule inv_lift [of "store_inv cr js pk st", OF inv],
    rule inv_read [of "store_inv cr js pk st" d "load_revision js st _", OF inv reads_keep(4)], rule inv_lift [of "store_inv cr js pk st", OF inv])
  fix h r rv b
  assume h: "head_revision st d = (Ok h, d)" "ok_or (PolicyStoreErr ''no HEAD revision; run policy commit first'') h = Ok r"
    and rv: "load_revision js st r d = (Ok rv, d)"
    and b: "sign_bundle cr ck (local_bundle_signer cr k) (rv_revision rv) (rv_cedar rv) (rv_dsl rv) = Ok b"
  have free: "slash_free r"
    using head_revision_slash_free [OF inv] h by (auto simp: ok_or_Inr_iff)
  have "revision_ok cr pk (rv\<lparr>rv_bundle := Some b\<rparr>)"
    using sign_bundle_verifies [OF assms(1) b] b assms(3) by (auto simp: revision_ok_def signed_ok_def sign_bundle_Ok)
  from write_revision_inv [OF assms(2) free this] have "preserves (store_inv cr js pk st)
      (st_bind (fs_write (revision_path st r) (jc_revision js (rv\<lparr>rv_bundle := Some b\<rparr>))) (\<lambda>_. st_ret b))"
    by (rule preserves_bind) (rule preserves_pure(1))
  then show "store_inv cr js pk st (snd (st_bind (fs_write (revision_path st r) (jc_revision js (rv\<lparr>rv_bundle := Some b\<rparr>))) (\<lambda>_. st_ret b) d))"
    using inv by (rule preserves_at)
qed

lemma deploy_head_inv:
  assumes "codec_documented js" and inv: "store_inv cr js pk st d"
  shows "store_inv cr js pk st (snd (deploy_head js st d))"
  unfolding deploy_head_def
proof (rule inv_read [of "store_inv cr js pk st" d "head_revision st", OF inv reads_keep(3)], rule inv_lift [of "store_inv cr js pk st", OF inv],
    rule inv_read [of "store_inv cr js pk st" d "load_revision js st _", OF inv reads_keep(4)])
  fix h r rv
  assume h: "head_revision st d = (Ok h, d)" "ok_or (PolicyStoreErr ''no HEAD revision'') h = Ok r"
    and rv: "load_revision js st r d = (Ok rv, d)"
  have ok: "revision_ok cr pk rv"
    using load_revision_ok [OF inv _ rv] head_revision_slash_free [OF inv] h by (auto simp: ok_or_Inr_iff)
  show "store_inv cr js pk st (snd ((if rv_bundle rv = None then st_fail (PolicyStoreErr ''HEAD is not signed; run policy sign first'')
      else st_bind (fs_write (deployed_path st) (jc_revision js rv)) (\<lambda>_. st_ret rv)) d))"
  proof (cases "rv_bundle rv = None")
    case False
    then have "signed_ok cr pk rv" using ok by (cases "rv_bundle rv") (simp_all add: revision_ok_def)
    from write_deployed_inv [OF assms(1) this] have "preserves (store_inv cr js pk st)
        (st_bind (fs_write (deployed_path st) (jc_revision js rv)) (\<lambda>_. st_ret rv))"
      by (rule preserves_bind) (rule preserves_pure(1))
    then have "store_inv cr js pk st (snd (st_bind (fs_write (deployed_path st) (jc_revision js rv)) (\<lambda>_. st_ret rv) d))"
      using inv by (rule preserves_at)
    then show ?thesis by (simp only: if_not_P [OF False])
  qed (simp add: inv)
qed

lemma store_run_inv:
  assumes "store_run c cr js k st d" "crypto_documented cr" "codec_documented js"
  shows "store_inv cr js (cr_public cr (ls_signing k)) st d"
  using assms(1)
proof (induction rule: store_run.induct)
  case (run_open d r d')
  have "dk_files d' = []"
    using run_open by (auto simp: store_open_def fs_create_dir_all_def st_bind_def split: option.splits)
  then show ?case by (simp add: store_inv_def file_get_def)
next
  case (run_write d dsl r d')
  have "\<not> store_path st (active_path st)"
    by (rule dsl_path_not_store [of _ "''active''"]) (simp add: store_paths)
  then have "preserves (store_inv cr js (cr_public cr (ls_signing k)) st) (write_active_dsl st dsl)"
    unfolding write_active_dsl_def by (rule write_other_inv)
  from preservesD [OF this run_write.IH run_write.hyps(2)] show ?case .
next
  case (run_commit d ck msg r' d')
  show ?case by (rule preservesD [OF commit_inv [OF assms(2,3)] run_commit.IH run_commit.hyps(2)])
next
  case (run_sign d ck r'' d')
  then show ?case using sign_head_inv [OF assms(2,3) refl run_sign.IH, of ck] by simp
next
  case (run_deploy d r' d')
  then show ?case using deploy_head_inv [OF assms(3) run_deploy.IH] by simp
next
  case (run_draft d name dsl p d')
  have "\<not> store_path st (draft_path st name)"
    using draft_path_last [of st name] by (elim exE) (rule dsl_path_not_store)
  then have "preserves (store_inv cr js (cr_public cr (ls_signing k)) st) (write_draft st name dsl)"
    unfolding write_draft_def by (intro preserves_bind write_other_inv preserves_pure)
  from preservesD [OF this run_draft.IH run_draft.hyps(2)] show ?case .
qed

text \<open>C5: Whatever sequence of writing drafts and active documents, committing, signing (with one key)
  and deploying has run on a store that started empty, and whichever of those steps failed: a policy
  that can be loaded as deployed carries a bundle over its own Cedar text, DSL text and revision, and
  that bundle verifies under the signing key. An unsigned or half-written revision is never deployed.\<close>

theorem deployed_is_signed:
  assumes "crypto_documented cr" "codec_documented js" "store_run c cr js k st d"
    and "load_deployed js st d = (Ok (Some rv), d')"
  shows "signed_ok cr (cr_public cr (ls_signing k)) rv"
  using store_run_inv [OF assms(3,1,2)] assms(4)
  by (auto simp: load_deployed_def fs_read_def result_simps store_inv_def split: if_splits)

section \<open>Publishing a document\<close>

lemma fs_write_Ok: "dk_denied d p = None \<Longrightarrow> fs_write p s d = (Ok (), file_put p s d)"
  by (simp add: fs_write_def)

lemma revision_id_clean:
  "crypto_documented cr \<Longrightarrow> slash_free (revision_id cr ck cedar m) \<and> trim (revision_id cr ck cedar m) = revision_id cr ck cedar m"
  by (auto simp: revision_id_def slash_free_def crypto_documented_def intro!: trim_id no_ws_trimmed)

lemma commit_Ok:
  assumes "validate_dsl c dsl = Ok ps" "file_get d (active_path st) = Some dsl" "\<forall>p. dk_denied d p = None"
  obtains cedar where "dsl_to_cedar ps = Ok cedar"
    "commit c cr js ck st msg d =
       (let r = revision_id cr ck cedar msg;
            rv = \<lparr>rv_revision = r, rv_message = msg, rv_created_at = ck_rfc3339 ck, rv_cedar = cedar, rv_dsl = dsl, rv_bundle = None\<rparr>
        in (Ok rv, file_put (head_path st) r (file_put (revision_path st r) (jc_revision js rv) d)))"
  using assms that [of "render_document (map policy_ast ps)"]
  by (simp add: commit_def read_active_dsl_def fs_exists_def fs_read_def st_bind_def dsl_to_cedar_document Let_def fs_write_Ok)

lemma load_stored_revision:
  assumes "codec_documented js" "file_get d (revision_path st r) = Some (jc_revision js rv)"
  shows "load_revision js st r d = (Ok rv, d)"
  using assms by (simp add: load_revision_def fs_read_def st_bind_def codec_documented_def)

lemma head_stored: "file_get d (head_path st) = Some r \<Longrightarrow> trim r = r \<Longrightarrow> head_revision st d = (Ok (Some r), d)"
  by (simp add: head_revision_def fs_exists_def fs_read_def st_bind_def)

lemma publish_steps:
  assumes "crypto_documented cr" "codec_documented js" "validate_dsl c dsl = Ok ps" "\<forall>p. dk_denied d p = None"
  obtains rv d2 d3 d4 r b rv1 where
    "write_active_dsl st dsl d = (Ok (), file_put (active_path st) dsl d)"
    "commit c cr js ck st msg (file_put (active_path st) dsl d) = (Ok rv1, d2)"
    "sign_head cr js ck' st (local_bundle_signer cr k) d2 = (Ok b, d3)"
    "deploy_head js st d3 = (Ok rv, d4)" "load_deployed js st d4 = (Ok (Some rv), d4)"
    "rv_dsl rv = dsl" "dsl_to_cedar ps = Ok (rv_cedar rv)" "rv_message rv = msg" "rv_bundle rv \<noteq> None"
proof -
  let ?d1 = "file_put (active_path st) dsl d"
  have "file_get ?d1 (active_path st) = Some dsl" "\<forall>p. dk_denied ?d1 p = None"
    using assms(4) by simp_all
  with assms(3) obtain cedar where cedar: "dsl_to_cedar ps = Ok cedar"
    and com: "commit c cr js ck st msg ?d1 =
       (let r = revision_id cr ck cedar msg;
            rv = \<lparr>rv_revision = r, rv_message = msg, rv_created_at = ck_rfc3339 ck, rv_cedar = cedar, rv_dsl = dsl, rv_bundle = None\<rparr>
        in (Ok rv, file_put (head_path st) r (file_put (revision_path st r) (jc_revision js rv) ?d1)))"
    by (rule commit_Ok [where cr = cr and js = js and ck = ck and msg = msg])
  let ?r = "revision_id cr ck cedar msg"
  let ?rv = "\<lparr>rv_revision = ?r, rv_message = msg, rv_created_at = ck_rfc3339 ck, rv_cedar = cedar, rv_dsl = dsl, rv_bundle = None\<rparr>"
  let ?d2 = "file_put (head_path st) ?r (file_put (revision_path st ?r) (jc_revision js ?rv) ?d1)"
  obtain b where b: "sign_bundle cr ck' (local_bundle_signer cr k) ?r cedar dsl = Ok b"
    using sign_bundle_Ok by blast
  let ?rb = "?rv\<lparr>rv_bundle := Some b\<rparr>"
  let ?d3 = "file_put (revision_path st ?r) (jc_revision js ?rb) ?d2"
  have r: "slash_free ?r" "trim ?r = ?r" using revision_id_clean [OF assms(1)] by auto
  have writable: "dk_denied ?d2 p = None" "dk_denied ?d3 p = None" for p using assms(4) by simp_all
  have paths: "revision_path st ?r \<noteq> head_path st" "revision_path st ?r \<noteq> deployed_path st" "head_path st \<noteq> deployed_path st"
    by (simp_all add: revision_path_slash_free [OF r(1)] store_paths)
  have "head_revision st ?d2 = (Ok (Some ?r), ?d2)" "load_revision js st ?r ?d2 = (Ok ?rv, ?d2)"
    using paths by (simp_all add: head_stored r(2) load_stored_revision [OF assms(2)])
  then have sgn: "sign_head cr js ck' st (local_bundle_signer cr k) ?d2 = (Ok b, ?d3)"
    using b writable by (simp add: sign_head_def st_bind_def fs_write_Ok)
  have "head_revision st ?d3 = (Ok (Some ?r), ?d3)" "load_revision js st ?r ?d3 = (Ok ?rb, ?d3)"
    using paths by (simp_all add: head_stored r(2) load_stored_revision [OF assms(2)])
  then have dep: "deploy_head js st ?d3 = (Ok ?rb, file_put (deployed_path st) (jc_revision js ?rb) ?d3)"
    using writable by (simp add: deploy_head_def st_bind_def fs_write_Ok)
  have "load_deployed js st (file_put (deployed_path st) (jc_revision js ?rb) ?d3)
      = (Ok (Some ?rb), file_put (deployed_path st) (jc_revision js ?rb) ?d3)"
    using assms(2) by (simp add: load_deployed_def fs_exists_def fs_read_def st_bind_def codec_documented_def)
  then show thesis
    using com cedar assms(4)
    by (intro that [OF _ _ sgn dep]) (auto simp: write_active_dsl_def fs_write_Ok Let_def)
qed

text \<open>C21: On a writable disk, writing a document that passes validation as the active one, committing,
  signing and deploying it succeeds, and what is then loaded as deployed is that very document: its
  Cedar text is the translation of the policies the parser read, and it carries a bundle.\<close>

theorem publish_deploys_document:
  assumes "crypto_documented cr" "codec_documented js" "validate_dsl c dsl = Ok ps" "\<forall>p. dk_denied d p = None"
  shows "\<exists>rv d'. st_bind (write_active_dsl st dsl) (\<lambda>_. st_bind (commit c cr js ck st msg) (\<lambda>_.
      st_bind (sign_head cr js ck' st (local_bundle_signer cr k)) (\<lambda>_. deploy_head js st))) d = (Ok rv, d') \<and>
    load_deployed js st d' = (Ok (Some rv), d') \<and> rv_dsl rv = dsl \<and> dsl_to_cedar ps = Ok (rv_cedar rv) \<and>
    rv_message rv = msg \<and> rv_bundle rv \<noteq> None"
proof -
  obtain rv d2 d3 d4 b rv1 where steps:
    "write_active_dsl st dsl d = (Ok (), file_put (active_path st) dsl d)"
    "commit c cr js ck st msg (file_put (active_path st) dsl d) = (Ok rv1, d2)"
    "sign_head cr js ck' st (local_bundle_signer cr k) d2 = (Ok b, d3)"
    "deploy_head js st d3 = (Ok rv, d4)" "load_deployed js st d4 = (Ok (Some rv), d4)"
    and rv: "rv_dsl rv = dsl" "dsl_to_cedar ps = Ok (rv_cedar rv)" "rv_message rv = msg" "rv_bundle rv \<noteq> None"
    by (rule publish_steps [OF assms])
  then have "st_bind (write_active_dsl st dsl) (\<lambda>_. st_bind (commit c cr js ck st msg) (\<lambda>_.
      st_bind (sign_head cr js ck' st (local_bundle_signer cr k)) (\<lambda>_. deploy_head js st))) d = (Ok rv, d4)"
    by (simp add: st_bind_def)
  then show ?thesis using steps(5) rv by blast
qed

lemma diff_line_Nil_iff: "diff_line a b = [] \<longleftrightarrow> a = b"
  by (cases a; cases b) (auto simp: diff_line_def)

lemma hd_diff_line: "diff_line a b = [] \<or> hd (diff_line a b) \<in> {CHR ''-'', CHR ''+''}"
  by (simp add: diff_line_def)

lemma hd_concat_diff:
  assumes "\<And>i. f i = [] \<or> hd (f i) \<in> S"
  shows "concat (map f is) = [] \<or> hd (concat (map f is)) \<in> S"
proof (induction "is")
  case (Cons i "is")
  then show ?case using assms [of i] by (cases "f i") simp_all
qed simp

text \<open>The difference of two documents reports no differences exactly when they have the same line
  at every position (counting lines past the end as empty), so only trailing blank lines go unseen.\<close>

theorem simple_diff_none_iff:
  "simple_diff old new = ''(no differences)'' @ [NL] \<longleftrightarrow> (\<forall>i. line_at (str_lines old) i = line_at (str_lines new) i)"
proof -
  let ?a = "line_at (str_lines old)" and ?b = "line_at (str_lines new)"
  let ?n = "max (length (str_lines old)) (length (str_lines new))"
  define out where "out = concat (map (\<lambda>i. diff_line (?a i) (?b i)) [0..<?n])"
  have "out = [] \<longleftrightarrow> (\<forall>i<?n. ?a i = ?b i)" by (auto simp: out_def diff_line_Nil_iff)
  also have "\<dots> \<longleftrightarrow> (\<forall>i. ?a i = ?b i)"
    by (auto simp: line_at_def not_less)
  finally have same: "out = [] \<longleftrightarrow> (\<forall>i. ?a i = ?b i)" .
  have "out = [] \<or> hd out \<in> {CHR ''-'', CHR ''+''}"
    unfolding out_def by (rule hd_concat_diff) (rule hd_diff_line)
  then have "out \<noteq> ''(no differences)'' @ [NL]" by auto
  moreover have "simple_diff old new = (if out = [] then ''(no differences)'' @ [NL] else out)"
    by (simp add: simple_diff_def Let_def out_def)
  ultimately show ?thesis using same by (metis (full_types))
qed

section \<open>A concrete instance of the primitives\<close>

text \<open>Hexadecimal digits, a signature that is the key and the message, and a length-prefixed record
  form: enough to run the store, with no claim about security.\<close>

definition nibble :: "nat \<Rightarrow> char" where
  "nibble n = (if n < 10 then char_of (48 + n) else char_of (87 + n))"

definition hex_text :: "string \<Rightarrow> string" where
  "hex_text s = concat (map (\<lambda>c. [nibble (of_char c div 16), nibble (of_char c mod 16)]) s)"

definition key_public :: "string \<Rightarrow> string" where
  "key_public k = take 32 (k @ replicate 32 (CHR ''0''))"

definition reference_crypto :: crypto where
  "reference_crypto =
     \<lparr>cr_sha256 = (\<lambda>s. s), cr_hex = hex_text, cr_unhex = Inr, cr_public = key_public,
      cr_sign = (\<lambda>k m. key_public k @ m), cr_signature = Inr, cr_verifying_key = Inr,
      cr_verify = (\<lambda>pk m s. s = pk @ m), cr_b64 = (\<lambda>s. s), cr_unb64 = Inr\<rparr>"

lemma nibble_clean:
  assumes "n < 16"
  shows "nibble n \<noteq> CHR ''/'' \<and> \<not> is_ws (nibble n)"
proof -
  have "(of_char (nibble n) :: nat) = (if n < 10 then 48 + n else 87 + n)"
    using assms by (simp add: nibble_def)
  then have "48 \<le> (of_char (nibble n) :: nat)" "(of_char (nibble n) :: nat) < 103"
    using assms by auto
  then show ?thesis by (auto simp: is_ws_def)
qed

lemma hex_text_clean:
  assumes "ch \<in> set (hex_text s)"
  shows "ch \<noteq> CHR ''/'' \<and> \<not> is_ws ch"
proof -
  obtain n where "ch = nibble n" "n < 16"
  proof -
    obtain c :: char where c: "ch = nibble (of_char c div 16) \<or> ch = nibble (of_char c mod 16)"
      using assms by (auto simp: hex_text_def)
    have "(of_char c :: nat) < 16 * 16" by simp
    then have "(of_char c :: nat) div 16 < 16" by (rule less_mult_imp_div_less)
    moreover have "(of_char c :: nat) mod 16 < 16" by simp
    ultimately show thesis using c that by (elim disjE)
  qed
  then show ?thesis using nibble_clean [of n] by simp
qed

lemma reference_crypto_documented: "crypto_documented reference_crypto"
  unfolding crypto_documented_def
  by (intro conjI allI ballI) (auto simp: reference_crypto_def key_public_def dest: hex_text_clean)

definition enc_field :: "string \<Rightarrow> string" where
  "enc_field f = replicate (length f) (CHR ''x'') @ CHR ''y'' # f"

fun dec_fields :: "nat \<Rightarrow> string \<Rightarrow> string list" where
  "dec_fields 0 s = []"
| "dec_fields (Suc n) s =
     (let k = length (takeWhile (\<lambda>c. c = CHR ''x'') s); r = drop (Suc k) s in take k r # dec_fields n (drop k r))"

lemma takeWhile_field: "takeWhile (\<lambda>c. c = CHR ''x'') (enc_field f @ r) = replicate (length f) (CHR ''x'')"
  by (simp add: enc_field_def takeWhile_append)

lemma dec_enc_fields: "dec_fields (length fs) (concat (map enc_field fs)) = fs"
proof (induction fs)
  case (Cons f fs)
  have "drop (Suc (length f)) (enc_field f @ r) = f @ r" for r
    by (simp add: enc_field_def)
  moreover have "take (length f) (f @ r) = f" "drop (length f) (f @ r) = r" for r :: string
    by simp_all
  ultimately show ?case using Cons by (simp add: takeWhile_field Let_def del: drop_append drop_drop take_append)
qed simp

definition bundle_fields :: "signed_bundle \<Rightarrow> string list" where
  "bundle_fields b = [sb_revision b, sb_content_sha256 b, sb_cedar b, sb_dsl b, sb_signature_b64 b, sb_key_id b, sb_signed_at b]"

definition revision_fields :: "policy_revision \<Rightarrow> string list" where
  "revision_fields r =
     [rv_revision r, rv_message r, rv_created_at r, rv_cedar r, rv_dsl r] @
     (case rv_bundle r of None \<Rightarrow> [''none'', [], [], [], [], [], [], []] | Some b \<Rightarrow> ''some'' # bundle_fields b)"

definition fields_revision :: "string list \<Rightarrow> policy_revision" where
  "fields_revision fs =
     \<lparr>rv_revision = fs ! 0, rv_message = fs ! 1, rv_created_at = fs ! 2, rv_cedar = fs ! 3, rv_dsl = fs ! 4,
      rv_bundle = (if fs ! 5 = ''none'' then None
        else Some \<lparr>sb_revision = fs ! 6, sb_content_sha256 = fs ! 7, sb_cedar = fs ! 8, sb_dsl = fs ! 9,
          sb_signature_b64 = fs ! 10, sb_key_id = fs ! 11, sb_signed_at = fs ! 12\<rparr>)\<rparr>"

definition reference_codec :: codec where
  "reference_codec =
     \<lparr>jc_revision = (\<lambda>r. concat (map enc_field (revision_fields r))),
      jc_parse_revision = (\<lambda>s. Inr (fields_revision (dec_fields 13 s)))\<rparr>"

lemma reference_codec_documented: "codec_documented reference_codec"
proof -
  have "length (revision_fields r) = 13" for r
    by (cases "rv_bundle r") (simp_all add: revision_fields_def bundle_fields_def)
  then have "dec_fields 13 (concat (map enc_field (revision_fields r))) = revision_fields r" for r
    using dec_enc_fields [of "revision_fields r"] by simp
  moreover have "fields_revision (revision_fields r) = r" for r
  proof (cases "rv_bundle r")
    case None
    then show ?thesis by (simp add: fields_revision_def revision_fields_def)
  next
    case (Some b)
    have "revision_fields r ! 5 \<noteq> ''none''" using Some by (simp add: revision_fields_def)
    then show ?thesis using Some by (simp add: fields_revision_def revision_fields_def bundle_fields_def)
  qed
  ultimately show ?thesis by (simp add: codec_documented_def reference_codec_def)
qed

theorem sign_verify_bundle_witness:
  "\<exists>b. sign_bundle reference_crypto \<lparr>ck_timestamp = 1, ck_rfc3339 = ''t''\<rparr>
      (local_bundle_signer reference_crypto \<lparr>ls_key_id = ''k'', ls_signing = ''s''\<rparr>) ''rev1'' ''permit'' ''dsl'' = Ok b \<and>
    verify_bundle reference_crypto b (bs_public (local_bundle_signer reference_crypto \<lparr>ls_key_id = ''k'', ls_signing = ''s''\<rparr>)) = Ok True \<and>
    verify_bundle reference_crypto (b\<lparr>sb_cedar := ''forbid''\<rparr>)
      (bs_public (local_bundle_signer reference_crypto \<lparr>ls_key_id = ''k'', ls_signing = ''s''\<rparr>)) = Ok False"
proof -
  obtain b where b: "sign_bundle reference_crypto \<lparr>ck_timestamp = 1, ck_rfc3339 = ''t''\<rparr>
      (local_bundle_signer reference_crypto \<lparr>ls_key_id = ''k'', ls_signing = ''s''\<rparr>) ''rev1'' ''permit'' ''dsl'' = Ok b"
    using sign_bundle_Ok by blast
  have "content_digest reference_crypto ''forbid'' \<noteq> content_digest reference_crypto ''permit''"
    by (simp add: content_digest_def reference_crypto_def hex_text_def nibble_def)
  with sign_verify_bundle [OF reference_crypto_documented b] b show ?thesis by blast
qed

definition example_store :: policy_store where
  "example_store = \<lparr>po_root = [''policies'']\<rparr>"

definition empty_disk :: disk where
  "empty_disk = \<lparr>dk_files = [], dk_dirs = {}, dk_denied = (\<lambda>_. None)\<rparr>"

definition example_key :: local_signer where
  "example_key = \<lparr>ls_key_id = ''k'', ls_signing = ''s''\<rparr>"

definition example_clock :: store_clock where
  "example_clock = \<lparr>ck_timestamp = 1, ck_rfc3339 = ''t''\<rparr>"

lemma parse_example: "parse_dsl (print_policies [example_dsl_policy]) = Ok [example_dsl_policy]"
  using parse_policies [of "[example_dsl_policy]" "\<lparr>ds_policies = [], ds_current = None\<rparr>" "[]" 0]
    str_lines_block [of "policy_lines example_dsl_policy" "[]"] policy_lines_clean [OF example_dsl_policy_printable]
  by (simp add: print_policies_def parse_dsl_def take_current_def example_dsl_policy_printable one_line_def)

lemma validate_example:
  "validate_dsl (reading_cedar (map policy_ast [example_dsl_policy])) (print_policies [example_dsl_policy]) = Ok [example_dsl_policy]"
  by (simp add: validate_dsl_def parse_example dsl_to_cedar_document cedar_policy_set_from_dsl_def reading_cedar_def
      validate_cedar_policy_set_def)

theorem publish_deploys_document_witness:
  "\<exists>rv d'. load_deployed reference_codec example_store d' = (Ok (Some rv), d') \<and>
     rv_dsl rv = print_policies [example_dsl_policy] \<and> rv_bundle rv \<noteq> None"
  using publish_deploys_document [OF reference_crypto_documented reference_codec_documented validate_example,
    of empty_disk example_store example_clock "''msg''" example_clock example_key]
  by (auto simp: empty_disk_def)

theorem deployed_is_signed_witness:
  "\<exists>rv d. load_deployed reference_codec example_store d = (Ok (Some rv), d) \<and>
     signed_ok reference_crypto (cr_public reference_crypto (ls_signing example_key)) rv"
proof -
  let ?c = "reading_cedar (map policy_ast [example_dsl_policy])"
  obtain d0 where d0: "store_open (po_root example_store) empty_disk = (Ok example_store, d0)" "\<forall>p. dk_denied d0 p = None"
    by (simp add: store_open_def fs_create_dir_all_def empty_disk_def st_bind_def example_store_def)
  have r0: "store_run ?c reference_crypto reference_codec example_key example_store d0"
    by (rule run_open [OF _ d0(1)]) (simp add: empty_disk_def)
  obtain rv d2 d3 d4 b rv1 where
    1: "write_active_dsl example_store (print_policies [example_dsl_policy]) d0
         = (Ok (), file_put (active_path example_store) (print_policies [example_dsl_policy]) d0)" and
    2: "commit ?c reference_crypto reference_codec example_clock example_store ''m''
         (file_put (active_path example_store) (print_policies [example_dsl_policy]) d0) = (Ok rv1, d2)" and
    3: "sign_head reference_crypto reference_codec example_clock example_store
         (local_bundle_signer reference_crypto example_key) d2 = (Ok b, d3)" and
    4: "deploy_head reference_codec example_store d3 = (Ok rv, d4)" and
    5: "load_deployed reference_codec example_store d4 = (Ok (Some rv), d4)"
    by (rule publish_steps [OF reference_crypto_documented reference_codec_documented validate_example d0(2)])
  from run_deploy [OF run_sign [OF run_commit [OF run_write [OF r0 1] 2] 3] 4]
  show ?thesis
    using deployed_is_signed [OF reference_crypto_documented reference_codec_documented _ 5] 5 by blast
qed

end
