(* ===== verification/Identity_Ldap.thy ===== *)
theory Identity_Ldap
  imports Draft_Policies Policy_Store
begin

text \<open>
  \<open>authz-identity\<close>, the directory part of adapters.rs: the LDAP adapter with its mock directory, the
  live bind and searches, the local fixture adapter, the drafts written from groups and the saved
  snapshot. The LDAP server and the JSON reader are parameters. The em dash in the comments of the
  draft headers is written as its three UTF-8 bytes (\<open>EM_DASH\<close>); \<open>now\<close> is the clock's RFC 3339 text.
\<close>

definition EM_DASH :: string where
  "EM_DASH = [CHR 0xE2, CHR 0x80, CHR 0x94]"

section \<open>The mock directory\<close>

definition mk_identity ::
  "string \<Rightarrow> string \<Rightarrow> string option \<Rightarrow> string \<Rightarrow> string list \<Rightarrow> string list \<Rightarrow> canonical_identity" where
  "mk_identity i n e src rs gs =
     \<lparr>ci_id = i, ci_display_name = n, ci_email = e, ci_source = src, ci_roles = rs, ci_groups = gs, ci_attrs = []\<rparr>"

record mock_ldap_directory =
  md_users :: "canonical_identity list"
  md_groups :: "group list"
  md_relationships :: "relationship_edge list"

definition demo_directory :: mock_ldap_directory where
  "demo_directory =
     \<lparr>md_users =
        [mk_identity ''user:hr-head'' ''Alex HR'' (Some ''hr@example.com'') ''ldap-mock'' [''HR_HEAD''] [''HR''],
         mk_identity ''employee:CEO'' ''Casey CEO'' (Some ''ceo@example.com'') ''ldap-mock'' [''CEO''] [''EXECUTIVE''],
         mk_identity ''employee:alice'' ''Alice Engineer'' (Some ''alice@example.com'') ''ldap-mock'' [''ENGINEER''] [''ENGINEERING''],
         mk_identity ''user:finance'' ''Finn Finance'' (Some ''finance@example.com'') ''ldap-mock'' [''FINANCE_ANALYST''] [''FINANCE'']],
      md_groups =
        [\<lparr>gr_id = ''EXECUTIVE'', gr_name = ''EXECUTIVE'', gr_members = [''employee:CEO''], gr_source = ''ldap-mock''\<rparr>,
         \<lparr>gr_id = ''HR'', gr_name = ''HR'', gr_members = [''user:hr-head''], gr_source = ''ldap-mock''\<rparr>,
         \<lparr>gr_id = ''ENGINEERING'', gr_name = ''ENGINEERING'', gr_members = [''employee:alice''], gr_source = ''ldap-mock''\<rparr>,
         \<lparr>gr_id = ''FINANCE'', gr_name = ''FINANCE'', gr_members = [''user:finance''], gr_source = ''ldap-mock''\<rparr>,
         \<lparr>gr_id = ''PAYROLL'', gr_name = ''PAYROLL'', gr_members = [], gr_source = ''ldap-mock''\<rparr>],
      md_relationships =
        [\<lparr>re_kind = DirectReports, re_from = ''user:hr-head'', re_to = ''employee:alice'', re_source = ''ldap-mock''\<rparr>]\<rparr>"

section \<open>The adapter\<close>

record ldap_config =
  lc_url :: string
  lc_bind_dn :: string
  lc_bind_password :: string
  lc_base_dn :: string
  lc_mock :: bool
  lc_user_filter :: string
  lc_group_filter :: string

definition default_user_filter :: string where
  "default_user_filter = ''(objectClass=inetOrgPerson)''"

definition default_group_filter :: string where
  "default_group_filter = ''(objectClass=groupOfNames)''"

record ldap_adapter =
  la_config :: ldap_config
  la_mock :: mock_ldap_directory

definition ldap_mock_demo :: ldap_adapter where
  "ldap_mock_demo =
     \<lparr>la_config = \<lparr>lc_url = ''ldap://localhost:389'', lc_bind_dn = ''cn=admin,dc=example,dc=com'', lc_bind_password = ''admin'',
        lc_base_dn = ''dc=example,dc=com'', lc_mock = True, lc_user_filter = default_user_filter,
        lc_group_filter = default_group_filter\<rparr>,
      la_mock = demo_directory\<rparr>"

definition ldap_from_config :: "ldap_config \<Rightarrow> ldap_adapter" where
  "ldap_from_config config = \<lparr>la_config = config, la_mock = demo_directory\<rparr>"

text \<open>The server: connecting, binding and searching; the inner sum of a bind or a search is the
  result code the server sent back.\<close>

record search_entry =
  se_dn :: string
  se_attrs :: "string \<rightharpoonup> string list"

record ldap_server =
  lv_connect :: "string \<Rightarrow> string + unit"
  lv_bind :: "string \<Rightarrow> string \<Rightarrow> string + (string + unit)"
  lv_search :: "string \<Rightarrow> string \<Rightarrow> string list \<Rightarrow> string + (string + search_entry list)"

definition first_attr :: "search_entry \<Rightarrow> string \<Rightarrow> string option" where
  "first_attr e a = Option.bind (se_attrs e a) (\<lambda>vs. case vs of [] \<Rightarrow> None | v # _ \<Rightarrow> Some v)"

definition all_attr :: "search_entry \<Rightarrow> string \<Rightarrow> string list" where
  "all_attr e a = (case se_attrs e a of None \<Rightarrow> [] | Some vs \<Rightarrow> vs)"

definition first_rdn :: "string \<Rightarrow> string" where
  "first_rdn dn = hd (split_on (CHR '','') dn)"

definition ldap_user :: "search_entry \<Rightarrow> canonical_identity" where
  "ldap_user entry =
     (let uid = (case first_attr entry ''uid'' of None \<Rightarrow> se_dn entry | Some u \<Rightarrow> u);
          cn = (case first_attr entry ''cn'' of None \<Rightarrow> [] | Some c \<Rightarrow> c);
          groups = map (\<lambda>dn. trim_start_matches ''cn='' (first_rdn dn)) (all_attr entry ''memberOf'')
      in mk_identity (''user:'' @ uid) cn (first_attr entry ''mail'') ''ldap'' (all_attr entry ''employeeType'') groups)"

definition ldap_group :: "search_entry \<Rightarrow> group" where
  "ldap_group entry =
     (let cn = (case first_attr entry ''cn'' of None \<Rightarrow> se_dn entry | Some c \<Rightarrow> c);
          members = map (\<lambda>dn. ''user:'' @ trim_start_matches ''cn='' (trim_start_matches ''uid='' (first_rdn dn)))
                      (all_attr entry ''member'')
      in \<lparr>gr_id = cn, gr_name = cn, gr_members = members, gr_source = ''ldap''\<rparr>)"

definition ldap_step :: "string \<Rightarrow> string \<Rightarrow> string + (string + 'a) \<Rightarrow> (identity_error, 'a) result" where
  "ldap_step asked refused r =
     and_then (lift_msg (\<lambda>e. IdMsg (asked @ e)) r) (\<lambda>r'. lift_msg (\<lambda>e. IdMsg (refused @ e)) r')"

definition sync_live :: "ldap_server \<Rightarrow> string \<Rightarrow> ldap_adapter \<Rightarrow> (identity_error, identity_snapshot) result" where
  "sync_live sv now ad =
     (let cf = la_config ad in
      and_then (lift_msg (\<lambda>e. IdMsg (''ldap connect: '' @ e)) (lv_connect sv (lc_url cf))) (\<lambda>_.
      and_then (ldap_step ''ldap bind: '' ''ldap bind failed: '' (lv_bind sv (lc_bind_dn cf) (lc_bind_password cf))) (\<lambda>_.
      and_then (ldap_step ''ldap user search: '' ''ldap user search failed: ''
          (lv_search sv (lc_base_dn cf) (lc_user_filter cf) [''uid'', ''cn'', ''mail'', ''employeeType'', ''memberOf''])) (\<lambda>rs.
      and_then (ldap_step ''ldap group search: '' ''ldap group search failed: ''
          (lv_search sv (lc_base_dn cf) (lc_group_filter cf) [''cn'', ''member''])) (\<lambda>grs.
        Ok \<lparr>is_users = map ldap_user rs, is_groups = map ldap_group grs, is_relationships = [], is_synced_at = Some now\<rparr>)))))"

definition ldap_sync :: "ldap_server \<Rightarrow> string \<Rightarrow> ldap_adapter \<Rightarrow> (identity_error, identity_snapshot) result" where
  "ldap_sync sv now ad =
     (if lc_mock (la_config ad)
      then Ok \<lparr>is_users = md_users (la_mock ad), is_groups = md_groups (la_mock ad),
               is_relationships = md_relationships (la_mock ad), is_synced_at = Some now\<rparr>
      else sync_live sv now ad)"

text \<open>The local fixtures: a file read through the JSON reader.\<close>

definition local_sync :: "(string \<Rightarrow> string + identity_snapshot) \<Rightarrow> path \<Rightarrow> (disk, identity_error, identity_snapshot) st" where
  "local_sync from_json p =
     st_bind (st_map_err (\<lambda>e. IdIo (policy_error_text e)) (fs_read p)) (\<lambda>data. st_lift (lift_msg IdMsg (from_json data)))"

definition group_members_map :: "identity_snapshot \<Rightarrow> (string \<rightharpoonup> string list)" where
  "group_members_map snap = fold (\<lambda>g m. hm_insert (gr_id g) (gr_members g) m) (is_groups snap) Map.empty"

definition save_snapshot ::
  "(identity_snapshot \<Rightarrow> string + string) \<Rightarrow> path \<Rightarrow> identity_snapshot \<Rightarrow> (disk, identity_error, unit) st" where
  "save_snapshot to_json p snap =
     st_bind (if p = [] then st_ret () else st_map_err (\<lambda>e. IdIo (policy_error_text e)) (fs_create_dir_all (butlast p))) (\<lambda>_.
     st_bind (st_lift (lift_msg IdMsg (to_json snap))) (\<lambda>text.
       st_map_err (\<lambda>e. IdIo (policy_error_text e)) (fs_write p text)))"

section \<open>Drafts from LDAP groups\<close>

definition ldap_draft_header :: "string list" where
  "ldap_draft_header =
     [''# DRAFT policies generated from LDAP group sync'',
      ''# Review and commit manually '' @ EM_DASH @ '' never auto-deployed.'', []]"

definition ldap_gid :: "group \<Rightarrow> string" where
  "ldap_gid g = to_ascii_uppercase (gr_name g)"

definition ldap_block :: "group \<Rightarrow> string list" where
  "ldap_block g =
     (let gid = ldap_gid g in
      (self_profile_lines (''draft_group_'' @ gid @ ''_read_profile'') gid @ [[]]) @
      (if contains gid ''EXECUTIVE'' \<or> gid = ''EXECUTIVE''
       then exec_expense_lines ''draft_protect_executive_expenses'' @ [[]] else []) @
      (if contains gid ''PAYROLL'' then payroll_lines ''draft_payroll_salary_export'' @ [[]] else []))"

definition draft_policies_from_groups :: "identity_snapshot \<Rightarrow> string" where
  "draft_policies_from_groups snap =
     fold (\<lambda>g out. out @ unlines (ldap_block g)) (is_groups snap) (unlines ldap_draft_header)"

definition write_drafts_to_store ::
  "identity_snapshot \<Rightarrow> policy_store \<Rightarrow> (disk, identity_error, string) st" where
  "write_drafts_to_store snap st =
     (let dsl = draft_policies_from_groups snap in
      st_bind (st_map_err (\<lambda>e. IdMsg (policy_error_text e)) (write_draft st ''ldap-sync'' dsl)) (\<lambda>_. st_ret dsl))"

definition ldap_policies :: "group \<Rightarrow> dsl_policy list" where
  "ldap_policies g =
     (let gid = ldap_gid g in
      self_profile_policy (''draft_group_'' @ gid @ ''_read_profile'') gid #
      (if contains gid ''EXECUTIVE'' \<or> gid = ''EXECUTIVE'' then [exec_expense_policy ''draft_protect_executive_expenses''] else []) @
      (if contains gid ''PAYROLL'' then [payroll_policy ''draft_payroll_salary_export''] else []))"

lemma push_blocks: "fold (\<lambda>g out. out @ unlines (f g)) gs h = h @ unlines (concat (map f gs))"
  by (induction gs arbitrary: h) (simp_all add: unlines_def)

lemma ldap_block_gives: "plain_name (gr_name g) \<Longrightarrow> gives (ldap_block g) (ldap_policies g)"
  unfolding ldap_block_def ldap_policies_def Let_def
  using gives_append [OF gives_stanza [OF gives_self_profile]
      gives_append [OF gives_if [OF gives_stanza [OF gives_exec_expense]] gives_if [OF gives_stanza [OF gives_payroll]]]]
  by (fastforce simp: ldap_gid_def)

lemma ldap_header_gives: "gives ldap_draft_header []"
proof -
  have "gives ([''# DRAFT policies generated from LDAP group sync''] @
      [''# Review and commit manually '' @ EM_DASH @ '' never auto-deployed.''] @ [[]]) ([] @ [] @ [])"
    using gives_comment [of "'' Review and commit manually '' @ EM_DASH @ '' never auto-deployed.''"]
      gives_comment [of "'' DRAFT policies generated from LDAP group sync''"]
    by (intro gives_append gives_blank) (simp_all add: EM_DASH_def)
  then show ?thesis by (simp add: ldap_draft_header_def)
qed

interpretation ldap_drafts: draft_generator draft_policies_from_groups ldap_draft_header ldap_block ldap_policies
proof unfold_locales
  show "draft_policies_from_groups s = unlines (ldap_draft_header @ concat (map ldap_block (is_groups s)))" for s
    by (simp add: draft_policies_from_groups_def push_blocks)
  show "gives ldap_draft_header []" by (rule ldap_header_gives)
  show "plain_name (gr_name g) \<Longrightarrow> gives (ldap_block g) (ldap_policies g)" for g by (rule ldap_block_gives)
  show "p \<in> set (ldap_policies g) \<Longrightarrow> cautious p" for p g
    by (auto simp: ldap_policies_def Let_def split: if_splits)
qed

section \<open>Drafts stay drafts\<close>

text \<open>Everything of the store that is committed, signed or served.\<close>

definition served_view :: "codec \<Rightarrow> policy_store \<Rightarrow> disk \<Rightarrow> string option \<times> string option \<times> string option \<times> (string \<Rightarrow> (policy_error, policy_revision) result)" where
  "served_view js st d =
     (file_get d (active_path st), file_get d (head_path st), file_get d (deployed_path st), \<lambda>r. fst (load_revision js st r d))"

lemma served_view_dsl_file:
  assumes "last p = u @ ''.dsl''" "p \<noteq> active_path st"
  shows "served_view js st (file_put p s d) = served_view js st d"
proof -
  have ns: "\<not> store_path st p" by (rule dsl_path_not_store) fact
  then have hd: "p \<noteq> deployed_path st" "p \<noteq> head_path st" by (auto simp: store_path_def)
  have "last (last p) = CHR ''l''" using assms(1) by simp
  then have rv: "p \<noteq> revision_path st r" for r
    using revision_path_last [of st r] by auto
  have "fst (load_revision js st r (file_put p s d)) = fst (load_revision js st r d)" for r
    using rv [of r] by (simp add: load_revision_def fs_read_def st_bind_def split: sum.split)
  then show ?thesis using assms(2) hd by (simp add: served_view_def)
qed

lemma draft_path_ldap: "draft_path st ''ldap-sync'' = po_root st @ [''drafts'', ''ldap-sync.dsl'']"
  by (simp add: draft_path_def path_join_plain)

text \<open>C24: Writing the drafts of a directory sync to a store, whether it succeeds or fails, leaves the
  active document, HEAD, every revision and the deployed revision exactly as they were; when it
  succeeds the draft file holds the generated text, which parses, for any groups whose names stay on
  their line, to exactly the intended policies, none of which allows more than reading one's own
  profile.\<close>

theorem drafts_never_deployed:
  assumes "write_drafts_to_store snap st d = (r, d')"
  shows "served_view js st d' = served_view js st d \<and>
    (is_ok r \<longrightarrow> file_get d' (draft_path st ''ldap-sync'') = Some (draft_policies_from_groups snap)) \<and>
    ((\<forall>g\<in>set (is_groups snap). plain_name (gr_name g)) \<longrightarrow>
       parse_dsl (draft_policies_from_groups snap) = Ok (concat (map ldap_policies (is_groups snap))) \<and>
       (\<forall>p\<in>set (concat (map ldap_policies (is_groups snap))). cautious p))"
proof (intro conjI impI)
  have w: "d' = d \<and> \<not> is_ok r \<or> d' = file_put (draft_path st ''ldap-sync'') (draft_policies_from_groups snap) d"
    using assms by (auto simp: write_drafts_to_store_def write_draft_def fs_write_def st_map_err_def st_bind_def Let_def
        split: option.splits)
  have "served_view js st (file_put (draft_path st ''ldap-sync'') s d) = served_view js st d" for s
    by (rule served_view_dsl_file [of _ "''ldap-sync''"]) (simp_all add: draft_path_ldap store_paths)
  with w show "served_view js st d' = served_view js st d" by auto
  show "file_get d' (draft_path st ''ldap-sync'') = Some (draft_policies_from_groups snap)" if "is_ok r"
    using w that by auto
  assume "\<forall>g\<in>set (is_groups snap). plain_name (gr_name g)"
  from ldap_drafts.drafts_parse [OF this] ldap_drafts.drafts_cautious [OF this]
  show "parse_dsl (draft_policies_from_groups snap) = Ok (concat (map ldap_policies (is_groups snap)))"
    "\<forall>p\<in>set (concat (map ldap_policies (is_groups snap))). cautious p" by auto
qed

theorem drafts_never_deployed_witness:
  "\<exists>d'. write_drafts_to_store (snapshot_default\<lparr>is_groups := md_groups demo_directory\<rparr>) \<lparr>po_root = [''policies'']\<rparr> empty_disk =
      (Ok (draft_policies_from_groups (snapshot_default\<lparr>is_groups := md_groups demo_directory\<rparr>)), d') \<and>
    served_view reference_codec \<lparr>po_root = [''policies'']\<rparr> d' = served_view reference_codec \<lparr>po_root = [''policies'']\<rparr> empty_disk \<and>
    is_ok (parse_dsl (draft_policies_from_groups (snapshot_default\<lparr>is_groups := md_groups demo_directory\<rparr>)))"
proof -
  let ?s = "snapshot_default\<lparr>is_groups := md_groups demo_directory\<rparr>" and ?st = "\<lparr>po_root = [''policies'']\<rparr>"
  let ?d = "file_put (draft_path ?st ''ldap-sync'') (draft_policies_from_groups ?s) empty_disk"
  have w: "write_drafts_to_store ?s ?st empty_disk = (Ok (draft_policies_from_groups ?s), ?d)"
    by (simp add: write_drafts_to_store_def write_draft_def fs_write_def st_map_err_def st_bind_def empty_disk_def Let_def)
  have "\<forall>g\<in>set (is_groups ?s). plain_name (gr_name g)"
    by (simp add: demo_directory_def)
  then show ?thesis using w drafts_never_deployed [OF w, of reference_codec] by auto
qed

end
