(* ===== verification/Identity_Saml.thy ===== *)
theory Identity_Saml
  imports Identity_Ldap
begin

text \<open>
  \<open>authz-identity/src/idp.rs\<close>, the SAML adapter: reading an identity out of a SAML response by text
  search. Base64 and UTF-8 decoding are parameters.
\<close>

section \<open>The reader\<close>

definition extract_xml_tag :: "string \<Rightarrow> string \<Rightarrow> string option" where
  "extract_xml_tag xml tag_name =
     Option.bind (find_split xml (tag_name @ ''>'')) (\<lambda>(_, rest).
     Option.bind (find_split rest ''</'') (\<lambda>(value, _). Some (trim value)))"

text \<open>The two spellings of the value's tag are 22 and 16 bytes long, what the source skips.\<close>

definition attribute_value_after :: "string \<Rightarrow> string option" where
  "attribute_value_after rest =
     (case find_split rest ''<saml2:AttributeValue>'' of
        Some (_, v) \<Rightarrow> Some v
      | None \<Rightarrow> map_option snd (find_split rest ''<AttributeValue>''))"

definition extract_xml_attribute_value :: "string \<Rightarrow> string \<Rightarrow> string option" where
  "extract_xml_attribute_value xml attr_name =
     Option.bind (find_split xml (quoted attr_name)) (\<lambda>(_, after).
     Option.bind (attribute_value_after (quoted attr_name @ after)) (\<lambda>val_rest.
     Option.bind (find_split val_rest ''</'') (\<lambda>(value, _). Some (trim value))))"

definition or_else :: "'a option \<Rightarrow> 'a option \<Rightarrow> 'a option" where
  "or_else x y = (case x of None \<Rightarrow> y | Some v \<Rightarrow> Some v)"

definition comma_items :: "string \<Rightarrow> string list" where
  "comma_items s = filter (\<lambda>x. x \<noteq> []) (map trim (split_on (CHR '','') s))"

definition default_str :: "string option \<Rightarrow> string" where
  "default_str x = (case x of None \<Rightarrow> [] | Some s \<Rightarrow> s)"

definition identity_of_xml :: "string \<Rightarrow> canonical_identity" where
  "identity_of_xml raw =
     (let name_id = (case or_else (extract_xml_tag raw ''NameID'') (extract_xml_tag raw ''saml:NameID'') of
                       None \<Rightarrow> ''user:saml-principal'' | Some n \<Rightarrow> n);
          email = or_else (extract_xml_attribute_value raw ''email'') (extract_xml_attribute_value raw ''mail'');
          roles_raw = default_str (or_else (extract_xml_attribute_value raw ''roles'') (extract_xml_attribute_value raw ''role''));
          groups_raw = default_str (or_else (extract_xml_attribute_value raw ''groups'') (extract_xml_attribute_value raw ''memberOf''))
      in mk_identity (if starts_with ''user:'' name_id then name_id else ''user:'' @ name_id)
           (default_str (extract_xml_attribute_value raw ''displayName'')) email ''saml2''
           (comma_items roles_raw) (comma_items groups_raw))"

definition parse_assertion ::
  "(string \<Rightarrow> string + string) \<Rightarrow> (string \<Rightarrow> string + string) \<Rightarrow> string \<Rightarrow> (identity_error, canonical_identity) result" where
  "parse_assertion b64 utf8 xml_or_b64 =
     and_then
       (if starts_with ''<'' (trim xml_or_b64) then Ok xml_or_b64
        else and_then (lift_msg (\<lambda>e. IdMsg (''invalid base64 saml assertion: '' @ e)) (b64 (trim xml_or_b64))) (\<lambda>bytes.
               lift_msg IdMsg (utf8 bytes)))
       (\<lambda>raw. Ok (identity_of_xml raw))"

section \<open>Reading a written assertion\<close>

text \<open>An assertion as identity providers write it (the shape of the unit test's).\<close>

definition saml_attribute :: "string \<Rightarrow> string \<Rightarrow> string" where
  "saml_attribute n v = ''<saml2:Attribute Name='' @ quoted n @ ''><saml2:AttributeValue>'' @ v @ ''</saml2:AttributeValue></saml2:Attribute>''"

definition saml_assertion :: "string \<Rightarrow> string \<Rightarrow> string \<Rightarrow> string list \<Rightarrow> string list \<Rightarrow> string" where
  "saml_assertion i n e rs gs =
     ''<saml2:Assertion><saml2:Subject><saml2:NameID>'' @ i @ ''</saml2:NameID></saml2:Subject><saml2:AttributeStatement>'' @
     saml_attribute ''email'' e @ saml_attribute ''displayName'' n @ saml_attribute ''roles'' (join '','' rs) @
     saml_attribute ''groups'' (join '','' gs) @ ''</saml2:AttributeStatement></saml2:Assertion>''"

definition xml_text :: "string \<Rightarrow> bool" where
  "xml_text s \<longleftrightarrow> trimmed s \<and> CHR ''<'' \<notin> set s \<and> DQ \<notin> set s"

definition item_text :: "string \<Rightarrow> bool" where
  "item_text s \<longleftrightarrow> xml_text s \<and> s \<noteq> [] \<and> CHR '','' \<notin> set s"

text \<open>Text without the pattern's first character is skipped.\<close>

lemma find_split_step:
  "strip_prefix p (c # s) = None \<Longrightarrow> find_split (c # s) p = map_option (\<lambda>(b, r). (c # b, r)) (find_split s p)"
  by simp

lemma find_split_skip:
  "c \<notin> set a \<Longrightarrow> find_split (a @ s) (c # p) = map_option (\<lambda>(b, r). (a @ b, r)) (find_split s (c # p))"
  by (induction a) (auto simp: option.map_comp comp_def split_def option.map_ident)

lemma find_split_prefix: "p \<noteq> [] \<Longrightarrow> find_split (p @ r) p = Some ([], r)"
proof (cases p)
  case (Cons c q)
  then show ?thesis using strip_prefix_append [of p r] by simp
qed simp

lemma find_close: "CHR ''<'' \<notin> set v \<Longrightarrow> find_split (v @ CHR ''<'' # CHR ''/'' # r) ''</'' = Some (v, r)"
  using find_split_skip [of "CHR ''<''" v "CHR ''<'' # CHR ''/'' # r" "''/''"] by simp

text \<open>A quoted name is found at its own place and not at another's.\<close>

lemma strip_quoted_other:
  assumes "DQ \<notin> set n" "DQ \<notin> set m" "m \<noteq> n"
  shows "strip_prefix (quoted m) (quoted n @ r) = None"
proof (cases "strip_prefix (quoted m) (quoted n @ r)")
  case (Some x)
  then have "n @ DQ # r = m @ DQ # x" by (simp add: strip_prefix_Some_iff quoted_def)
  then have "takeWhile (\<lambda>c. c \<noteq> DQ) (n @ DQ # r) = takeWhile (\<lambda>c. c \<noteq> DQ) (m @ DQ # x)" by simp
  moreover have "takeWhile (\<lambda>c. c \<noteq> DQ) (w @ DQ # y) = w" if "DQ \<notin> set w" for w y
    using that by (induction w) auto
  ultimately show ?thesis using assms by simp
qed

lemma find_quoted_skip:
  assumes d: "DQ \<notin> set a" "DQ \<notin> set n" "DQ \<notin> set b" "DQ \<notin> set m" and m: "m \<noteq> []" "CHR ''>'' \<notin> set m" "m \<noteq> n"
  shows "find_split (a @ quoted n @ CHR ''>'' # b @ r) (quoted m) =
    map_option (\<lambda>(x, y). (a @ quoted n @ CHR ''>'' # b @ x, y)) (find_split r (quoted m))"
proof -
  have q: "quoted m = DQ # m @ [DQ]" by (simp add: quoted_def)
  note skip = find_split_skip [where c = DQ and p = "m @ [DQ]", folded q]
  have 1: "find_split (DQ # CHR ''>'' # s) (quoted m) = map_option (\<lambda>(x, y). (DQ # x, y)) (find_split (CHR ''>'' # s) (quoted m))" for s
    using m by (intro find_split_step) (cases m, auto simp: quoted_def)
  have 2: "find_split (quoted n @ s) (quoted m) = map_option (\<lambda>(x, y). (DQ # x, y)) (find_split (n @ DQ # s) (quoted m))" for s
    using strip_quoted_other [OF d(2,4) m(3), of s] find_split_step [of "quoted m" DQ "n @ DQ # s"] by (simp add: quoted_def)
  have 3: "find_split (CHR ''>'' # b @ r) (quoted m) = map_option (\<lambda>(x, y). (CHR ''>'' # b @ x, y)) (find_split r (quoted m))"
    using skip [of "CHR ''>'' # b" r] d(3) by simp
  show ?thesis
    unfolding skip [OF d(1)] 2 skip [OF d(2)] 1 3
    by (simp add: option.map_comp comp_def split_def quoted_def)
qed

lemma find_attribute_skip:
  assumes "DQ \<notin> set v" "DQ \<notin> set n" "DQ \<notin> set m" "m \<noteq> []" "CHR ''>'' \<notin> set m" "m \<noteq> n"
  shows "find_split (saml_attribute n v @ r) (quoted m) = map_option (\<lambda>(x, y). (saml_attribute n v @ x, y)) (find_split r (quoted m))"
  using find_quoted_skip [of "''<saml2:Attribute Name=''" n "''<saml2:AttributeValue>'' @ v @ ''</saml2:AttributeValue></saml2:Attribute>''" m r] assms
  by (simp add: saml_attribute_def)

lemma find_attribute_here:
  assumes "DQ \<notin> set m"
  shows "find_split (saml_attribute m v @ r) (quoted m) =
    Some (''<saml2:Attribute Name='', ''><saml2:AttributeValue>'' @ v @ ''</saml2:AttributeValue></saml2:Attribute>'' @ r)"
proof -
  let ?s = "''><saml2:AttributeValue>'' @ v @ ''</saml2:AttributeValue></saml2:Attribute>'' @ r"
  have "find_split (''<saml2:Attribute Name='' @ quoted m @ ?s) (quoted m) =
      map_option (\<lambda>(b, y). (''<saml2:Attribute Name='' @ b, y)) (find_split (quoted m @ ?s) (quoted m))"
    using find_split_skip [of DQ "''<saml2:Attribute Name=''" "quoted m @ ?s" "m @ [DQ]"] by (simp add: quoted_def)
  then show ?thesis
    using find_split_prefix [of "quoted m" ?s] by (simp add: saml_attribute_def quoted_def)
qed

lemma attribute_value_written:
  assumes "CHR ''<'' \<notin> set m" "CHR ''<'' \<notin> set v"
  shows "attribute_value_after (quoted m @ ''><saml2:AttributeValue>'' @ v @ r) = Some (v @ r)"
proof -
  let ?t = "''<saml2:AttributeValue>''"
  have "find_split ((quoted m @ ''>'') @ ?t @ v @ r) ?t =
      map_option (\<lambda>(b, y). ((quoted m @ ''>'') @ b, y)) (find_split (?t @ v @ r) ?t)"
    using find_split_skip [of "CHR ''<''" "quoted m @ ''>''" "?t @ v @ r" "tl ?t"] assms(1) by (simp add: quoted_def)
  then show ?thesis
    using find_split_prefix [of ?t "v @ r"] by (simp add: attribute_value_after_def)
qed

definition text_after :: "string \<Rightarrow> string \<Rightarrow> string option" where
  "text_after xml p = map_option snd (find_split xml p)"

lemma text_after_find: "text_after s p = Some y \<longleftrightarrow> (\<exists>b. find_split s p = Some (b, y))"
  by (auto simp: text_after_def)

lemma text_after_skip: "c \<notin> set a \<Longrightarrow> text_after (a @ s) (c # p) = text_after s (c # p)"
  by (simp add: text_after_def find_split_skip option.map_comp comp_def split_def)

lemma text_after_attribute:
  assumes "DQ \<notin> set v" "DQ \<notin> set n" "DQ \<notin> set m" "m \<noteq> []" "CHR ''>'' \<notin> set m" "m \<noteq> n"
  shows "text_after (saml_attribute n v @ r) (quoted m) = text_after r (quoted m)"
  by (simp add: text_after_def find_attribute_skip [OF assms] option.map_comp comp_def split_def)

lemma text_after_here:
  "DQ \<notin> set m \<Longrightarrow> text_after (saml_attribute m v @ r) (quoted m) =
     Some (''><saml2:AttributeValue>'' @ v @ ''</saml2:AttributeValue></saml2:Attribute>'' @ r)"
  by (simp add: text_after_def find_attribute_here)

lemma extract_written:
  assumes "text_after xml (quoted m) = Some (''><saml2:AttributeValue>'' @ v @ ''</saml2:AttributeValue></saml2:Attribute>'' @ r)"
    "CHR ''<'' \<notin> set m" "xml_text v"
  shows "extract_xml_attribute_value xml m = Some v"
proof -
  let ?r = "''</saml2:AttributeValue></saml2:Attribute>'' @ r"
  obtain b where f: "find_split xml (quoted m) = Some (b, ''><saml2:AttributeValue>'' @ v @ ?r)"
    using assms(1) unfolding text_after_find by blast
  have v: "CHR ''<'' \<notin> set v" "trimmed v" using assms(3) by (auto simp: xml_text_def)
  have a: "attribute_value_after (quoted m @ ''><saml2:AttributeValue>'' @ v @ ?r) = Some (v @ ?r)"
    by (rule attribute_value_written [OF assms(2) v(1)])
  have c: "find_split (v @ ?r) ''</'' = Some (v, drop 2 ?r)"
    using find_close [OF v(1), of "drop 2 ?r"] by simp
  have "extract_xml_attribute_value xml m =
      Option.bind (attribute_value_after (quoted m @ ''><saml2:AttributeValue>'' @ v @ ?r)) (\<lambda>w.
      Option.bind (find_split w ''</'') (\<lambda>(value, _). Some (trim value)))"
    unfolding extract_xml_attribute_value_def f by (simp del: append.simps)
  also have "\<dots> = Some (trim v)" unfolding a by (simp only: Option.bind.simps c case_prod_conv)
  finally show ?thesis using v(2) by simp
qed

lemma comma_items_join:
  assumes "\<forall>r\<in>set rs. item_text r"
  shows "comma_items (join '','' rs) = rs"
proof (cases "rs = []")
  case True
  then show ?thesis by (simp add: comma_items_def)
next
  case False
  have "split_on (CHR '','') (join '','' rs) = rs"
    using False assms by (intro split_on_join) (auto simp: item_text_def)
  moreover have "map trim rs = rs" "filter (\<lambda>x. x \<noteq> []) rs = rs"
    using assms by (auto simp: item_text_def xml_text_def filter_id_conv intro!: map_idI)
  ultimately show ?thesis by (simp add: comma_items_def)
qed

lemma item_join_text:
  assumes "\<forall>r\<in>set rs. item_text r"
  shows "xml_text (join '','' rs)"
proof -
  have "CHR ''<'' \<notin> set (join '','' rs) \<and> DQ \<notin> set (join '','' rs)"
    using assms by (induction "'',''" rs rule: join.induct) (auto simp: item_text_def xml_text_def)
  moreover have "trimmed (join '','' rs)"
    using assms
  proof (induction "'',''" rs rule: join.induct)
    case (3 w v ws)
    then have "trimmed w" "w \<noteq> []" "trimmed (join '','' (v # ws))" "item_text v" by (auto simp: item_text_def xml_text_def)
    moreover have "join '','' (v # ws) \<noteq> []" using \<open>item_text v\<close> by (cases ws) (auto simp: item_text_def)
    ultimately show ?case using trimmed_append [of w "join '','' (v # ws)" "'',''"] by simp
  qed (auto simp: item_text_def xml_text_def trimmed_def)
  ultimately show ?thesis by (simp add: xml_text_def)
qed



lemma contains_no_tag: "\<not> contains s p \<Longrightarrow> find_split s (p @ q) = None"
  unfolding find_split_None_iff contains_iff by (auto simp: sublist_def)



end
