(* ===== verification/Catalog.thy ===== *)
theory Catalog
  imports Policy_Translate
begin

text \<open>
  The resource catalogue (\<open>authz-catalog/src/catalog.rs\<close>, \<open>error.rs\<close>): resources, tool mappings, the
  requests made for tool calls and retrievals, and validation. JSON values are a datatype whose
  numbers carry their text and whose objects list their members in the map's order; the compact text
  of a value (\<open>Value::to_string\<close>) and the JSON and YAML readers are parameters.
\<close>

section \<open>Data\<close>

datatype json =
    JNull
  | JBool bool
  | JNum string
  | JStr string
  | JArr "json list"
  | JObj "(string \<times> json) list"

datatype catalog_error = CatalogIo string | CatalogParse string | CatalogValidate string

fun catalog_error_text :: "catalog_error \<Rightarrow> string" where
  "catalog_error_text (CatalogIo m) = ''catalog io: '' @ m"
| "catalog_error_text (CatalogParse m) = ''catalog parse: '' @ m"
| "catalog_error_text (CatalogValidate m) = ''catalog validate: '' @ m"

record catalog_resource =
  cr_id :: string
  cr_kind :: string
  cr_name :: string
  cr_department :: "string option"
  cr_sensitivity :: "string option"
  cr_attrs :: "string index_map"

record tool_mapping =
  tm_tool_name :: string
  tm_action :: string
  tm_resource_kind :: string
  tm_resource_id_arg :: "string option"
  tm_default_attrs :: "string index_map"
  tm_arg_mappings :: "string index_map"

record resource_catalog =
  ct_version :: string
  ct_resources :: "catalog_resource list"
  ct_tools :: "tool_mapping list"

section \<open>JSON access\<close>

definition json_get :: "json \<Rightarrow> string \<Rightarrow> json option" where
  "json_get v k = (case v of JObj kvs \<Rightarrow> map_of kvs k | _ \<Rightarrow> None)"

definition json_as_str :: "json \<Rightarrow> string option" where
  "json_as_str v = (case v of JStr s \<Rightarrow> Some s | _ \<Rightarrow> None)"

definition json_bool_text :: "bool \<Rightarrow> string" where
  "json_bool_text b = (if b then ''true'' else ''false'')"

fun flatten_json_args :: "(json \<Rightarrow> string) \<Rightarrow> json \<Rightarrow> string \<Rightarrow> string index_map \<Rightarrow> string index_map"
  and flatten_members :: "(json \<Rightarrow> string) \<Rightarrow> (string \<times> json) list \<Rightarrow> string \<Rightarrow> string index_map \<Rightarrow> string index_map" where
  "flatten_json_args sh (JObj kvs) pre out = flatten_members sh kvs pre out"
| "flatten_json_args sh JNull pre out = out"
| "flatten_json_args sh (JBool b) pre out = out"
| "flatten_json_args sh (JNum n) pre out = out"
| "flatten_json_args sh (JStr s) pre out = out"
| "flatten_json_args sh (JArr xs) pre out = out"
| "flatten_members sh [] pre out = out"
| "flatten_members sh ((k, v) # kvs) pre out =
     flatten_members sh kvs pre
       (case v of
          JStr s \<Rightarrow> im_insert (pre @ k) s out
        | JNum n \<Rightarrow> im_insert (pre @ k) n out
        | JBool b \<Rightarrow> im_insert (pre @ k) (json_bool_text b) out
        | JObj ms \<Rightarrow> flatten_json_args sh (JObj ms) (pre @ k @ ''_'') out
        | JArr xs \<Rightarrow> im_insert (pre @ k) (join '','' (map sh xs)) out
        | JNull \<Rightarrow> out)"

fun json_walk :: "json \<Rightarrow> string list \<Rightarrow> json option" where
  "json_walk v [] = Some v"
| "json_walk v (p # ps) = (case json_get v p of None \<Rightarrow> None | Some w \<Rightarrow> json_walk w ps)"

definition extract_nested_arg :: "(json \<Rightarrow> string) \<Rightarrow> json \<Rightarrow> string \<Rightarrow> string option" where
  "extract_nested_arg sh val path =
     (let clean = trim_start_matches ''$.'' (trim_start_matches ''args.'' path) in
      map_option (\<lambda>v. case v of JStr s \<Rightarrow> s | JNum n \<Rightarrow> n | JBool b \<Rightarrow> json_bool_text b | _ \<Rightarrow> sh v)
        (json_walk val (split_on (CHR ''.'') clean)))"

section \<open>Requests from the catalogue\<close>

definition find_resource :: "resource_catalog \<Rightarrow> string \<Rightarrow> catalog_resource option" where
  "find_resource cat s = find (\<lambda>r. cr_id r = s \<or> cr_kind r = s) (ct_resources cat)"

definition find_tool :: "resource_catalog \<Rightarrow> string \<Rightarrow> tool_mapping option" where
  "find_tool cat name = find (\<lambda>t. tm_tool_name t = name) (ct_tools cat)"

definition resource_attrs :: "catalog_resource \<Rightarrow> string index_map \<Rightarrow> string index_map" where
  "resource_attrs r attrs =
     (let a1 = (case cr_department r of None \<Rightarrow> attrs | Some d \<Rightarrow> im_insert ''department'' d attrs);
          a2 = (case cr_sensitivity r of None \<Rightarrow> a1 | Some s \<Rightarrow> im_insert ''sensitivity'' s a1)
      in im_extend (cr_attrs r) a2)"

definition apply_arg_mapping :: "(json \<Rightarrow> string) \<Rightarrow> json \<Rightarrow> string \<times> string \<Rightarrow> string index_map \<Rightarrow> string index_map" where
  "apply_arg_mapping sh args m ctx =
     (case extract_nested_arg sh args (snd m) of None \<Rightarrow> ctx | Some v \<Rightarrow> im_insert (fst m) v ctx)"

definition tool_context :: "(json \<Rightarrow> string) \<Rightarrow> string \<Rightarrow> json \<Rightarrow> string index_map" where
  "tool_context sh tool_name args = flatten_json_args sh args ''arg_'' (im_insert ''tool_name'' tool_name [])"

definition proxy_agent :: string where
  "proxy_agent = ''agent:paac-proxy''"

definition authz_for_tool ::
  "(json \<Rightarrow> string) \<Rightarrow> resource_catalog \<Rightarrow> principal \<Rightarrow> string \<Rightarrow> json \<Rightarrow> authz_request" where
  "authz_for_tool sh cat p tool_name args =
     (case find_tool cat tool_name of
        Some m \<Rightarrow>
          (let rid = Option.bind (Option.bind (tm_resource_id_arg m) (json_get args)) json_as_str;
               attrs = (case Option.bind rid (find_resource cat) of
                          None \<Rightarrow> tm_default_attrs m
                        | Some r \<Rightarrow> resource_attrs r (tm_default_attrs m));
               ctx = fold (apply_arg_mapping sh args) (tm_arg_mappings m) (tool_context sh tool_name args)
           in \<lparr>rq_principal = p, rq_action = action_new (tm_action m),
               rq_resource = \<lparr>rs_kind = tm_resource_kind m, rs_id = rid, rs_attrs = attrs\<rparr>,
               rq_subject = None, rq_context = \<lparr>cx_values = ctx\<rparr>, rq_relationships = [],
               rq_acting_as = Some proxy_agent, rq_on_behalf_of = None\<rparr>)
      | None \<Rightarrow>
          \<lparr>rq_principal = p, rq_action = action_new ''TOOL_INVOKE'',
           rq_resource = \<lparr>rs_kind = ''TOOL_UNKNOWN'', rs_id = Some tool_name, rs_attrs = []\<rparr>,
           rq_subject = None, rq_context = \<lparr>cx_values = tool_context sh tool_name args\<rparr>, rq_relationships = [],
           rq_acting_as = Some proxy_agent, rq_on_behalf_of = None\<rparr>)"

definition authz_for_retrieve ::
  "resource_catalog \<Rightarrow> principal \<Rightarrow> string \<Rightarrow> string option \<Rightarrow> authz_request" where
  "authz_for_retrieve cat p collection document_id =
     (let (kind, attrs) =
        (case find_resource cat collection of
           Some r \<Rightarrow> (cr_kind r, resource_attrs r [])
         | None \<Rightarrow> (''VECTOR_COLLECTION'', []))
      in \<lparr>rq_principal = p, rq_action = action_new ''READ'',
          rq_resource = \<lparr>rs_kind = kind, rs_id = (case document_id of None \<Rightarrow> Some collection | Some i \<Rightarrow> Some i),
            rs_attrs = attrs\<rparr>,
          rq_subject = None, rq_context = \<lparr>cx_values = im_insert ''collection'' collection []\<rparr>, rq_relationships = [],
          rq_acting_as = Some proxy_agent, rq_on_behalf_of = None\<rparr>)"

section \<open>Loading and validation\<close>

definition load_catalog ::
  "(string \<Rightarrow> string + resource_catalog) \<Rightarrow> (string \<Rightarrow> string + resource_catalog) \<Rightarrow> string \<Rightarrow> string + string \<Rightarrow>
   (catalog_error, resource_catalog) result" where
  "load_catalog of_json of_yaml path data =
     and_then (lift_msg CatalogIo data) (\<lambda>text.
       if ends_with ''.json'' path then lift_msg CatalogParse (of_json text) else lift_msg CatalogParse (of_yaml text))"

definition blank :: "string \<Rightarrow> bool" where
  "blank s \<longleftrightarrow> trim s = []"

definition check_resource :: "catalog_resource \<Rightarrow> string set \<Rightarrow> (catalog_error, string set) result" where
  "check_resource r ids =
     (if blank (cr_id r) \<or> blank (cr_kind r) then Fail (CatalogValidate ''resource id and kind are required'')
      else if cr_id r \<in> ids then Fail (CatalogValidate (''duplicate resource id '' @ cr_id r))
      else Ok (insert (cr_id r) ids))"

definition check_tool :: "tool_mapping \<Rightarrow> unit \<Rightarrow> (catalog_error, unit) result" where
  "check_tool t u =
     (if blank (tm_tool_name t) \<or> blank (tm_resource_kind t)
      then Fail (CatalogValidate ''tool_name and resource_kind are required'')
      else if blank (tm_action t) then Fail (CatalogValidate ''tool action is required'')
      else Ok ())"

definition validate_catalog :: "resource_catalog \<Rightarrow> (catalog_error, unit) result" where
  "validate_catalog cat =
     (if ct_resources cat = [] \<and> ct_tools cat = [] then Fail (CatalogValidate ''catalog has no resources or tools'')
      else and_then (try_fold check_resource (ct_resources cat) {}) (\<lambda>_. try_fold check_tool (ct_tools cat) ()))"

section \<open>Context keys of tool requests\<close>

definition engine_keys :: "string list" where
  "engine_keys = [''action_name'', ''resource_kind'', ''subject_is_self'', ''subject_in_direct_reports'', ''subject_id'',
     ''subject_groups'', ''principal_roles'', ''principal_groups'']"

lemma context_value_keys:
  "map fst (map (\<lambda>(k, v). (k, CStr v)) kvs) = map fst kvs"
  by (induction kvs) auto

lemma distinct_around:
  "distinct A \<Longrightarrow> distinct B \<Longrightarrow> set A \<inter> set B = {} \<Longrightarrow>
   distinct (A @ K @ B) \<longleftrightarrow> distinct K \<and> set K \<inter> set (A @ B) = {}"
  by auto

lemma own_context_keys_iff:
  "own_context_keys req \<longleftrightarrow>
     im_wf (cx_values (rq_context req)) \<and> set (map fst (cx_values (rq_context req))) \<inter> set engine_keys = {}"
proof -
  let ?A = "[''action_name'', ''resource_kind'', ''subject_is_self'', ''subject_in_direct_reports'', ''subject_id'', ''subject_groups'']"
  let ?B = "[''principal_roles'', ''principal_groups'']"
  have "map fst (context_values req) = ?A @ map fst (cx_values (rq_context req)) @ ?B"
    unfolding context_values_def map_append context_value_keys by simp
  moreover have "engine_keys = ?A @ ?B" by (simp add: engine_keys_def)
  moreover have "distinct ?A" "distinct ?B" "set ?A \<inter> set ?B = {}" by simp_all
  ultimately show ?thesis
    unfolding own_context_keys_def im_wf_def by (simp only: distinct_around)
qed

lemma flatten_keys:
  "k \<in> fst ` set (flatten_json_args sh v pre out) \<Longrightarrow> k \<in> fst ` set out \<or> prefix pre k"
  "k \<in> fst ` set (flatten_members sh kvs pre out) \<Longrightarrow> k \<in> fst ` set out \<or> prefix pre k"
proof (induction sh v pre out and sh kvs pre out arbitrary: k and k rule: flatten_json_args_flatten_members.induct)
  case (8 sh key v kvs pre out)
  show ?case
    using 8(1) [of _ k] 8(2) [of k] 8(3) by (cases v) (auto simp: im_insert_keys prefix_def; metis append.assoc)+
qed auto

lemma flatten_wf:
  "im_wf out \<Longrightarrow> im_wf (flatten_json_args sh v pre out)" "im_wf out \<Longrightarrow> im_wf (flatten_members sh kvs pre out)"
  by (induction sh v pre out and sh kvs pre out rule: flatten_json_args_flatten_members.induct)
     (auto split: json.split)

lemma flatten_other:
  "\<not> prefix pre k \<Longrightarrow> im_get (flatten_json_args sh v pre out) k = im_get out k"
  "\<not> prefix pre k \<Longrightarrow> im_get (flatten_members sh kvs pre out) k = im_get out k"
proof (induction sh v pre out and sh kvs pre out rule: flatten_json_args_flatten_members.induct)
  case (8 sh key v kvs pre out)
  have "\<not> prefix (pre @ key @ ''_'') k" using 8(3) by (auto simp: prefix_def)
  moreover have "k \<noteq> pre @ key" using 8(3) by auto
  ultimately show ?case using 8 by (cases v) auto
qed auto

lemma tool_context_keys:
  "k \<in> fst ` set (tool_context sh name args) \<Longrightarrow> k = ''tool_name'' \<or> prefix ''arg_'' k"
  using flatten_keys(1) [of k sh args "''arg_''" "im_insert ''tool_name'' name []"]
  by (auto simp: tool_context_def im_insert_keys)

lemma tool_context_wf [simp]: "im_wf (tool_context sh name args)"
  by (simp add: tool_context_def flatten_wf)

lemma apply_arg_mapping_step:
  "im_wf ctx \<Longrightarrow> im_wf (apply_arg_mapping sh args m ctx)"
  "fst ` set (apply_arg_mapping sh args m ctx) \<subseteq> insert (fst m) (fst ` set ctx)"
  "k \<noteq> fst m \<Longrightarrow> im_get (apply_arg_mapping sh args m ctx) k = im_get ctx k"
  by (auto simp: apply_arg_mapping_def im_insert_keys split: option.split)

lemma arg_mappings_wf: "im_wf ctx \<Longrightarrow> im_wf (fold (apply_arg_mapping sh args) ms ctx)"
  by (induction ms arbitrary: ctx) (simp_all add: apply_arg_mapping_step(1))

lemma arg_mappings_keys: "fst ` set (fold (apply_arg_mapping sh args) ms ctx) \<subseteq> fst ` set ctx \<union> fst ` set ms"
proof (induction ms arbitrary: ctx)
  case (Cons m ms)
  show ?case
    using Cons.IH [of "apply_arg_mapping sh args m ctx"] apply_arg_mapping_step(2) [of sh args m ctx] by auto
qed simp

lemma arg_mappings_get:
  "k \<notin> fst ` set ms \<Longrightarrow> im_get (fold (apply_arg_mapping sh args) ms ctx) k = im_get ctx k"
  by (induction ms arbitrary: ctx) (simp_all add: apply_arg_mapping_step(3))

definition tool_context_values :: "(json \<Rightarrow> string) \<Rightarrow> resource_catalog \<Rightarrow> string \<Rightarrow> json \<Rightarrow> string index_map" where
  "tool_context_values sh cat name args =
     fold (apply_arg_mapping sh args) (case find_tool cat name of None \<Rightarrow> [] | Some m \<Rightarrow> tm_arg_mappings m)
       (tool_context sh name args)"

lemma authz_for_tool_fields:
  "rq_principal (authz_for_tool sh cat p name args) = p" "rq_subject (authz_for_tool sh cat p name args) = None"
  "rq_relationships (authz_for_tool sh cat p name args) = []"
  "cx_values (rq_context (authz_for_tool sh cat p name args)) = tool_context_values sh cat name args"
  "rq_action (authz_for_tool sh cat p name args) =
     action_new (case find_tool cat name of None \<Rightarrow> ''TOOL_INVOKE'' | Some m \<Rightarrow> tm_action m)"
  "rs_kind (rq_resource (authz_for_tool sh cat p name args)) =
     (case find_tool cat name of None \<Rightarrow> ''TOOL_UNKNOWN'' | Some m \<Rightarrow> tm_resource_kind m)"
  by (auto simp: authz_for_tool_def tool_context_values_def Let_def split: option.split)

lemma engine_key_names: "k \<in> set engine_keys \<Longrightarrow> k \<noteq> ''tool_name'' \<and> \<not> prefix ''arg_'' k"
  by (auto simp: engine_keys_def)

definition mappings_reserved_free :: "resource_catalog \<Rightarrow> bool" where
  "mappings_reserved_free cat \<longleftrightarrow>
     (\<forall>m\<in>set (ct_tools cat). fst ` set (tm_arg_mappings m) \<inter> (insert ''tool_name'' (set engine_keys)) = {})"

lemma tool_mapping_targets:
  assumes "mappings_reserved_free cat"
  shows "fst ` set (case find_tool cat name of None \<Rightarrow> [] | Some m \<Rightarrow> tm_arg_mappings m) \<inter> insert ''tool_name'' (set engine_keys) = {}"
proof (cases "find_tool cat name")
  case (Some m)
  then have "m \<in> set (ct_tools cat)" by (auto simp: find_tool_def find_Some_iff)
  then show ?thesis using assms Some by (simp add: mappings_reserved_free_def)
qed simp

text \<open>C14: The arguments of a tool call, which the model wrote, cannot influence which DSL policy applies
  to it: for the same principal and tool any two argument values give requests to which exactly the
  same policies apply, the request names the tool, and no argument can take the place of one of the
  engine's own context keys (as long as the catalogue's explicit mappings do not name one).\<close>

theorem tool_arguments_carry_no_authority:
  assumes "mappings_reserved_free cat"
  shows "(policy_applies (authz_for_tool sh cat p name args) pol \<longleftrightarrow> policy_applies (authz_for_tool sh cat p name args') pol) \<and>
    own_context_keys (authz_for_tool sh cat p name args) \<and>
    im_get (cx_values (rq_context (authz_for_tool sh cat p name args))) ''tool_name'' = Some name"
proof (intro conjI)
  show "policy_applies (authz_for_tool sh cat p name args) pol \<longleftrightarrow> policy_applies (authz_for_tool sh cat p name args') pol"
    by (simp add: policy_applies_def authz_for_tool_fields subject_matches_def subject_is_self_def subject_text_def
        subject_in_direct_reports_def subject_group_texts_def)
  let ?ms = "case find_tool cat name of None \<Rightarrow> [] | Some m \<Rightarrow> tm_arg_mappings m"
  note free = tool_mapping_targets [OF assms, of name]
  have "fst ` set (tool_context_values sh cat name args) \<inter> set engine_keys = {}"
    using arg_mappings_keys [of sh args ?ms "tool_context sh name args"] free tool_context_keys [of _ sh name args] engine_key_names
    unfolding tool_context_values_def by blast
  moreover have "im_wf (tool_context_values sh cat name args)"
    by (simp add: tool_context_values_def arg_mappings_wf)
  ultimately show "own_context_keys (authz_for_tool sh cat p name args)"
    by (simp add: own_context_keys_iff authz_for_tool_fields)
  have "im_get (tool_context sh name args) ''tool_name'' = Some name"
    by (simp add: tool_context_def flatten_other)
  moreover have "''tool_name'' \<notin> fst ` set ?ms" using free by blast
  ultimately show "im_get (cx_values (rq_context (authz_for_tool sh cat p name args))) ''tool_name'' = Some name"
    unfolding authz_for_tool_fields tool_context_values_def by (simp add: arg_mappings_get)
qed

definition example_catalog :: resource_catalog where
  "example_catalog =
     \<lparr>ct_version = ''1'',
      ct_resources = [\<lparr>cr_id = ''db.hr.employees'', cr_kind = ''DB_TABLE'', cr_name = ''employees'',
        cr_department = Some ''HR'', cr_sensitivity = Some ''PII'', cr_attrs = []\<rparr>],
      ct_tools = [\<lparr>tm_tool_name = ''sql_query'', tm_action = ''TOOL_INVOKE'', tm_resource_kind = ''DB_TABLE'',
        tm_resource_id_arg = Some ''table'', tm_default_attrs = [],
        tm_arg_mappings = [(''extracted_amount'', ''args.query.amount'')]\<rparr>]\<rparr>"

definition example_args :: json where
  "example_args = JObj [(''principal_roles'', JStr ''CFO''), (''query'', JObj [(''amount'', JNum ''50000'')])]"

lemma example_catalog_free: "mappings_reserved_free example_catalog"
  by (simp add: mappings_reserved_free_def example_catalog_def engine_keys_def)

definition example_deny :: dsl_policy where
  "example_deny = example_dsl_policy\<lparr>dp_where_subjects := []\<rparr>"

theorem tool_arguments_carry_no_authority_witness:
  "own_context_keys (authz_for_tool (\<lambda>_. []) example_catalog (with_roles ''u'' []) ''sql_query'' example_args) \<and>
   (policy_applies (authz_for_tool (\<lambda>_. []) example_catalog (with_roles ''u'' []) ''sql_query'' example_args) example_deny \<longleftrightarrow>
    policy_applies (authz_for_tool (\<lambda>_. []) example_catalog (with_roles ''u'' []) ''sql_query'' JNull) example_deny)"
  using tool_arguments_carry_no_authority [OF example_catalog_free] by blast

section \<open>What validation guarantees\<close>

lemma check_resources_iff:
  "is_ok (try_fold check_resource rs ids) \<longleftrightarrow>
     (\<forall>r\<in>set rs. \<not> blank (cr_id r) \<and> \<not> blank (cr_kind r) \<and> cr_id r \<notin> ids) \<and> distinct (map cr_id rs)"
proof (induction rs arbitrary: ids)
  case (Cons r rs)
  have "check_resource r ids = Ok (insert (cr_id r) ids) \<or>
      (\<exists>f. check_resource r ids = Inl f) \<and> (blank (cr_id r) \<or> blank (cr_kind r) \<or> cr_id r \<in> ids)"
    by (auto simp: check_resource_def)
  moreover have "check_resource r ids = Ok (insert (cr_id r) ids) \<Longrightarrow> \<not> blank (cr_id r) \<and> \<not> blank (cr_kind r) \<and> cr_id r \<notin> ids"
    by (auto simp: check_resource_def split: if_splits)
  ultimately show ?case using Cons by (auto; metis image_eqI)
qed simp

lemma check_tools_iff:
  "is_ok (try_fold check_tool ts u) \<longleftrightarrow>
     (\<forall>t\<in>set ts. \<not> blank (tm_tool_name t) \<and> \<not> blank (tm_resource_kind t) \<and> \<not> blank (tm_action t))"
proof (induction ts arbitrary: u)
  case (Cons t ts)
  have "is_ok (check_tool t u) \<longleftrightarrow> \<not> blank (tm_tool_name t) \<and> \<not> blank (tm_resource_kind t) \<and> \<not> blank (tm_action t)"
    by (auto simp: check_tool_def)
  then show ?case using Cons by (cases "check_tool t u") auto
qed simp

text \<open>Validation accepts a catalogue exactly when it is not empty, every resource has an id and a
  kind and no two share an id, and every tool has a name, a kind and an action; every error is a
  \<open>Validate\<close> error.\<close>

theorem validate_catalog_iff:
  "(is_ok (validate_catalog cat) \<longleftrightarrow>
     (ct_resources cat \<noteq> [] \<or> ct_tools cat \<noteq> []) \<and>
     (\<forall>r\<in>set (ct_resources cat). \<not> blank (cr_id r) \<and> \<not> blank (cr_kind r)) \<and>
     distinct (map cr_id (ct_resources cat)) \<and>
     (\<forall>t\<in>set (ct_tools cat). \<not> blank (tm_tool_name t) \<and> \<not> blank (tm_resource_kind t) \<and> \<not> blank (tm_action t))) \<and>
   faults_only (\<lambda>f. \<exists>m. f = Err (CatalogValidate m)) (validate_catalog cat)"
proof -
  have "is_ok (and_then m (\<lambda>_. n)) \<longleftrightarrow> is_ok m \<and> is_ok n" for m :: "(catalog_error, string set) result" and n :: "(catalog_error, unit) result"
    by (cases m) auto
  moreover have "faults_only (\<lambda>f. \<exists>m. f = Err (CatalogValidate m)) (validate_catalog cat)"
    by (auto simp: validate_catalog_def check_resource_def check_tool_def intro!: faults_only_and_then faults_only_try_fold)
  ultimately show ?thesis
    by (auto simp: validate_catalog_def check_resources_iff check_tools_iff)
qed

theorem validate_catalog_iff_witness: "is_ok (validate_catalog example_catalog)"
  using validate_catalog_iff [of example_catalog]
  by (simp add: example_catalog_def blank_def trim_Nil_iff is_ws_def)

end
