(* ===== verification/Proxy_Config.thy ===== *)
theory Proxy_Config
  imports Catalog
begin

text \<open>
  \<open>authz-llm-proxy\<close>: configuration (config.rs) and errors with their HTTP responses (error.rs). The
  TOML reader is a parameter, the process environment a map; a path is its text.
\<close>

section \<open>Configuration\<close>

datatype run_mode = Development | Production

record upstream_config =
  up_base_url :: string
  up_api_key :: "string option"
  up_timeout_secs :: nat

record ldap_section =
  ls_url :: string
  ls_bind_dn :: string
  ls_bind_password :: string
  ls_base_dn :: string
  ls_mock :: bool

record identity_config =
  id_jwt_hmac_secret :: "string option"
  id_jwks_url :: "string option"
  id_prefer_jwt_roles :: bool
  id_allow_header_identity :: bool
  id_ldap :: "ldap_section option"
  id_cache_ttl_secs :: nat

record connectors_config =
  cn_execute_tools :: bool
  cn_http_base_url :: "string option"

record proxy_config =
  px_listen :: string
  px_mode :: run_mode
  px_require_signed_bundle :: bool
  px_policy_dir :: string
  px_catalog_path :: string
  px_audit_path :: string
  px_identity_dir :: string
  px_upstream :: upstream_config
  px_identity :: identity_config
  px_connectors :: connectors_config

text \<open>\<open>Default\<close> for the enum and the derived ones: the flags are false and the time to live zero there,
  unlike the defaults of the fields when the section is present.\<close>

definition run_mode_default :: run_mode where
  "run_mode_default = Development"

definition identity_config_default :: identity_config where
  "identity_config_default =
     \<lparr>id_jwt_hmac_secret = None, id_jwks_url = None, id_prefer_jwt_roles = False, id_allow_header_identity = False,
      id_ldap = None, id_cache_ttl_secs = 0\<rparr>"

definition connectors_config_default :: connectors_config where
  "connectors_config_default = \<lparr>cn_execute_tools = False, cn_http_base_url = None\<rparr>"

text \<open>A configuration file that gives the upstream and nothing else.\<close>

definition default_config :: "upstream_config \<Rightarrow> proxy_config" where
  "default_config up =
     \<lparr>px_listen = ''127.0.0.1:8080'', px_mode = run_mode_default, px_require_signed_bundle = True,
      px_policy_dir = ''data/policies'', px_catalog_path = ''data/catalog/company_resources.yaml'',
      px_audit_path = ''data/audit/decisions.jsonl'', px_identity_dir = ''data/identity'', px_upstream = up,
      px_identity = identity_config_default, px_connectors = connectors_config_default\<rparr>"

definition default_timeout :: nat where
  "default_timeout = 120"

section \<open>The environment\<close>

type_synonym environment = "string \<rightharpoonup> string"

definition with_env :: "environment \<Rightarrow> string \<Rightarrow> (string \<Rightarrow> proxy_config \<Rightarrow> proxy_config) \<Rightarrow> proxy_config \<Rightarrow> proxy_config" where
  "with_env env name f cfg = (case env name of None \<Rightarrow> cfg | Some v \<Rightarrow> f v cfg)"

definition parse_mode :: "string \<Rightarrow> run_mode" where
  "parse_mode v = (if to_ascii_lowercase v \<in> {''production'', ''prod''} then Production else Development)"

definition set_upstream :: "(upstream_config \<Rightarrow> upstream_config) \<Rightarrow> proxy_config \<Rightarrow> proxy_config" where
  "set_upstream f cfg = cfg\<lparr>px_upstream := f (px_upstream cfg)\<rparr>"

definition set_identity :: "(identity_config \<Rightarrow> identity_config) \<Rightarrow> proxy_config \<Rightarrow> proxy_config" where
  "set_identity f cfg = cfg\<lparr>px_identity := f (px_identity cfg)\<rparr>"

definition env_ldap :: "string \<Rightarrow> identity_config \<Rightarrow> identity_config" where
  "env_ldap v idc =
     (let ldap = (case id_ldap idc of
                    Some l \<Rightarrow> l
                  | None \<Rightarrow> \<lparr>ls_url = v, ls_bind_dn = [], ls_bind_password = [], ls_base_dn = [], ls_mock = True\<rparr>)
      in idc\<lparr>id_ldap := Some (ldap\<lparr>ls_url := v\<rparr>)\<rparr>)"

definition harden :: "proxy_config \<Rightarrow> proxy_config" where
  "harden cfg =
     (if px_mode cfg = Production
      then set_identity (\<lambda>i. i\<lparr>id_allow_header_identity := False\<rparr>) (cfg\<lparr>px_require_signed_bundle := True\<rparr>)
      else cfg)"

definition apply_env :: "environment \<Rightarrow> proxy_config \<Rightarrow> proxy_config" where
  "apply_env env cfg =
     (let c1 = with_env env ''PAAC_LISTEN'' (\<lambda>v c. c\<lparr>px_listen := v\<rparr>) cfg;
          c2 = with_env env ''PAAC_MODE'' (\<lambda>v c. c\<lparr>px_mode := parse_mode v\<rparr>) c1;
          c3 = with_env env ''PAAC_UPSTREAM_URL'' (\<lambda>v. set_upstream (\<lambda>u. u\<lparr>up_base_url := v\<rparr>)) c2;
          c4 = with_env env ''PAAC_UPSTREAM_API_KEY'' (\<lambda>v. set_upstream (\<lambda>u. u\<lparr>up_api_key := Some v\<rparr>)) c3;
          c5 = with_env env ''PAAC_JWT_SECRET'' (\<lambda>v. set_identity (\<lambda>i. i\<lparr>id_jwt_hmac_secret := Some v\<rparr>)) c4;
          c6 = with_env env ''PAAC_JWKS_URL'' (\<lambda>v. set_identity (\<lambda>i. i\<lparr>id_jwks_url := Some v\<rparr>)) c5;
          c7 = with_env env ''PAAC_AUDIT_PATH'' (\<lambda>v c. c\<lparr>px_audit_path := v\<rparr>) c6;
          c8 = with_env env ''PAAC_POLICY_DIR'' (\<lambda>v c. c\<lparr>px_policy_dir := v\<rparr>) c7;
          c9 = with_env env ''PAAC_REQUIRE_SIGNED_BUNDLE''
                 (\<lambda>v c. c\<lparr>px_require_signed_bundle := (v \<in> {''1'', ''true'', ''TRUE'', ''yes''})\<rparr>) c8;
          c10 = with_env env ''PAAC_LDAP_URL'' (\<lambda>v. set_identity (env_ldap v)) c9
      in harden c10)"

definition validate_config :: "proxy_config \<Rightarrow> (string, unit) result" where
  "validate_config cfg =
     (if trim (up_base_url (px_upstream cfg)) = [] then Fail ''upstream.base_url is required''
      else if px_mode cfg = Production
      then (if id_jwt_hmac_secret (px_identity cfg) = None \<and> id_jwks_url (px_identity cfg) = None
            then Fail ''production mode requires jwt_hmac_secret or jwks_url''
            else if id_allow_header_identity (px_identity cfg)
            then Fail ''production mode rejects spoofable header identity''
            else Ok ())
      else Ok ())"

definition load_config ::
  "(string \<Rightarrow> string + proxy_config) \<Rightarrow> environment \<Rightarrow> string + string \<Rightarrow> (string, proxy_config) result" where
  "load_config from_toml env data =
     and_then (lift_msg id data) (\<lambda>raw.
     and_then (lift_msg id (from_toml raw)) (\<lambda>cfg.
       let cfg' = apply_env env cfg in and_then (validate_config cfg') (\<lambda>_. Ok cfg')))"

definition hardened :: "proxy_config \<Rightarrow> bool" where
  "hardened cfg \<longleftrightarrow> px_mode cfg = Production \<longrightarrow>
     px_require_signed_bundle cfg \<and> \<not> id_allow_header_identity (px_identity cfg)"

lemma hardened_harden: "hardened (harden cfg)"
  by (simp add: hardened_def harden_def set_identity_def)

lemma apply_env_hardened: "hardened (apply_env env cfg)"
  unfolding apply_env_def Let_def by (rule hardened_harden)

lemma with_env_mode: "(\<And>v c. px_mode (f v c) = px_mode c) \<Longrightarrow> px_mode (with_env env n f c) = px_mode c"
  by (simp add: with_env_def split: option.split)

lemma mode_set [simp]: "px_mode (set_identity g c) = px_mode c" "px_mode (set_upstream h c) = px_mode c" "px_mode (harden c) = px_mode c"
  by (simp_all add: set_identity_def set_upstream_def harden_def)

lemma mode_after_env:
  "px_mode (apply_env env cfg) = (case env ''PAAC_MODE'' of None \<Rightarrow> px_mode cfg | Some v \<Rightarrow> parse_mode v)"
proof -
  have "px_mode (with_env env ''PAAC_MODE'' (\<lambda>v c. c\<lparr>px_mode := parse_mode v\<rparr>) c) =
      (case env ''PAAC_MODE'' of None \<Rightarrow> px_mode c | Some v \<Rightarrow> parse_mode v)" for c
    by (simp add: with_env_def split: option.split)
  then show ?thesis by (simp add: apply_env_def Let_def with_env_mode cong: option.case_cong)
qed

text \<open>C9: Whatever the file and the environment say, a configuration that loads for production demands a
  signed bundle, refuses identity from headers, has an upstream and has at least one of an HMAC secret and a key
  set to check tokens with; nothing in the environment can switch these off short of leaving
  production mode, which only the \<open>PAAC_MODE\<close> variable can do. (An empty secret counts as a secret.)\<close>

theorem production_config_safe:
  assumes "load_config from_toml env data = Ok cfg"
  shows "(px_mode cfg = Production \<longrightarrow>
      px_require_signed_bundle cfg \<and> \<not> id_allow_header_identity (px_identity cfg) \<and>
      (id_jwt_hmac_secret (px_identity cfg) \<noteq> None \<or> id_jwks_url (px_identity cfg) \<noteq> None)) \<and>
    trim (up_base_url (px_upstream cfg)) \<noteq> [] \<and>
    (\<exists>raw fc. data = Inr raw \<and> from_toml raw = Inr fc \<and>
       px_mode cfg = (case env ''PAAC_MODE'' of None \<Rightarrow> px_mode fc | Some v \<Rightarrow> parse_mode v))"
proof -
  obtain raw fc where f: "data = Inr raw" "from_toml raw = Inr fc" "cfg = apply_env env fc" "validate_config cfg = Ok ()"
    using assms by (auto simp: load_config_def and_then_Inr_iff lift_msg_Inr_iff Let_def)
  have "hardened cfg" unfolding f(3) by (rule apply_env_hardened)
  moreover have "trim (up_base_url (px_upstream cfg)) \<noteq> []"
    "px_mode cfg = Production \<Longrightarrow> id_jwt_hmac_secret (px_identity cfg) \<noteq> None \<or> id_jwks_url (px_identity cfg) \<noteq> None"
    using f(4) by (auto simp: validate_config_def split: if_splits)
  ultimately show ?thesis
    using f(1,2) mode_after_env [of env fc, folded f(3)] by (auto simp: hardened_def)
qed

definition example_upstream :: upstream_config where
  "example_upstream = \<lparr>up_base_url = ''http://llm'', up_api_key = None, up_timeout_secs = default_timeout\<rparr>"

definition production_env :: environment where
  "production_env = [''PAAC_MODE'' \<mapsto> ''prod'', ''PAAC_JWT_SECRET'' \<mapsto> [], ''PAAC_REQUIRE_SIGNED_BUNDLE'' \<mapsto> ''0'']"

theorem production_config_safe_witness:
  "\<exists>cfg. load_config (\<lambda>_. Inr (default_config example_upstream)) production_env (Inr ''toml'') = Ok cfg \<and>
     px_mode cfg = Production \<and> px_require_signed_bundle cfg \<and> id_jwt_hmac_secret (px_identity cfg) = Some []"
proof -
  let ?l = "load_config (\<lambda>_. Inr (default_config example_upstream)) production_env (Inr ''toml'')"
  have l: "?l = Ok (apply_env production_env (default_config example_upstream))"
    by (simp add: load_config_def Let_def validate_config_def apply_env_def with_env_def production_env_def default_config_def
        harden_def set_identity_def set_upstream_def parse_mode_def to_ascii_lowercase_def lower_char_def
        example_upstream_def trim_Nil_iff is_ws_def)
  have "px_mode (apply_env production_env (default_config example_upstream)) = Production"
    "id_jwt_hmac_secret (px_identity (apply_env production_env (default_config example_upstream))) = Some []"
    by (simp_all add: Let_def apply_env_def with_env_def production_env_def default_config_def
        harden_def set_identity_def set_upstream_def parse_mode_def to_ascii_lowercase_def lower_char_def)
  then show ?thesis using l production_config_safe [OF l] by auto
qed

section \<open>Errors\<close>

datatype proxy_error =
    PxUnauthorized string
  | PxForbidden string string json
  | PxBadRequest string
  | PxUpstream string
  | PxInternal string
  | PxNotReady string

definition error_body :: "string \<Rightarrow> string \<Rightarrow> (string \<times> json) list \<Rightarrow> json" where
  "error_body msg ty rest = JObj [(''error'', JObj ([(''message'', JStr msg), (''type'', JStr ty)] @ rest))]"

definition obj_insert :: "string \<Rightarrow> json \<Rightarrow> json \<Rightarrow> json" where
  "obj_insert k v j = (case j of JObj kvs \<Rightarrow> JObj (im_insert k v kvs) | _ \<Rightarrow> j)"

fun into_response :: "proxy_error \<Rightarrow> nat \<times> json" where
  "into_response (PxUnauthorized m) = (401, error_body m ''authentication_error'' [(''code'', JStr ''unauthorized'')])"
| "into_response (PxForbidden m i body) =
     (403, obj_insert ''paac'' body
        (error_body m ''authorization_error'' [(''code'', JStr ''paac_deny''), (''decision_id'', JStr i)]))"
| "into_response (PxBadRequest m) = (400, error_body m ''invalid_request_error'' [])"
| "into_response (PxUpstream m) = (502, error_body m ''upstream_error'' [])"
| "into_response (PxInternal m) = (500, error_body m ''server_error'' [])"
| "into_response (PxNotReady m) = (503, error_body m ''not_ready'' [])"

fun_cases into_response_403: "into_response e = (403, body)"

lemma into_response_error: "400 \<le> fst (into_response e) \<and> (fst (into_response e) = 403 \<longleftrightarrow> (\<exists>m i b. e = PxForbidden m i b))"
  by (cases e) auto

end
