(* ===== verification/Proxy_Auth.thy ===== *)
theory Proxy_Auth
  imports Proxy_Config Identity_Jwt Effects
begin

text \<open>
  \<open>authz-llm-proxy/src/auth.rs\<close>: who is asking. A request's headers are a map from lower-case names to
  the first value; a value that is not visible ASCII is no text. The identity cache is the state of
  the computation; \<open>now\<close> is the instant of the lookup and \<open>later\<close> that of the insertion.
\<close>

type_synonym headers = "string \<rightharpoonup> string"

text \<open>\<open>HeaderValue::to_str\<close>.\<close>

definition visible_ascii :: "char \<Rightarrow> bool" where
  "visible_ascii c \<longleftrightarrow> c = CHR 0x09 \<or> (32::nat) \<le> of_char c \<and> of_char c < (127::nat)"

definition header_text :: "headers \<Rightarrow> string \<Rightarrow> string option" where
  "header_text hs name =
     (case hs name of None \<Rightarrow> None | Some v \<Rightarrow> if list_all visible_ascii v then Some v else None)"

definition identity_to_principal :: "canonical_identity \<Rightarrow> principal" where
  "identity_to_principal i =
     \<lparr>pr_id = ci_id i, pr_roles = ci_roles i, pr_groups = ci_groups i, pr_attrs = ci_attrs i\<rparr>"

definition bearer_token :: "headers \<Rightarrow> string option" where
  "bearer_token hs =
     (case header_text hs ''authorization'' of
        None \<Rightarrow> None
      | Some auth \<Rightarrow> (case strip_prefix ''Bearer '' auth of Some t \<Rightarrow> Some t | None \<Rightarrow> strip_prefix ''bearer '' auth))"

text \<open>The cache key: the first 32 bytes of the token (its characters are bytes).\<close>

definition jwt_cache_key :: "string \<Rightarrow> string" where
  "jwt_cache_key token = ''jwt:'' @ take (min (length token) 32) token"

definition header_roles :: "headers \<Rightarrow> string list" where
  "header_roles hs =
     (case header_text hs ''x-paac-roles'' of
        None \<Rightarrow> []
      | Some s \<Rightarrow> filter (\<lambda>r. r \<noteq> []) (map trim (split_on (CHR '','') s)))"

definition verifies_tokens :: "proxy_config \<Rightarrow> bool" where
  "verifies_tokens cfg \<longleftrightarrow>
     px_mode cfg = Production \<or> id_jwt_hmac_secret (px_identity cfg) \<noteq> None \<or> id_jwks_url (px_identity cfg) \<noteq> None"

definition token_identity ::
  "'k jwt_lib \<Rightarrow> proxy_config \<Rightarrow> jwt_oidc_adapter \<Rightarrow> string \<Rightarrow> (proxy_error, canonical_identity) result" where
  "token_identity jl cfg jwt token =
     map_err (\<lambda>e. PxUnauthorized (identity_error_text e))
       (if verifies_tokens cfg then normalize jl jwt token else normalize_unverified jl token)"

definition resolve_principal ::
  "'k jwt_lib \<Rightarrow> instant \<Rightarrow> instant \<Rightarrow> headers \<Rightarrow> proxy_config \<Rightarrow> jwt_oidc_adapter \<Rightarrow>
   (identity_cache, proxy_error, principal) st" where
  "resolve_principal jl now later hs cfg jwt c =
     (case bearer_token hs of
        Some token \<Rightarrow>
          (case cache_get now c (jwt_cache_key token) of
             Some i \<Rightarrow> (Ok (identity_to_principal i), c)
           | None \<Rightarrow>
               st_bind (st_lift (token_identity jl cfg jwt token)) (\<lambda>i.
               st_bind (st_modify (cache_put later (jwt_cache_key token) i (ci_source i))) (\<lambda>_.
                 st_ret (identity_to_principal i))) c)
      | None \<Rightarrow>
          (case (if id_allow_header_identity (px_identity cfg) \<and> px_mode cfg \<noteq> Production
                 then header_text hs ''x-paac-user'' else None) of
             Some user \<Rightarrow> (Ok (with_roles user (header_roles hs)), c)
           | None \<Rightarrow>
               (if px_mode cfg = Production
                then (Fail (PxUnauthorized ''identity required (Authorization Bearer JWT)''), c)
                else (Fail (PxUnauthorized ''missing identity: provide Authorization Bearer JWT or X-PAAC-User (dev)''), c))))"

section \<open>Who a request can be\<close>

lemma jwt_cache_key_take: "jwt_cache_key token = ''jwt:'' @ take 32 token"
  by (simp add: jwt_cache_key_def min_def)

text \<open>Every cached identity came out of a token the adapter accepted.\<close>

definition cache_from_tokens :: "'k jwt_lib \<Rightarrow> proxy_config \<Rightarrow> jwt_oidc_adapter \<Rightarrow> identity_cache \<Rightarrow> bool" where
  "cache_from_tokens jl cfg jwt c \<longleftrightarrow>
     (\<forall>k e. ic_inner c k = Some e \<longrightarrow>
        (\<exists>token. k = jwt_cache_key token \<and> token_identity jl cfg jwt token = Ok (ca_identity e)))"

lemma cache_from_tokens_new: "cache_from_tokens jl cfg jwt (cache_new ttl)"
  by (simp add: cache_from_tokens_def cache_new_def)

lemma cache_get_Some: "cache_get now c k = Some i \<Longrightarrow> \<exists>e. ic_inner c k = Some e \<and> ca_identity e = i"
  by (auto simp: cache_get_def split: option.splits if_splits)

lemma cache_from_tokens_put:
  assumes "cache_from_tokens jl cfg jwt c" "token_identity jl cfg jwt token = Ok i"
  shows "cache_from_tokens jl cfg jwt (cache_put later (jwt_cache_key token) i src c)"
  using assms by (auto simp: cache_from_tokens_def cache_put_def hm_insert_def)

lemma resolve_principal_inv: "preserves (cache_from_tokens jl cfg jwt) (resolve_principal jl now later hs cfg jwt)"
proof -
  have "cache_from_tokens jl cfg jwt (snd (resolve_principal jl now later hs cfg jwt c))"
    if "cache_from_tokens jl cfg jwt c" for c
    using that cache_from_tokens_put [OF that]
    by (auto simp: resolve_principal_def st_bind_def split: option.split sum.split)
  then show ?thesis by (simp add: preserves_def)
qed

lemma resolve_principal_cases:
  assumes "resolve_principal jl now later hs cfg jwt c = (Ok p, c')"
  obtains token i where "bearer_token hs = Some token" "cache_get now c (jwt_cache_key token) = Some i" "p = identity_to_principal i" "c' = c"
    | token i where "bearer_token hs = Some token" "token_identity jl cfg jwt token = Ok i" "p = identity_to_principal i"
        "c' = cache_put later (jwt_cache_key token) i (ci_source i) c"
    | user where "bearer_token hs = None" "px_mode cfg \<noteq> Production" "id_allow_header_identity (px_identity cfg)"
        "header_text hs ''x-paac-user'' = Some user" "p = with_roles user (header_roles hs)" "c' = c"
proof (cases "bearer_token hs")
  case None
  let ?u = "if id_allow_header_identity (px_identity cfg) \<and> px_mode cfg \<noteq> Production then header_text hs ''x-paac-user'' else None"
  show thesis
  proof (cases ?u)
    case None
    with \<open>bearer_token hs = None\<close> assms show thesis
      by (simp only: resolve_principal_def option.case if_split_eq1 prod.inject sum.simps) (simp split: if_splits)
  next
    case (Some user)
    then have "id_allow_header_identity (px_identity cfg)" "px_mode cfg \<noteq> Production" "header_text hs ''x-paac-user'' = Some user"
      by (simp_all split: if_splits)
    moreover have "p = with_roles user (header_roles hs)" "c' = c"
      using assms \<open>bearer_token hs = None\<close> unfolding resolve_principal_def Some by simp_all
    ultimately show thesis using that(3) \<open>bearer_token hs = None\<close> by blast
  qed
next
  case (Some token)
  show thesis
  proof (cases "cache_get now c (jwt_cache_key token)")
    case None
    with Some assms obtain i where "token_identity jl cfg jwt token = Ok i" "p = identity_to_principal i"
        "c' = cache_put later (jwt_cache_key token) i (ci_source i) c"
      by (cases "token_identity jl cfg jwt token") (simp_all add: resolve_principal_def)
    with Some that(2) show thesis by blast
  next
    case (Some i)
    with \<open>bearer_token hs = Some token\<close> assms have "p = identity_to_principal i" "c' = c"
      by (simp_all add: resolve_principal_def)
    with Some \<open>bearer_token hs = Some token\<close> that(1) show thesis by blast
  qed
qed

text \<open>C30: In production a principal is only ever the identity of a token that the JWT adapter verified,
  and the request carried a bearer token with the same first 32 characters as that one; headers name
  nobody, and the unverified reading of tokens is never used. Serving a request, also one that fails,
  keeps the identity cache to identities of verified tokens.\<close>

theorem production_identity:
  assumes "px_mode cfg = Production" "cache_from_tokens jl cfg jwt c"
    and "resolve_principal jl now later hs cfg jwt c = (r, c')"
  shows "cache_from_tokens jl cfg jwt c' \<and>
    (\<forall>p. r = Ok p \<longrightarrow> (\<exists>token verified i. bearer_token hs = Some token \<and> take 32 verified = take 32 token \<and>
       normalize jl jwt verified = Ok i \<and> p = identity_to_principal i))"
proof (intro conjI allI impI)
  show "cache_from_tokens jl cfg jwt c'"
    by (rule preservesD [OF resolve_principal_inv assms(2,3)])
  have norm: "token_identity jl cfg jwt t = Ok i \<Longrightarrow> normalize jl jwt t = Ok i" for t i
    using assms(1) by (simp add: token_identity_def verifies_tokens_def)
  fix p assume "r = Ok p"
  with assms(3) have "resolve_principal jl now later hs cfg jwt c = (Ok p, c')" by simp
  then show "\<exists>token verified i. bearer_token hs = Some token \<and> take 32 verified = take 32 token \<and>
       normalize jl jwt verified = Ok i \<and> p = identity_to_principal i"
  proof (cases rule: resolve_principal_cases)
    case (1 token i)
    then obtain e where "ic_inner c (jwt_cache_key token) = Some e" "ca_identity e = i" using cache_get_Some by blast
    then obtain v where "jwt_cache_key token = jwt_cache_key v" "token_identity jl cfg jwt v = Ok i"
      using assms(2) unfolding cache_from_tokens_def by blast
    then show ?thesis using 1 norm by (auto simp: jwt_cache_key_take)
  next
    case (2 token i)
    then show ?thesis using norm by blast
  next
    case 3
    then show ?thesis using assms(1) by simp
  qed
qed

text \<open>C31: The cache key identifies a token by its first 32 characters only, so once a token has been
  accepted, every bearer token that agrees with it there is taken for the same principal as long as
  the entry lives, whatever its claims say and whether or not its signature checks.\<close>

theorem cached_identity_confusion:
  assumes "resolve_principal jl now later hs cfg jwt c = (Ok p, c')" "bearer_token hs = Some token"
    and "cache_get now c (jwt_cache_key token) = None"
    and "bearer_token hs' = Some token'" "take 32 token' = take 32 token" "now' \<le> later + ic_ttl c"
  shows "resolve_principal jl now' later' hs' cfg jwt c' = (Ok p, c')"
proof -
  obtain i where i: "p = identity_to_principal i" "c' = cache_put later (jwt_cache_key token) i (ci_source i) c"
    using assms(1-3) by (cases rule: resolve_principal_cases) auto
  have "jwt_cache_key token' = jwt_cache_key token" using assms(5) by (simp add: jwt_cache_key_take)
  then have "cache_get now' c' (jwt_cache_key token') = Some i"
    using assms(6) by (simp add: i(2) cache_get_def cache_put_def hm_insert_def elapsed_def)
  then show ?thesis using assms(4) i(1) by (simp add: resolve_principal_def)
qed

text \<open>Two tokens with the header HS256 tokens share; the second has no valid signature.\<close>

definition shared_header :: string where
  "shared_header = ''eyJhbGciOiJIUzI1NiIsInR5cCI6IkpXVCJ9''"

definition two_token_lib :: "string jwt_lib" where
  "two_token_lib = example_jwt_lib
     \<lparr>jl_decode_header := (\<lambda>t. Inr (HS256, None)),
      jl_decode := (\<lambda>t k v. if t = shared_header @ ''.alice.sig'' \<and> k = ''secret'' then Inr example_claims else Inl ''InvalidSignature'')\<rparr>"

definition production_config :: proxy_config where
  "production_config = (default_config example_upstream)
     \<lparr>px_mode := Production, px_identity := identity_config_default\<lparr>id_jwt_hmac_secret := Some ''secret'', id_cache_ttl_secs := 300\<rparr>\<rparr>"

definition bearer :: "string \<Rightarrow> headers" where
  "bearer t = [''authorization'' \<mapsto> ''Bearer '' @ t]"

lemma bearer_token_bearer: "list_all visible_ascii t \<Longrightarrow> bearer_token (bearer t) = Some t"
  by (simp add: bearer_token_def bearer_def header_text_def visible_ascii_def)

lemma two_token_first:
  "resolve_principal two_token_lib 0 0 (bearer (shared_header @ ''.alice.sig'')) production_config example_jwt_adapter (cache_new 300) =
     (Ok (identity_to_principal (claims_to_identity example_claims ''jwt-hs256'')),
      cache_put 0 (jwt_cache_key shared_header) (claims_to_identity example_claims ''jwt-hs256'') ''jwt-hs256'' (cache_new 300))"
proof -
  have b: "bearer_token (bearer (shared_header @ ''.alice.sig'')) = Some (shared_header @ ''.alice.sig'')"
    by (rule bearer_token_bearer) (simp add: shared_header_def visible_ascii_def)
  have k: "jwt_cache_key (shared_header @ ''.alice.sig'') = jwt_cache_key shared_header"
    by (simp add: jwt_cache_key_take shared_header_def)
  have "normalize two_token_lib example_jwt_adapter (shared_header @ ''.alice.sig'') = Ok (claims_to_identity example_claims ''jwt-hs256'')"
    by (simp add: normalize_def normalize_hs256_def two_token_lib_def example_jwt_lib_def example_jwt_adapter_def jwt_adapter_default_def)
  then show ?thesis
    by (simp add: resolve_principal_def b k cache_new_def cache_get_def token_identity_def verifies_tokens_def production_config_def
        claims_to_identity_def)
qed

theorem cached_identity_confusion_witness:
  "normalize two_token_lib example_jwt_adapter (shared_header @ ''.mallory.none'') = Fail (IdJwt ''InvalidSignature'') \<and>
   fst (resolve_principal two_token_lib 9 9 (bearer (shared_header @ ''.mallory.none'')) production_config example_jwt_adapter
     (snd (resolve_principal two_token_lib 0 0 (bearer (shared_header @ ''.alice.sig'')) production_config example_jwt_adapter
        (cache_new 300)))) = Ok (identity_to_principal (claims_to_identity example_claims ''jwt-hs256''))"
proof -
  have "normalize two_token_lib example_jwt_adapter (shared_header @ ''.mallory.none'') = Fail (IdJwt ''InvalidSignature'')"
    by (simp add: normalize_def normalize_hs256_def two_token_lib_def example_jwt_lib_def example_jwt_adapter_def
        jwt_adapter_default_def)
  moreover have "bearer_token (bearer (shared_header @ ''.alice.sig'')) = Some (shared_header @ ''.alice.sig'')"
    "bearer_token (bearer (shared_header @ ''.mallory.none'')) = Some (shared_header @ ''.mallory.none'')"
    by (intro bearer_token_bearer; simp add: shared_header_def visible_ascii_def)+
  moreover have "take 32 (shared_header @ ''.mallory.none'') = take 32 (shared_header @ ''.alice.sig'')"
    by (simp add: shared_header_def)
  moreover have "cache_get 0 (cache_new 300) k = None" "ic_ttl (cache_new 300) = 300" for k
    by (simp_all add: cache_new_def cache_get_def)
  ultimately show ?thesis
    unfolding two_token_first snd_conv
    using cached_identity_confusion [OF two_token_first, of "shared_header @ ''.alice.sig''"
        "bearer (shared_header @ ''.mallory.none'')" "shared_header @ ''.mallory.none''" 9 9] by (simp del: take_append)
qed

theorem production_identity_witness:
  "cache_from_tokens two_token_lib production_config example_jwt_adapter
     (snd (resolve_principal two_token_lib 0 0 (bearer (shared_header @ ''.alice.sig'')) production_config example_jwt_adapter (cache_new 300))) \<and>
   (\<exists>v i. normalize two_token_lib example_jwt_adapter v = Ok i \<and> take 32 v = take 32 shared_header)"
proof -
  have m: "px_mode production_config = Production" by (simp add: production_config_def)
  have b: "bearer_token (bearer (shared_header @ ''.alice.sig'')) = Some (shared_header @ ''.alice.sig'')"
    by (rule bearer_token_bearer) (simp add: shared_header_def visible_ascii_def)
  have s: "take 32 (shared_header @ ''.alice.sig'') = take 32 shared_header" by (simp add: shared_header_def)
  show ?thesis
    using production_identity [OF m cache_from_tokens_new two_token_first] b s unfolding two_token_first by auto
qed

end
