(* ===== verification/Audit_Log.thy ===== *)
theory Audit_Log
  imports Identity_Ldap "HOL-Library.Word" "HOL-Library.Multiset"
begin

text \<open>
  \<open>authz-suggest\<close>: the append-only JSONL audit log (audit.rs) and the draft policies suggested from
  it (lib.rs). The JSON forms of records and decisions are the fields of \<open>audit_codec\<close>; the log is a
  file of the disk of \<open>Policy_Store\<close>.
\<close>

section \<open>Records\<close>

datatype suggest_error = SgMsg string | SgIo string

fun suggest_error_text :: "suggest_error \<Rightarrow> string" where
  "suggest_error_text (SgMsg m) = m"
| "suggest_error_text (SgIo m) = m"

record audit_record =
  ar_decision_id :: string
  ar_principal :: string
  ar_action :: string
  ar_resource :: string
  ar_subject :: "string option"
  ar_decision :: decision_effect
  ar_policy_revision :: string
  ar_signature_key_id :: "string option"
  ar_latency_ms :: "64 word"
  ar_timestamp :: nat
  ar_decision_full :: authz_decision

definition record_from_decision :: "authz_decision \<Rightarrow> 64 word \<Rightarrow> audit_record" where
  "record_from_decision d latency_ms =
     (let ev = ad_evidence d; req = ev_request ev
      in \<lparr>ar_decision_id = ev_decision_id ev, ar_principal = pr_id (rq_principal req), ar_action = ac_name (rq_action req),
          ar_resource = rs_kind (rq_resource req), ar_subject = map_option sj_id (rq_subject req), ar_decision = ad_effect d,
          ar_policy_revision = ev_policy_revision ev, ar_signature_key_id = ev_policy_signature ev,
          ar_latency_ms = latency_ms, ar_timestamp = ev_timestamp ev, ar_decision_full = d\<rparr>)"

record audit_codec =
  al_record :: "audit_record \<Rightarrow> string"
  al_parse_record :: "string \<Rightarrow> string + audit_record"
  al_parse_decision :: "string \<Rightarrow> string + authz_decision"

type_synonym 'a log_io = "(disk, suggest_error, 'a) st"

section \<open>Reading and appending\<close>

text \<open>The file operations with their error converted by the question-mark operator.\<close>

definition sg_io :: "(disk, policy_error, 'a) st \<Rightarrow> 'a log_io" where
  "sg_io m = st_map_err (\<lambda>e. SgIo (policy_error_text e)) m"

text \<open>\<open>OpenOptions::create(true).append(true)\<close> and \<open>writeln!\<close>.\<close>

definition fs_append_line :: "path \<Rightarrow> string \<Rightarrow> unit disk_io" where
  "fs_append_line p l d =
     fs_write p ((case file_get d p of None \<Rightarrow> [] | Some s \<Rightarrow> s) @ l @ [NL]) d"

definition append_audit_record :: "audit_codec \<Rightarrow> path \<Rightarrow> audit_record \<Rightarrow> unit log_io" where
  "append_audit_record al p r =
     st_bind (if p = [] then st_ret () else sg_io (fs_create_dir_all (butlast p))) (\<lambda>_.
       sg_io (fs_append_line p (al_record al r)))"

definition append_audit :: "audit_codec \<Rightarrow> path \<Rightarrow> authz_decision \<Rightarrow> unit log_io" where
  "append_audit al p d = append_audit_record al p (record_from_decision d 0)"

definition audit_line :: "audit_codec \<Rightarrow> string \<Rightarrow> audit_record option" where
  "audit_line al line =
     (if trim line = [] then None
      else case al_parse_record al line of
        Inr r \<Rightarrow> Some r
      | Inl _ \<Rightarrow> (case al_parse_decision al line of Inr d \<Rightarrow> Some (record_from_decision d 0) | Inl _ \<Rightarrow> None))"

definition read_audit_records :: "audit_codec \<Rightarrow> path \<Rightarrow> audit_record list log_io" where
  "read_audit_records al p d =
     (if \<not> fs_exists p d then (Ok [], d)
      else st_bind (sg_io (fs_read p)) (\<lambda>data. st_ret (List.map_filter (audit_line al) (str_lines data))) d)"

definition find_decision :: "audit_codec \<Rightarrow> path \<Rightarrow> string \<Rightarrow> authz_decision option log_io" where
  "find_decision al p i =
     st_bind (read_audit_records al p) (\<lambda>rs.
       st_ret (map_option ar_decision_full (List.find (\<lambda>r. ar_decision_id r = i) rs)))"

definition recent_decisions :: "audit_codec \<Rightarrow> path \<Rightarrow> nat \<Rightarrow> audit_record list log_io" where
  "recent_decisions al p limit =
     st_bind (read_audit_records al p) (\<lambda>all. let skip = length all - limit in st_ret (drop skip all))"

definition load_legacy_decisions :: "audit_codec \<Rightarrow> path \<Rightarrow> authz_decision list log_io" where
  "load_legacy_decisions al p = st_bind (read_audit_records al p) (\<lambda>rs. st_ret (map ar_decision_full rs))"

section \<open>Suggestions\<close>

record suggestion =
  su_name :: string
  su_rationale :: string
  su_dsl :: string

definition suggest_from_snapshot :: "identity_snapshot \<Rightarrow> suggestion list" where
  "suggest_from_snapshot snap =
     [\<lparr>su_name = ''ldap-group-drafts'', su_rationale = ''Generated from LDAP/group sync; review before commit.'',
       su_dsl = draft_policies_from_groups snap\<rparr>]"

text \<open>\<open>*counts.entry(key).or_default() += 1\<close>, with the keys in the order of their first use.\<close>

definition count_up :: "string \<times> string \<Rightarrow> ((string \<times> string) \<times> nat) list \<Rightarrow> ((string \<times> string) \<times> nat) list" where
  "count_up k m = AList.update k ((case map_of m k of None \<Rightarrow> 0 | Some n \<Rightarrow> n) + 1) m"

definition deny_key :: "audit_record \<Rightarrow> string \<times> string" where
  "deny_key r = (to_ascii_uppercase (ar_action r), to_ascii_uppercase (ar_resource r))"

definition deny_counts :: "audit_record list \<Rightarrow> ((string \<times> string) \<times> nat) list" where
  "deny_counts rs = fold (\<lambda>r m. if ar_decision r = Deny then count_up (deny_key r) m else m) rs []"

definition audit_suggestion :: "(string \<times> string) \<times> nat \<Rightarrow> suggestion option" where
  "audit_suggestion entry =
     (let ((action, resource), n) = entry in
      if n \<ge> 2
      then let name = ''audit_deny_'' @ to_ascii_lowercase action @ ''_'' @ to_ascii_lowercase resource
           in Some \<lparr>su_name = name,
                su_rationale = show_nat n @ '' DENY decisions observed for '' @ action @ '' '' @ resource,
                su_dsl = unlines [''policy '' @ quoted name, ''deny '' @ action @ '' '' @ resource,
                           ''# suggested from '' @ show_nat n @ '' audit DENY events'']\<rparr>
      else None)"

text \<open>The hash map hands its entries out in an order of its own, the argument \<open>order\<close>.\<close>

definition suggest_from_audit ::
  "(((string \<times> string) \<times> nat) list \<Rightarrow> ((string \<times> string) \<times> nat) list) \<Rightarrow> audit_codec \<Rightarrow> path \<Rightarrow> suggestion list log_io" where
  "suggest_from_audit order al p =
     st_bind (read_audit_records al p) (\<lambda>rs. st_ret (List.map_filter audit_suggestion (order (deny_counts rs))))"

definition write_suggestion :: "policy_store \<Rightarrow> suggestion \<Rightarrow> string list \<Rightarrow> string list log_io" where
  "write_suggestion st s written =
     st_bind (st_map_err (\<lambda>e. SgMsg (policy_error_text e)) (write_draft st (su_name s) (su_dsl s))) (\<lambda>_.
       st_ret (written @ [su_name s]))"

definition write_suggestions :: "policy_store \<Rightarrow> suggestion list \<Rightarrow> string list log_io" where
  "write_suggestions st ss = st_fold (write_suggestion st) ss []"

section \<open>The log keeps what was appended\<close>

text \<open>Documented behaviour of the JSON printer and reader on the records at hand: one line of text, never
  blank, read back as it was written.\<close>

definition audit_codec_keeps :: "audit_codec \<Rightarrow> audit_record list \<Rightarrow> bool" where
  "audit_codec_keeps al rs \<longleftrightarrow>
     (\<forall>r\<in>set rs. one_line (al_record al r) \<and> trim (al_record al r) \<noteq> [] \<and> al_parse_record al (al_record al r) = Inr r)"

definition append_all :: "audit_codec \<Rightarrow> path \<Rightarrow> audit_record list \<Rightarrow> unit log_io" where
  "append_all al p rs = st_fold (\<lambda>r _. append_audit_record al p r) rs ()"

definition log_text :: "audit_codec \<Rightarrow> audit_record list \<Rightarrow> string" where
  "log_text al rs = unlines (map (al_record al) rs)"

definition file_text :: "disk \<Rightarrow> path \<Rightarrow> string" where
  "file_text d p = (case file_get d p of None \<Rightarrow> [] | Some s \<Rightarrow> s)"

lemma sg_io_Ok: "sg_io m s = (Inr x, s') \<longleftrightarrow> m s = (Inr x, s')"
  by (auto simp: sg_io_def st_map_err_def split: prod.split)

lemma append_audit_record_Ok:
  assumes "append_audit_record al p r d = (Ok u, d')"
  shows "file_get d' p = Some (file_text d p @ al_record al r @ [NL])" and "q \<noteq> p \<Longrightarrow> file_get d' q = file_get d q"
  using assms
  by (auto simp: append_audit_record_def st_bind_Inr_iff sg_io_Ok fs_create_dir_all_def fs_append_line_def fs_write_def
      file_text_def file_get_def file_put_def update_conv split: option.splits if_splits)

lemma append_all_Ok:
  "append_all al p rs d = (Ok u, d') \<Longrightarrow> rs \<noteq> [] \<or> file_get d p \<noteq> None \<Longrightarrow>
   file_get d' p = Some (file_text d p @ log_text al rs)"
proof (induction rs arbitrary: d)
  case Nil
  then show ?case by (auto simp: append_all_def log_text_def unlines_def file_text_def)
next
  case (Cons r rs)
  from Cons.prems(1) obtain d1 where d1: "append_audit_record al p r d = (Ok (), d1)" "append_all al p rs d1 = (Ok u, d')"
    by (auto simp: append_all_def st_bind_Inr_iff)
  have "file_get d1 p = Some (file_text d p @ al_record al r @ [NL])" by (rule append_audit_record_Ok [OF d1(1)])
  then show ?case using Cons.IH [OF d1(2)] by (simp add: file_text_def log_text_def unlines_def)
qed

lemma map_filter_all: "(\<And>x. x \<in> set xs \<Longrightarrow> f (g x) = Some x) \<Longrightarrow> List.map_filter f (map g xs) = xs"
  by (induction xs) (simp_all add: List.map_filter_def)

lemma log_lines: "audit_codec_keeps al rs \<Longrightarrow> str_lines (log_text al rs) = map (al_record al) rs"
  using str_lines_block [of "map (al_record al) rs" "[]"]
  by (simp add: log_text_def unlines_def audit_codec_keeps_def one_line_def)

lemma read_log:
  assumes "audit_codec_keeps al rs" "file_get d p = Some (log_text al rs)"
  shows "read_audit_records al p d = (Ok rs, d)"
proof -
  have "List.map_filter (audit_line al) (map (al_record al) rs) = rs"
    using assms(1) by (intro map_filter_all) (simp add: audit_line_def audit_codec_keeps_def)
  then show ?thesis
    using assms by (simp add: read_audit_records_def fs_exists_def sg_io_def st_map_err_def fs_read_def st_bind_def log_lines)
qed

lemma find_in_log:
  "audit_codec_keeps al rs \<Longrightarrow> file_get d p = Some (log_text al rs) \<Longrightarrow>
   find_decision al p i d = (Ok (map_option ar_decision_full (List.find (\<lambda>r. ar_decision_id r = i) rs)), d)"
  by (simp add: find_decision_def st_bind_def read_log)

text \<open>C27: After any sequence of appends to a fresh log, reading it gives the records back in the order
  they were appended; looking a decision up gives the first record with its id; and the recent
  decisions are the last ones, in order, all of them when there are fewer than asked for.\<close>

theorem audit_log_reads_back:
  assumes "audit_codec_keeps al rs" "file_get d p = None" "append_all al p rs d = (Ok u, d')"
  shows "read_audit_records al p d' = (Ok rs, d') \<and>
    find_decision al p i d' = (Ok (map_option ar_decision_full (List.find (\<lambda>r. ar_decision_id r = i) rs)), d') \<and>
    recent_decisions al p limit d' = (Ok (drop (length rs - limit) rs), d')"
proof -
  have "read_audit_records al p d' = (Ok rs, d')"
  proof (cases "rs = []")
    case True
    then show ?thesis using assms by (simp add: append_all_def read_audit_records_def fs_exists_def)
  next
    case False
    then have "file_get d' p = Some (log_text al rs)"
      using append_all_Ok [OF assms(3)] assms(2) by (simp add: file_text_def)
    then show ?thesis by (rule read_log [OF assms(1)])
  qed
  then show ?thesis by (simp add: find_decision_def recent_decisions_def st_bind_def Let_def)
qed

definition example_record :: audit_record where
  "example_record = record_from_decision (deny_default \<lparr>env_uuid = ''id'', env_now = 7\<rparr> (read_request ''X'') ''r1'' ''v'') 3"

definition example_audit_codec :: audit_codec where
  "example_audit_codec =
     \<lparr>al_record = (\<lambda>_. ''{...}''), al_parse_record = (\<lambda>_. Inr example_record), al_parse_decision = (\<lambda>_. Inl ''no'')\<rparr>"

theorem audit_log_reads_back_witness:
  "\<exists>d'. append_all example_audit_codec [''audit.jsonl''] [example_record, example_record] empty_disk = (Ok (), d') \<and>
    recent_decisions example_audit_codec [''audit.jsonl''] 1 d' = (Ok [example_record], d')"
proof -
  have k: "audit_codec_keeps example_audit_codec [example_record, example_record]"
    by (simp add: audit_codec_keeps_def example_audit_codec_def trim_Nil_iff is_ws_def)
  obtain r d' where a: "append_all example_audit_codec [''audit.jsonl''] [example_record, example_record] empty_disk = (r, d')"
    by (cases "append_all example_audit_codec [''audit.jsonl''] [example_record, example_record] empty_disk")
  then have "r = Ok ()"
    by (auto simp: append_all_def append_audit_record_def sg_io_def st_map_err_def fs_create_dir_all_def fs_append_line_def
        fs_write_def st_bind_def empty_disk_def st_ret_def)
  with audit_log_reads_back [OF k _ a [unfolded \<open>r = Ok ()\<close>], where limit = 1] a show ?thesis
    by (simp add: empty_disk_def file_get_def)
qed

section \<open>What is suggested\<close>

lemma count_up_map: "map_of (count_up k m) j = (if j = k then Some ((case map_of m k of None \<Rightarrow> 0 | Some n \<Rightarrow> n) + 1) else map_of m j)"
  by (simp add: count_up_def update_conv)

lemma count_up_distinct: "distinct (map fst m) \<Longrightarrow> distinct (map fst (count_up k m))"
  by (simp add: count_up_def distinct_update)

text \<open>The specification: how many denied records have the key.\<close>

definition denials :: "audit_record list \<Rightarrow> string \<times> string \<Rightarrow> nat" where
  "denials rs k = length (filter (\<lambda>r. ar_decision r = Deny \<and> deny_key r = k) rs)"

lemma deny_counts_spec:
  "map_of (deny_counts rs) k = (if denials rs k = 0 then None else Some (denials rs k)) \<and> distinct (map fst (deny_counts rs))"
proof (induction rs arbitrary: k rule: rev_induct)
  case Nil
  then show ?case by (simp add: deny_counts_def denials_def)
next
  case (snoc r rs)
  have step: "deny_counts (rs @ [r]) = (if ar_decision r = Deny then count_up (deny_key r) (deny_counts rs) else deny_counts rs)"
    by (simp add: deny_counts_def)
  have IH: "map_of (deny_counts rs) j = (if denials rs j = 0 then None else Some (denials rs j))" for j
    using snoc.IH by blast
  show ?case
    using snoc.IH [of k] by (simp add: step count_up_map count_up_distinct IH denials_def del: map_of_eq_Some_iff)
qed

lemma gives_suggestion:
  assumes "upper_word a" "word a" "upper_word r" "word r" "plain_name name" "one_line l"
  shows "gives [''policy '' @ quoted name, ''deny '' @ a @ '' '' @ r, CHR ''#'' # l]
    [\<lparr>dp_id = name, dp_effect = DDeny, dp_action = a, dp_resource = r, dp_when_roles = [], dp_where_subjects = [],
      dp_unless_roles = [], dp_where_subject_groups = [],
      dp_raw = (''policy '' @ quoted name) @ NL # ''deny '' @ a @ '' '' @ r\<rparr>]"
proof -
  have "gives [''policy '' @ quoted name, ''deny '' @ a @ '' '' @ r]
    [\<lparr>dp_id = name, dp_effect = DDeny, dp_action = a, dp_resource = r, dp_when_roles = [], dp_where_subjects = [],
      dp_unless_roles = [], dp_where_subject_groups = [],
      dp_raw = (''policy '' @ quoted name) @ NL # ''deny '' @ a @ '' '' @ r\<rparr>]"
    using gives_policy [of name "[(''deny '' @ a @ '' '' @ r, set_rule DDeny a r)]"] rule_statement [OF assms(1-4), of DDeny]
      assms(5) one_line_word [OF assms(2)] one_line_word [OF assms(4)]
    by (simp add: plain_name_def [of name] run_statements_def partial_new_def finish_def statement_updates)
  from gives_append [OF this gives_comment [OF assms(6)]] show ?thesis by simp
qed

definition suggested_policy :: "string \<Rightarrow> string \<Rightarrow> string \<Rightarrow> dsl_policy" where
  "suggested_policy name a r =
     \<lparr>dp_id = name, dp_effect = DDeny, dp_action = a, dp_resource = r, dp_when_roles = [], dp_where_subjects = [],
      dp_unless_roles = [], dp_where_subject_groups = [],
      dp_raw = (''policy '' @ quoted name) @ NL # ''deny '' @ a @ '' '' @ r\<rparr>"

lemma lower_char_low: "lower_char c = d \<Longrightarrow> (of_char d :: nat) < 65 \<Longrightarrow> c = d"
proof (cases "(65::nat) \<le> of_char c \<and> of_char c \<le> (90::nat)")
  case True
  then have "(65::nat) \<le> of_char (lower_char c)" unfolding of_char_lower by simp
  then show "lower_char c = d \<Longrightarrow> (of_char d :: nat) < 65 \<Longrightarrow> c = d" by auto
next
  case False
  then have "lower_char c = c" by (simp only: lower_char_def if_False)
  then show "lower_char c = d \<Longrightarrow> (of_char d :: nat) < 65 \<Longrightarrow> c = d" by simp
qed

lemma word_plain:
  assumes "word w"
  shows "plain_name (to_ascii_lowercase w)"
proof -
  have c: "\<forall>c\<in>set w. \<not> is_ws c \<and> c \<noteq> CHR ''#''" using assms by (simp add: word_def)
  have "lower_char c \<notin> {NL, CR, CHR ''#''}" if "c \<in> set w" for c
  proof -
    have "\<not> is_ws c" "c \<noteq> CHR ''#''" using c that by auto
    then have "c \<noteq> NL" "c \<noteq> CR" by (metis not_ws_simps(6), metis not_ws_simps(7))
    then show ?thesis using \<open>c \<noteq> CHR ''#''\<close> lower_char_low [of c] by auto
  qed
  then show ?thesis by (simp add: plain_name_def to_ascii_lowercase_def)
qed

lemma digit_char: "k < 10 \<Longrightarrow> (of_char d :: nat) < 48 \<Longrightarrow> char_of (48 + k :: nat) \<noteq> d"
proof
  assume "k < 10" "(of_char d :: nat) < 48" "char_of (48 + k :: nat) = d"
  then have "(of_char (char_of (48 + k :: nat)) :: nat) < 48" by simp
  then show False using \<open>k < 10\<close> by simp
qed

lemma show_nat_one_line: "one_line (show_nat n)"
proof (induction n rule: show_nat.induct)
  case (1 n)
  have "char_of (48 + n mod 10 :: nat) \<noteq> NL" "char_of (48 + n mod 10 :: nat) \<noteq> CR"
    by (rule digit_char; simp)+
  moreover have "n < 10 \<Longrightarrow> n mod 10 = n" by simp
  ultimately show ?case using 1 by (subst show_nat.simps) auto
qed

lemma suggestion_parses:
  assumes "word a" "word r" "to_ascii_uppercase a = a" "to_ascii_uppercase r = r" "audit_suggestion ((a, r), n) = Some s"
  shows "parse_dsl (su_dsl s) = Ok [suggested_policy (su_name s) a r]"
proof -
  let ?name = "''audit_deny_'' @ to_ascii_lowercase a @ ''_'' @ to_ascii_lowercase r"
  have s: "su_name s = ?name" "su_dsl s = unlines [''policy '' @ quoted ?name, ''deny '' @ a @ '' '' @ r,
       CHR ''#'' # '' suggested from '' @ show_nat n @ '' audit DENY events'']"
    using assms(5) by (auto simp: audit_suggestion_def Let_def split: if_splits)
  have "gives [''policy '' @ quoted ?name, ''deny '' @ a @ '' '' @ r,
       CHR ''#'' # '' suggested from '' @ show_nat n @ '' audit DENY events''] [suggested_policy ?name a r]"
    unfolding suggested_policy_def
    by (rule gives_suggestion)
      (use assms word_plain [OF assms(1)] word_plain [OF assms(2)] show_nat_one_line in \<open>simp_all add: upper_word_def word_def\<close>)
  then show ?thesis unfolding s by (rule gives_parse)
qed

lemma denials_upper: "denials rs (a, r) \<noteq> 0 \<Longrightarrow> to_ascii_uppercase a = a \<and> to_ascii_uppercase r = r"
  by (auto simp: denials_def filter_empty_conv deny_key_def)

lemma deny_counts_set: "set (deny_counts rs) = {(k, denials rs k) | k. denials rs k \<noteq> 0}"
proof -
  have d: "distinct (map fst (deny_counts rs))" using deny_counts_spec [of rs undefined] by blast
  have "(k, n) \<in> set (deny_counts rs) \<longleftrightarrow> denials rs k \<noteq> 0 \<and> n = denials rs k" for k n
    using deny_counts_spec [of rs k] unfolding map_of_eq_Some_iff [OF d, symmetric] by auto
  then show ?thesis by auto
qed


definition deny_log_disk :: disk where
  "deny_log_disk = file_put [''audit.jsonl''] (unlines [''{...}'', ''{...}'']) empty_disk"

lemma example_record_deny: "ar_decision example_record = Deny" "deny_key example_record = (''READ'', ''X'')"
  by (simp_all add: example_record_def record_from_decision_def Let_def deny_default_def deny_key_def read_request_def
      action_new_def resource_of_kind_def to_ascii_uppercase_def upper_char_def)


end
