(* ===== verification/Audit_Store.thy ===== *)
theory Audit_Store
  imports Audit_Log Catalog
begin

text \<open>
  \<open>authz-store\<close>: the SQLite store (db.rs, error.rs, the schema of migrations.rs) and its audit writer
  thread. Tables are maps by primary key; the audit log is its rows with their autoincremented ids.
  The database can refuse a statement (\<open>db_fault\<close>, by table); the channel to the writer is the
  queue of the store, and the writer takes batches from it. JSON printing and reading are the fields
  of \<open>store_codec\<close>, clock readings are arguments.
\<close>

section \<open>The database\<close>

datatype store_error = StSqlite string | StMsg string | StSerde string

fun store_error_text :: "store_error \<Rightarrow> string" where
  "store_error_text (StSqlite e) = ''sqlite: '' @ e"
| "store_error_text (StMsg m) = ''store: '' @ m"
| "store_error_text (StSerde e) = e"

record audit_write =
  aw_decision_id :: string
  aw_principal :: string
  aw_action :: string
  aw_resource :: string
  aw_subject :: "string option"
  aw_decision :: string
  aw_policy_revision :: string
  aw_signature_key_id :: "string option"
  aw_latency_ms :: "64 word"
  aw_timestamp :: string
  aw_evidence_json :: string

record revision_row =
  rr_message :: string
  rr_created_at :: string
  rr_content_sha256 :: "string option"
  rr_signature_key_id :: "string option"
  rr_signature_b64 :: "string option"
  rr_dsl :: string
  rr_cedar :: string
  rr_deployed :: bool

record identity_row =
  ir_payload_json :: string
  ir_source :: string
  ir_synced_at :: string

record database =
  db_versions :: "(nat \<times> string) list"
  db_tables :: bool
  db_policy_revisions :: "string \<rightharpoonup> revision_row"
  db_identity_cache :: "string \<rightharpoonup> identity_row"
  db_audit_log :: "(nat \<times> audit_write) list"
  db_audit_seq :: nat
  db_resource_catalog :: "string \<rightharpoonup> (string \<times> string)"
  db_decision_evidence :: "string \<rightharpoonup> (string \<times> string)"
  db_fault :: "string \<Rightarrow> string option"

record paac_store =
  ps_db :: database
  ps_queue :: "audit_write list"
  ps_writer :: bool

record store_codec =
  sc_json :: "json \<Rightarrow> string + string"
  sc_parse_json :: "string \<Rightarrow> string + json"
  sc_decision :: "authz_decision \<Rightarrow> string + string"
  sc_parse_decision :: "string \<Rightarrow> string + authz_decision"
  sc_rfc3339 :: "nat \<Rightarrow> string"

type_synonym 'a store_io = "(paac_store, store_error, 'a) st"

text \<open>One statement on a table: refused by the database, or done.\<close>

definition sql :: "string \<Rightarrow> (database \<Rightarrow> database) \<Rightarrow> unit store_io" where
  "sql table f s =
     (case db_fault (ps_db s) table of
        Some e \<Rightarrow> (Fail (StSqlite e), s)
      | None \<Rightarrow> (Ok (), s\<lparr>ps_db := f (ps_db s)\<rparr>))"

definition sql_query :: "string \<Rightarrow> (database \<Rightarrow> 'a) \<Rightarrow> 'a store_io" where
  "sql_query table f s =
     (case db_fault (ps_db s) table of Some e \<Rightarrow> (Fail (StSqlite e), s) | None \<Rightarrow> (Ok (f (ps_db s)), s))"

section \<open>Operations\<close>

text \<open>The schema: the version table is always created, the tables of version 1 once.\<close>

definition current_version :: "database \<Rightarrow> nat" where
  "current_version db = (if db_versions db = [] then 0 else Max (set (map fst (db_versions db))))"

definition migrate :: "string \<Rightarrow> unit store_io" where
  "migrate now =
     st_bind (sql ''schema_migrations'' id) (\<lambda>_.
     st_bind (st_gets (\<lambda>s. current_version (ps_db s))) (\<lambda>current.
       if current < 1
       then st_bind (sql ''tables'' (\<lambda>db. db\<lparr>db_tables := True\<rparr>)) (\<lambda>_.
              sql ''schema_migrations'' (\<lambda>db. db\<lparr>db_versions := db_versions db @ [(1, now)]\<rparr>))
       else st_ret ()))"

text \<open>Opening: the parent directory, the connection, the writer thread and the schema. What the file
  holds already is the argument \<open>db\<close>; \<open>dir\<close>, \<open>conn\<close> and \<open>spawn\<close> are the answers of the system.\<close>

definition paac_store_open ::
  "string + unit \<Rightarrow> string + database \<Rightarrow> string + bool \<Rightarrow> string \<Rightarrow> (store_error, paac_store) result" where
  "paac_store_open dir conn spawn now =
     and_then (lift_msg StMsg dir) (\<lambda>_.
     and_then (lift_msg StSqlite conn) (\<lambda>db.
     and_then (lift_msg StMsg spawn) (\<lambda>writer.
       let s = \<lparr>ps_db = db, ps_queue = [], ps_writer = writer\<rparr>
       in (case migrate now s of (r, s') \<Rightarrow> and_then r (\<lambda>_. Ok s')))))"

definition upsert_policy_revision :: "string \<Rightarrow> revision_row \<Rightarrow> unit store_io" where
  "upsert_policy_revision revision row =
     sql ''policy_revisions'' (\<lambda>db. db\<lparr>db_policy_revisions := hm_insert revision row (db_policy_revisions db)\<rparr>)"

definition cache_identity :: "store_codec \<Rightarrow> string \<Rightarrow> string \<Rightarrow> json \<Rightarrow> string \<Rightarrow> unit store_io" where
  "cache_identity sc now principal_id payload source =
     st_bind (st_lift (lift_msg StSerde (sc_json sc payload))) (\<lambda>text.
       sql ''identity_cache'' (\<lambda>db. db\<lparr>db_identity_cache := hm_insert principal_id
         \<lparr>ir_payload_json = text, ir_source = source, ir_synced_at = now\<rparr> (db_identity_cache db)\<rparr>))"

definition get_cached_identity :: "store_codec \<Rightarrow> string \<Rightarrow> json option store_io" where
  "get_cached_identity sc principal_id =
     st_bind (sql_query ''identity_cache'' (\<lambda>db. db_identity_cache db principal_id)) (\<lambda>row.
       case row of
         None \<Rightarrow> st_ret None
       | Some r \<Rightarrow> st_bind (st_lift (lift_msg StSerde (sc_parse_json sc (ir_payload_json r)))) (\<lambda>v. st_ret (Some v)))"

definition upsert_catalog_resource :: "store_codec \<Rightarrow> string \<Rightarrow> string \<Rightarrow> json \<Rightarrow> unit store_io" where
  "upsert_catalog_resource sc i kind payload =
     st_bind (st_lift (lift_msg StSerde (sc_json sc payload))) (\<lambda>text.
       sql ''resource_catalog'' (\<lambda>db. db\<lparr>db_resource_catalog := hm_insert i (kind, text) (db_resource_catalog db)\<rparr>))"

fun debug_effect :: "decision_effect \<Rightarrow> string" where
  "debug_effect Allow = ''Allow''"
| "debug_effect Deny = ''Deny''"
| "debug_effect Review = ''Review''"

text \<open>The latency is cast from \<open>u64\<close> to \<open>i64\<close>: the same 64 bits, read signed by the database.\<close>

definition audit_write_of ::
  "store_codec \<Rightarrow> authz_decision \<Rightarrow> 64 word \<Rightarrow> string option \<Rightarrow> (store_error, audit_write) result" where
  "audit_write_of sc d latency_ms key_id =
     (let ev = ad_evidence d; req = ev_request ev in
      and_then (lift_msg StSerde (sc_decision sc d)) (\<lambda>text.
        Ok \<lparr>aw_decision_id = ev_decision_id ev, aw_principal = pr_id (rq_principal req), aw_action = ac_name (rq_action req),
            aw_resource = rs_kind (rq_resource req), aw_subject = map_option sj_id (rq_subject req),
            aw_decision = to_ascii_uppercase (debug_effect (ad_effect d)), aw_policy_revision = ev_policy_revision ev,
            aw_signature_key_id = (case key_id of Some k \<Rightarrow> Some k | None \<Rightarrow> ev_policy_signature ev),
            aw_latency_ms = latency_ms, aw_timestamp = sc_rfc3339 sc (ev_timestamp ev), aw_evidence_json = text\<rparr>))"

definition send_audit :: "audit_write \<Rightarrow> unit store_io" where
  "send_audit w s =
     (if ps_writer s then (Ok (), s\<lparr>ps_queue := ps_queue s @ [w]\<rparr>)
      else (Fail (StMsg ''audit channel: sending on a closed channel''), s))"

definition enqueue_audit :: "store_codec \<Rightarrow> authz_decision \<Rightarrow> 64 word \<Rightarrow> string option \<Rightarrow> unit store_io" where
  "enqueue_audit sc d latency_ms key_id = st_bind (st_lift (audit_write_of sc d latency_ms key_id)) send_audit"

text \<open>\<open>INSERT OR REPLACE INTO audit_log\<close>: a row with the same decision id goes, the new one gets the
  next id.\<close>

definition insert_audit_row :: "audit_write \<Rightarrow> database \<Rightarrow> database" where
  "insert_audit_row w db =
     db\<lparr>db_audit_log := filter (\<lambda>row. aw_decision_id (snd row) \<noteq> aw_decision_id w) (db_audit_log db) @ [(db_audit_seq db + 1, w)],
        db_audit_seq := db_audit_seq db + 1\<rparr>"

definition insert_evidence :: "audit_write \<Rightarrow> database \<Rightarrow> database" where
  "insert_evidence w db =
     db\<lparr>db_decision_evidence := hm_insert (aw_decision_id w) (aw_evidence_json w, aw_timestamp w) (db_decision_evidence db)\<rparr>"

text \<open>The writer ignores what the database refuses.\<close>

definition write_audit :: "audit_write \<Rightarrow> paac_store \<Rightarrow> paac_store" where
  "write_audit w s = snd (sql ''decision_evidence'' (insert_evidence w) (snd (sql ''audit_log'' (insert_audit_row w) s)))"

definition BATCH_MAX :: nat where
  "BATCH_MAX = 64"

text \<open>One turn of the writer's loop with a batch of the \<open>n\<close> oldest writes.\<close>

definition writer_batch :: "nat \<Rightarrow> paac_store \<Rightarrow> paac_store" where
  "writer_batch n s = fold write_audit (take n (ps_queue s)) (s\<lparr>ps_queue := drop n (ps_queue s)\<rparr>)"

definition opt_json :: "string option \<Rightarrow> json" where
  "opt_json x = (case x of None \<Rightarrow> JNull | Some s \<Rightarrow> JStr s)"

definition show_int :: "int \<Rightarrow> string" where
  "show_int i = (if i < 0 then CHR ''-'' # show_nat (nat (- i)) else show_nat (nat i))"

definition audit_row_json :: "store_codec \<Rightarrow> audit_write \<Rightarrow> json" where
  "audit_row_json sc w =
     JObj [(''decision_id'', JStr (aw_decision_id w)), (''principal'', JStr (aw_principal w)), (''action'', JStr (aw_action w)),
       (''resource'', JStr (aw_resource w)), (''subject'', opt_json (aw_subject w)), (''decision'', JStr (aw_decision w)),
       (''policy_revision'', JStr (aw_policy_revision w)), (''signature_key_id'', opt_json (aw_signature_key_id w)),
       (''latency_ms'', JNum (show_int (sint (aw_latency_ms w)))), (''timestamp'', JStr (aw_timestamp w)),
       (''evidence'', case sc_parse_json sc (aw_evidence_json w) of Inr v \<Rightarrow> v | Inl _ \<Rightarrow> JNull)]"

definition recent_audit :: "store_codec \<Rightarrow> nat \<Rightarrow> json list store_io" where
  "recent_audit sc limit =
     sql_query ''audit_log'' (\<lambda>db. map (audit_row_json sc) (take limit (rev (map snd (db_audit_log db)))))"

definition get_evidence :: "store_codec \<Rightarrow> string \<Rightarrow> authz_decision option store_io" where
  "get_evidence sc i =
     st_bind (sql_query ''decision_evidence'' (\<lambda>db. db_decision_evidence db i)) (\<lambda>row.
       case row of
         None \<Rightarrow> st_ret None
       | Some (text, _) \<Rightarrow> st_bind (st_lift (lift_msg StSerde (sc_parse_decision sc text))) (\<lambda>d. st_ret (Some d)))"

section \<open>The writer\<close>

text \<open>The writer thread's loop: it takes what is in the channel, at most a full batch, in order.\<close>

inductive writer_step :: "paac_store \<Rightarrow> paac_store \<Rightarrow> bool" where
  step_batch: "ps_writer s \<Longrightarrow> 1 \<le> n \<Longrightarrow> n \<le> length (ps_queue s) \<Longrightarrow> n \<le> BATCH_MAX \<Longrightarrow> writer_step s (writer_batch n s)"

inductive_cases writer_stepE: "writer_step s s'"

inductive_simps writer_step_iff: "writer_step s s'"

definition drained :: "paac_store \<Rightarrow> paac_store" where
  "drained s = fold write_audit (ps_queue s) (s\<lparr>ps_queue := []\<rparr>)"

lemma sql_queue: "snd (sql t f (s\<lparr>ps_queue := q\<rparr>)) = (snd (sql t f s))\<lparr>ps_queue := q\<rparr>"
  by (simp add: sql_def split: option.split)

lemma write_audit_queue: "write_audit w (s\<lparr>ps_queue := q\<rparr>) = (write_audit w s)\<lparr>ps_queue := q\<rparr>"
  by (simp add: write_audit_def sql_queue)

lemma fold_write_queue: "fold write_audit ws (s\<lparr>ps_queue := q\<rparr>) = (fold write_audit ws s)\<lparr>ps_queue := q\<rparr>"
  by (induction ws arbitrary: s) (simp_all add: write_audit_queue)

lemma write_audit_frame [simp]:
  "ps_queue (write_audit w s) = ps_queue s" "ps_writer (write_audit w s) = ps_writer s"
  "db_fault (ps_db (write_audit w s)) = db_fault (ps_db s)"
  by (auto simp: write_audit_def sql_def insert_audit_row_def insert_evidence_def split: option.split)

lemma fold_write_frame [simp]:
  "ps_queue (fold write_audit ws s) = ps_queue s" "ps_writer (fold write_audit ws s) = ps_writer s"
  "db_fault (ps_db (fold write_audit ws s)) = db_fault (ps_db s)"
  by (induction ws arbitrary: s) simp_all

lemma writer_step_queue: "writer_step s s' \<Longrightarrow> length (ps_queue s') < length (ps_queue s)"
  by (auto simp: writer_step_iff writer_batch_def)

lemma writer_step_drained:
  assumes "writer_step s s'"
  shows "drained s' = drained s" and "ps_writer s' = ps_writer s"
proof -
  obtain n where s': "s' = writer_batch n s" using assms by (auto simp: writer_step_iff)
  let ?s = "s\<lparr>ps_queue := []\<rparr>"
  have "s' = (fold write_audit (take n (ps_queue s)) ?s)\<lparr>ps_queue := drop n (ps_queue s)\<rparr>"
    unfolding s' writer_batch_def using fold_write_queue [where s = ?s and q = "drop n (ps_queue s)"] by simp
  then have "drained s' = fold write_audit (drop n (ps_queue s)) (fold write_audit (take n (ps_queue s)) ?s)"
    by (simp add: drained_def fold_write_queue [symmetric])
  also have "\<dots> = fold write_audit (take n (ps_queue s) @ drop n (ps_queue s)) ?s" by (simp only: fold_append comp_def)
  finally show "drained s' = drained s" by (simp only: append_take_drop_id drained_def)
  show "ps_writer s' = ps_writer s" by (simp add: s' writer_batch_def)
qed

lemma writer_reaches_drained:
  "ps_writer s \<Longrightarrow> writer_step\<^sup>*\<^sup>* s (drained s)"
proof (induction "length (ps_queue s)" arbitrary: s rule: less_induct)
  case less
  show ?case
  proof (cases "ps_queue s")
    case Nil
    then have "drained s = s" by (simp add: drained_def)
    then show ?thesis by simp
  next
    case (Cons w q)
    then have st: "writer_step s (writer_batch 1 s)"
      using less.prems by (intro step_batch) (simp_all add: BATCH_MAX_def)
    from writer_step_queue [OF st] less.hyps [of "writer_batch 1 s"] writer_step_drained [OF st] less.prems
    have "writer_step\<^sup>*\<^sup>* (writer_batch 1 s) (drained s)" by simp
    with st show ?thesis by (rule converse_rtranclp_into_rtranclp)
  qed
qed


section \<open>What the audit log holds\<close>

text \<open>The rows of a table where a later write with the same id replaces an earlier one.\<close>

fun keep_last :: "audit_write list \<Rightarrow> audit_write list" where
  "keep_last [] = []"
| "keep_last (w # ws) = (if \<exists>v\<in>set ws. aw_decision_id v = aw_decision_id w then keep_last ws else w # keep_last ws)"

definition evidence_row :: "audit_write \<Rightarrow> string \<times> (string \<times> string)" where
  "evidence_row w = (aw_decision_id w, (aw_evidence_json w, aw_timestamp w))"

lemma keep_last_snoc:
  "keep_last (ws @ [w]) = filter (\<lambda>v. aw_decision_id v \<noteq> aw_decision_id w) (keep_last ws) @ [w]"
  by (induction ws) auto

lemma keep_last_distinct: "distinct (map aw_decision_id ws) \<Longrightarrow> keep_last ws = ws"
  by (induction ws) (auto simp: image_iff)

definition audit_tables :: "audit_write list \<Rightarrow> database \<Rightarrow> bool" where
  "audit_tables done_writes db \<longleftrightarrow>
     map snd (db_audit_log db) = keep_last done_writes \<and>
     (\<forall>i. db_decision_evidence db i = map_of (rev (map evidence_row done_writes)) i) \<and>
     sorted_wrt (<) (map fst (db_audit_log db)) \<and> (\<forall>i\<in>set (map fst (db_audit_log db)). i \<le> db_audit_seq db)"

lemma filter_map_snd: "map snd (filter (\<lambda>row. P (snd row)) rows) = filter P (map snd rows)"
  by (induction rows) auto

lemma sorted_wrt_map_filter: "sorted_wrt (<) (map fst rows) \<Longrightarrow> sorted_wrt (<) (map fst (filter P rows))"
  by (induction rows) auto

lemma audit_tables_write:
  assumes "audit_tables ws (ps_db s)" "db_fault (ps_db s) ''audit_log'' = None" "db_fault (ps_db s) ''decision_evidence'' = None"
  shows "audit_tables (ws @ [w]) (ps_db (write_audit w s))"
proof -
  have db: "ps_db (write_audit w s) = insert_evidence w (insert_audit_row w (ps_db s))"
    using assms(2,3) by (simp add: write_audit_def sql_def insert_audit_row_def)
  have s: "sorted_wrt (<) (map fst (filter P (db_audit_log (ps_db s))))" for P
    using assms(1) by (auto simp: audit_tables_def intro: sorted_wrt_map_filter)
  show ?thesis
    using assms(1) s
    by (auto simp: audit_tables_def db insert_evidence_def insert_audit_row_def keep_last_snoc
        filter_map_snd [of "\<lambda>v. aw_decision_id v \<noteq> aw_decision_id w"]
        sorted_wrt_append hm_insert_def evidence_row_def)
qed

lemma audit_tables_batch:
  assumes "audit_tables ws (ps_db s)" "db_fault (ps_db s) ''audit_log'' = None" "db_fault (ps_db s) ''decision_evidence'' = None"
  shows "audit_tables (ws @ vs) (ps_db (fold write_audit vs s))"
  using assms
proof (induction vs arbitrary: s ws)
  case (Cons v vs)
  then show ?case using Cons.IH [of "ws @ [v]" "write_audit v s"] audit_tables_write [OF Cons.prems] by simp
qed simp

text \<open>Every way a store can come about: opened on a file with an empty audit log, then used by any
  threads, with the writer taking batches in between. The list records what was accepted for
  auditing, in the order of the channel.\<close>

inductive audit_run :: "store_codec \<Rightarrow> (string \<Rightarrow> string option) \<Rightarrow> audit_write list \<Rightarrow> paac_store \<Rightarrow> bool"
  for sc :: store_codec and fault :: "string \<Rightarrow> string option" where
  run_open: "paac_store_open dir (Inr db) spawn now = Ok s \<Longrightarrow> db_fault db = fault \<Longrightarrow> db_audit_log db = [] \<Longrightarrow>
    db_decision_evidence db = Map.empty \<Longrightarrow> audit_run sc fault [] s"
| run_audit: "audit_run sc fault h s \<Longrightarrow> audit_write_of sc d l k = Ok w \<Longrightarrow> enqueue_audit sc d l k s = (Ok (), s') \<Longrightarrow>
    audit_run sc fault (h @ [w]) s'"
| run_audit_fails: "audit_run sc fault h s \<Longrightarrow> enqueue_audit sc d l k s = (Inl f, s') \<Longrightarrow> audit_run sc fault h s'"
| run_writer: "audit_run sc fault h s \<Longrightarrow> writer_step s s' \<Longrightarrow> audit_run sc fault h s'"
| run_revision: "audit_run sc fault h s \<Longrightarrow> upsert_policy_revision rev_id row s = (r, s') \<Longrightarrow> audit_run sc fault h s'"
| run_identity: "audit_run sc fault h s \<Longrightarrow> cache_identity sc now i v src s = (r, s') \<Longrightarrow> audit_run sc fault h s'"
| run_catalog: "audit_run sc fault h s \<Longrightarrow> upsert_catalog_resource sc i kind v s = (r, s') \<Longrightarrow> audit_run sc fault h s'"
| run_migrate: "audit_run sc fault h s \<Longrightarrow> migrate now s = (r, s') \<Longrightarrow> audit_run sc fault h s'"

definition audit_inv :: "(string \<Rightarrow> string option) \<Rightarrow> audit_write list \<Rightarrow> paac_store \<Rightarrow> bool" where
  "audit_inv fault h s \<longleftrightarrow> db_fault (ps_db s) = fault \<and> (\<exists>ws. h = ws @ ps_queue s \<and> audit_tables ws (ps_db s))"

text \<open>An operation that touches neither the channel nor the audit tables.\<close>

definition audit_view :: "paac_store \<Rightarrow> audit_write list \<times> (string \<Rightarrow> string option) \<times> (nat \<times> audit_write) list \<times> nat \<times> (string \<rightharpoonup> (string \<times> string))" where
  "audit_view s = (ps_queue s, db_fault (ps_db s), db_audit_log (ps_db s), db_audit_seq (ps_db s), db_decision_evidence (ps_db s))"

lemma preserves_sql:
  "(\<And>db. db_fault (f db) = db_fault db \<and> db_audit_log (f db) = db_audit_log db \<and> db_audit_seq (f db) = db_audit_seq db \<and>
     db_decision_evidence (f db) = db_decision_evidence db) \<Longrightarrow>
   preserves (\<lambda>s. audit_view s = v) (sql t f)"
  by (auto simp: preserves_def sql_def audit_view_def split: option.split)

lemma audit_frames:
  "preserves (\<lambda>s. audit_view s = v) (upsert_policy_revision i row)"
  "preserves (\<lambda>s. audit_view s = v) (cache_identity sc now i j src)"
  "preserves (\<lambda>s. audit_view s = v) (upsert_catalog_resource sc i kind j)"
  "preserves (\<lambda>s. audit_view s = v) (migrate now)"
  unfolding upsert_policy_revision_def cache_identity_def upsert_catalog_resource_def migrate_def
  by (auto intro!: preserves_bind preserves_sql)

lemma audit_inv_frame:
  assumes "\<And>v. preserves (\<lambda>s. audit_view s = v) m" "m s = (r, s')" "audit_inv fault h s"
  shows "audit_inv fault h s'"
proof -
  have "audit_view s' = audit_view s" by (rule preservesD [OF assms(1) refl assms(2)])
  then show ?thesis using assms(3) by (simp add: audit_view_def audit_inv_def audit_tables_def)
qed

lemma audit_inv_batch:
  assumes "audit_inv fault h s" "fault ''audit_log'' = None" "fault ''decision_evidence'' = None" "writer_step s s'"
  shows "audit_inv fault h s'"
proof -
  obtain n where s': "s' = writer_batch n s" using assms(4) by (auto simp: writer_step_iff)
  obtain ws where ws: "h = ws @ ps_queue s" "audit_tables ws (ps_db s)" "db_fault (ps_db s) = fault"
    using assms(1) by (auto simp: audit_inv_def)
  let ?s = "s\<lparr>ps_queue := drop n (ps_queue s)\<rparr>"
  have "audit_tables (ws @ take n (ps_queue s)) (ps_db (fold write_audit (take n (ps_queue s)) ?s))"
    using ws assms(2,3) by (intro audit_tables_batch) simp_all
  then show ?thesis
    unfolding audit_inv_def s' writer_batch_def using ws by (intro conjI exI [of _ "ws @ take n (ps_queue s)"]) simp_all
qed

lemma audit_run_inv:
  assumes "audit_run sc fault h s" "fault ''audit_log'' = None" "fault ''decision_evidence'' = None"
  shows "audit_inv fault h s"
  using assms
proof induction
  case (run_open dir db spawn now s)
  obtain w where w: "(case migrate now \<lparr>ps_db = db, ps_queue = [], ps_writer = w\<rparr> of (r, s') \<Rightarrow> and_then r (\<lambda>_. Ok s')) = Ok s"
    using run_open(1) by (auto simp: paac_store_open_def and_then_Inr_iff Let_def)
  obtain s0 r where s0: "s0 = \<lparr>ps_db = db, ps_queue = [], ps_writer = w\<rparr>" "migrate now s0 = (r, s)"
    using w by (cases "migrate now \<lparr>ps_db = db, ps_queue = [], ps_writer = w\<rparr>") (auto simp: and_then_Inr_iff)
  have "audit_inv fault [] s0"
    using run_open(2-4) by (simp add: audit_inv_def s0(1) audit_tables_def)
  then show ?case by (rule audit_inv_frame [OF audit_frames(4) s0(2)])
next
  case (run_audit h s d l k w s')
  then have "s' = s\<lparr>ps_queue := ps_queue s @ [w]\<rparr>"
    by (auto simp: enqueue_audit_def send_audit_def split: if_splits)
  then show ?case using run_audit by (auto simp: audit_inv_def)
next
  case (run_audit_fails h s d l k f s')
  then have "s' = s" by (auto simp: enqueue_audit_def st_bind_Inl_iff send_audit_def split: if_splits)
  then show ?case using run_audit_fails by simp
next
  case (run_writer h s s')
  then show ?case using audit_inv_batch by blast
qed (blast intro: audit_inv_frame audit_frames)+


section \<open>Examples\<close>

definition empty_database :: database where
  "empty_database =
     \<lparr>db_versions = [], db_tables = False, db_policy_revisions = Map.empty, db_identity_cache = Map.empty, db_audit_log = [],
      db_audit_seq = 0, db_resource_catalog = Map.empty, db_decision_evidence = Map.empty, db_fault = (\<lambda>_. None)\<rparr>"

definition example_store_codec :: store_codec where
  "example_store_codec =
     \<lparr>sc_json = (\<lambda>_. Inr ''{}''), sc_parse_json = (\<lambda>_. Inr (JObj [])), sc_decision = (\<lambda>_. Inr ''{}''),
      sc_parse_decision = (\<lambda>_. Inl ''no''), sc_rfc3339 = show_nat\<rparr>"

definition opened_store :: paac_store where
  "opened_store = \<lparr>ps_db = empty_database\<lparr>db_tables := True, db_versions := [(1, ''now'')]\<rparr>, ps_queue = [], ps_writer = True\<rparr>"

lemma opened_store_open: "paac_store_open (Inr ()) (Inr empty_database) (Inr True) ''now'' = Ok opened_store"
  by (simp add: paac_store_open_def migrate_def sql_def empty_database_def opened_store_def current_version_def st_bind_def
      st_ret_def)

definition example_decision :: "string \<Rightarrow> authz_decision" where
  "example_decision i = deny_default \<lparr>env_uuid = i, env_now = 7\<rparr> (read_request ''X'') ''r1'' ''v''"

lemma example_enqueue:
  "\<exists>w. audit_write_of example_store_codec (example_decision i) l k = Ok w \<and> aw_decision_id w = i \<and>
     (ps_writer s \<longrightarrow> enqueue_audit example_store_codec (example_decision i) l k s = (Ok (), s\<lparr>ps_queue := ps_queue s @ [w]\<rparr>))"
  by (simp add: audit_write_of_def example_store_codec_def example_decision_def deny_default_def Let_def enqueue_audit_def
      send_audit_def)



end
