(* ===== verification/Proxy_Engine.thy ===== *)
theory Proxy_Engine
  imports Proxy_Auth Policy_Store Audit_Store
begin

text \<open>
  \<open>authz-llm-proxy/src/engine.rs\<close>: loading the deployed bundle, checking requests with the audit
  side effect, and the readiness probe. Building the engine reads the disk of \<open>Policy_Store\<close>; what the key file, the
  catalogue and the database answer are arguments. A check changes only the engine's audit store.
\<close>

section \<open>The engine\<close>

record 'ps authz_engine =
  ae_bundle :: "'ps bundle_cache"
  ae_catalog :: resource_catalog
  ae_store :: "paac_store option"
  ae_require_signed :: bool
  ae_mode :: run_mode

definition catalog_default :: resource_catalog where
  "catalog_default = \<lparr>ct_version = [], ct_resources = [], ct_tools = []\<rparr>"

text \<open>What the engine finds around it: the key file and its reader, the catalogue file, the database.\<close>

record surroundings =
  sr_key_file :: "string + string"
  sr_parse_pair :: "string \<Rightarrow> string + signing_key_pair"
  sr_catalog :: "(catalog_error, resource_catalog) result"
  sr_sqlite :: "(store_error, paac_store) result option"
  sr_now :: string

definition bundle_signer_key :: "crypto \<Rightarrow> surroundings \<Rightarrow> string option" where
  "bundle_signer_key cr sr =
     (case sr_key_file sr of
        Inl _ \<Rightarrow> None
      | Inr text \<Rightarrow>
          (case sr_parse_pair sr text of
             Inl _ \<Rightarrow> None
           | Inr pair \<Rightarrow>
               (case signer_from_keypair cr pair of
                  Inl _ \<Rightarrow> None
                | Inr signer \<Rightarrow> Some (bs_public (local_bundle_signer cr signer)))))"

text \<open>The signature check of the loading code: an error refuses the bundle, the answer itself is dropped.\<close>

definition check_deployed :: "crypto \<Rightarrow> surroundings \<Rightarrow> policy_revision \<Rightarrow> (proxy_error, unit) result" where
  "check_deployed cr sr rv =
     and_then (ok_or (PxNotReady ''deployed revision has no signature'') (rv_bundle rv)) (\<lambda>b.
       case bundle_signer_key cr sr of
         None \<Rightarrow> Ok ()
       | Some pk \<Rightarrow>
           and_then (map_err (\<lambda>e. PxNotReady (''bundle signature invalid: '' @ policy_error_text e)) (verify_bundle cr b pk)) (\<lambda>_.
             Ok ()))"

definition not_ready :: "'a disk_io \<Rightarrow> (disk, proxy_error, 'a) st" where
  "not_ready m = st_map_err (\<lambda>e. PxNotReady (policy_error_text e)) m"

definition dev_fallback ::
  "('ps, 'rx, 'ctx, 'es, 'rq) cedar \<Rightarrow> surroundings \<Rightarrow> proxy_config \<Rightarrow> policy_store \<Rightarrow> (disk, proxy_error, 'ps authz_engine) st" where
  "dev_fallback c sr cfg st =
     st_bind (not_ready (read_active_dsl st)) (\<lambda>dsl.
     st_bind (st_lift (map_err (\<lambda>e. PxNotReady (policy_error_text e)) (validate_dsl c dsl))) (\<lambda>policies.
     st_bind (st_lift (map_err (\<lambda>e. PxNotReady (policy_error_text e)) (cedar_policy_set_from_dsl c policies))) (\<lambda>set.
       st_ret \<lparr>ae_bundle = bundle_cache_new
           \<lparr>hb_policy_set = set, hb_policy_revision = ''dev-unsigned'', hb_policy_signature = None, hb_signature_key_id = None,
            hb_content_sha256 = None, hb_group_members = []\<rparr>,
         ae_catalog = unwrap_or catalog_default (sr_catalog sr),
         ae_store = (case sr_sqlite sr of Some (Inr s) \<Rightarrow> Some s | _ \<Rightarrow> None),
         ae_require_signed = False, ae_mode = px_mode cfg\<rparr>)))"

definition record_revision :: "surroundings \<Rightarrow> policy_revision \<Rightarrow> paac_store \<Rightarrow> paac_store" where
  "record_revision sr rv s =
     snd (upsert_policy_revision (rv_revision rv)
       \<lparr>rr_message = rv_message rv, rr_created_at = sr_now sr, rr_content_sha256 = map_option sb_content_sha256 (rv_bundle rv),
        rr_signature_key_id = map_option sb_key_id (rv_bundle rv), rr_signature_b64 = map_option sb_signature_b64 (rv_bundle rv),
        rr_dsl = rv_dsl rv, rr_cedar = rv_cedar rv, rr_deployed = True\<rparr> s)"

definition from_deployed ::
  "crypto \<Rightarrow> surroundings \<Rightarrow> proxy_config \<Rightarrow> 'ps \<Rightarrow> policy_revision \<Rightarrow> (proxy_error, 'ps authz_engine) result" where
  "from_deployed cr sr cfg pset rv =
     and_then (if px_require_signed_bundle cfg \<or> px_mode cfg = Production then check_deployed cr sr rv else Ok ()) (\<lambda>_.
     and_then (case sr_sqlite sr of
                 None \<Rightarrow> Ok None
               | Some r \<Rightarrow> map_err (\<lambda>e. PxInternal (store_error_text e)) (and_then r (\<lambda>s. Ok (Some s)))) (\<lambda>store.
       Ok \<lparr>ae_bundle = bundle_cache_new
             \<lparr>hb_policy_set = pset, hb_policy_revision = rv_revision rv, hb_policy_signature = map_option sb_key_id (rv_bundle rv),
              hb_signature_key_id = map_option sb_key_id (rv_bundle rv),
              hb_content_sha256 = map_option sb_content_sha256 (rv_bundle rv), hb_group_members = []\<rparr>,
           ae_catalog = unwrap_or catalog_default (sr_catalog sr), ae_store = map_option (record_revision sr rv) store,
           ae_require_signed = px_require_signed_bundle cfg, ae_mode = px_mode cfg\<rparr>))"

definition from_config ::
  "('ps, 'rx, 'ctx, 'es, 'rq) cedar \<Rightarrow> crypto \<Rightarrow> codec \<Rightarrow> surroundings \<Rightarrow> proxy_config \<Rightarrow> (disk, proxy_error, 'ps authz_engine) st" where
  "from_config c cr js sr cfg =
     st_bind (not_ready (store_open (path_of (px_policy_dir cfg)))) (\<lambda>st.
     st_bind (st_try (policy_set_from_deployed c js st)) (\<lambda>loaded.
       case loaded of
         Inr (pset, rv) \<Rightarrow> st_lift (from_deployed cr sr cfg pset rv)
       | Inl (Panic m) \<Rightarrow> st_lift (Inl (Panic m))
       | Inl (Err e) \<Rightarrow>
           if px_mode cfg = Production \<or> px_require_signed_bundle cfg
           then st_fail (PxNotReady (''signed deployed bundle required: '' @ policy_error_text e))
           else dev_fallback c sr cfg st))"

section \<open>Checking\<close>

type_synonym ('ps, 'a) engine_io = "('ps authz_engine, proxy_error, 'a) st"

definition audit_decision :: "store_codec \<Rightarrow> authz_decision \<Rightarrow> 64 word \<Rightarrow> string option \<Rightarrow> 'ps authz_engine \<Rightarrow> 'ps authz_engine" where
  "audit_decision sc d latency key_id e =
     (case ae_store e of
        None \<Rightarrow> e
      | Some s \<Rightarrow> e\<lparr>ae_store := Some (snd (enqueue_audit sc d latency key_id s))\<rparr>)"

definition check ::
  "('ps, 'rx, 'ctx, 'es, 'rq) cedar \<Rightarrow> store_codec \<Rightarrow> eval_env \<Rightarrow> nat \<Rightarrow> authz_request \<Rightarrow> ('ps, authz_decision) engine_io" where
  "check c sc env elapsed_ms req e =
     (let hot = bc_load (ae_bundle e) in
      if ae_require_signed e \<and> hb_policy_signature hot = None
      then (Fail (PxNotReady ''unsigned policy bundle rejected''), e)
      else (case map_err (\<lambda>x. PxBadRequest (authz_error_text x)) (evaluate c env req (to_evaluator_config hot)) of
              Inl f \<Rightarrow> (Inl f, e)
            | Inr d \<Rightarrow> (Ok d, audit_decision sc d (word_of_nat elapsed_ms) (hb_signature_key_id hot) e)))"

definition is_ready :: "'ps authz_engine \<Rightarrow> (proxy_error, unit) result" where
  "is_ready e =
     (if ae_require_signed e \<and> hb_policy_signature (bc_load (ae_bundle e)) = None
      then Fail (PxNotReady ''signed bundle not loaded'') else Ok ())"

definition allow_or_forbid ::
  "(authz_decision \<Rightarrow> json) \<Rightarrow> ('ps, 'rx, 'ctx, 'es, 'rq) cedar \<Rightarrow> store_codec \<Rightarrow> eval_env \<Rightarrow> nat \<Rightarrow> authz_request \<Rightarrow>
   ('ps, authz_decision) engine_io" where
  "allow_or_forbid dj c sc env ms req =
     st_bind (check c sc env ms req) (\<lambda>d.
       if ad_effect d \<noteq> Allow
       then st_fail (PxForbidden (''PAAC denied '' @ ac_name (rq_action req) @ '' on '' @ rs_kind (rq_resource req))
              (ev_decision_id (ad_evidence d)) (dj d))
       else st_ret d)"

section \<open>Loading\<close>

definition strict :: "proxy_config \<Rightarrow> bool" where
  "strict cfg \<longleftrightarrow> px_mode cfg = Production \<or> px_require_signed_bundle cfg"

lemma not_ready_eq: "not_ready m d = (map_err (\<lambda>e. PxNotReady (policy_error_text e)) (fst (m d)), snd (m d))"
  by (simp add: not_ready_def st_map_err_def split: prod.split)

lemma policy_set_from_deployed_Ok:
  "policy_set_from_deployed c js st d = (Ok (pset, rv), d') \<longleftrightarrow>
     load_deployed js st d = (Ok (Some rv), d') \<and> cd_parse_policies c (rv_cedar rv) = Inr pset"
  by (auto simp: policy_set_from_deployed_def result_simps)

lemma from_config_opened:
  assumes "store_open (path_of (px_policy_dir cfg)) d = (Ok st, d1)" "policy_set_from_deployed c js st d1 = (l, d2)"
  shows "from_config c cr js sr cfg d =
    (case l of
       Inr (pset, rv) \<Rightarrow> st_lift (from_deployed cr sr cfg pset rv)
     | Inl (Panic m) \<Rightarrow> st_lift (Inl (Panic m))
     | Inl (Err e) \<Rightarrow>
         if px_mode cfg = Production \<or> px_require_signed_bundle cfg
         then st_fail (PxNotReady (''signed deployed bundle required: '' @ policy_error_text e))
         else dev_fallback c sr cfg st) d2"
  using assms by (simp add: from_config_def st_bind_def not_ready_eq st_try_def)

text \<open>What a strict configuration builds an engine from: the deployed revision and nothing else.\<close>

lemma from_config_strict:
  assumes "strict cfg"
  shows "from_config c cr js sr cfg d = (Ok e, d') \<longleftrightarrow>
    (\<exists>st d1 pset rv. store_open (path_of (px_policy_dir cfg)) d = (Ok st, d1) \<and> d' = d1 \<and>
       load_deployed js st d1 = (Ok (Some rv), d1) \<and> cd_parse_policies c (rv_cedar rv) = Inr pset \<and>
       from_deployed cr sr cfg pset rv = Ok e)"
proof -
  have "preserves (\<lambda>x. x = d1) (policy_set_from_deployed c js st)" for st d1
    unfolding policy_set_from_deployed_def by (intro preserves_bind preserves_reads preserves_pure)
  then have keep: "policy_set_from_deployed c js st d1 = (r, d2) \<Longrightarrow> d2 = d1" for st d1 r d2
    using preservesD by fastforce
  show ?thesis
  proof
    assume ok: "from_config c cr js sr cfg d = (Ok e, d')"
    obtain r d1 where o: "store_open (path_of (px_policy_dir cfg)) d = (r, d1)" by fastforce
    with ok obtain st where r: "r = Ok st"
      by (cases r rule: result_cases) (simp_all add: from_config_def st_bind_def not_ready_eq)
    obtain l d2 where p: "policy_set_from_deployed c js st d1 = (l, d2)" by fastforce
    have "d2 = d1" using keep [OF p] .
    with ok obtain pset rv where "l = Ok (pset, rv)" "from_deployed cr sr cfg pset rv = Ok e" "d' = d1"
      using assms unfolding strict_def from_config_opened [OF o [unfolded r] p]
      by (cases l rule: result_cases) (auto split: prod.splits)
    then show "\<exists>st d1 pset rv. store_open (path_of (px_policy_dir cfg)) d = (Ok st, d1) \<and> d' = d1 \<and>
       load_deployed js st d1 = (Ok (Some rv), d1) \<and> cd_parse_policies c (rv_cedar rv) = Inr pset \<and>
       from_deployed cr sr cfg pset rv = Ok e"
      using o r p \<open>d2 = d1\<close> policy_set_from_deployed_Ok by metis
  next
    assume "\<exists>st d1 pset rv. store_open (path_of (px_policy_dir cfg)) d = (Ok st, d1) \<and> d' = d1 \<and>
       load_deployed js st d1 = (Ok (Some rv), d1) \<and> cd_parse_policies c (rv_cedar rv) = Inr pset \<and>
       from_deployed cr sr cfg pset rv = Ok e"
    then obtain st pset rv where "store_open (path_of (px_policy_dir cfg)) d = (Ok st, d')"
        "policy_set_from_deployed c js st d' = (Ok (pset, rv), d')" "from_deployed cr sr cfg pset rv = Ok e"
      using policy_set_from_deployed_Ok by metis
    then show "from_config c cr js sr cfg d = (Ok e, d')"
      by (simp add: from_config_def st_bind_def not_ready_eq st_try_def)
  qed
qed

lemma from_deployed_Ok:
  assumes "from_deployed cr sr cfg pset rv = Ok e"
  shows "bc_inner (ae_bundle e) =
      \<lparr>hb_policy_set = pset, hb_policy_revision = rv_revision rv, hb_policy_signature = map_option sb_key_id (rv_bundle rv),
       hb_signature_key_id = map_option sb_key_id (rv_bundle rv), hb_content_sha256 = map_option sb_content_sha256 (rv_bundle rv),
       hb_group_members = []\<rparr>"
    and "ae_require_signed e = px_require_signed_bundle cfg"
    and "strict cfg \<Longrightarrow> rv_bundle rv \<noteq> None"
  using assms
  by (auto simp: from_deployed_def and_then_Inr_iff bundle_cache_new_def strict_def check_deployed_def ok_or_Inr_iff
      split: if_splits option.splits)

lemma check_signed:
  "hb_policy_signature (bc_load (ae_bundle e)) \<noteq> None \<Longrightarrow>
   fst (check c sc env ms req e) =
     map_err (\<lambda>x. PxBadRequest (authz_error_text x)) (evaluate c env req (to_evaluator_config (bc_load (ae_bundle e))))"
  by (auto simp: check_def Let_def split: sum.split)

definition deployed_config :: "'ps \<Rightarrow> policy_revision \<Rightarrow> 'ps evaluator_config" where
  "deployed_config pset rv =
     \<lparr>ec_policy_set = pset, ec_policy_revision = rv_revision rv, ec_policy_signature = map_option sb_key_id (rv_bundle rv),
      ec_group_members = []\<rparr>"

lemma deployed_checks:
  assumes "from_deployed cr sr cfg pset rv = Ok e" "rv_bundle rv \<noteq> None"
  shows "is_ready e = Ok ()"
    "fst (check c sc env ms req e) = map_err (\<lambda>x. PxBadRequest (authz_error_text x)) (evaluate c env req (deployed_config pset rv))"
proof -
  note b = from_deployed_Ok(1) [OF assms(1)]
  have s: "hb_policy_signature (bc_load (ae_bundle e)) \<noteq> None" using assms(2) by (auto simp: bc_load_def b)
  then show "is_ready e = Ok ()" by (simp add: is_ready_def)
  have "to_evaluator_config (bc_load (ae_bundle e)) = deployed_config pset rv"
    by (simp add: bc_load_def b to_evaluator_config_def deployed_config_def)
  then show "fst (check c sc env ms req e) = map_err (\<lambda>x. PxBadRequest (authz_error_text x)) (evaluate c env req (deployed_config pset rv))"
    using check_signed [OF s] by metis
qed

text \<open>C33: In production, or when the configuration demands a signed bundle, an engine that loads was
  made from the deployed revision on disk and that revision carries a bundle: there is no fallback to
  the active document. Such an engine is ready, and every check is the evaluator's answer with
  that revision's policies, its revision id and its bundle's key id; it never refuses for lack of a signature.\<close>

theorem strict_engine_is_deployed:
  assumes "from_config c cr js sr cfg d = (Ok e, d')" "strict cfg"
  shows "\<exists>st rv pset. store_open (path_of (px_policy_dir cfg)) d = (Ok st, d') \<and>
    load_deployed js st d' = (Ok (Some rv), d') \<and> rv_bundle rv \<noteq> None \<and> cd_parse_policies c (rv_cedar rv) = Inr pset \<and>
    is_ready e = Ok () \<and>
    (\<forall>sc env ms req. fst (check c sc env ms req e) =
       map_err (\<lambda>x. PxBadRequest (authz_error_text x)) (evaluate c env req (deployed_config pset rv)))"
proof -
  obtain st pset rv where "store_open (path_of (px_policy_dir cfg)) d = (Ok st, d')"
      "load_deployed js st d' = (Ok (Some rv), d')" "cd_parse_policies c (rv_cedar rv) = Inr pset"
    and e: "from_deployed cr sr cfg pset rv = Ok e"
    using assms(1) unfolding from_config_strict [OF assms(2)] by blast
  then show ?thesis using from_deployed_Ok(3) [OF e assms(2)] deployed_checks [OF e] by blast
qed

text \<open>C34: The signature check at load time does not protect the deployed bundle: when verification
  under the local key answers that the bundle is not the signed one, the engine loads all the same, is
  ready, and decides with the revision's Cedar text.\<close>

theorem tampered_bundle_accepted:
  assumes "strict cfg" "store_open (path_of (px_policy_dir cfg)) d = (Ok st, d1)"
    and "load_deployed js st d1 = (Ok (Some rv), d1)" "rv_bundle rv = Some b"
    and "bundle_signer_key cr sr = Some pk" "verify_bundle cr b pk = Ok False"
    and "cd_parse_policies c (rv_cedar rv) = Inr pset" "sr_sqlite sr = None \<or> (\<exists>s. sr_sqlite sr = Some (Ok s))"
  shows "\<exists>e. from_config c cr js sr cfg d = (Ok e, d1) \<and> is_ready e = Ok () \<and>
    (\<forall>sc env ms req. fst (check c sc env ms req e) =
       map_err (\<lambda>x. PxBadRequest (authz_error_text x)) (evaluate c env req (deployed_config pset rv)))"
proof -
  have "check_deployed cr sr rv = Ok ()" using assms(4-6) by (simp add: check_deployed_def)
  then have pass: "(if px_require_signed_bundle cfg \<or> px_mode cfg = Production then check_deployed cr sr rv else Ok ()) = Ok ()"
    by simp
  obtain e where e: "from_deployed cr sr cfg pset rv = Ok e"
    using assms(8) by (elim disjE exE) (simp_all add: from_deployed_def pass)
  then have "from_config c cr js sr cfg d = (Ok e, d1)"
    unfolding from_config_strict [OF assms(1)] using assms(2,3,7) by blast
  then show ?thesis using deployed_checks [OF e] assms(4) by blast
qed

lemma sint_64:
  fixes w :: "64 word"
  shows "sint w = (if uint w < 2 ^ 63 then uint w else uint w - 2 ^ 64)"
proof -
  have "0 \<le> uint w" "uint w < 2 ^ 64" using uint_bounded [of w] by simp_all
  moreover have "sint w = (uint w + 2 ^ 63) mod 2 ^ 64 - 2 ^ 63"
    by (simp add: sint_uint signed_take_bit_eq_take_bit_shift take_bit_eq_mod)
  moreover have "(uint w + 2 ^ 63) mod 2 ^ 64 = (uint w - 2 ^ 63) mod 2 ^ 64"
    using mod_add_self2 [of "uint w - 2 ^ 63" "2 ^ 64"] by (simp add: add.commute)
  ultimately show ?thesis by (cases "uint w < 2 ^ 63") simp_all
qed

lemma check_Ok:
  assumes "check c sc env ms req e = (Ok d, e')"
  shows "evaluate c env req (to_evaluator_config (bc_load (ae_bundle e))) = Ok d"
    and "e' = audit_decision sc d (word_of_nat ms) (hb_signature_key_id (bc_load (ae_bundle e))) e"
  using assms by (simp_all add: check_def Let_def split: if_split_asm sum.split_asm)

text \<open>C35: A check leaves exactly one audit write at the end of the writer's queue, for the decision it
  returns. The latency, in milliseconds, is cut to 64 bits when it is taken and read as a signed number when it is
  shown: it is right below $2^{63}$ and is the time modulo $2^{64}$, less $2^{64}$ from there on.\<close>

theorem audit_latency:
  assumes "check c sc env ms req e = (Ok d, e')" "ae_store e = Some s" "ps_writer s" "sc_decision sc d = Inr text"
  shows "\<exists>w. e' = e\<lparr>ae_store := Some (s\<lparr>ps_queue := ps_queue s @ [w]\<rparr>)\<rparr> \<and>
    aw_decision_id w = ev_decision_id (ad_evidence d) \<and> aw_evidence_json w = text \<and>
    json_get (audit_row_json sc w) ''latency_ms'' =
      Some (JNum (show_int (if int ms mod 2 ^ 64 < 2 ^ 63 then int ms mod 2 ^ 64 else int ms mod 2 ^ 64 - 2 ^ 64)))"
proof -
  have e': "e' = audit_decision sc d (word_of_nat ms) (hb_signature_key_id (bc_load (ae_bundle e))) e"
    by (rule check_Ok(2) [OF assms(1)])
  obtain w where w: "audit_write_of sc d (word_of_nat ms) (hb_signature_key_id (bc_load (ae_bundle e))) = Ok w"
      "aw_decision_id w = ev_decision_id (ad_evidence d)" "aw_evidence_json w = text" "aw_latency_ms w = word_of_nat ms"
    using assms(4) by (simp add: audit_write_of_def Let_def)
  have "uint (word_of_nat ms :: 64 word) = int ms mod 2 ^ 64"
    by (simp add: uint_nat unsigned_of_nat take_bit_eq_mod zmod_int)
  then have l: "sint (aw_latency_ms w) =
      (if int ms mod 2 ^ 64 < 2 ^ 63 then int ms mod 2 ^ 64 else int ms mod 2 ^ 64 - 2 ^ 64)"
    unfolding w(4) sint_64 by simp
  have "e' = e\<lparr>ae_store := Some (s\<lparr>ps_queue := ps_queue s @ [w]\<rparr>)\<rparr>"
    using assms(2,3) w(1) by (simp add: e' audit_decision_def enqueue_audit_def send_audit_def)
  moreover have "json_get (audit_row_json sc w) ''latency_ms'' = Some (JNum (show_int (sint (aw_latency_ms w))))"
    by (simp add: json_get_def audit_row_json_def)
  ultimately show ?thesis using w(2,3) unfolding l by blast
qed

section \<open>A tampered deployment\<close>

text \<open>A Cedar that allows everything under the text \<open>permit\<close>, a revision whose bundle was made for other text,
  and a key file with the signing key.\<close>

definition permit_call :: "cedar_call \<Rightarrow> string \<Rightarrow> string \<Rightarrow> cedar_response" where
  "permit_call q x ps = \<lparr>rp_decision = (if ps = ''permit'' then CAllow else CDeny), rp_reason = [], rp_errors = []\<rparr>"

definition permit_cedar :: "(string, string, string, string entity list, cedar_call \<times> string) cedar" where
  "permit_cedar = reference_cedar Inr Inr permit_call"

definition tampered_bundle :: signed_bundle where
  "tampered_bundle =
     \<lparr>sb_revision = ''r1'', sb_content_sha256 = content_digest reference_crypto ''forbid'', sb_cedar = ''permit'', sb_dsl = [],
      sb_signature_b64 = ''sig'', sb_key_id = ''k1'', sb_signed_at = ''t''\<rparr>"

definition tampered_revision :: policy_revision where
  "tampered_revision =
     \<lparr>rv_revision = ''r1'', rv_message = [], rv_created_at = ''t'', rv_cedar = ''permit'', rv_dsl = [], rv_bundle = Some tampered_bundle\<rparr>"

definition deployed_store :: policy_store where
  "deployed_store = \<lparr>po_root = path_of (px_policy_dir production_config)\<rparr>"

definition tampered_disk :: disk where
  "tampered_disk = file_put (deployed_path deployed_store) (jc_revision reference_codec tampered_revision) empty_disk"

definition example_surroundings :: surroundings where
  "example_surroundings =
     \<lparr>sr_key_file = Inr ''key'', sr_parse_pair = (\<lambda>_. Inr \<lparr>kp_key_id = ''k1'', kp_secret_hex = replicate 32 (CHR ''a''), kp_public_hex = []\<rparr>),
      sr_catalog = Fail (CatalogIo ''none''), sr_sqlite = Some (Ok opened_store), sr_now = ''now''\<rparr>"

lemma strict_production: "strict production_config"
  by (simp add: strict_def production_config_def)

lemma tampered_loads:
  obtains d1 where "store_open (path_of (px_policy_dir production_config)) tampered_disk = (Ok deployed_store, d1)"
    "load_deployed reference_codec deployed_store d1 = (Ok (Some tampered_revision), d1)"
proof -
  let ?d = "snd (store_open (path_of (px_policy_dir production_config)) tampered_disk)"
  have o: "store_open (path_of (px_policy_dir production_config)) tampered_disk = (Ok deployed_store, ?d)"
    by (simp add: store_open_def fs_create_dir_all_def tampered_disk_def empty_disk_def st_bind_def deployed_store_def)
  have "file_get ?d p = file_get tampered_disk p" for p
    by (simp add: store_open_def fs_create_dir_all_def tampered_disk_def empty_disk_def st_bind_def file_get_def)
  then have "file_get ?d (deployed_path deployed_store) = Some (jc_revision reference_codec tampered_revision)"
    by (simp add: tampered_disk_def)
  then have "load_deployed reference_codec deployed_store ?d = (Ok (Some tampered_revision), ?d)"
    using reference_codec_documented by (simp add: load_deployed_def fs_exists_def fs_read_def st_bind_def codec_documented_def)
  with o show thesis by (rule that)
qed

lemma tampered_refused:
  "\<exists>pk. bundle_signer_key reference_crypto example_surroundings = Some pk \<and>
     verify_bundle reference_crypto tampered_bundle pk = Ok False"
proof -
  have "content_digest reference_crypto ''permit'' \<noteq> content_digest reference_crypto ''forbid''"
    by (simp add: content_digest_def reference_crypto_def hex_text_def nibble_def)
  then have "verify_bundle reference_crypto tampered_bundle pk = Ok False" for pk
    by (simp add: verify_bundle_def tampered_bundle_def)
  then show ?thesis
    by (simp add: bundle_signer_key_def example_surroundings_def signer_from_keypair_def reference_crypto_def)
qed

definition example_env :: eval_env where
  "example_env = \<lparr>env_uuid = ''id'', env_now = 7\<rparr>"

lemma permit_evaluates:
  assumes "validate req = Ok ()"
  shows "\<exists>d. evaluate permit_cedar env req cfg = Ok d \<and> ad_effect d = (if ec_policy_set cfg = ''permit'' then Allow else Deny)"
proof -
  have "is_ok (evaluate permit_cedar env req cfg)"
    unfolding permit_cedar_def by (rule evaluate_total [OF _ assms]) simp
  then obtain d where d: "evaluate permit_cedar env req cfg = Ok d"
    by (auto simp: is_ok_iff)
  then have "ad_effect d = (if ec_policy_set cfg = ''permit'' then Allow else Deny)"
    by (auto simp: evaluate_Ok_iff cedar_response_of_def and_then_Inr_iff decision_of_def Let_def permit_cedar_def permit_call_def)
  with d show ?thesis by blast
qed

lemma read_request_valid: "validate (read_request ''X'') = Ok ()"
  by (simp add: validate_def trim_Nil_iff read_request_simps is_ws_def)

lemma tampered_config:
  "rv_bundle tampered_revision = Some tampered_bundle" "cd_parse_policies permit_cedar (rv_cedar tampered_revision) = Inr ''permit''"
  "sr_sqlite example_surroundings = None \<or> (\<exists>s. sr_sqlite example_surroundings = Some (Ok s))"
  "ec_policy_set (deployed_config ''permit'' tampered_revision) = ''permit''"
  by (simp_all add: tampered_revision_def permit_cedar_def example_surroundings_def deployed_config_def)

theorem tampered_bundle_accepted_witness:
  "\<exists>e d1. from_config permit_cedar reference_crypto reference_codec example_surroundings production_config tampered_disk = (Ok e, d1) \<and>
     (\<exists>pk. bundle_signer_key reference_crypto example_surroundings = Some pk \<and> verify_bundle reference_crypto tampered_bundle pk = Ok False) \<and>
     (\<exists>d. fst (check permit_cedar example_store_codec example_env 1 (read_request ''X'') e) = Ok d \<and> ad_effect d = Allow)"
proof -
  obtain d1 where d1: "store_open (path_of (px_policy_dir production_config)) tampered_disk = (Ok deployed_store, d1)"
    "load_deployed reference_codec deployed_store d1 = (Ok (Some tampered_revision), d1)"
    by (rule tampered_loads)
  obtain pk where pk: "bundle_signer_key reference_crypto example_surroundings = Some pk"
    "verify_bundle reference_crypto tampered_bundle pk = Ok False"
    using tampered_refused by blast
  obtain e where "from_config permit_cedar reference_crypto reference_codec example_surroundings production_config tampered_disk = (Ok e, d1)"
    "fst (check permit_cedar example_store_codec example_env 1 (read_request ''X'') e) =
       map_err (\<lambda>x. PxBadRequest (authz_error_text x)) (evaluate permit_cedar example_env (read_request ''X'') (deployed_config ''permit'' tampered_revision))"
    using tampered_bundle_accepted [OF strict_production d1 tampered_config(1) pk tampered_config(2,3)] by blast
  then show ?thesis
    using pk permit_evaluates [OF read_request_valid, of example_env "deployed_config ''permit'' tampered_revision"] tampered_config(4)
    by fastforce
qed

lemma tampered_engine:
  "\<exists>e d1. from_config permit_cedar reference_crypto reference_codec example_surroundings production_config tampered_disk = (Ok e, d1) \<and>
     (\<exists>s. ae_store e = Some s \<and> ps_writer s)"
proof -
  obtain d1 where d1: "store_open (path_of (px_policy_dir production_config)) tampered_disk = (Ok deployed_store, d1)"
    "load_deployed reference_codec deployed_store d1 = (Ok (Some tampered_revision), d1)"
    by (rule tampered_loads)
  have "check_deployed reference_crypto example_surroundings tampered_revision = Ok ()"
    using tampered_refused tampered_config(1) by (auto simp: check_deployed_def)
  then have pass: "(if b then check_deployed reference_crypto example_surroundings tampered_revision else Ok ()) = Ok ()" for b
    by simp
  have "ps_writer (record_revision example_surroundings tampered_revision opened_store)"
    by (simp add: record_revision_def upsert_policy_revision_def sql_def opened_store_def split: option.split)
  then obtain e where "from_deployed reference_crypto example_surroundings production_config ''permit'' tampered_revision = Ok e"
      "\<exists>s. ae_store e = Some s \<and> ps_writer s"
    by (simp add: from_deployed_def pass) (simp add: example_surroundings_def)
  then show ?thesis
    using from_config_strict [OF strict_production] d1 tampered_config(2) by blast
qed

theorem strict_engine_is_deployed_witness:
  "\<exists>e d'. from_config permit_cedar reference_crypto reference_codec example_surroundings production_config tampered_disk = (Ok e, d') \<and>
     is_ready e = Ok ()"
proof -
  obtain e d1 where e: "from_config permit_cedar reference_crypto reference_codec example_surroundings production_config tampered_disk = (Ok e, d1)"
    using tampered_engine by blast
  show ?thesis using strict_engine_is_deployed [OF e strict_production] e by blast
qed

theorem audit_latency_witness:
  "\<exists>e d e' s w. check permit_cedar example_store_codec example_env (2 ^ 64 - 1) (read_request ''X'') e = (Ok d, e') \<and>
     ae_store e' = Some s \<and> w \<in> set (ps_queue s) \<and>
     json_get (audit_row_json example_store_codec w) ''latency_ms'' = Some (JNum ''-1'')"
proof -
  obtain e d1 s where e: "from_config permit_cedar reference_crypto reference_codec example_surroundings production_config tampered_disk = (Ok e, d1)"
    and s: "ae_store e = Some s" "ps_writer s"
    using tampered_engine by blast
  obtain pset rv where f: "from_deployed reference_crypto example_surroundings production_config pset rv = Ok e"
    using e unfolding from_config_strict [OF strict_production] by (elim exE conjE)
  have "rv_bundle rv \<noteq> None" using from_deployed_Ok(3) [OF f strict_production] .
  then obtain d where "fst (check permit_cedar example_store_codec example_env (2 ^ 64 - 1) (read_request ''X'') e) = Ok d"
    using deployed_checks(2) [OF f] permit_evaluates [OF read_request_valid] by (metis map_err_simps(3))
  then obtain e' where c: "check permit_cedar example_store_codec example_env (2 ^ 64 - 1) (read_request ''X'') e = (Ok d, e')"
    by (metis prod.collapse)
  have n: "(if int (2 ^ 64 - 1) mod 2 ^ 64 < 2 ^ 63 then int (2 ^ 64 - 1) mod 2 ^ 64 else int (2 ^ 64 - 1) mod 2 ^ 64 - 2 ^ 64) = (- 1 :: int)"
    by simp
  have m: "show_int (- 1) = ''-1''" by (simp add: show_int_def show_nat.simps char_of_def bit_simps)
  have "sc_decision example_store_codec d = Inr ''{}''" by (simp add: example_store_codec_def)
  from audit_latency [OF c s this] obtain w where "e' = e\<lparr>ae_store := Some (s\<lparr>ps_queue := ps_queue s @ [w]\<rparr>)\<rparr>"
      "json_get (audit_row_json example_store_codec w) ''latency_ms'' = Some (JNum ''-1'')"
    unfolding n m by blast
  moreover from this(1) have "ae_store e' = Some (s\<lparr>ps_queue := ps_queue s @ [w]\<rparr>)" "w \<in> set (ps_queue (s\<lparr>ps_queue := ps_queue s @ [w]\<rparr>))"
    by simp_all
  ultimately show ?thesis using c by blast
qed

end
