(* ===== verification/Board.thy ===== *)
theory Board
  imports Policy_Translate
begin

text \<open>
  \<open>authz-board/src/lib.rs\<close>: the matrix of roles and resources the policy board shows. (The embedded
  HTML page is an asset.)
\<close>

record matrix_cell =
  mc_role :: string
  mc_resource :: string
  mc_policies :: "string list"
  mc_effect_summary :: string

record policy_matrix =
  pm_roles :: "string list"
  pm_resources :: "string list"
  pm_cells :: "matrix_cell list"

definition push_new :: "string \<Rightarrow> string list \<Rightarrow> string list" where
  "push_new r rs = (if r \<in> set rs then rs else rs @ [r])"

definition collect_names :: "dsl_policy \<Rightarrow> string list \<times> string list \<Rightarrow> string list \<times> string list" where
  "collect_names p acc =
     (fold push_new (dp_unless_roles p) (fold push_new (dp_when_roles p) (fst acc)), push_new (dp_resource p) (snd acc))"

definition cell_matches :: "string \<Rightarrow> string \<Rightarrow> dsl_policy \<Rightarrow> bool" where
  "cell_matches role resource p \<longleftrightarrow>
     dp_resource p = resource \<and> (dp_when_roles p = [] \<or> role \<in> set (dp_when_roles p) \<or> role \<in> set (dp_unless_roles p))"

fun debug_dsl_effect :: "dsl_effect \<Rightarrow> string" where
  "debug_dsl_effect DAllow = ''Allow''"
| "debug_dsl_effect DDeny = ''Deny''"
| "debug_dsl_effect DReview = ''Review''"

definition matrix_cell_of :: "dsl_policy list \<Rightarrow> string \<Rightarrow> string \<Rightarrow> matrix_cell" where
  "matrix_cell_of policies role resource =
     (let matched = filter (cell_matches role resource) policies
      in \<lparr>mc_role = role, mc_resource = resource, mc_policies = map dp_id matched,
          mc_effect_summary =
            (if matched = [] then ''DENY (default)''
             else join ''; '' (map (\<lambda>p. debug_dsl_effect (dp_effect p) @ '' '' @ dp_id p) matched))\<rparr>)"

definition build_matrix :: "dsl_policy list \<Rightarrow> policy_matrix" where
  "build_matrix policies =
     (let (roles0, resources) = fold collect_names policies ([], []);
          roles = (if roles0 = [] then [''*''] else roles0)
      in \<lparr>pm_roles = roles, pm_resources = resources,
          pm_cells = concat (map (\<lambda>role. map (matrix_cell_of policies role) resources) roles)\<rparr>)"

section \<open>What the matrix shows\<close>

lemma push_new_set: "set (push_new r rs) = insert r (set rs)" "distinct rs \<Longrightarrow> distinct (push_new r rs)"
  by (auto simp: push_new_def)

lemma push_all_set: "set (fold push_new xs rs) = set xs \<union> set rs"
  by (induction xs arbitrary: rs) (auto simp: push_new_set)

lemma push_all_distinct: "distinct rs \<Longrightarrow> distinct (fold push_new xs rs)"
  by (induction xs arbitrary: rs) (auto simp: push_new_set)

lemma collect_names_set:
  "set (fst (fold collect_names ps acc)) = (\<Union>p\<in>set ps. set (dp_when_roles p) \<union> set (dp_unless_roles p)) \<union> set (fst acc)"
  "set (snd (fold collect_names ps acc)) = dp_resource ` set ps \<union> set (snd acc)"
  by (induction ps arbitrary: acc) (auto simp: collect_names_def push_all_set push_new_set)

lemma collect_names_distinct:
  "distinct (fst acc) \<Longrightarrow> distinct (snd acc) \<Longrightarrow> distinct (fst (fold collect_names ps acc)) \<and> distinct (snd (fold collect_names ps acc))"
  by (induction ps arbitrary: acc) (auto simp: collect_names_def push_all_distinct push_new_set)

lemma build_matrix_fields:
  "pm_roles (build_matrix ps) = (let rs = fst (fold collect_names ps ([], [])) in if rs = [] then [''*''] else rs)"
  "pm_resources (build_matrix ps) = snd (fold collect_names ps ([], []))"
  "pm_cells (build_matrix ps) =
     concat (map (\<lambda>role. map (matrix_cell_of ps role) (pm_resources (build_matrix ps))) (pm_roles (build_matrix ps)))"
  by (simp_all add: build_matrix_def Let_def split_def)

lemma matrix_roles:
  assumes "p \<in> set ps" "r \<in> set (dp_when_roles p) \<union> set (dp_unless_roles p)"
  shows "r \<in> set (pm_roles (build_matrix ps))"
proof -
  have "r \<in> set (fst (fold collect_names ps ([], [])))" using assms by (auto simp: collect_names_set)
  then show ?thesis by (auto simp: build_matrix_fields(1) Let_def)
qed

lemma summary_default:
  "mc_effect_summary (matrix_cell_of ps r s) = ''DENY (default)'' \<longleftrightarrow> mc_policies (matrix_cell_of ps r s) = []"
proof (cases "filter (cell_matches r s) ps")
  case (Cons p qs)
  obtain t where "join ''; '' (map (\<lambda>p. debug_dsl_effect (dp_effect p) @ '' '' @ dp_id p) (p # qs)) = debug_dsl_effect (dp_effect p) @ t"
    by (cases qs) auto
  then show ?thesis using Cons by (cases "dp_effect p") (simp_all add: matrix_cell_of_def Let_def)
qed (simp add: matrix_cell_of_def Let_def)

lemma applies_cell_matches:
  assumes "policy_applies req p" "pr_roles (rq_principal req) = [role]"
  shows "cell_matches role (dp_resource p) p"
  using assms by (auto simp: policy_applies_def cell_matches_def)

text \<open>C32: The board has one cell for every pair of a named role and a named resource, each named once.
  Whatever policy applies to a request of a principal with just a cell's role on the cell's resource
  is listed in the cell, so a cell that says \<open>DENY (default)\<close> is right: no policy applies there. (The
  converse fails by design of the filter: exempted roles are listed too.)\<close>

theorem board_matrix_sound:
  "map (\<lambda>c. (mc_role c, mc_resource c)) (pm_cells (build_matrix ps)) =
     List.product (pm_roles (build_matrix ps)) (pm_resources (build_matrix ps)) \<and>
   distinct (pm_roles (build_matrix ps)) \<and> distinct (pm_resources (build_matrix ps)) \<and>
   (\<forall>p\<in>set ps. dp_resource p \<in> set (pm_resources (build_matrix ps)) \<and>
      set (dp_when_roles p) \<union> set (dp_unless_roles p) \<subseteq> set (pm_roles (build_matrix ps))) \<and>
   (\<forall>c\<in>set (pm_cells (build_matrix ps)). \<forall>p\<in>set ps. \<forall>req.
      policy_applies req p \<and> dp_resource p = mc_resource c \<and> pr_roles (rq_principal req) = [mc_role c] \<longrightarrow>
      dp_id p \<in> set (mc_policies c) \<and> mc_effect_summary c \<noteq> ''DENY (default)'')"
proof (intro conjI ballI allI impI)
  show "map (\<lambda>c. (mc_role c, mc_resource c)) (pm_cells (build_matrix ps)) =
      List.product (pm_roles (build_matrix ps)) (pm_resources (build_matrix ps))"
    unfolding build_matrix_fields(3) product_concat_map
    by (simp add: map_concat comp_def matrix_cell_of_def Let_def)
  show "distinct (pm_roles (build_matrix ps))" "distinct (pm_resources (build_matrix ps))"
    using collect_names_distinct [of "([], [])" ps] by (simp_all add: build_matrix_fields Let_def)
next
  fix p assume p: "p \<in> set ps"
  then show "dp_resource p \<in> set (pm_resources (build_matrix ps))"
    by (simp add: build_matrix_fields collect_names_set)
  show "set (dp_when_roles p) \<union> set (dp_unless_roles p) \<subseteq> set (pm_roles (build_matrix ps))"
    using matrix_roles [OF p] by blast
next
  fix c p req
  assume c: "c \<in> set (pm_cells (build_matrix ps))" and p: "p \<in> set ps"
    and a: "policy_applies req p \<and> dp_resource p = mc_resource c \<and> pr_roles (rq_principal req) = [mc_role c]"
  from c obtain r s where rs: "c = matrix_cell_of ps r s" by (auto simp: build_matrix_fields(3))
  then have "r = mc_role c" "s = mc_resource c" by (simp_all add: matrix_cell_of_def Let_def)
  then have "cell_matches r s p" using a applies_cell_matches [of req p] by metis
  then have "dp_id p \<in> set (mc_policies c)" using p by (auto simp: rs matrix_cell_of_def Let_def)
  then show "dp_id p \<in> set (mc_policies c)" "mc_effect_summary c \<noteq> ''DENY (default)''"
    by (auto simp: rs summary_default)
qed

text \<open>A cell can list a policy that never applies to its role: the board shows a denial under every
  role the policy exempts.\<close>

theorem board_lists_exempt_roles:
  assumes "p \<in> set ps" "role \<in> set (dp_unless_roles p)"
  shows "\<exists>c\<in>set (pm_cells (build_matrix ps)). mc_role c = role \<and> mc_resource c = dp_resource p \<and>
    dp_id p \<in> set (mc_policies c) \<and>
    (\<forall>req. role \<in> set (pr_roles (rq_principal req)) \<longrightarrow> \<not> policy_applies req p)"
proof (rule bexI [of _ "matrix_cell_of ps role (dp_resource p)"])
  have "role \<in> set (pm_roles (build_matrix ps))" "dp_resource p \<in> set (pm_resources (build_matrix ps))"
    using assms matrix_roles by (blast, simp add: build_matrix_fields(2) collect_names_set)
  then show "matrix_cell_of ps role (dp_resource p) \<in> set (pm_cells (build_matrix ps))"
    by (auto simp: build_matrix_fields(3))
qed (use assms in \<open>auto simp: matrix_cell_of_def Let_def cell_matches_def policy_applies_def\<close>)

theorem board_matrix_sound_witness:
  "pm_roles (build_matrix [example_dsl_policy]) = [''CFO'', ''CEO''] \<and>
   distinct (pm_resources (build_matrix [example_dsl_policy]))"
  using board_matrix_sound [of "[example_dsl_policy]"]
  by (simp add: build_matrix_fields(1) collect_names_def example_dsl_policy_def push_new_def)

theorem board_lists_exempt_roles_witness:
  "\<exists>c\<in>set (pm_cells (build_matrix [example_dsl_policy])). mc_role c = ''CFO'' \<and> dp_id example_dsl_policy \<in> set (mc_policies c)"
  using board_lists_exempt_roles [of example_dsl_policy "[example_dsl_policy]" "''CFO''"]
  by (auto simp: example_dsl_policy_def)

end
