(* ===== verification/Llm_Bridge.thy ===== *)
theory Llm_Bridge
  imports Complex_Main Catalog
begin

text \<open>
  The natural-language bridge (\<open>authz-llm-bridge\<close>: \<open>extract.rs\<close>, \<open>lib.rs\<close>, \<open>hybrid.rs\<close>, \<open>error.rs\<close>):
  the keyword extractor, the binding of an extraction to a request through the checked builder, and
  the hybrid extractor with its optional classifier. Confidences (\<open>f32\<close>) are rationals, and their
  printed form is a parameter; the classifier behind the trait object is a function argument.
\<close>

section \<open>Extraction\<close>

datatype bridge_error = BridgeMsg string | BridgeAuthz authz_error

fun bridge_error_text :: "bridge_error \<Rightarrow> string" where
  "bridge_error_text (BridgeMsg m) = ''bridge error: '' @ m"
| "bridge_error_text (BridgeAuthz e) = authz_error_text e"

record nl_extraction =
  nx_utterance :: string
  nx_action :: string
  nx_resource_kind :: string
  nx_resource_id :: "string option"
  nx_subject_id :: "string option"
  nx_subject_groups :: "string list"
  nx_direct_reports :: "string list"
  nx_confidence :: rat

definition ref_char :: "char \<Rightarrow> bool" where
  "ref_char c \<longleftrightarrow> c = CHR ''_'' \<or> c = CHR ''.'' \<or> ((97::nat) \<le> of_char c \<and> of_char c \<le> (122::nat)) \<or>
     ((48::nat) \<le> of_char c \<and> of_char c \<le> (57::nat))"

text \<open>The leftmost match of the prefix followed by one or more characters of \<open>[a-z0-9_.]\<close>.\<close>

fun find_ref :: "string \<Rightarrow> string \<Rightarrow> string option" where
  "find_ref p [] = None"
| "find_ref p (c # cs) =
     (case strip_prefix p (c # cs) of
        Some r \<Rightarrow> if takeWhile ref_char r \<noteq> [] then Some (p @ takeWhile ref_char r) else find_ref p cs
      | None \<Rightarrow> find_ref p cs)"

definition extract_structured :: "string \<Rightarrow> (bridge_error, nl_extraction) result" where
  "extract_structured utterance =
     (let lower = to_ascii_lowercase utterance; has = contains lower in
      if (has ''ceo'' \<or> has ''executive'') \<and>
         (has ''spend'' \<or> has ''expense'' \<or> has ''trip'' \<or> has ''travel'' \<or> has ''compensation'' \<or> has ''salary'')
      then Ok \<lparr>nx_utterance = utterance, nx_action = ''READ'', nx_resource_kind = ''TRAVEL_EXPENSE'',
               nx_resource_id = Some ''db.hr.travel_expenses'', nx_subject_id = Some ''employee:CEO'',
               nx_subject_groups = [''EXECUTIVE''], nx_direct_reports = [''employee:alice''], nx_confidence = 95 / 100\<rparr>
      else if has ''sql_query'' \<or> has ''run sql'' \<or> has ''query table''
      then Ok \<lparr>nx_utterance = utterance, nx_action = ''TOOL_INVOKE'', nx_resource_kind = ''DB_TABLE'',
               nx_resource_id = find_ref ''db.'' lower, nx_subject_id = None, nx_subject_groups = [],
               nx_direct_reports = [], nx_confidence = 85 / 100\<rparr>
      else if has ''export'' \<and> (has ''payroll'' \<or> has ''salary'')
      then Ok \<lparr>nx_utterance = utterance, nx_action = ''EXPORT'', nx_resource_kind = ''SALARY'',
               nx_resource_id = Some ''api.export.payroll'', nx_subject_id = None, nx_subject_groups = [],
               nx_direct_reports = [], nx_confidence = 9 / 10\<rparr>
      else if has ''retrieve'' \<or> has ''search documents'' \<or> has ''vector''
      then Ok \<lparr>nx_utterance = utterance, nx_action = ''READ'', nx_resource_kind = ''VECTOR_COLLECTION'',
               nx_resource_id = find_ref ''vec.'' lower, nx_subject_id = None, nx_subject_groups = [],
               nx_direct_reports = [], nx_confidence = 8 / 10\<rparr>
      else if has ''my profile'' \<or> has ''my employee record''
      then Ok \<lparr>nx_utterance = utterance, nx_action = ''READ'', nx_resource_kind = ''EMPLOYEE_PROFILE'',
               nx_resource_id = Some ''employee.self_profile'', nx_subject_id = None, nx_subject_groups = [],
               nx_direct_reports = [], nx_confidence = 75 / 100\<rparr>
      else if has ''alice'' \<and> (has ''expense'' \<or> has ''travel'')
      then Ok \<lparr>nx_utterance = utterance, nx_action = ''READ'', nx_resource_kind = ''TRAVEL_EXPENSE'',
               nx_resource_id = Some ''db.hr.travel_expenses'', nx_subject_id = Some ''employee:alice'',
               nx_subject_groups = [''ENGINEERING''], nx_direct_reports = [''employee:alice''], nx_confidence = 9 / 10\<rparr>
      else Fail (BridgeMsg (''could not extract structured AuthzRequest from: '' @ utterance)))"

section \<open>Binding\<close>

definition label_attrs :: "catalog_resource \<Rightarrow> string index_map" where
  "label_attrs r =
     (let a1 = (case cr_department r of None \<Rightarrow> [] | Some d \<Rightarrow> im_insert ''department'' d [])
      in case cr_sensitivity r of None \<Rightarrow> a1 | Some s \<Rightarrow> im_insert ''sensitivity'' s a1)"

definition kind_matches :: "string \<Rightarrow> catalog_resource \<Rightarrow> bool" where
  "kind_matches k r \<longleftrightarrow> eq_ignore_ascii_case (cr_kind r) k \<or>
     contains (to_ascii_lowercase (cr_name r)) (to_ascii_lowercase k)"

definition bound_resource ::
  "nl_extraction \<Rightarrow> resource_catalog option \<Rightarrow> string \<times> string option \<times> string index_map" where
  "bound_resource ext catalog =
     (let own = (nx_resource_kind ext, nx_resource_id ext, []) in
      case catalog of
        None \<Rightarrow> own
      | Some cat \<Rightarrow>
          (case nx_resource_id ext of
             Some i \<Rightarrow> (case find_resource cat i of
                          Some r \<Rightarrow> (cr_kind r, Some i, label_attrs r)
                        | None \<Rightarrow> own)
           | None \<Rightarrow> (case find (kind_matches (nx_resource_kind ext)) (ct_resources cat) of
                        Some r \<Rightarrow> (cr_kind r, Some (cr_id r), label_attrs r)
                      | None \<Rightarrow> own)))"

definition report_of :: "string \<Rightarrow> string \<Rightarrow> relationship" where
  "report_of i dr = \<lparr>rl_kind = DirectReports, rl_from = i, rl_to = dr\<rparr>"

definition bind_extraction ::
  "(rat \<Rightarrow> string) \<Rightarrow> principal \<Rightarrow> nl_extraction \<Rightarrow> resource_catalog option \<Rightarrow> (bridge_error, authz_request) result" where
  "bind_extraction show_f32 p ext catalog =
     (let (kind, rid, attrs) = bound_resource ext catalog in
      map_err BridgeAuthz
       (and_then (bd_principal_obj p builder_new) (\<lambda>b.
        and_then (bd_set_action (nx_action ext) b) (\<lambda>b.
        and_then (bd_set_resource kind rid attrs b) (\<lambda>b.
        and_then (case nx_subject_id ext of Some s \<Rightarrow> bd_set_subject s (nx_subject_groups ext) b | None \<Rightarrow> Ok b) (\<lambda>b.
          let b = bd_context_kv ''nl_utterance'' (nx_utterance ext) b;
              b = bd_context_kv ''extraction_confidence'' (show_f32 (nx_confidence ext)) b;
              b = bd_context_kv ''proposal_only'' ''true'' b;
              b = fold (\<lambda>dr. bd_relationship (report_of (pr_id p) dr)) (nx_direct_reports ext) b
          in and_then (build b) (\<lambda>req.
               Ok (req\<lparr>rq_acting_as := Some ''agent:nl-bridge'', rq_on_behalf_of := Some (pr_id p)\<rparr>))))))))"

record catalog_aware_bridge =
  cb_default_principal :: principal
  cb_catalog :: "resource_catalog option"

definition default_bridge :: catalog_aware_bridge where
  "default_bridge = \<lparr>cb_default_principal = with_roles ''user:hr-head'' [''HR_HEAD''], cb_catalog = None\<rparr>"

definition bridge_build_request ::
  "(rat \<Rightarrow> string) \<Rightarrow> catalog_aware_bridge \<Rightarrow> string \<Rightarrow> (bridge_error, authz_request) result" where
  "bridge_build_request show_f32 br utterance =
     and_then (extract_structured utterance) (\<lambda>ext.
       bind_extraction show_f32 (cb_default_principal br) ext (cb_catalog br))"

definition mock_build_request ::
  "(rat \<Rightarrow> string) \<Rightarrow> principal \<Rightarrow> string \<Rightarrow> (bridge_error, authz_request) result" where
  "mock_build_request show_f32 p utterance =
     bridge_build_request show_f32 \<lparr>cb_default_principal = p, cb_catalog = None\<rparr> utterance"

section \<open>The hybrid extractor\<close>

type_synonym classifier = "string \<Rightarrow> (bridge_error, nl_extraction) result"

definition lower_latin :: "char \<Rightarrow> char" where
  "lower_latin c =
     (if (65::nat) \<le> of_char c \<and> of_char c \<le> (90::nat) \<or>
         (192::nat) \<le> of_char c \<and> of_char c \<le> (222::nat) \<and> of_char c \<noteq> (215::nat)
      then char_of (of_char c + 32 :: nat) else c)"

definition mock_classify :: classifier where
  "mock_classify utterance =
     (let lower = map lower_latin utterance in
      if contains lower ''salary'' \<or> contains lower ''pay''
      then Ok \<lparr>nx_utterance = utterance, nx_action = ''EXPORT'', nx_resource_kind = ''SALARY'',
               nx_resource_id = Some ''api.export.payroll'', nx_subject_id = None, nx_subject_groups = [''PAYROLL''],
               nx_direct_reports = [], nx_confidence = 95 / 100\<rparr>
      else Fail (BridgeMsg ''classifier intent unresolved''))"

record hybrid_extractor =
  hx_catalog :: "resource_catalog option"
  hx_classifier :: "classifier option"

definition unclassified :: "string \<Rightarrow> nl_extraction" where
  "unclassified utterance =
     \<lparr>nx_utterance = utterance, nx_action = ''READ'', nx_resource_kind = ''UNKNOWN'', nx_resource_id = None,
      nx_subject_id = None, nx_subject_groups = [], nx_direct_reports = [], nx_confidence = 1 / 10\<rparr>"

definition fallback_extraction :: "hybrid_extractor \<Rightarrow> string \<Rightarrow> nl_extraction" where
  "fallback_extraction hx utterance =
     (case hx_classifier hx of
        None \<Rightarrow> unclassified utterance
      | Some cls \<Rightarrow> (case cls utterance of Inr ext \<Rightarrow> ext | Inl _ \<Rightarrow> unclassified utterance))"

definition build_proposal ::
  "(rat \<Rightarrow> string) \<Rightarrow> hybrid_extractor \<Rightarrow> principal \<Rightarrow> string \<Rightarrow> (bridge_error, authz_request) result" where
  "build_proposal show_f32 hx p utterance =
     (case extract_structured utterance of
        Inr ext \<Rightarrow>
          if nx_confidence ext \<ge> 7 / 10 then bind_extraction show_f32 p ext (hx_catalog hx)
          else bind_extraction show_f32 p (fallback_extraction hx utterance) (hx_catalog hx)
      | Inl _ \<Rightarrow> bind_extraction show_f32 p (fallback_extraction hx utterance) (hx_catalog hx))"

section \<open>What a proposal is\<close>

definition proposal ::
  "(rat \<Rightarrow> string) \<Rightarrow> principal \<Rightarrow> nl_extraction \<Rightarrow> resource_catalog option \<Rightarrow> authz_request" where
  "proposal show_f32 p ext catalog =
     (let (kind, rid, attrs) = bound_resource ext catalog in
      \<lparr>rq_principal = p, rq_action = action_new (trim (nx_action ext)),
       rq_resource = \<lparr>rs_kind = trim kind, rs_id = map_option trim rid, rs_attrs = attrs\<rparr>,
       rq_subject = map_option (\<lambda>s. \<lparr>sj_id = trim s, sj_kind = ''Employee'', sj_groups = nx_subject_groups ext, sj_attrs = []\<rparr>)
         (nx_subject_id ext),
       rq_context = \<lparr>cx_values = [(''nl_utterance'', nx_utterance ext),
         (''extraction_confidence'', show_f32 (nx_confidence ext)), (''proposal_only'', ''true'')]\<rparr>,
       rq_relationships = map (report_of (pr_id p)) (nx_direct_reports ext),
       rq_acting_as = Some ''agent:nl-bridge'', rq_on_behalf_of = Some (pr_id p)\<rparr>)"

definition bindable :: "principal \<Rightarrow> nl_extraction \<Rightarrow> resource_catalog option \<Rightarrow> bool" where
  "bindable p ext catalog \<longleftrightarrow>
     (let (kind, rid, attrs) = bound_resource ext catalog in
      nonblank (pr_id p) \<and> nonblank (nx_action ext) \<and> nonblank kind \<and> opt_all nonblank rid \<and>
      opt_all nonblank (nx_subject_id ext))"

lemma fold_relationships:
  "fold (\<lambda>dr. bd_relationship (report_of i dr)) drs b = b\<lparr>bd_relationships := bd_relationships b @ map (report_of i) drs\<rparr>"
  by (induction drs arbitrary: b) (simp_all add: bd_relationship_def)

lemma bind_extraction_cases:
  "bind_extraction show_f32 p ext catalog = Ok (proposal show_f32 p ext catalog) \<and> bindable p ext catalog \<or>
   (\<exists>m. bind_extraction show_f32 p ext catalog = Fail (BridgeAuthz (InvalidRequest m))) \<and> \<not> bindable p ext catalog"
proof -
  obtain kind rid attrs where r: "bound_resource ext catalog = (kind, rid, attrs)" by (metis prod_cases3)
  have ids: "principal_id_new v = (if nonblank v then Ok (trim v) else Fail (InvalidRequest ''principal id must be non-empty''))"
    "resource_kind_new v = (if nonblank v then Ok (trim v) else Fail (InvalidRequest ''resource kind must be non-empty''))"
    "resource_id_new v = (if nonblank v then Ok (trim v) else Fail (InvalidRequest ''resource id must be non-empty''))"
    "action_name_new v = (if nonblank v then Ok (trim v) else Fail (InvalidRequest ''action name must be non-empty''))" for v
    by (simp_all add: id_new_defs id_new_def Let_def nonblank_def)
  have nt: "nonblank (trim v) = nonblank v" for v by (simp add: nonblank_def)
  have valid: "nonblank (pr_id (rq_principal q)) \<Longrightarrow> nonblank (ac_name (rq_action q)) \<Longrightarrow> nonblank (rs_kind (rq_resource q)) \<Longrightarrow>
    validate q = Ok ()" for q by (simp add: validate_Ok_iff)
  show ?thesis
    by (cases "nonblank (pr_id p)"; cases "nonblank (nx_action ext)"; cases "nonblank kind"; cases rid; cases "nx_subject_id ext")
       (auto simp: bind_extraction_def r builder_op_defs ids bindable_def fold_relationships build_def Let_def
          builder_new_def empty_context_def add_delegation_def valid nt action_new_def proposal_def im_insert_def)
qed

lemma bind_extraction_Ok: "bind_extraction sf p ext cat = Ok req \<Longrightarrow> req = proposal sf p ext cat \<and> bindable p ext cat"
  using bind_extraction_cases [of sf p ext cat] by auto

text \<open>A bound extraction is a proposal on behalf of the caller: it keeps the caller's principal with
  its own roles and groups, is marked as proposed by the bridge's agent, records the utterance, uses
  none of the engine's context keys, is a valid request, and its kind is the catalogue's when the
  catalogue knows the resource id.\<close>

theorem bound_extraction_is_proposal:
  assumes "bind_extraction sf p ext cat = Ok req"
  shows "rq_principal req = p \<and> rq_acting_as req = Some ''agent:nl-bridge'' \<and> rq_on_behalf_of req = Some (pr_id p) \<and>
    im_get (cx_values (rq_context req)) ''nl_utterance'' = Some (nx_utterance ext) \<and>
    im_get (cx_values (rq_context req)) ''proposal_only'' = Some ''true'' \<and>
    own_context_keys req \<and> validate req = Ok () \<and>
    (case (cat, nx_resource_id ext) of
       (Some c, Some i) \<Rightarrow> (case find_resource c i of None \<Rightarrow> True | Some r \<Rightarrow> rs_kind (rq_resource req) = trim (cr_kind r))
     | _ \<Rightarrow> True)"
proof -
  from bind_extraction_Ok [OF assms] have req: "req = proposal sf p ext cat" and b: "bindable p ext cat" by auto
  obtain kind rid attrs where r: "bound_resource ext cat = (kind, rid, attrs)" by (metis prod_cases3)
  have nt: "nonblank (trim v) = nonblank v" for v by (simp add: nonblank_def)
  have "validate req = Ok ()"
    using b by (simp add: req proposal_def r bindable_def validate_Ok_iff nt action_new_def)
  moreover have "own_context_keys req"
    by (simp add: own_context_keys_iff req proposal_def r im_wf_def engine_keys_def)
  moreover have "case (cat, nx_resource_id ext) of
       (Some c, Some i) \<Rightarrow> (case find_resource c i of None \<Rightarrow> True | Some r \<Rightarrow> rs_kind (rq_resource req) = trim (cr_kind r))
     | _ \<Rightarrow> True"
    using r by (auto simp: req proposal_def bound_resource_def Let_def split: option.splits)
  ultimately show ?thesis
    by (simp add: req proposal_def r im_get_def)
qed

lemma find_in: "find P xs = Some x \<Longrightarrow> x \<in> set xs"
  by (auto simp: find_Some_iff)

definition names_resources :: "resource_catalog option \<Rightarrow> bool" where
  "names_resources catalog \<longleftrightarrow>
     (\<forall>cat r. catalog = Some cat \<longrightarrow> r \<in> set (ct_resources cat) \<longrightarrow> nonblank (cr_id r) \<and> nonblank (cr_kind r))"

definition extraction_ok :: "nl_extraction \<Rightarrow> bool" where
  "extraction_ok ext \<longleftrightarrow> nonblank (nx_action ext) \<and> nonblank (nx_resource_kind ext) \<and>
     opt_all nonblank (nx_resource_id ext) \<and> opt_all nonblank (nx_subject_id ext)"

lemma extraction_bindable:
  assumes "nonblank (pr_id p)" "names_resources cat" "extraction_ok ext"
  shows "bindable p ext cat"
  using assms
  by (auto simp: bindable_def bound_resource_def Let_def extraction_ok_def names_resources_def find_resource_def
      split: option.splits dest: find_in)

lemma find_ref_prefix: "find_ref p s = Some r \<Longrightarrow> \<exists>w. w \<noteq> [] \<and> r = p @ w"
  by (induction p s rule: find_ref.induct) (auto split: option.splits if_splits)

lemma nonblank_Cons: "\<not> is_ws c \<Longrightarrow> nonblank (c # s)"
  by (simp add: nonblank_def trim_Nil_iff)

lemma find_ref_nonblank: "opt_all nonblank (find_ref (c # p) s)" if "\<not> is_ws c"
  using find_ref_prefix [of "c # p" s] that by (cases "find_ref (c # p) s") (auto simp: nonblank_Cons)

lemma if_Ok_elim:
  assumes "(if c then Ok a else m) = Ok x" "x = a \<Longrightarrow> R" "m = Ok x \<Longrightarrow> R"
  shows R
proof (cases c)
  case True
  then have "x = a" using assms(1) by simp
  then show R by (rule assms(2))
next
  case False
  then have "m = Ok x" using assms(1) by simp
  then show R by (rule assms(3))
qed

lemma extract_structured_ok: "extract_structured u = Ok ext \<Longrightarrow> extraction_ok ext \<and> 7 / 10 \<le> nx_confidence ext"
  unfolding extract_structured_def Let_def
  by (elim if_Ok_elim) (simp_all add: extraction_ok_def nonblank_Cons find_ref_nonblank is_ws_def)

lemma extract_about_alice:
  "extract_structured u = Ok ext \<Longrightarrow> nx_subject_id ext = Some ''employee:alice'' \<Longrightarrow> nx_direct_reports ext = [''employee:alice'']"
  unfolding extract_structured_def Let_def by (elim if_Ok_elim) simp_all

text \<open>For a principal with an id, a catalogue whose resources have ids and kinds, and a classifier
  whose answers are not blank, the hybrid extractor always produces a proposal, for every utterance:
  unrecognised text becomes a \<open>READ\<close> of \<open>UNKNOWN\<close> instead of an error.\<close>

theorem hybrid_always_proposes:
  assumes "nonblank (pr_id p)" "names_resources (hx_catalog hx)"
    and "\<And>cls ext. hx_classifier hx = Some cls \<Longrightarrow> cls utterance = Ok ext \<Longrightarrow> extraction_ok ext"
  shows "\<exists>ext. build_proposal sf hx p utterance = Ok (proposal sf p ext (hx_catalog hx)) \<and>
    (case extract_structured utterance of
       Inr e \<Rightarrow> ext = e
     | Inl _ \<Rightarrow> (case hx_classifier hx of
         Some cls \<Rightarrow> (case cls utterance of Inr e \<Rightarrow> ext = e | Inl _ \<Rightarrow> ext = unclassified utterance)
       | None \<Rightarrow> ext = unclassified utterance))"
proof -
  have bound: "bind_extraction sf p ext (hx_catalog hx) = Ok (proposal sf p ext (hx_catalog hx))" if "extraction_ok ext" for ext
    using bind_extraction_cases [of sf p ext "hx_catalog hx"] extraction_bindable [OF assms(1,2) that] by auto
  have "extraction_ok (unclassified utterance)"
    by (simp add: extraction_ok_def unclassified_def nonblank_Cons is_ws_def)
  then have fb: "extraction_ok (fallback_extraction hx utterance)"
    using assms(3) by (auto simp: fallback_extraction_def split: option.split sum.split)
  show ?thesis
  proof (cases "extract_structured utterance")
    case (Inr e)
    then show ?thesis using extract_structured_ok [OF Inr] bound by (auto simp: build_proposal_def)
  next
    case (Inl f)
    then show ?thesis
      using bound [OF fb] by (auto simp: build_proposal_def fallback_extraction_def split: option.splits sum.splits)
  qed
qed

text \<open>C23: The text alone can claim a reporting line: whenever the extractor reads an utterance as being
  about Alice, the proposal for any principal whatsoever states that Alice is that principal's direct
  report, so policies that ask for \<open>DIRECT_REPORTS\<close> see the condition met.\<close>

theorem utterance_asserts_direct_report:
  assumes "nonblank (pr_id p)" "names_resources (hx_catalog hx)"
    and "extract_structured utterance = Ok ext" "nx_subject_id ext = Some ''employee:alice''"
  shows "\<exists>req. build_proposal sf hx p utterance = Ok req \<and> subject_in_direct_reports req"
proof -
  have "bind_extraction sf p ext (hx_catalog hx) = Ok (proposal sf p ext (hx_catalog hx))"
    using bind_extraction_cases [of sf p ext "hx_catalog hx"] extraction_bindable [OF assms(1,2)]
      extract_structured_ok [OF assms(3)] by auto
  then have "build_proposal sf hx p utterance = Ok (proposal sf p ext (hx_catalog hx))"
    using extract_structured_ok [OF assms(3)] assms(3) by (simp add: build_proposal_def)
  moreover have "nx_direct_reports ext = [''employee:alice'']"
    by (rule extract_about_alice [OF assms(3,4)])
  moreover have "trim ''employee:alice'' = ''employee:alice''"
    by (intro trim_id no_ws_trimmed) (simp add: is_ws_def)
  ultimately show ?thesis
    using assms(4) by (simp add: proposal_def subject_in_direct_reports_def report_of_def case_prod_unfold Let_def)
qed

definition plain_extractor :: hybrid_extractor where
  "plain_extractor = \<lparr>hx_catalog = Some example_catalog, hx_classifier = Some mock_classify\<rparr>"

lemma plain_extractor_names: "names_resources (hx_catalog plain_extractor)"
  by (auto simp: names_resources_def plain_extractor_def example_catalog_def nonblank_Cons is_ws_def)

lemma mock_classify_ok: "mock_classify u = Ok ext \<Longrightarrow> extraction_ok ext"
  by (auto simp: mock_classify_def Let_def extraction_ok_def nonblank_Cons is_ws_def split: if_splits)

lemma alice_utterance: "\<exists>ext. extract_structured ''alice travel'' = Ok ext \<and> nx_subject_id ext = Some ''employee:alice''"
  by (simp add: extract_structured_def Let_def to_ascii_lowercase_def lower_char_def contains_iff [symmetric] starts_with_def)

theorem utterance_asserts_direct_report_witness:
  "\<exists>req. build_proposal (\<lambda>_. []) plain_extractor (with_roles ''user:anyone'' [''HR_HEAD'']) ''alice travel'' = Ok req \<and>
     subject_in_direct_reports req"
proof -
  obtain ext where "extract_structured ''alice travel'' = Ok ext" "nx_subject_id ext = Some ''employee:alice''"
    using alice_utterance by blast
  then show ?thesis
    by (intro utterance_asserts_direct_report [OF _ plain_extractor_names]) (simp_all add: with_roles_def nonblank_Cons is_ws_def)
qed

theorem hybrid_always_proposes_witness:
  "\<exists>ext. build_proposal (\<lambda>_. []) plain_extractor (with_roles ''user:anyone'' []) ''hello'' =
     Ok (proposal (\<lambda>_. []) (with_roles ''user:anyone'' []) ext (hx_catalog plain_extractor))"
  using hybrid_always_proposes [of "with_roles ''user:anyone'' []" plain_extractor "''hello''" "\<lambda>_. []"] plain_extractor_names mock_classify_ok
  by (force simp: with_roles_def nonblank_Cons is_ws_def plain_extractor_def)

theorem bound_extraction_is_proposal_witness:
  "\<exists>req. bind_extraction (\<lambda>_. []) (with_roles ''u'' []) (unclassified ''hi'') None = Ok req \<and> own_context_keys req"
proof -
  have "bindable (with_roles ''u'' []) (unclassified ''hi'') None"
    by (simp add: bindable_def bound_resource_def unclassified_def with_roles_def nonblank_Cons is_ws_def)
  then obtain req where "bind_extraction (\<lambda>_. []) (with_roles ''u'' []) (unclassified ''hi'') None = Ok req"
    using bind_extraction_cases by blast
  with bound_extraction_is_proposal [OF this] show ?thesis by blast
qed

end
