(* ===== verification/Proxy_World.thy ===== *)
theory Proxy_World
  imports Proxy_Engine Board Llm_Bridge Identity_Ldap
begin

text \<open>
  The state of the running gateway of \<open>authz-llm-proxy\<close> (state.rs), the shapes of its requests
  (openai.rs), its connectors (connectors/mod.rs), the MCP and A2A authorization hooks (mcp.rs, a2a.rs), and the
  effects the request handlers are made of. What lies outside the process is the record \<open>outside\<close>: the upstream
  model, the tool server, the clock, JSON text. The world keeps, beside the state of the program, the list of
  everything the gateway decided and everything it sent out, in order.
\<close>

section \<open>Requests\<close>

record tool_function =
  tf_name :: string
  tf_arguments :: string

record tool_call_msg =
  tcm_id :: string
  tcm_type :: string
  tcm_function :: tool_function

definition default_fn_type :: string where
  "default_fn_type = ''function''"

record chat_message =
  cm_role :: string
  cm_content :: "json option"
  cm_tool_calls :: "tool_call_msg list option"
  cm_name :: "string option"
  cm_tool_call_id :: "string option"

record chat_completion_request =
  cc_model :: string
  cc_messages :: "chat_message list"
  cc_stream :: "bool option"
  cc_tools :: "json list option"

record retrieve_request =
  re_collection :: string
  re_document_id :: "string option"
  re_query :: "string option"
  re_top_k :: "nat option"

record mcp_call_params =
  mp_name :: string
  mp_arguments :: json

record a2a_message =
  a2_message_id :: string
  a2_from_agent :: string
  a2_to_agent :: string
  a2_skill :: string
  a2_payload :: json
  a2_delegation_chain :: "string list"

definition part_text :: "json \<Rightarrow> string" where
  "part_text part = (case Option.bind (json_get part ''text'') json_as_str of Some s \<Rightarrow> s | None \<Rightarrow> [])"

definition content_text :: "json option \<Rightarrow> string option" where
  "content_text content =
     (case content of
        Some (JStr s) \<Rightarrow> Some s
      | Some (JArr parts) \<Rightarrow> (let t = concat (map part_text parts) in if t = [] then None else Some t)
      | _ \<Rightarrow> None)"

text \<open>The newest message of the role \<open>user\<close> decides, also when it has no text.\<close>

definition last_user_text :: "chat_message list \<Rightarrow> string option" where
  "last_user_text messages =
     Option.bind (find (\<lambda>m. cm_role m = ''user'') (rev messages)) (\<lambda>m. content_text (cm_content m))"

section \<open>Connectors\<close>

record tool_call =
  tl_id :: string
  tl_name :: string
  tl_arguments :: json

datatype data_connector = MockDataConnector | HttpDataConnector string

fun connector_name :: "data_connector \<Rightarrow> string" where
  "connector_name MockDataConnector = ''mock''"
| "connector_name (HttpDataConnector base_url) = ''http''"

definition trim_slashes :: "string \<Rightarrow> string" where
  "trim_slashes s = rev (dropWhile (\<lambda>c. c = CHR ''/'') (rev s))"

definition mock_answer :: "tool_call \<Rightarrow> json" where
  "mock_answer call =
     JObj [(''tool'', JStr (tl_name call)), (''id'', JStr (tl_id call)), (''ok'', JBool True), (''rows'', JArr []),
       (''note'', JStr (''mock connector '' @ EM_DASH @ '' no production data touched''))]"

text \<open>The HTTP connector posts the arguments to a URL; \<open>post\<close> is the tool server's answer read as JSON.\<close>

fun connector_execute :: "(string \<Rightarrow> json \<Rightarrow> string + json) \<Rightarrow> data_connector \<Rightarrow> tool_call \<Rightarrow> string + json" where
  "connector_execute post MockDataConnector call = Inr (mock_answer call)"
| "connector_execute post (HttpDataConnector base_url) call =
     post (trim_slashes base_url @ ''/tools/'' @ tl_name call) (tl_arguments call)"

section \<open>MCP and A2A\<close>

record authz_result =
  az_allowed :: bool
  az_decision :: authz_decision

definition authorize_mcp_tool_call ::
  "('ps, 'rx, 'ctx, 'es, 'rq) cedar \<Rightarrow> eval_env \<Rightarrow> (json \<Rightarrow> string) \<Rightarrow> principal \<Rightarrow> mcp_call_params \<Rightarrow> resource_catalog \<Rightarrow>
   'ps evaluator_config \<Rightarrow> (authz_error, authz_result) result" where
  "authorize_mcp_tool_call c env sh p params catalog cfg =
     (let req = authz_for_tool sh catalog p (mp_name params) (mp_arguments params) in
      and_then (evaluate c env req cfg) (\<lambda>d. Ok \<lparr>az_allowed = (ad_effect d = Allow), az_decision = d\<rparr>))"

definition a2a_request :: "principal \<Rightarrow> a2a_message \<Rightarrow> authz_request" where
  "a2a_request p msg =
     (let c1 = im_insert ''from_agent'' (a2_from_agent msg) [];
          c2 = im_insert ''to_agent'' (a2_to_agent msg) c1;
          c3 = im_insert ''skill'' (a2_skill msg) c2;
          c4 = im_insert ''delegation_chain'' (join ''>'' (a2_delegation_chain msg)) c3;
          c5 = im_insert ''delegation_depth'' (show_nat (length (a2_delegation_chain msg))) c4
      in \<lparr>rq_principal = p, rq_action = action_new ''A2A_SEND'',
          rq_resource = \<lparr>rs_kind = ''AGENT_MESSAGE'', rs_id = Some (a2_to_agent msg), rs_attrs = [(''skill'', a2_skill msg)]\<rparr>,
          rq_subject = None, rq_context = \<lparr>cx_values = c5\<rparr>, rq_relationships = [],
          rq_acting_as = Some (a2_from_agent msg),
          rq_on_behalf_of = (case a2_delegation_chain msg of [] \<Rightarrow> None | h # _ \<Rightarrow> Some h)\<rparr>)"

definition authorize_a2a_message ::
  "('ps, 'rx, 'ctx, 'es, 'rq) cedar \<Rightarrow> eval_env \<Rightarrow> principal \<Rightarrow> a2a_message \<Rightarrow> 'ps evaluator_config \<Rightarrow>
   (authz_error, authz_result) result" where
  "authorize_a2a_message c env p msg cfg =
     and_then (evaluate c env (a2a_request p msg) cfg) (\<lambda>d. Ok \<lparr>az_allowed = (ad_effect d = Allow), az_decision = d\<rparr>)"

section \<open>The state\<close>

text \<open>The counters are \<open>u64\<close>; a release build's \<open>+= 1\<close> wraps.\<close>

record metrics =
  mt_checks_total :: "64 word"
  mt_denies_total :: "64 word"
  mt_allows_total :: "64 word"
  mt_upstream_calls :: "64 word"

definition metrics_default :: metrics where
  "metrics_default = \<lparr>mt_checks_total = 0, mt_denies_total = 0, mt_allows_total = 0, mt_upstream_calls = 0\<rparr>"

record 'ps app_state =
  as_cfg :: proxy_config
  as_engine :: "'ps authz_engine"
  as_jwt :: jwt_oidc_adapter
  as_identity_cache :: identity_cache
  as_connector :: data_connector
  as_metrics :: metrics

definition jwt_of_config :: "proxy_config \<Rightarrow> jwt_oidc_adapter" where
  "jwt_of_config cfg =
     \<lparr>jo_hmac_secret = id_jwt_hmac_secret (px_identity cfg), jo_jwks_url = id_jwks_url (px_identity cfg),
      jo_require_exp = (px_mode cfg = Production)\<rparr>"

definition connector_of_config :: "proxy_config \<Rightarrow> data_connector" where
  "connector_of_config cfg =
     (case cn_http_base_url (px_connectors cfg) of Some url \<Rightarrow> HttpDataConnector url | None \<Rightarrow> MockDataConnector)"

definition app_state_new :: "proxy_config \<Rightarrow> 'ps authz_engine \<Rightarrow> 'ps app_state" where
  "app_state_new cfg engine =
     \<lparr>as_cfg = cfg, as_engine = engine, as_jwt = jwt_of_config cfg,
      as_identity_cache = cache_new (id_cache_ttl_secs (px_identity cfg)), as_connector = connector_of_config cfg,
      as_metrics = metrics_default\<rparr>"

section \<open>Effects\<close>

text \<open>Who asked for a decision: a gated path (chat, tool call, \<open>/v1/check\<close>), which counts it; retrieval, which
  audits it only; MCP and A2A, which do neither.\<close>

datatype origin = Gate | Retrieval | Mcp | A2a

datatype event =
    EvDecided origin authz_request authz_decision
  | EvUndecided origin authz_request
  | EvUpstream string "string option" chat_completion_request
  | EvTool tool_call

record 'ps world =
  pw_app :: "'ps app_state"
  pw_disk :: disk
  pw_trace :: "event list"

type_synonym ('ps, 'a) route_io = "('ps world, proxy_error, 'a) st"

text \<open>\<open>ox_now\<close> and \<open>ox_later\<close> are the instants of the cache lookup and insertion; decision ids, timestamps and
  latencies are numbered by the events before them. \<open>ox_upstream\<close> answers a request with an error, or the status and
  the body's bytes; \<open>ox_tools\<close> is the tool server.\<close>

record ('ps, 'rx, 'ctx, 'es, 'rq, 'k) outside =
  ox_cedar :: "('ps, 'rx, 'ctx, 'es, 'rq) cedar"
  ox_store_codec :: store_codec
  ox_audit_codec :: audit_codec
  ox_jwt :: "'k jwt_lib"
  ox_now :: instant
  ox_later :: instant
  ox_env :: "nat \<Rightarrow> eval_env"
  ox_elapsed_ms :: "nat \<Rightarrow> nat"
  ox_show_f32 :: "rat \<Rightarrow> string"
  ox_show_json :: "json \<Rightarrow> string"
  ox_parse_json :: "string \<Rightarrow> string + json"
  ox_decision_json :: "authz_decision \<Rightarrow> json"
  ox_record_json :: "audit_record \<Rightarrow> json"
  ox_uuid :: string
  ox_upstream :: "string \<Rightarrow> string option \<Rightarrow> chat_completion_request \<Rightarrow> string + (nat \<times> string)"
  ox_tools :: "string \<Rightarrow> json \<Rightarrow> string + json"

definition record_event :: "event \<Rightarrow> 'ps world \<Rightarrow> 'ps world" where
  "record_event ev w = w\<lparr>pw_trace := pw_trace w @ [ev]\<rparr>"

definition update_metrics :: "(metrics \<Rightarrow> metrics) \<Rightarrow> ('ps, unit) route_io" where
  "update_metrics f = st_modify (\<lambda>w. w\<lparr>pw_app := (pw_app w)\<lparr>as_metrics := f (as_metrics (pw_app w))\<rparr>\<rparr>)"

definition count_check :: "metrics \<Rightarrow> metrics" where
  "count_check m = m\<lparr>mt_checks_total := mt_checks_total m + 1\<rparr>"

definition count_deny :: "metrics \<Rightarrow> metrics" where
  "count_deny m = m\<lparr>mt_denies_total := mt_denies_total m + 1\<rparr>"

definition count_allow :: "metrics \<Rightarrow> metrics" where
  "count_allow m = m\<lparr>mt_allows_total := mt_allows_total m + 1\<rparr>"

definition count_upstream :: "metrics \<Rightarrow> metrics" where
  "count_upstream m = m\<lparr>mt_upstream_calls := mt_upstream_calls m + 1\<rparr>"

definition asking :: "('ps, 'rx, 'ctx, 'es, 'rq, 'k) outside \<Rightarrow> headers \<Rightarrow> ('ps, principal) route_io" where
  "asking ox hs w =
     (let a = pw_app w in
      case resolve_principal (ox_jwt ox) (ox_now ox) (ox_later ox) hs (as_cfg a) (as_jwt a) (as_identity_cache a) of
        (r, cache) \<Rightarrow> (r, w\<lparr>pw_app := a\<lparr>as_identity_cache := cache\<rparr>\<rparr>))"

definition engine_check ::
  "('ps, 'rx, 'ctx, 'es, 'rq, 'k) outside \<Rightarrow> origin \<Rightarrow> authz_request \<Rightarrow> ('ps, authz_decision) route_io" where
  "engine_check ox og req w =
     (let a = pw_app w; n = length (pw_trace w) in
      case check (ox_cedar ox) (ox_store_codec ox) (ox_env ox n) (ox_elapsed_ms ox n) req (as_engine a) of
        (r, e) \<Rightarrow> (r, record_event (case r of Inl _ \<Rightarrow> EvUndecided og req | Inr d \<Rightarrow> EvDecided og req d)
                        (w\<lparr>pw_app := a\<lparr>as_engine := e\<rparr>\<rparr>)))"

text \<open>A decision of the evaluator itself, without the engine.\<close>

definition direct_check ::
  "origin \<Rightarrow> authz_request \<Rightarrow> ('ps app_state \<Rightarrow> nat \<Rightarrow> (authz_error, authz_result) result) \<Rightarrow> ('ps, authz_result) route_io" where
  "direct_check og req run w =
     (case map_err (\<lambda>x. PxBadRequest (authz_error_text x)) (run (pw_app w) (length (pw_trace w))) of
        Inl f \<Rightarrow> (Inl f, record_event (EvUndecided og req) w)
      | Inr z \<Rightarrow> (Ok z, record_event (EvDecided og req (az_decision z)) w))"

text \<open>A decision with the counters around it, as the gated handlers take it.\<close>

definition gated_check :: "('ps, 'rx, 'ctx, 'es, 'rq, 'k) outside \<Rightarrow> authz_request \<Rightarrow> ('ps, authz_decision) route_io" where
  "gated_check ox req =
     st_bind (update_metrics count_check) (\<lambda>_.
     st_bind (engine_check ox Gate req) (\<lambda>d.
     st_bind (update_metrics (if ad_effect d = Allow then count_allow else count_deny)) (\<lambda>_. st_ret d)))"

definition upstream_url :: "proxy_config \<Rightarrow> string" where
  "upstream_url cfg = trim_slashes (up_base_url (px_upstream cfg)) @ ''/v1/chat/completions''"

definition call_upstream ::
  "('ps, 'rx, 'ctx, 'es, 'rq, 'k) outside \<Rightarrow> chat_completion_request \<Rightarrow> ('ps, nat \<times> string) route_io" where
  "call_upstream ox body =
     st_bind (update_metrics count_upstream) (\<lambda>_.
     st_bind (st_gets (\<lambda>w. as_cfg (pw_app w))) (\<lambda>cfg.
       let url = upstream_url cfg; key = up_api_key (px_upstream cfg) in
       st_bind (st_modify (record_event (EvUpstream url key body))) (\<lambda>_.
         st_lift (lift_msg PxUpstream (ox_upstream ox url key body)))))"

definition execute_tool :: "('ps, 'rx, 'ctx, 'es, 'rq, 'k) outside \<Rightarrow> tool_call \<Rightarrow> ('ps, string + json) route_io" where
  "execute_tool ox call =
     st_bind (st_gets (\<lambda>w. as_connector (pw_app w))) (\<lambda>cn.
     st_bind (st_modify (record_event (EvTool call))) (\<lambda>_.
       st_ret (connector_execute (ox_tools ox) cn call)))"

definition on_disk :: "(disk, 'e, 'a) st \<Rightarrow> ('ps world, 'e, 'a) st" where
  "on_disk = st_zoom pw_disk (\<lambda>d w. w\<lparr>pw_disk := d\<rparr>)"

text \<open>A query of the audit database, when there is one.\<close>

definition on_store :: "paac_store \<Rightarrow> 'a store_io \<Rightarrow> (store_error, 'a) result" where
  "on_store s m = fst (m s)"

end
