(* ===== verification/Proxy_Routes.thy ===== *)
theory Proxy_Routes
  imports Proxy_World
begin

text \<open>
  \<open>authz-llm-proxy/src/routes.rs\<close>: the request handlers, and the router of main.rs. A handler runs as one
  computation on the world; its answer is a response or a \<open>proxy_error\<close>, which the framework turns into a response
  with \<open>into_response\<close>.
\<close>

datatype body = RJson json | RStream string | RText string | RPage

record response =
  rs_status :: nat
  rs_body :: body

definition ok_json :: "json \<Rightarrow> response" where
  "ok_json j = \<lparr>rs_status = 200, rs_body = RJson j\<rparr>"

section \<open>Probes\<close>

definition SERVICE_VERSION :: string where
  "SERVICE_VERSION = ''0.2.0''"

fun debug_mode :: "run_mode \<Rightarrow> string" where
  "debug_mode Development = ''Development''"
| "debug_mode Production = ''Production''"

definition health :: "('ps, response) route_io" where
  "health = st_gets (\<lambda>w. ok_json (JObj [(''status'', JStr ''ok''), (''service'', JStr ''paac-proxy''),
     (''version'', JStr SERVICE_VERSION), (''mode'', JStr (to_ascii_lowercase (debug_mode (px_mode (as_cfg (pw_app w))))))]))"

definition ready :: "('ps, response) route_io" where
  "ready w =
     st_bind (st_lift (is_ready (as_engine (pw_app w)))) (\<lambda>_.
       let hot = bc_load (ae_bundle (as_engine (pw_app w))) in
       st_ret (ok_json (JObj [(''ready'', JBool True), (''policy_revision'', JStr (hb_policy_revision hot)),
         (''signed'', JBool (hb_policy_signature hot \<noteq> None)), (''signature_key_id'', opt_json (hb_signature_key_id hot))]))) w"

definition metric_lines :: "string \<Rightarrow> string \<Rightarrow> 64 word \<Rightarrow> string" where
  "metric_lines ty name v = ''# TYPE '' @ ty @ '' counter'' @ [NL] @ name @ '' '' @ show_nat (unat v) @ [NL]"

definition metrics_text :: "metrics \<Rightarrow> string" where
  "metrics_text m =
     metric_lines ''paac_checks_total'' ''paac_checks_total'' (mt_checks_total m) @
     metric_lines ''paac_denies_total'' ''paac_denies_total'' (mt_denies_total m) @
     metric_lines ''paac_allows_total'' ''paac_allows_total'' (mt_allows_total m) @
     metric_lines ''paac_upstream_calls'' ''paac_upstream_calls'' (mt_upstream_calls m)"

definition metrics_page :: "('ps, response) route_io" where
  "metrics_page = st_gets (\<lambda>w. \<lparr>rs_status = 200, rs_body = RText (metrics_text (as_metrics (pw_app w)))\<rparr>)"

section \<open>Tool calls\<close>

text \<open>\<open>Map::remove\<close> of an insertion-ordered \<open>serde_json\<close> object: the last member takes the place.\<close>

fun swap_remove :: "string \<Rightarrow> (string \<times> json) list \<Rightarrow> (string \<times> json) list" where
  "swap_remove k [] = []"
| "swap_remove k (kv # kvs) =
     (if fst kv = k then (if kvs = [] then [] else last kvs # butlast kvs) else kv # swap_remove k kvs)"

definition obj_remove :: "string \<Rightarrow> json \<Rightarrow> json" where
  "obj_remove k j = (case j of JObj kvs \<Rightarrow> JObj (swap_remove k kvs) | _ \<Rightarrow> j)"

definition pointer_text :: "json \<Rightarrow> string list \<Rightarrow> string \<Rightarrow> string" where
  "pointer_text v path fallback = (case Option.bind (json_walk v path) json_as_str of Some s \<Rightarrow> s | None \<Rightarrow> fallback)"

definition tool_call_name :: "json \<Rightarrow> string" where
  "tool_call_name tc = pointer_text tc [''function'', ''name''] []"

definition tool_call_args :: "(string \<Rightarrow> string + json) \<Rightarrow> json \<Rightarrow> json" where
  "tool_call_args parse tc =
     (case parse (pointer_text tc [''function'', ''arguments''] ''{}'') of Inr v \<Rightarrow> v | Inl _ \<Rightarrow> JObj [])"

definition tool_call_of :: "(string \<Rightarrow> string + json) \<Rightarrow> json \<Rightarrow> tool_call" where
  "tool_call_of parse tc =
     \<lparr>tl_id = pointer_text tc [''id''] [], tl_name = tool_call_name tc, tl_arguments = tool_call_args parse tc\<rparr>"

definition tool_call_request ::
  "('ps, 'rx, 'ctx, 'es, 'rq, 'k) outside \<Rightarrow> resource_catalog \<Rightarrow> principal \<Rightarrow> json \<Rightarrow> authz_request" where
  "tool_call_request ox cat p tc =
     authz_for_tool (ox_show_json ox) cat p (tool_call_name tc) (tool_call_args (ox_parse_json ox) tc)"

definition filter_tool_call ::
  "('ps, 'rx, 'ctx, 'es, 'rq, 'k) outside \<Rightarrow> principal \<Rightarrow> json \<Rightarrow> json list \<Rightarrow> ('ps, json list) route_io" where
  "filter_tool_call ox p tc out =
     st_bind (st_gets (\<lambda>w. ae_catalog (as_engine (pw_app w)))) (\<lambda>cat.
     st_bind (gated_check ox (tool_call_request ox cat p tc)) (\<lambda>d.
       if ad_effect d = Allow
       then st_bind (st_gets (\<lambda>w. cn_execute_tools (px_connectors (as_cfg (pw_app w))))) (\<lambda>run.
            st_bind (if run then st_bind (execute_tool ox (tool_call_of (ox_parse_json ox) tc)) (\<lambda>_. st_ret ()) else st_ret ()) (\<lambda>_.
              st_ret (out @ [tc])))
       else st_ret out))"

definition filter_tool_calls ::
  "('ps, 'rx, 'ctx, 'es, 'rq, 'k) outside \<Rightarrow> principal \<Rightarrow> json \<Rightarrow> ('ps, json list) route_io" where
  "filter_tool_calls ox p tcs =
     (case tcs of JArr arr \<Rightarrow> st_fold (filter_tool_call ox p) arr [] | _ \<Rightarrow> st_ret [])"

definition blocked_note :: string where
  "blocked_note = ''PAAC blocked all tool calls for this turn.''"

definition rewrite_message :: "('ps, 'rx, 'ctx, 'es, 'rq, 'k) outside \<Rightarrow> principal \<Rightarrow> json \<Rightarrow> ('ps, json) route_io" where
  "rewrite_message ox p msg =
     (case json_get msg ''tool_calls'' of
        None \<Rightarrow> st_ret msg
      | Some tcs \<Rightarrow>
          st_bind (filter_tool_calls ox p tcs) (\<lambda>filtered.
            st_ret (if filtered = [] then obj_insert ''content'' (JStr blocked_note) (obj_remove ''tool_calls'' msg)
                    else obj_insert ''tool_calls'' (JArr filtered) msg)))"

definition rewrite_choice :: "('ps, 'rx, 'ctx, 'es, 'rq, 'k) outside \<Rightarrow> principal \<Rightarrow> json \<Rightarrow> ('ps, json) route_io" where
  "rewrite_choice ox p choice =
     (case json_get choice ''message'' of
        None \<Rightarrow> st_ret choice
      | Some msg \<Rightarrow> st_bind (rewrite_message ox p msg) (\<lambda>msg'. st_ret (obj_insert ''message'' msg' choice)))"

definition intercept :: "('ps, 'rx, 'ctx, 'es, 'rq, 'k) outside \<Rightarrow> principal \<Rightarrow> json \<Rightarrow> ('ps, json) route_io" where
  "intercept ox p upstream =
     (case json_get upstream ''choices'' of
        Some (JArr choices) \<Rightarrow>
          st_bind (st_map (rewrite_choice ox p) choices) (\<lambda>cs. st_ret (obj_insert ''choices'' (JArr cs) upstream))
      | _ \<Rightarrow> st_ret upstream)"

section \<open>Chat completions\<close>

definition general_chat :: "string \<Rightarrow> nl_extraction" where
  "general_chat utterance =
     \<lparr>nx_utterance = utterance, nx_action = ''READ'', nx_resource_kind = ''GENERAL_CHAT'', nx_resource_id = None,
      nx_subject_id = None, nx_subject_groups = [], nx_direct_reports = [], nx_confidence = 0\<rparr>"

definition utterance_request ::
  "('ps, 'rx, 'ctx, 'es, 'rq, 'k) outside \<Rightarrow> resource_catalog \<Rightarrow> principal \<Rightarrow> string \<Rightarrow> (proxy_error, authz_request) result" where
  "utterance_request ox cat p utterance =
     map_err (\<lambda>e. PxBadRequest (bridge_error_text e))
       (bind_extraction (ox_show_f32 ox) p (unwrap_or (general_chat utterance) (extract_structured utterance)) (Some cat))"

definition denied_chat :: "('ps, 'rx, 'ctx, 'es, 'rq, 'k) outside \<Rightarrow> authz_request \<Rightarrow> authz_decision \<Rightarrow> proxy_error" where
  "denied_chat ox req d =
     PxForbidden (''PAAC denied access: '' @ ac_name (rq_action req) @ '' on '' @ rs_kind (rq_resource req) @
         '' (decision '' @ ev_decision_id (ad_evidence d) @ '')'')
       (ev_decision_id (ad_evidence d)) (ox_decision_json ox d)"

definition authorize_utterance ::
  "('ps, 'rx, 'ctx, 'es, 'rq, 'k) outside \<Rightarrow> principal \<Rightarrow> string \<Rightarrow> ('ps, unit) route_io" where
  "authorize_utterance ox p utterance =
     st_bind (st_gets (\<lambda>w. ae_catalog (as_engine (pw_app w)))) (\<lambda>cat.
     st_bind (st_lift (utterance_request ox cat p utterance)) (\<lambda>req.
     st_bind (gated_check ox req) (\<lambda>d.
       if ad_effect d \<noteq> Allow then st_fail (denied_chat ox req d) else st_ret ())))"

definition valid_status :: "nat \<Rightarrow> bool" where
  "valid_status s \<longleftrightarrow> 100 \<le> s \<and> s \<le> 999"

definition relay :: "('ps, 'rx, 'ctx, 'es, 'rq, 'k) outside \<Rightarrow> principal \<Rightarrow> bool \<Rightarrow> nat \<times> string \<Rightarrow> ('ps, response) route_io" where
  "relay ox p streaming answer =
     (case answer of (status, bytes) \<Rightarrow>
        if streaming
        then (if valid_status status then st_ret \<lparr>rs_status = status, rs_body = RStream bytes\<rparr>
              else st_fail (PxInternal ''invalid status code''))
        else st_bind (st_lift (lift_msg PxUpstream (ox_parse_json ox bytes))) (\<lambda>j.
             st_bind (intercept ox p j) (\<lambda>j'.
               st_ret \<lparr>rs_status = (if valid_status status then status else 200), rs_body = RJson j'\<rparr>)))"

definition chat_completions ::
  "('ps, 'rx, 'ctx, 'es, 'rq, 'k) outside \<Rightarrow> headers \<Rightarrow> chat_completion_request \<Rightarrow> ('ps, response) route_io" where
  "chat_completions ox hs body =
     st_bind (asking ox hs) (\<lambda>p.
       let utterance = (case last_user_text (cc_messages body) of Some t \<Rightarrow> t | None \<Rightarrow> []) in
       st_bind (if utterance \<noteq> [] then authorize_utterance ox p utterance else st_ret ()) (\<lambda>_.
       st_bind (call_upstream ox body) (\<lambda>answer.
         relay ox p (cc_stream body = Some True) answer)))"

section \<open>Retrieval, checks, explanations\<close>

definition engine_allow_or_forbid ::
  "('ps, 'rx, 'ctx, 'es, 'rq, 'k) outside \<Rightarrow> authz_request \<Rightarrow> ('ps, authz_decision) route_io" where
  "engine_allow_or_forbid ox req =
     st_bind (engine_check ox Retrieval req) (\<lambda>d.
       if ad_effect d \<noteq> Allow
       then st_fail (PxForbidden (''PAAC denied '' @ ac_name (rq_action req) @ '' on '' @ rs_kind (rq_resource req))
              (ev_decision_id (ad_evidence d)) (ox_decision_json ox d))
       else st_ret d)"

definition retrieve ::
  "('ps, 'rx, 'ctx, 'es, 'rq, 'k) outside \<Rightarrow> headers \<Rightarrow> retrieve_request \<Rightarrow> ('ps, response) route_io" where
  "retrieve ox hs body =
     st_bind (asking ox hs) (\<lambda>p.
     st_bind (st_gets (\<lambda>w. ae_catalog (as_engine (pw_app w)))) (\<lambda>cat.
     st_bind (engine_allow_or_forbid ox (authz_for_retrieve cat p (re_collection body) (re_document_id body))) (\<lambda>_.
       st_ret (ok_json (JObj [(''collection'', JStr (re_collection body)), (''chunks'', JArr []),
         (''note'', JStr (''authz ALLOW '' @ EM_DASH @ '' connector would return chunks here''))])))))"

definition check_route :: "('ps, 'rx, 'ctx, 'es, 'rq, 'k) outside \<Rightarrow> authz_request \<Rightarrow> ('ps, response) route_io" where
  "check_route ox req = st_bind (gated_check ox req) (\<lambda>d. st_ret (ok_json (ox_decision_json ox d)))"

text \<open>A decision by its id: from the database, else from the audit file; a failing lookup counts as not found.\<close>

definition explain :: "('ps, 'rx, 'ctx, 'es, 'rq, 'k) outside \<Rightarrow> string \<Rightarrow> ('ps, response) route_io" where
  "explain ox i w =
     (let a = pw_app w;
          stored = (case ae_store (as_engine a) of
                      None \<Rightarrow> None
                    | Some s \<Rightarrow> (case on_store s (get_evidence (ox_store_codec ox) i) of Inr (Some d) \<Rightarrow> Some d | _ \<Rightarrow> None))
      in (case stored of
            Some d \<Rightarrow> st_ret (ok_json (ox_decision_json ox d))
          | None \<Rightarrow>
              st_bind (st_try (on_disk (find_decision (ox_audit_codec ox) (path_of (px_audit_path (as_cfg a))) i))) (\<lambda>r.
                case r of
                  Inr (Some d) \<Rightarrow> st_ret (ok_json (ox_decision_json ox d))
                | _ \<Rightarrow> st_fail (PxBadRequest (''decision '' @ i @ '' not found'')))) w)"

section \<open>The board\<close>

definition str_array :: "string list \<Rightarrow> json" where
  "str_array xs = JArr (map JStr xs)"

definition cell_json :: "matrix_cell \<Rightarrow> json" where
  "cell_json c =
     JObj [(''role'', JStr (mc_role c)), (''resource'', JStr (mc_resource c)), (''policies'', str_array (mc_policies c)),
       (''effect_summary'', JStr (mc_effect_summary c))]"

definition matrix_json :: "policy_matrix \<Rightarrow> json" where
  "matrix_json m =
     JObj [(''roles'', str_array (pm_roles m)), (''resources'', str_array (pm_resources m)), (''cells'', JArr (map cell_json (pm_cells m)))]"

definition active_document :: "path \<Rightarrow> string disk_io" where
  "active_document dir = st_bind (store_open dir) read_active_dsl"

definition board_page :: "('ps, response) route_io" where
  "board_page = st_ret \<lparr>rs_status = 200, rs_body = RPage\<rparr>"

definition board_matrix :: "('ps, response) route_io" where
  "board_matrix w =
     st_bind (st_try (on_disk (active_document (path_of (px_policy_dir (as_cfg (pw_app w))))))) (\<lambda>r.
       st_ret (ok_json (matrix_json (build_matrix (unwrap_or [] (parse_dsl (unwrap_or [] r))))))) w"

definition decisions_json :: "json list \<Rightarrow> response" where
  "decisions_json rows = ok_json (JObj [(''decisions'', JArr rows)])"

definition board_decisions :: "('ps, 'rx, 'ctx, 'es, 'rq, 'k) outside \<Rightarrow> ('ps, response) route_io" where
  "board_decisions ox w =
     (let a = pw_app w in
      case ae_store (as_engine a) of
        Some s \<Rightarrow>
          st_bind (st_lift (map_err (\<lambda>e. PxInternal (store_error_text e)) (on_store s (recent_audit (ox_store_codec ox) 50)))) (\<lambda>rows.
            st_ret (decisions_json rows)) w
      | None \<Rightarrow>
          st_bind (st_map_err (\<lambda>e. PxInternal (suggest_error_text e))
                    (on_disk (recent_decisions (ox_audit_codec ox) (path_of (px_audit_path (as_cfg a))) 50))) (\<lambda>rows.
            st_ret (decisions_json (map (ox_record_json ox) rows))) w)"

section \<open>MCP and A2A\<close>

definition mcp_check ::
  "('ps, 'rx, 'ctx, 'es, 'rq, 'k) outside \<Rightarrow> resource_catalog \<Rightarrow> principal \<Rightarrow> mcp_call_params \<Rightarrow> ('ps, authz_result) route_io" where
  "mcp_check ox cat p params =
     direct_check Mcp (authz_for_tool (ox_show_json ox) cat p (mp_name params) (mp_arguments params)) (\<lambda>a n.
       authorize_mcp_tool_call (ox_cedar ox) (ox_env ox n) (ox_show_json ox) p params cat (bc_evaluator_config (ae_bundle (as_engine a))))"

definition mcp_tools_call ::
  "('ps, 'rx, 'ctx, 'es, 'rq, 'k) outside \<Rightarrow> headers \<Rightarrow> mcp_call_params \<Rightarrow> ('ps, response) route_io" where
  "mcp_tools_call ox hs params =
     st_bind (asking ox hs) (\<lambda>p.
     st_bind (st_gets (\<lambda>w. ae_catalog (as_engine (pw_app w)))) (\<lambda>cat.
     st_bind (mcp_check ox cat p params) (\<lambda>z.
       let i = ev_decision_id (ad_evidence (az_decision z)) in
       if \<not> az_allowed z then st_fail (PxForbidden ''MCP tools/call denied'' i (ox_decision_json ox (az_decision z)))
       else st_bind (execute_tool ox \<lparr>tl_id = ox_uuid ox, tl_name = mp_name params, tl_arguments = mp_arguments params\<rparr>) (\<lambda>answer.
            st_bind (st_lift (lift_msg PxInternal answer)) (\<lambda>data.
              st_ret (ok_json (JObj [(''content'', data), (''decision_id'', JStr i)])))))))"

definition a2a_check ::
  "('ps, 'rx, 'ctx, 'es, 'rq, 'k) outside \<Rightarrow> principal \<Rightarrow> a2a_message \<Rightarrow> ('ps, authz_result) route_io" where
  "a2a_check ox p msg =
     direct_check A2a (a2a_request p msg) (\<lambda>a n.
       authorize_a2a_message (ox_cedar ox) (ox_env ox n) p msg (bc_evaluator_config (ae_bundle (as_engine a))))"

definition a2a_authorize ::
  "('ps, 'rx, 'ctx, 'es, 'rq, 'k) outside \<Rightarrow> headers \<Rightarrow> a2a_message \<Rightarrow> ('ps, response) route_io" where
  "a2a_authorize ox hs msg =
     st_bind (asking ox hs) (\<lambda>p.
     st_bind (a2a_check ox p msg) (\<lambda>z.
       st_ret (ok_json (JObj [(''allowed'', JBool (az_allowed z)), (''decision'', ox_decision_json ox (az_decision z))]))))"

section \<open>The router\<close>

datatype call =
    GetHealth
  | GetReady
  | GetMetrics
  | PostChat headers chat_completion_request
  | PostRetrieve headers retrieve_request
  | PostCheck authz_request
  | GetExplain string
  | GetBoard
  | GetBoardMatrix
  | GetBoardDecisions
  | PostMcp headers mcp_call_params
  | PostA2a headers a2a_message

fun handler :: "('ps, 'rx, 'ctx, 'es, 'rq, 'k) outside \<Rightarrow> call \<Rightarrow> ('ps, response) route_io" where
  "handler ox GetHealth = health"
| "handler ox GetReady = ready"
| "handler ox GetMetrics = metrics_page"
| "handler ox (PostChat hs body) = chat_completions ox hs body"
| "handler ox (PostRetrieve hs body) = retrieve ox hs body"
| "handler ox (PostCheck req) = check_route ox req"
| "handler ox (GetExplain i) = explain ox i"
| "handler ox GetBoard = board_page"
| "handler ox GetBoardMatrix = board_matrix"
| "handler ox GetBoardDecisions = board_decisions ox"
| "handler ox (PostMcp hs params) = mcp_tools_call ox hs params"
| "handler ox (PostA2a hs msg) = a2a_authorize ox hs msg"

fun answer :: "(proxy_error, response) result \<Rightarrow> response option" where
  "answer (Inr r) = Some r"
| "answer (Inl (Err e)) = (case into_response e of (st, j) \<Rightarrow> Some \<lparr>rs_status = st, rs_body = RJson j\<rparr>)"
| "answer (Inl (Panic m)) = None"

definition serve :: "('ps, 'rx, 'ctx, 'es, 'rq, 'k) outside \<Rightarrow> call \<Rightarrow> 'ps world \<Rightarrow> response option \<times> 'ps world" where
  "serve ox cl w = (case handler ox cl w of (r, w') \<Rightarrow> (answer r, w'))"

end
