(* ===== verification/Proxy_Invariants.thy ===== *)
theory Proxy_Invariants
  imports Proxy_Routes
begin

text \<open>
  The contract between the effects of \<open>Proxy_World\<close> and the handlers of \<open>Proxy_Routes\<close>. A property of the world that
  every effect keeps, where the upstream model and the tools may be assumed to be reached only right after a
  permission, is kept by every request; the locale proves this once, and the invariants below are its instances.
\<close>

section \<open>Permission\<close>

definition permits_tool :: "(json \<Rightarrow> string) \<Rightarrow> resource_catalog \<Rightarrow> event \<Rightarrow> tool_call \<Rightarrow> bool" where
  "permits_tool sh cat ev call \<longleftrightarrow>
     (\<exists>og p d. ev = EvDecided og (authz_for_tool sh cat p (tl_name call) (tl_arguments call)) d \<and>
        og \<in> {Gate, Mcp} \<and> ad_effect d = Allow)"

definition permits_chat :: "(rat \<Rightarrow> string) \<Rightarrow> resource_catalog \<Rightarrow> event \<Rightarrow> string \<Rightarrow> bool" where
  "permits_chat sf cat ev utterance \<longleftrightarrow>
     (\<exists>p req d. ev = EvDecided Gate req d \<and> ad_effect d = Allow \<and>
        bind_extraction sf p (unwrap_or (general_chat utterance) (extract_structured utterance)) (Some cat) = Ok req)"

definition utterance_of :: "chat_completion_request \<Rightarrow> string" where
  "utterance_of body = (case last_user_text (cc_messages body) of Some t \<Rightarrow> t | None \<Rightarrow> [])"

abbreviation catalog_of :: "'ps world \<Rightarrow> resource_catalog" where
  "catalog_of w \<equiv> ae_catalog (as_engine (pw_app w))"

definition just_permitted :: "'ps world \<Rightarrow> (resource_catalog \<Rightarrow> event \<Rightarrow> bool) \<Rightarrow> bool" where
  "just_permitted w allows \<longleftrightarrow> pw_trace w \<noteq> [] \<and> allows (catalog_of w) (last (pw_trace w))"

section \<open>Frames\<close>

lemma check_frame:
  assumes "check c sc env ms req e = (r, e')"
  shows "ae_bundle e' = ae_bundle e" "ae_catalog e' = ae_catalog e" "ae_require_signed e' = ae_require_signed e"
    "ae_mode e' = ae_mode e" "ae_store e = None \<Longrightarrow> ae_store e' = None"
  using assms by (auto simp: check_def Let_def audit_decision_def split: if_split_asm sum.split_asm option.split_asm)

lemma engine_check_frame:
  assumes "engine_check ox og req w = (r, w')"
  shows "catalog_of w' = catalog_of w"
    "pw_trace w' = pw_trace w @ [case r of Inl _ \<Rightarrow> EvUndecided og req | Inr d \<Rightarrow> EvDecided og req d]"
  using assms check_frame(2)
  by (auto simp: engine_check_def Let_def record_event_def split: prod.split_asm)

lemma update_metrics_frame [simp]:
  "update_metrics f w = (Ok (), w\<lparr>pw_app := (pw_app w)\<lparr>as_metrics := f (as_metrics (pw_app w))\<rparr>\<rparr>)"
  by (simp add: update_metrics_def)

lemma gated_check_Ok:
  assumes "gated_check ox req w = (Inr d, w')"
  shows "catalog_of w' = catalog_of w" "pw_trace w' = pw_trace w @ [EvDecided Gate req d]"
  using assms engine_check_frame
  by (fastforce simp: gated_check_def st_bind_Inr_iff)+

lemma mcp_check_Ok:
  assumes "mcp_check ox cat p params w = (Inr z, w')"
  shows "catalog_of w' = catalog_of w"
    "pw_trace w' = pw_trace w @
       [EvDecided Mcp (authz_for_tool (ox_show_json ox) cat p (mp_name params) (mp_arguments params)) (az_decision z)]"
    "az_allowed z = (ad_effect (az_decision z) = Allow)"
  using assms
  by (auto simp: mcp_check_def direct_check_def record_event_def authorize_mcp_tool_call_def Let_def and_then_Inr_iff
      split: sum.split_asm)

lemma asking_catalog: "catalog_of (snd (asking ox hs w)) = catalog_of w"
  by (simp add: asking_def Let_def split: prod.split)


section \<open>The contract\<close>

locale world_invariant =
  fixes ox :: "('ps, 'rx, 'ctx, 'es, 'rq, 'k) outside"
    and I :: "'ps world \<Rightarrow> bool"
  assumes keeps_asking: "I w \<Longrightarrow> I (snd (asking ox hs w))"
    and keeps_gated: "I w \<Longrightarrow> I (snd (gated_check ox req w))"
    and keeps_retrieval: "I w \<Longrightarrow> I (snd (engine_check ox Retrieval req w))"
    and keeps_mcp: "I w \<Longrightarrow> I (snd (mcp_check ox (catalog_of w) p params w))"
    and keeps_a2a: "I w \<Longrightarrow> I (snd (a2a_check ox p msg w))"
    and keeps_upstream: "I w \<Longrightarrow>
      utterance_of body = [] \<or> just_permitted w (\<lambda>cat ev. permits_chat (ox_show_f32 ox) cat ev (utterance_of body)) \<Longrightarrow>
      I (snd (call_upstream ox body w))"
    and keeps_tool: "I w \<Longrightarrow> just_permitted w (\<lambda>cat ev. permits_tool (ox_show_json ox) cat ev call) \<Longrightarrow>
      I (snd (execute_tool ox call w))"
    and keeps_disk: "I w \<Longrightarrow> I (w\<lparr>pw_disk := d\<rparr>)"
begin

lemma keeps_gated_check:
  "keeps I (\<lambda>w. catalog_of w = cat) (gated_check ox req)
     (\<lambda>d w. catalog_of w = cat \<and> pw_trace w \<noteq> [] \<and> last (pw_trace w) = EvDecided Gate req d)"
proof (rule keepsI, intro conjI allI impI)
  fix w x assume I: "I w" "catalog_of w = cat" "fst (gated_check ox req w) = Inr x"
  then have "gated_check ox req w = (Inr x, snd (gated_check ox req w))" by (metis prod.collapse)
  from gated_check_Ok [OF this] I(2)
  show "catalog_of (snd (gated_check ox req w)) = cat" "pw_trace (snd (gated_check ox req w)) \<noteq> []"
    "last (pw_trace (snd (gated_check ox req w))) = EvDecided Gate req x" by simp_all
qed (use keeps_gated in blast)

lemma keeps_execute:
  "(\<And>w. P w \<Longrightarrow> just_permitted w (\<lambda>cat ev. permits_tool (ox_show_json ox) cat ev call)) \<Longrightarrow>
   keeps I P (execute_tool ox call) (\<lambda>_ _. True)"
  by (simp add: keeps_def keeps_tool)

lemma keeps_execute_catalog:
  assumes "\<And>w. P w \<Longrightarrow> just_permitted w (\<lambda>cat ev. permits_tool (ox_show_json ox) cat ev call)" "\<And>w. P w \<Longrightarrow> catalog_of w = cat"
  shows "keeps I P (execute_tool ox call) (\<lambda>_ w. catalog_of w = cat)"
  using assms keeps_tool by (auto simp: keeps_def execute_tool_def record_event_def)

lemma keeps_filter_tool_call: "keeps I (\<lambda>w. catalog_of w = cat) (filter_tool_call ox p tc out) (\<lambda>_ w. catalog_of w = cat)"
proof -
  let ?req = "tool_call_request ox cat p tc" and ?call = "tool_call_of (ox_parse_json ox) tc"
  have exec: "keeps I (\<lambda>w. catalog_of w = cat \<and> pw_trace w \<noteq> [] \<and> last (pw_trace w) = EvDecided Gate ?req d)
      (execute_tool ox ?call) (\<lambda>_ w. catalog_of w = cat)" if "ad_effect d = Allow" for d
  proof (rule keeps_execute_catalog)
    fix w :: "'ps world"
    assume "catalog_of w = cat \<and> pw_trace w \<noteq> [] \<and> last (pw_trace w) = EvDecided Gate ?req d"
    then show "just_permitted w (\<lambda>cat ev. permits_tool (ox_show_json ox) cat ev ?call)"
      using that by (auto simp: just_permitted_def permits_tool_def tool_call_request_def tool_call_of_def)
  qed simp
  have "keeps I (\<lambda>w. catalog_of w = cat) (st_bind (gated_check ox ?req) (\<lambda>d.
       if ad_effect d = Allow
       then st_bind (st_gets (\<lambda>w. cn_execute_tools (px_connectors (as_cfg (pw_app w))))) (\<lambda>run.
            st_bind (if run then st_bind (execute_tool ox ?call) (\<lambda>_. st_ret ()) else st_ret ()) (\<lambda>_. st_ret (out @ [tc])))
       else st_ret out)) (\<lambda>_ w. catalog_of w = cat)"
    by (rule keeps_bind [OF keeps_gated_check], intro keeps_if
        keeps_bind [where R = "\<lambda>_ w. catalog_of w = cat \<and> pw_trace w \<noteq> [] \<and> last (pw_trace w) = EvDecided Gate ?req d" for d]
        keeps_bind [where R = "\<lambda>_ w. catalog_of w = cat"] keeps_bind [OF exec] keeps_pure) auto
  then show ?thesis
    unfolding filter_tool_call_def
    by (intro keeps_bind [where R = "\<lambda>c w. c = cat \<and> catalog_of w = cat"] keeps_assuming keeps_pure) auto
qed

lemma keeps_intercept: "keeps I (\<lambda>w. catalog_of w = cat) (intercept ox p j) (\<lambda>_ w. catalog_of w = cat)"
proof -
  have f: "keeps I (\<lambda>w. catalog_of w = cat) (filter_tool_calls ox p tcs) (\<lambda>_ w. catalog_of w = cat)" for tcs
    unfolding filter_tool_calls_def
    by (cases tcs) (simp_all only: json.case, (rule keeps_pure keeps_fold keeps_filter_tool_call; assumption?)+)
  have m: "keeps I (\<lambda>w. catalog_of w = cat) (rewrite_message ox p msg) (\<lambda>_ w. catalog_of w = cat)" for msg
    unfolding rewrite_message_def
    by (cases "json_get msg ''tool_calls''") (simp_all only: option.case, (intro keeps_bind [OF f] keeps_pure; assumption)+)
  have c: "keeps I (\<lambda>w. catalog_of w = cat) (rewrite_choice ox p choice) (\<lambda>_ w. catalog_of w = cat)" for choice
    unfolding rewrite_choice_def
    by (cases "json_get choice ''message''") (simp_all only: option.case, (intro keeps_bind [OF m] keeps_pure; assumption)+)
  have cs: "keeps I (\<lambda>w. catalog_of w = cat) (st_bind (st_map (rewrite_choice ox p) choices)
      (\<lambda>cs. st_ret (obj_insert ''choices'' (JArr cs) j))) (\<lambda>_ w. catalog_of w = cat)" for choices
    by (intro keeps_bind [OF keeps_map [OF c]] keeps_pure)
  have r: "keeps I (\<lambda>w. catalog_of w = cat) (st_ret j) (\<lambda>_ w. catalog_of w = cat)" by (rule keeps_pure)
  show ?thesis
    unfolding intercept_def using r cs by (auto split: option.split json.split)
qed

lemma keeps_relay: "keeps I (\<lambda>w. catalog_of w = cat) (relay ox p streaming ans) (\<lambda>_ _. True)"
  unfolding relay_def
  by (cases ans) (simp only: prod.case, intro keeps_if keeps_pure TrueI
      keeps_bind [where R = "\<lambda>_ w. catalog_of w = cat"] keeps_intercept; assumption)

lemma keeps_principal: "keeps I (\<lambda>_. True) (asking ox hs) (\<lambda>_ _. True)"
  by (simp add: keeps_def keeps_asking)

lemma keeps_authorize:
  "keeps I (\<lambda>_. True) (authorize_utterance ox p u)
     (\<lambda>_ w. just_permitted w (\<lambda>cat ev. permits_chat (ox_show_f32 ox) cat ev u))"
proof -
  have "keeps I (\<lambda>w. catalog_of w = cat) (st_bind (gated_check ox req) (\<lambda>d.
       if ad_effect d \<noteq> Allow then st_fail (denied_chat ox req d) else st_ret ()))
     (\<lambda>_ w. just_permitted w (\<lambda>cat ev. permits_chat (ox_show_f32 ox) cat ev u))"
    if "utterance_request ox cat p u = Ok req" for cat req
    using that
    by (intro keeps_bind [OF keeps_gated_check] keeps_if keeps_pure)
      (auto simp: just_permitted_def permits_chat_def utterance_request_def)
  then have "keeps I (\<lambda>w. catalog_of w = cat) (st_bind (st_lift (utterance_request ox cat p u)) (\<lambda>req.
       st_bind (gated_check ox req) (\<lambda>d. if ad_effect d \<noteq> Allow then st_fail (denied_chat ox req d) else st_ret ())))
     (\<lambda>_ w. just_permitted w (\<lambda>cat ev. permits_chat (ox_show_f32 ox) cat ev u))" for cat
    by (intro keeps_bind [where R = "\<lambda>req w. utterance_request ox cat p u = Ok req \<and> catalog_of w = cat"] keeps_pure keeps_assuming) auto
  then show ?thesis
    unfolding authorize_utterance_def
    by (intro keeps_bind [where R = "\<lambda>cat w. catalog_of w = cat"] keeps_pure) auto
qed

lemma keeps_chat: "keeps I (\<lambda>_. True) (chat_completions ox hs body) (\<lambda>_ _. True)"
proof -
  let ?Q = "\<lambda>w. utterance_of body = [] \<or> just_permitted w (\<lambda>cat ev. permits_chat (ox_show_f32 ox) cat ev (utterance_of body))"
  have "keeps I (\<lambda>_. True) (if utterance_of body \<noteq> [] then authorize_utterance ox p (utterance_of body) else st_ret ()) (\<lambda>_. ?Q)" for p
    by (intro keeps_if keeps_weaken [OF keeps_authorize] keeps_pure) auto
  moreover have "keeps I ?Q (call_upstream ox body) (\<lambda>_ _. True)"
    using keeps_upstream by (simp add: keeps_def)
  moreover have "keeps I (\<lambda>_. True) (relay ox p streaming ans) (\<lambda>_ _. True)" for p streaming ans
    using keeps_relay by (simp add: keeps_def)
  ultimately show ?thesis
    unfolding chat_completions_def utterance_of_def [symmetric] Let_def
    by (intro keeps_bind [OF keeps_principal] keeps_bind [where R = "\<lambda>_. ?Q"] keeps_bind [where R = "\<lambda>_ _. True"])
qed

lemma keeps_retrieve: "keeps I (\<lambda>_. True) (retrieve ox hs body) (\<lambda>_ _. True)"
proof -
  have "keeps I (\<lambda>_. True) (engine_check ox Retrieval req) (\<lambda>_ _. True)" for req
    by (simp add: keeps_def keeps_retrieval)
  then have "keeps I (\<lambda>_. True) (engine_allow_or_forbid ox req) (\<lambda>_ _. True)" for req
    unfolding engine_allow_or_forbid_def
    by (intro keeps_bind [where R = "\<lambda>_ _. True"] keeps_if keeps_pure) auto
  then show ?thesis
    unfolding retrieve_def by (intro keeps_bind [OF keeps_principal] keeps_bind [where R = "\<lambda>_ _. True"] keeps_pure) auto
qed

lemma keeps_check_route: "keeps I (\<lambda>_. True) (check_route ox req) (\<lambda>_ _. True)"
proof -
  have "keeps I (\<lambda>_. True) (gated_check ox req) (\<lambda>_ _. True)" by (simp add: keeps_def keeps_gated)
  then show ?thesis
    unfolding check_route_def by (intro keeps_bind [where R = "\<lambda>_ _. True"] keeps_pure) auto
qed

lemma keeps_on_disk: "I w \<Longrightarrow> I (snd (on_disk m w))"
  by (simp add: on_disk_def st_zoom_def keeps_disk split: prod.split)

lemma snd_bind_pure: "(\<And>x. snd (f x (snd (m w))) = snd (m w)) \<Longrightarrow> snd (st_bind m f w) = snd (m w)"
  by (cases "m w"; cases "fst (m w)") (auto simp: st_bind_def)

lemma snd_wrapped: "snd (st_try m w) = snd (m w)" "snd (st_map_err g m w) = snd (m w)"
  by (simp_all add: st_try_def st_map_err_def split: prod.split)

lemma keeps_reading:
  "I w \<Longrightarrow> I (snd (explain ox i w))" "I w \<Longrightarrow> I (snd (board_matrix w))" "I w \<Longrightarrow> I (snd (board_decisions ox w))"
proof -
  assume I: "I w"
  have f: "snd ((case r of Inr (Some d) \<Rightarrow> st_ret (ok_json (ox_decision_json ox d)) | _ \<Rightarrow> st_fail e) u) = u"
    for r and e :: proxy_error and u :: "'ps world"
    by (auto split: sum.split option.split)
  show "I (snd (explain ox i w))"
    using I keeps_on_disk [OF I]
    by (auto simp: explain_def Let_def snd_bind_pure f snd_wrapped split: option.split sum.split)
  show "I (snd (board_matrix w))"
    using keeps_on_disk [OF I] by (simp add: board_matrix_def snd_bind_pure snd_wrapped)
  show "I (snd (board_decisions ox w))"
    using I keeps_on_disk [OF I]
    by (auto simp: board_decisions_def Let_def snd_bind_pure snd_wrapped split: option.split)
qed

lemma keeps_mcp_route: "keeps I (\<lambda>_. True) (mcp_tools_call ox hs params) (\<lambda>_ _. True)"
proof -
  let ?call = "\<lparr>tl_id = ox_uuid ox, tl_name = mp_name params, tl_arguments = mp_arguments params\<rparr>"
  have check: "keeps I (\<lambda>w. catalog_of w = cat) (mcp_check ox cat p params)
      (\<lambda>z w. az_allowed z \<longrightarrow> just_permitted w (\<lambda>cat ev. permits_tool (ox_show_json ox) cat ev ?call))" for cat p
  proof (rule keepsI, intro conjI allI impI)
    fix w assume "I w" "catalog_of w = cat"
    then show "I (snd (mcp_check ox cat p params w))" using keeps_mcp by blast
  next
    fix w z assume w: "catalog_of w = cat" "fst (mcp_check ox cat p params w) = Inr z" "az_allowed z"
    then have "mcp_check ox cat p params w = (Inr z, snd (mcp_check ox cat p params w))" by (metis prod.collapse)
    from mcp_check_Ok [OF this] w
    show "just_permitted (snd (mcp_check ox cat p params w)) (\<lambda>cat ev. permits_tool (ox_show_json ox) cat ev ?call)"
      by (auto simp: just_permitted_def permits_tool_def)
  qed
  have exec: "keeps I (\<lambda>w. just_permitted w (\<lambda>cat ev. permits_tool (ox_show_json ox) cat ev ?call)) (execute_tool ox ?call) (\<lambda>_ _. True)"
    by (rule keeps_execute)
  have rest: "keeps I (\<lambda>w. az_allowed z \<longrightarrow> just_permitted w (\<lambda>cat ev. permits_tool (ox_show_json ox) cat ev ?call))
     (if \<not> az_allowed z then st_fail (PxForbidden ''MCP tools/call denied'' i (ox_decision_json ox (az_decision z)))
       else st_bind (execute_tool ox ?call) (\<lambda>answer. st_bind (st_lift (lift_msg PxInternal answer)) (\<lambda>data.
              st_ret (ok_json (JObj [(''content'', data), (''decision_id'', JStr i)]))))) (\<lambda>_ _. True)" for z i
    by (intro keeps_if keeps_pure keeps_bind [OF keeps_weaken [OF exec]] keeps_bind [where R = "\<lambda>_ _. True"]) auto
  have cat: "keeps I (\<lambda>_. True) (st_gets catalog_of) (\<lambda>cat w. catalog_of w = cat)" by (rule keeps_pure) simp
  show ?thesis
    unfolding mcp_tools_call_def Let_def
    by (rule keeps_bind [OF keeps_principal], rule keeps_bind [OF cat], rule keeps_bind [OF check], rule rest)
qed

lemma keeps_a2a_route: "keeps I (\<lambda>_. True) (a2a_authorize ox hs msg) (\<lambda>_ _. True)"
proof -
  have "keeps I (\<lambda>_. True) (a2a_check ox p msg) (\<lambda>_ _. True)" for p by (simp add: keeps_def keeps_a2a)
  then show ?thesis
    unfolding a2a_authorize_def by (intro keeps_bind [OF keeps_principal] keeps_bind [where R = "\<lambda>_ _. True"] keeps_pure) auto
qed

lemma keeps_serve: "I w \<Longrightarrow> I (snd (serve ox cl w))"
proof -
  assume I: "I w"
  have "I (snd (handler ox cl w))"
  proof (cases cl)
    case GetReady
    then show ?thesis using I by (auto simp: ready_def Let_def st_bind_def split: sum.split)
  qed (simp_all add: I keeps_reading health_def metrics_page_def board_page_def keepsD [OF keeps_chat I] keepsD [OF keeps_retrieve I]
      keepsD [OF keeps_check_route I] keepsD [OF keeps_mcp_route I] keepsD [OF keeps_a2a_route I])
  then show "I (snd (serve ox cl w))" by (cases "handler ox cl w") (simp add: serve_def)
qed

end

end
