(* ===== verification/Proxy_Safety.thy ===== *)
theory Proxy_Safety
  imports Proxy_Invariants
begin

text \<open>
  What holds of a gateway whatever requests it is sent, in whatever order, with its audit writer and other users of
  its disk in between: its state keeps its shape, nothing leaves it undecided, its counters count its
  decisions, and its audit queue is the list of its audited decisions. Each invariant is an instance of the contract of
  \<open>Proxy_Invariants\<close>.
\<close>

section \<open>Runs\<close>

definition world_new :: "proxy_config \<Rightarrow> 'ps authz_engine \<Rightarrow> disk \<Rightarrow> 'ps world" where
  "world_new cfg e d = \<lparr>pw_app = app_state_new cfg e, pw_disk = d, pw_trace = []\<rparr>"

text \<open>Requests may see different clocks and upstreams, but the same libraries and codecs.\<close>

definition same_libraries ::
  "('ps, 'rx, 'ctx, 'es, 'rq, 'k) outside \<Rightarrow> ('ps, 'rx, 'ctx, 'es, 'rq, 'k) outside \<Rightarrow> bool" where
  "same_libraries a b \<longleftrightarrow> ox_cedar a = ox_cedar b \<and> ox_jwt a = ox_jwt b \<and> ox_store_codec a = ox_store_codec b \<and>
     ox_show_json a = ox_show_json b \<and> ox_show_f32 a = ox_show_f32 b"

definition put_store :: "paac_store \<Rightarrow> 'ps world \<Rightarrow> 'ps world" where
  "put_store s w = w\<lparr>pw_app := (pw_app w)\<lparr>as_engine := (as_engine (pw_app w))\<lparr>ae_store := Some s\<rparr>\<rparr>\<rparr>"

inductive reached ::
  "('ps, 'rx, 'ctx, 'es, 'rq, 'k) outside \<Rightarrow> proxy_config \<Rightarrow> 'ps authz_engine \<Rightarrow> 'ps world \<Rightarrow> bool"
  for lib :: "('ps, 'rx, 'ctx, 'es, 'rq, 'k) outside" and cfg :: proxy_config and e :: "'ps authz_engine" where
  reach_new: "reached lib cfg e (world_new cfg e d)"
| reach_serve: "reached lib cfg e w \<Longrightarrow> same_libraries ox lib \<Longrightarrow> serve ox cl w = (r, w') \<Longrightarrow> reached lib cfg e w'"
| reach_writer: "reached lib cfg e w \<Longrightarrow> ae_store (as_engine (pw_app w)) = Some s \<Longrightarrow> writer_step s s' \<Longrightarrow>
    reached lib cfg e (put_store s' w)"
| reach_disk: "reached lib cfg e w \<Longrightarrow> reached lib cfg e (w\<lparr>pw_disk := d\<rparr>)"

inductive_cases reachedE: "reached lib cfg e w"

lemma reached_invariant:
  assumes "reached lib cfg e w" "\<And>d. I (world_new cfg e d)"
    and "\<And>ox. same_libraries ox lib \<Longrightarrow> world_invariant ox I"
    and "\<And>w s s'. I w \<Longrightarrow> ae_store (as_engine (pw_app w)) = Some s \<Longrightarrow> writer_step s s' \<Longrightarrow> I (put_store s' w)"
    and "\<And>w d. I w \<Longrightarrow> I (w\<lparr>pw_disk := d\<rparr>)"
  shows "I w"
  using assms(1)
proof induction
  case (reach_serve w ox cl r w')
  then show ?case using world_invariant.keeps_serve [OF assms(3) [OF reach_serve(2)] reach_serve(4), of cl] by simp
qed (use assms in auto)

section \<open>The effects one by one\<close>

lemma asking_eq:
  "asking ox hs w = (case resolve_principal (ox_jwt ox) (ox_now ox) (ox_later ox) hs (as_cfg (pw_app w)) (as_jwt (pw_app w))
       (as_identity_cache (pw_app w)) of (r, c) \<Rightarrow> (r, w\<lparr>pw_app := (pw_app w)\<lparr>as_identity_cache := c\<rparr>\<rparr>))"
  by (simp add: asking_def Let_def)

lemma engine_check_cases:
  obtains d where "evaluate (ox_cedar ox) (ox_env ox (length (pw_trace w))) req (to_evaluator_config (bc_load (ae_bundle (as_engine (pw_app w))))) = Ok d"
      "is_ready (as_engine (pw_app w)) = Ok ()"
      "engine_check ox og req w = (Ok d, record_event (EvDecided og req d) (w\<lparr>pw_app := (pw_app w)\<lparr>as_engine :=
         audit_decision (ox_store_codec ox) d (word_of_nat (ox_elapsed_ms ox (length (pw_trace w))))
           (hb_signature_key_id (bc_load (ae_bundle (as_engine (pw_app w))))) (as_engine (pw_app w))\<rparr>\<rparr>))"
    | f where "engine_check ox og req w = (Inl f, record_event (EvUndecided og req) w)"
proof -
  let ?n = "length (pw_trace w)"
  obtain r e where c: "check (ox_cedar ox) (ox_store_codec ox) (ox_env ox ?n) (ox_elapsed_ms ox ?n) req (as_engine (pw_app w)) = (r, e)"
    by fastforce
  show thesis
  proof (cases r)
    case (Inl f)
    then have "e = as_engine (pw_app w)"
      using c by (auto simp: check_def Let_def split: if_split_asm sum.split_asm)
    then show thesis using that(2) [of f] c Inl by (simp add: engine_check_def Let_def)
  next
    case (Inr d)
    note ok = c [unfolded Inr]
    have "is_ready (as_engine (pw_app w)) = Ok ()"
      using ok by (auto simp: check_def is_ready_def Let_def split: if_split_asm)
    then show thesis using that(1) [of d] check_Ok [OF ok] c Inr by (simp add: engine_check_def Let_def)
  qed
qed

lemma update_order:
  "w\<lparr>pw_trace := t, pw_app := a\<rparr> = w\<lparr>pw_app := a, pw_trace := t\<rparr>" "a'\<lparr>as_metrics := m, as_engine := x\<rparr> = a'\<lparr>as_engine := x, as_metrics := m\<rparr>"
  by simp_all

lemma gated_check_cases:
  obtains d where "evaluate (ox_cedar ox) (ox_env ox (length (pw_trace w))) req (to_evaluator_config (bc_load (ae_bundle (as_engine (pw_app w))))) = Ok d"
      "is_ready (as_engine (pw_app w)) = Ok ()"
      "gated_check ox req w = (Ok d, record_event (EvDecided Gate req d) (w\<lparr>pw_app := (pw_app w)
         \<lparr>as_engine := audit_decision (ox_store_codec ox) d (word_of_nat (ox_elapsed_ms ox (length (pw_trace w))))
             (hb_signature_key_id (bc_load (ae_bundle (as_engine (pw_app w))))) (as_engine (pw_app w)),
          as_metrics := (if ad_effect d = Allow then count_allow else count_deny) (count_check (as_metrics (pw_app w)))\<rparr>\<rparr>))"
    | f where "gated_check ox req w = (Inl f, record_event (EvUndecided Gate req)
         (w\<lparr>pw_app := (pw_app w)\<lparr>as_metrics := count_check (as_metrics (pw_app w))\<rparr>\<rparr>))"
proof -
  let ?w = "w\<lparr>pw_app := (pw_app w)\<lparr>as_metrics := count_check (as_metrics (pw_app w))\<rparr>\<rparr>"
  show thesis
    by (rule engine_check_cases [of ox ?w req Gate])
      (rule that; simp add: gated_check_def st_bind_def record_event_def update_order)+
qed

lemma mcp_check_cases:
  obtains z where "evaluate (ox_cedar ox) (ox_env ox (length (pw_trace w)))
        (authz_for_tool (ox_show_json ox) cat p (mp_name params) (mp_arguments params))
        (to_evaluator_config (bc_load (ae_bundle (as_engine (pw_app w))))) = Ok (az_decision z)"
      "az_allowed z = (ad_effect (az_decision z) = Allow)"
      "mcp_check ox cat p params w = (Ok z, record_event
         (EvDecided Mcp (authz_for_tool (ox_show_json ox) cat p (mp_name params) (mp_arguments params)) (az_decision z)) w)"
    | f req where "mcp_check ox cat p params w = (Inl f, record_event (EvUndecided Mcp req) w)"
proof -
  let ?r = "evaluate (ox_cedar ox) (ox_env ox (length (pw_trace w))) (authz_for_tool (ox_show_json ox) cat p (mp_name params) (mp_arguments params))
        (to_evaluator_config (bc_load (ae_bundle (as_engine (pw_app w)))))"
  show thesis
  proof (cases ?r)
    case (Inl f)
    then show thesis
      using that(2) by (cases f) (simp_all add: mcp_check_def direct_check_def authorize_mcp_tool_call_def Let_def bc_evaluator_config_def)
  next
    case (Inr d)
    then show thesis
      using that(1) [of "\<lparr>az_allowed = (ad_effect d = Allow), az_decision = d\<rparr>"] by (simp add: mcp_check_def direct_check_def authorize_mcp_tool_call_def Let_def bc_evaluator_config_def)
  qed
qed

lemma a2a_check_cases:
  obtains z where "evaluate (ox_cedar ox) (ox_env ox (length (pw_trace w))) (a2a_request p msg)
        (to_evaluator_config (bc_load (ae_bundle (as_engine (pw_app w))))) = Ok (az_decision z)"
      "az_allowed z = (ad_effect (az_decision z) = Allow)"
      "a2a_check ox p msg w = (Ok z, record_event (EvDecided A2a (a2a_request p msg) (az_decision z)) w)"
    | f req where "a2a_check ox p msg w = (Inl f, record_event (EvUndecided A2a req) w)"
proof -
  let ?r = "evaluate (ox_cedar ox) (ox_env ox (length (pw_trace w))) (a2a_request p msg)
        (to_evaluator_config (bc_load (ae_bundle (as_engine (pw_app w)))))"
  show thesis
  proof (cases ?r)
    case (Inl f)
    then show thesis
      using that(2) by (cases f) (simp_all add: a2a_check_def direct_check_def authorize_a2a_message_def bc_evaluator_config_def)
  next
    case (Inr d)
    then show thesis
      using that(1) [of "\<lparr>az_allowed = (ad_effect d = Allow), az_decision = d\<rparr>"] by (simp add: a2a_check_def direct_check_def authorize_a2a_message_def bc_evaluator_config_def)
  qed
qed

lemma call_upstream_eq:
  "snd (call_upstream ox body w) =
     record_event (EvUpstream (upstream_url (as_cfg (pw_app w))) (up_api_key (px_upstream (as_cfg (pw_app w)))) body)
       (w\<lparr>pw_app := (pw_app w)\<lparr>as_metrics := count_upstream (as_metrics (pw_app w))\<rparr>\<rparr>)"
  by (simp add: call_upstream_def Let_def st_bind_def)

lemma execute_tool_eq: "snd (execute_tool ox call w) = record_event (EvTool call) w"
  by (simp add: execute_tool_def)

section \<open>The shape of the state\<close>

text \<open>The parts of the state that no request changes, and the cache, which holds accepted tokens only.\<close>

definition app_ok ::
  "('ps, 'rx, 'ctx, 'es, 'rq, 'k) outside \<Rightarrow> proxy_config \<Rightarrow> 'ps authz_engine \<Rightarrow> 'ps app_state \<Rightarrow> bool" where
  "app_ok lib cfg e a \<longleftrightarrow>
     as_cfg a = cfg \<and> as_jwt a = jwt_of_config cfg \<and> as_connector a = connector_of_config cfg \<and>
     ae_bundle (as_engine a) = ae_bundle e \<and> ae_catalog (as_engine a) = ae_catalog e \<and>
     ae_require_signed (as_engine a) = ae_require_signed e \<and> ae_mode (as_engine a) = ae_mode e \<and>
     (ae_store (as_engine a) = None \<longleftrightarrow> ae_store e = None) \<and>
     cache_from_tokens (ox_jwt lib) cfg (jwt_of_config cfg) (as_identity_cache a)"

text \<open>What may stand in the trace, given what stands before it.\<close>

fun event_ok ::
  "('ps, 'rx, 'ctx, 'es, 'rq, 'k) outside \<Rightarrow> proxy_config \<Rightarrow> 'ps authz_engine \<Rightarrow> event list \<Rightarrow> event \<Rightarrow> bool" where
  "event_ok lib cfg e before (EvDecided og req d) \<longleftrightarrow>
     (\<exists>env. evaluate (ox_cedar lib) env req (to_evaluator_config (bc_load (ae_bundle e))) = Ok d) \<and>
     (og \<in> {Gate, Retrieval} \<longrightarrow> is_ready e = Ok ())"
| "event_ok lib cfg e before (EvUndecided og req) \<longleftrightarrow> True"
| "event_ok lib cfg e before (EvUpstream url key body) \<longleftrightarrow>
     url = upstream_url cfg \<and> key = up_api_key (px_upstream cfg) \<and>
     (utterance_of body = [] \<or> before \<noteq> [] \<and> permits_chat (ox_show_f32 lib) (ae_catalog e) (last before) (utterance_of body))"
| "event_ok lib cfg e before (EvTool call) \<longleftrightarrow>
     before \<noteq> [] \<and> permits_tool (ox_show_json lib) (ae_catalog e) (last before) call"

definition trace_ok ::
  "('ps, 'rx, 'ctx, 'es, 'rq, 'k) outside \<Rightarrow> proxy_config \<Rightarrow> 'ps authz_engine \<Rightarrow> event list \<Rightarrow> bool" where
  "trace_ok lib cfg e tr \<longleftrightarrow> (\<forall>i<length tr. event_ok lib cfg e (take i tr) (tr ! i))"

lemma trace_ok_snoc [simp]: "trace_ok lib cfg e (tr @ [ev]) \<longleftrightarrow> trace_ok lib cfg e tr \<and> event_ok lib cfg e tr ev"
  by (auto simp: trace_ok_def nth_append less_Suc_eq)

lemma trace_ok_Nil [simp]: "trace_ok lib cfg e []"
  by (simp add: trace_ok_def)

definition world_ok ::
  "('ps, 'rx, 'ctx, 'es, 'rq, 'k) outside \<Rightarrow> proxy_config \<Rightarrow> 'ps authz_engine \<Rightarrow> 'ps world \<Rightarrow> bool" where
  "world_ok lib cfg e w \<longleftrightarrow> app_ok lib cfg e (pw_app w) \<and> trace_ok lib cfg e (pw_trace w)"

lemma audit_decision_frame [simp]:
  "ae_bundle (audit_decision sc d l k e) = ae_bundle e" "ae_catalog (audit_decision sc d l k e) = ae_catalog e"
  "ae_require_signed (audit_decision sc d l k e) = ae_require_signed e" "ae_mode (audit_decision sc d l k e) = ae_mode e"
  "ae_store (audit_decision sc d l k e) = None \<longleftrightarrow> ae_store e = None"
  by (auto simp: audit_decision_def split: option.split)

lemma record_event_frame [simp]:
  "pw_app (record_event ev w) = pw_app w" "pw_trace (record_event ev w) = pw_trace w @ [ev]" "pw_disk (record_event ev w) = pw_disk w"
  by (simp_all add: record_event_def)

lemma app_ok_ready: "app_ok lib cfg e a \<Longrightarrow> is_ready (as_engine a) = is_ready e"
  by (simp add: app_ok_def is_ready_def)

lemma app_ok_metrics: "app_ok lib cfg e (a\<lparr>as_metrics := m\<rparr>) = app_ok lib cfg e a"
  by (simp add: app_ok_def)

lemma app_ok_audit:
  "app_ok lib cfg e (a\<lparr>as_engine := audit_decision sc d l k (as_engine a)\<rparr>) = app_ok lib cfg e a"
  "app_ok lib cfg e (a\<lparr>as_engine := audit_decision sc d l k (as_engine a), as_metrics := m\<rparr>) = app_ok lib cfg e a"
  by (simp_all add: app_ok_def)

lemma world_ok_asking:
  assumes "world_ok lib cfg e w" "ox_jwt ox = ox_jwt lib"
  shows "world_ok lib cfg e (snd (asking ox hs w))"
proof -
  let ?a = "pw_app w"
  have a: "as_cfg ?a = cfg" "as_jwt ?a = jwt_of_config cfg" "cache_from_tokens (ox_jwt lib) cfg (jwt_of_config cfg) (as_identity_cache ?a)"
    using assms(1) by (simp_all add: world_ok_def app_ok_def)
  obtain r c where rc: "resolve_principal (ox_jwt ox) (ox_now ox) (ox_later ox) hs (as_cfg ?a) (as_jwt ?a) (as_identity_cache ?a) = (r, c)"
    by fastforce
  have "cache_from_tokens (ox_jwt lib) cfg (jwt_of_config cfg) c"
    using preservesD [OF resolve_principal_inv a(3)] rc assms(2) a by simp
  moreover have "snd (asking ox hs w) = w\<lparr>pw_app := ?a\<lparr>as_identity_cache := c\<rparr>\<rparr>"
    by (simp only: asking_eq rc prod.case snd_conv)
  ultimately show ?thesis using assms(1) by (simp add: world_ok_def app_ok_def)
qed

lemma world_ok_invariant:
  fixes ox :: "('ps, 'rx, 'ctx, 'es, 'rq, 'k) outside"
  assumes "same_libraries ox lib"
  shows "world_invariant ox (world_ok lib cfg e)"
proof -
  have lib: "ox_cedar ox = ox_cedar lib" "ox_jwt ox = ox_jwt lib" "ox_show_json ox = ox_show_json lib" "ox_show_f32 ox = ox_show_f32 lib"
    using assms by (simp_all add: same_libraries_def)
  show ?thesis
  proof (unfold_locales, goal_cases)
    case (1 w hs)
    then show ?case by (rule world_ok_asking [OF _ lib(2)])
  next
    case (2 w req)
    then show ?case
      by (cases rule: gated_check_cases [of ox w req])
        (auto simp: world_ok_def app_ok_audit app_ok_metrics lib app_ok_ready, auto simp: app_ok_def)
  next
    case (3 w req)
    then show ?case
      by (cases rule: engine_check_cases [of ox w req Retrieval])
        (auto simp: world_ok_def app_ok_audit lib app_ok_ready, auto simp: app_ok_def)
  next
    case (4 w p params)
    then show ?case
      by (cases rule: mcp_check_cases [of ox w "catalog_of w" p params]) (auto simp: world_ok_def lib, auto simp: app_ok_def)
  next
    case (5 w p msg)
    then show ?case
      by (cases rule: a2a_check_cases [of ox w p msg]) (auto simp: world_ok_def lib, auto simp: app_ok_def)
  next
    case (6 w body)
    then show ?case
      by (auto simp: call_upstream_eq world_ok_def app_ok_metrics just_permitted_def lib, auto simp: app_ok_def)
  next
    case (7 w call)
    then show ?case
      by (auto simp: execute_tool_eq world_ok_def just_permitted_def lib, auto simp: app_ok_def)
  next
    case (8 w d)
    then show ?case by (simp add: world_ok_def)
  qed
qed

interpretation same: world_invariant lib "world_ok lib cfg e" for lib :: "('ps, 'rx, 'ctx, 'es, 'rq, 'k) outside" and cfg e
  by (rule world_ok_invariant) (simp add: same_libraries_def)

lemma reached_ok: "reached lib cfg e w \<Longrightarrow> world_ok lib cfg e w"
proof (rule reached_invariant [of lib cfg e w "world_ok lib cfg e"], goal_cases)
  case (2 d)
  then show ?case by (simp add: world_ok_def world_new_def app_ok_def app_state_new_def cache_from_tokens_new)
next
  case (4 w s s')
  then show ?case by (simp add: world_ok_def put_store_def app_ok_def)
next
  case (5 w d)
  then show ?case by (simp add: world_ok_def)
qed (auto intro: world_ok_invariant)

section \<open>The counters\<close>

fun gate_check :: "event \<Rightarrow> bool" where
  "gate_check (EvDecided og req d) \<longleftrightarrow> og = Gate"
| "gate_check (EvUndecided og req) \<longleftrightarrow> og = Gate"
| "gate_check (EvUpstream url key body) \<longleftrightarrow> False"
| "gate_check (EvTool call) \<longleftrightarrow> False"

fun gate_decided :: "bool \<Rightarrow> event \<Rightarrow> bool" where
  "gate_decided allowed (EvDecided og req d) \<longleftrightarrow> og = Gate \<and> (ad_effect d = Allow) = allowed"
| "gate_decided allowed (EvUndecided og req) \<longleftrightarrow> False"
| "gate_decided allowed (EvUpstream url key body) \<longleftrightarrow> False"
| "gate_decided allowed (EvTool call) \<longleftrightarrow> False"

fun gate_failed :: "event \<Rightarrow> bool" where
  "gate_failed (EvUndecided og req) \<longleftrightarrow> og = Gate"
| "gate_failed (EvDecided og req d) \<longleftrightarrow> False"
| "gate_failed (EvUpstream url key body) \<longleftrightarrow> False"
| "gate_failed (EvTool call) \<longleftrightarrow> False"

fun went_upstream :: "event \<Rightarrow> bool" where
  "went_upstream (EvUpstream url key body) \<longleftrightarrow> True"
| "went_upstream (EvDecided og req d) \<longleftrightarrow> False"
| "went_upstream (EvUndecided og req) \<longleftrightarrow> False"
| "went_upstream (EvTool call) \<longleftrightarrow> False"

definition tally :: "(event \<Rightarrow> bool) \<Rightarrow> event list \<Rightarrow> nat" where
  "tally P tr = length (filter P tr)"

lemma tally_snoc [simp]: "tally P (tr @ [ev]) = tally P tr + (if P ev then 1 else 0)"
  by (simp add: tally_def)

lemma tally_Nil [simp]: "tally P [] = 0"
  by (simp add: tally_def)

definition counted :: "'ps world \<Rightarrow> bool" where
  "counted w \<longleftrightarrow> as_metrics (pw_app w) =
     \<lparr>mt_checks_total = word_of_nat (tally gate_check (pw_trace w)), mt_denies_total = word_of_nat (tally (gate_decided False) (pw_trace w)),
      mt_allows_total = word_of_nat (tally (gate_decided True) (pw_trace w)), mt_upstream_calls = word_of_nat (tally went_upstream (pw_trace w))\<rparr>"

lemmas counter_defs = count_check_def count_deny_def count_allow_def count_upstream_def

lemma counted_invariant:
  fixes ox :: "('ps, 'rx, 'ctx, 'es, 'rq, 'k) outside"
  shows "world_invariant ox counted"
proof (unfold_locales, goal_cases)
  case (1 w hs)
  then show ?case by (simp add: counted_def asking_eq split: prod.split)
next
  case (2 w req)
  then show ?case
    by (cases rule: gated_check_cases [of ox w req]) (auto simp: counted_def counter_defs)
next
  case (3 w req)
  then show ?case by (cases rule: engine_check_cases [of ox w req Retrieval]) (auto simp: counted_def)
next
  case (4 w p params)
  then show ?case by (cases rule: mcp_check_cases [of ox w "catalog_of w" p params]) (auto simp: counted_def)
next
  case (5 w p msg)
  then show ?case by (cases rule: a2a_check_cases [of ox w p msg]) (auto simp: counted_def)
next
  case (6 w body)
  then show ?case by (simp add: call_upstream_eq counted_def counter_defs)
next
  case (7 w call)
  then show ?case by (simp add: execute_tool_eq counted_def)
next
  case (8 w d)
  then show ?case by (simp add: counted_def)
qed

interpretation counters: world_invariant lib counted for lib :: "('ps, 'rx, 'ctx, 'es, 'rq, 'k) outside"
  by (rule counted_invariant)

lemma reached_counted: "reached lib cfg e w \<Longrightarrow> counted w"
proof (rule reached_invariant [of lib cfg e w counted], goal_cases)
  case (2 d)
  then show ?case by (simp add: counted_def world_new_def app_state_new_def metrics_default_def)
qed (auto intro: counted_invariant simp: counted_def put_store_def)

lemma unat_count: "unat (word_of_nat n :: 64 word) = n mod 2 ^ 64"
  by (simp add: unsigned_of_nat take_bit_eq_mod)

lemma tally_split: "tally gate_check tr = tally (gate_decided True) tr + tally (gate_decided False) tr + tally gate_failed tr"
proof (induction tr rule: rev_induct)
  case (snoc ev tr)
  then show ?case by (cases ev) auto
qed simp

section \<open>The audit queue\<close>

text \<open>The decisions the audit store is offered: those of the gate and of retrieval.\<close>

fun audited :: "event \<Rightarrow> authz_decision option" where
  "audited (EvDecided og req d) = (if og \<in> {Gate, Retrieval} then Some d else None)"
| "audited (EvUndecided og req) = None"
| "audited (EvUpstream url key body) = None"
| "audited (EvTool call) = None"

definition audited_ids :: "event list \<Rightarrow> string list" where
  "audited_ids tr = map (\<lambda>d. ev_decision_id (ad_evidence d)) (List.map_filter audited tr)"

definition audit_kept :: "store_codec \<Rightarrow> (string \<Rightarrow> string option) \<Rightarrow> 'ps world \<Rightarrow> bool" where
  "audit_kept sc fault w \<longleftrightarrow>
     (\<exists>s h. ae_store (as_engine (pw_app w)) = Some s \<and> ps_writer s \<and> audit_run sc fault h s \<and>
        map aw_decision_id h = audited_ids (pw_trace w))"

lemma audited_ids_snoc [simp]:
  "audited_ids (tr @ [ev]) = audited_ids tr @ (case audited ev of None \<Rightarrow> [] | Some d \<Rightarrow> [ev_decision_id (ad_evidence d)])"
  by (simp add: audited_ids_def map_filter_def split: option.split)

lemma audit_kept_same:
  "audit_kept sc fault w \<Longrightarrow> ae_store (as_engine (pw_app w')) = ae_store (as_engine (pw_app w)) \<Longrightarrow>
   audited_ids (pw_trace w') = audited_ids (pw_trace w) \<Longrightarrow> audit_kept sc fault w'"
  by (simp add: audit_kept_def)

text \<open>Documented behaviour of the serializer: a decision always has a JSON text.\<close>

definition codec_total :: "store_codec \<Rightarrow> bool" where
  "codec_total sc \<longleftrightarrow> (\<forall>d. \<exists>text. sc_decision sc d = Inr text)"

lemma audit_kept_decision:
  assumes "audit_kept sc fault w" "codec_total sc"
    and "ae_store (as_engine (pw_app w')) = ae_store (audit_decision sc d l k (as_engine (pw_app w)))"
    and "audited_ids (pw_trace w') = audited_ids (pw_trace w) @ [ev_decision_id (ad_evidence d)]"
  shows "audit_kept sc fault w'"
proof -
  obtain s h where s: "ae_store (as_engine (pw_app w)) = Some s" "ps_writer s" "audit_run sc fault h s"
      "map aw_decision_id h = audited_ids (pw_trace w)"
    using assms(1) by (auto simp: audit_kept_def)
  obtain js where "sc_decision sc d = Inr js" using assms(2) by (auto simp: codec_total_def)
  then obtain v where v: "audit_write_of sc d l k = Ok v" "aw_decision_id v = ev_decision_id (ad_evidence d)"
    by (simp add: audit_write_of_def Let_def)
  let ?s = "s\<lparr>ps_queue := ps_queue s @ [v]\<rparr>"
  have enq: "enqueue_audit sc d l k s = (Ok (), ?s)" using v s(2) by (simp add: enqueue_audit_def send_audit_def)
  have "audit_run sc fault (h @ [v]) ?s" by (rule run_audit [OF s(3) v(1) enq])
  moreover have "ae_store (as_engine (pw_app w')) = Some ?s" using assms(3) s(1) enq by (simp add: audit_decision_def)
  ultimately show ?thesis
    unfolding audit_kept_def using s assms(4) v(2) by (intro exI [of _ ?s] exI [of _ "h @ [v]"]) simp
qed

lemma audit_invariant:
  fixes ox :: "('ps, 'rx, 'ctx, 'es, 'rq, 'k) outside"
  assumes "codec_total (ox_store_codec ox)"
  shows "world_invariant ox (audit_kept (ox_store_codec ox) fault)"
proof (unfold_locales, goal_cases)
  case (1 w hs)
  then show ?case by (rule audit_kept_same) (simp_all add: asking_eq split: prod.split)
next
  case (2 w req)
  then show ?case
    by (cases rule: gated_check_cases [of ox w req])
      (auto intro: audit_kept_decision [OF _ assms] audit_kept_same)
next
  case (3 w req)
  then show ?case
    by (cases rule: engine_check_cases [of ox w req Retrieval])
      (auto intro: audit_kept_decision [OF _ assms] audit_kept_same)
next
  case (4 w p params)
  then show ?case
    by (cases rule: mcp_check_cases [of ox w "catalog_of w" p params]) (auto intro: audit_kept_same)
next
  case (5 w p msg)
  then show ?case by (cases rule: a2a_check_cases [of ox w p msg]) (auto intro: audit_kept_same)
next
  case (6 w body)
  from 6(1) show ?case by (rule audit_kept_same) (simp_all add: call_upstream_eq)
next
  case (7 w call)
  from 7(1) show ?case by (rule audit_kept_same) (simp_all add: execute_tool_eq)
next
  case (8 w d)
  then show ?case by (rule audit_kept_same) simp_all
qed

lemma example_codec_total: "codec_total example_store_codec"
  by (simp add: codec_total_def example_store_codec_def)

lemma reached_audit:
  assumes "reached lib cfg e w" "codec_total (ox_store_codec lib)" "ae_store e = Some s0" "ps_writer s0"
    and "audit_run (ox_store_codec lib) fault [] s0"
  shows "audit_kept (ox_store_codec lib) fault w"
  using assms(1)
proof (rule reached_invariant, goal_cases)
  case (1 d)
  then show ?case
    using assms(3-5) by (auto simp: audit_kept_def world_new_def app_state_new_def audited_ids_def map_filter_def)
next
  case (2 ox)
  then have "ox_store_codec ox = ox_store_codec lib" by (simp add: same_libraries_def)
  then show ?case using audit_invariant [of ox fault] assms(2) by simp
next
  case (3 w s s')
  obtain h where h: "ps_writer s" "audit_run (ox_store_codec lib) fault h s" "map aw_decision_id h = audited_ids (pw_trace w)"
    using 3 by (auto simp: audit_kept_def)
  have "audit_run (ox_store_codec lib) fault h s'" by (rule run_writer [OF h(2) 3(3)])
  moreover have "ps_writer s'" using writer_step_drained(2) [OF 3(3)] h(1) by simp
  ultimately show ?case using h(3) by (auto simp: audit_kept_def put_store_def)
next
  case (4 w d)
  then show ?case by (rule audit_kept_same) simp_all
qed

end
