(* ===== verification/Proxy_Gate.thy ===== *)
theory Proxy_Gate
  imports Proxy_Safety
begin

text \<open>
  The gateway's properties: what any sequence of requests leaves behind, what the tool-call filter lets through, and
  where a chat request passes without a decision; with the gateway of a tampered deployment as the running example.
\<close>

section \<open>Any sequence of requests\<close>

lemma answer_valid:
  assumes "\<And>r. res = Inr r \<Longrightarrow> valid_status (rs_status r)" "answer res = Some r"
  shows "valid_status (rs_status r)"
proof (cases res rule: result_cases)
  case (1 e)
  then show ?thesis using assms(2) by (cases e) (auto simp: valid_status_def)
qed (use assms in auto)

lemma relay_valid: "relay ox p streaming ans w = (Inr r, w') \<Longrightarrow> valid_status (rs_status r)"
  by (cases ans) (auto simp: relay_def st_bind_Inr_iff valid_status_def split: if_splits)

lemma ok_json_valid [simp]: "valid_status (rs_status (ok_json j))"
  by (simp add: ok_json_def valid_status_def)

lemma handler_valid: "handler ox cl w = (Inr r, w') \<Longrightarrow> valid_status (rs_status r)"
proof (cases cl)
  case (PostChat hs body)
  assume "handler ox cl w = (Inr r, w')"
  then show ?thesis using PostChat relay_valid by (auto simp: chat_completions_def Let_def st_bind_Inr_iff)
next
  case (GetExplain i)
  assume "handler ox cl w = (Inr r, w')"
  then show ?thesis using GetExplain
    by (auto simp: explain_def Let_def st_bind_Inr_iff split: option.split_asm sum.split_asm)
next
  case GetBoardDecisions
  assume "handler ox cl w = (Inr r, w')"
  then show ?thesis using GetBoardDecisions
    by (auto simp: board_decisions_def Let_def st_bind_Inr_iff decisions_json_def split: option.split_asm)
next
  case (PostMcp hs params)
  assume "handler ox cl w = (Inr r, w')"
  then show ?thesis using PostMcp
    by (auto simp: mcp_tools_call_def Let_def st_bind_Inr_iff simp del: ok_json_def split: if_split_asm)
qed (auto simp: health_def ready_def metrics_page_def retrieve_def check_route_def board_page_def board_matrix_def
    a2a_authorize_def Let_def st_bind_Inr_iff, auto simp: valid_status_def)

text \<open>C36: Whatever a gateway has served, no request has changed its configuration, its token adapter, its connector, its
  policy bundle, catalogue, mode or signature requirement, its database is there exactly if it was at the
  start, its identity cache holds accepted tokens only, and whatever it is asked next it either answers with
  a three-digit HTTP status or dies in a panic that leaves the state as well-formed as before.\<close>

theorem gateway_state_well_formed:
  assumes "reached lib cfg e w" "same_libraries ox lib" "serve ox cl w = (r, w')"
  shows "app_ok lib cfg e (pw_app w') \<and> (case r of None \<Rightarrow> True | Some x \<Rightarrow> valid_status (rs_status x))"
proof -
  have "world_ok lib cfg e w'" by (rule reached_ok [OF reach_serve [OF assms]])
  moreover have "valid_status (rs_status x)" if "r = Some x" for x
  proof -
    obtain a u where h: "handler ox cl w = (a, u)" by fastforce
    then have "answer a = Some x" using assms(3) that by (simp add: serve_def)
    then show ?thesis by (rule answer_valid [rotated]) (rule handler_valid [of ox cl w _ u], simp add: h)
  qed
  ultimately show ?thesis by (auto simp: world_ok_def split: option.split)
qed

lemma trace_ok_event: "trace_ok lib cfg e (before @ ev # after) \<Longrightarrow> event_ok lib cfg e before ev"
  by (auto simp: trace_ok_def dest!: spec [of _ "length before"])

lemma decided_before:
  assumes "trace_ok lib cfg e (before @ rest)" "before \<noteq> []" "last before = EvDecided og req d"
  shows "\<exists>env bs. before = bs @ [EvDecided og req d] \<and> (og \<in> {Gate, Retrieval} \<longrightarrow> is_ready e = Ok ()) \<and>
    evaluate (ox_cedar lib) env req (to_evaluator_config (bc_load (ae_bundle e))) = Ok d"
proof -
  have b: "before = butlast before @ [EvDecided og req d]" using assms(2,3) by (metis append_butlast_last_id)
  have "trace_ok lib cfg e (butlast before @ EvDecided og req d # rest)"
    using assms(1) by (subst (asm) b) simp
  from trace_ok_event [OF this] show ?thesis using b by auto
qed

text \<open>C3: Nothing leaves a gateway undecided. In the order of events of any run, every tool execution comes directly
  after a decision \<open>Allow\<close>, by the gate or the MCP route, on the request the catalogue builds from that tool's name and
  arguments; every call upstream comes directly after a decision \<open>Allow\<close> on the request read from the
  last user text, unless there is no such text; and each of these decisions is the evaluator's own answer with the
  loaded bundle. Upstream calls go to the configured URL with the configured key.\<close>

theorem nothing_leaves_undecided:
  assumes "reached lib cfg e w" "pw_trace w = before @ ev # after"
  shows "(\<forall>call. ev = EvTool call \<longrightarrow>
      (\<exists>og p d env bs. before = bs @ [EvDecided og (authz_for_tool (ox_show_json lib) (ae_catalog e) p (tl_name call) (tl_arguments call)) d] \<and>
         og \<in> {Gate, Mcp} \<and> ad_effect d = Allow \<and>
         evaluate (ox_cedar lib) env (authz_for_tool (ox_show_json lib) (ae_catalog e) p (tl_name call) (tl_arguments call))
           (to_evaluator_config (bc_load (ae_bundle e))) = Ok d)) \<and>
    (\<forall>url key body. ev = EvUpstream url key body \<longrightarrow> url = upstream_url cfg \<and> key = up_api_key (px_upstream cfg) \<and>
      (utterance_of body = [] \<or>
       (\<exists>p req d env bs. before = bs @ [EvDecided Gate req d] \<and> ad_effect d = Allow \<and> is_ready e = Ok () \<and>
         utterance_request lib (ae_catalog e) p (utterance_of body) = Ok req \<and>
         evaluate (ox_cedar lib) env req (to_evaluator_config (bc_load (ae_bundle e))) = Ok d)))"
proof -
  have tr: "trace_ok lib cfg e (before @ ev # after)"
    using reached_ok [OF assms(1)] assms(2) by (simp add: world_ok_def)
  note ev = trace_ok_event [OF tr] and genuine = decided_before [OF tr]
  show ?thesis
  proof (intro conjI allI impI)
    fix call assume "ev = EvTool call"
    then obtain og p d where "before \<noteq> []" "og \<in> {Gate, Mcp}" "ad_effect d = Allow"
        "last before = EvDecided og (authz_for_tool (ox_show_json lib) (ae_catalog e) p (tl_name call) (tl_arguments call)) d"
      using ev by (auto simp: permits_tool_def)
    then show "\<exists>og p d env bs. before = bs @ [EvDecided og (authz_for_tool (ox_show_json lib) (ae_catalog e) p (tl_name call) (tl_arguments call)) d] \<and>
         og \<in> {Gate, Mcp} \<and> ad_effect d = Allow \<and>
         evaluate (ox_cedar lib) env (authz_for_tool (ox_show_json lib) (ae_catalog e) p (tl_name call) (tl_arguments call))
           (to_evaluator_config (bc_load (ae_bundle e))) = Ok d"
      using genuine by meson
  next
    fix url key body assume u: "ev = EvUpstream url key body"
    then show "url = upstream_url cfg" "key = up_api_key (px_upstream cfg)" using ev by simp_all
    show "utterance_of body = [] \<or> (\<exists>p req d env bs. before = bs @ [EvDecided Gate req d] \<and> ad_effect d = Allow \<and> is_ready e = Ok () \<and>
         utterance_request lib (ae_catalog e) p (utterance_of body) = Ok req \<and>
         evaluate (ox_cedar lib) env req (to_evaluator_config (bc_load (ae_bundle e))) = Ok d)"
    proof (cases "utterance_of body = []")
      case False
      then obtain p req d where "before \<noteq> []" "last before = EvDecided Gate req d" "ad_effect d = Allow"
          "utterance_request lib (ae_catalog e) p (utterance_of body) = Ok req"
        using ev u by (auto simp: permits_chat_def utterance_request_def)
      moreover have "Gate \<in> {Gate, Retrieval}" by simp
      ultimately show ?thesis using genuine by meson
    qed simp
  qed
qed

text \<open>C37: The counters of a gateway count, modulo $2^{64}$, the decisions its gated handlers asked for, denials,
  permissions and calls upstream. Denials and permissions together never exceed the checks, and the
  difference is the checks that ended in an error. Retrieval, MCP and A2A decisions are not counted at all.\<close>

theorem metrics_count_decisions:
  assumes "reached lib cfg e w"
  shows "unat (mt_checks_total (as_metrics (pw_app w))) = tally gate_check (pw_trace w) mod 2 ^ 64 \<and>
    unat (mt_denies_total (as_metrics (pw_app w))) = tally (gate_decided False) (pw_trace w) mod 2 ^ 64 \<and>
    unat (mt_allows_total (as_metrics (pw_app w))) = tally (gate_decided True) (pw_trace w) mod 2 ^ 64 \<and>
    unat (mt_upstream_calls (as_metrics (pw_app w))) = tally went_upstream (pw_trace w) mod 2 ^ 64 \<and>
    tally gate_check (pw_trace w) = tally (gate_decided True) (pw_trace w) + tally (gate_decided False) (pw_trace w) +
      tally gate_failed (pw_trace w)"
  using reached_counted [OF assms]
  by (intro conjI tally_split) (simp_all add: counted_def unat_count del: One_nat_def)


section \<open>The tool-call filter\<close>

text \<open>What the trace gains for one tool call and the decision on it.\<close>

definition tool_events ::
  "('ps, 'rx, 'ctx, 'es, 'rq, 'k) outside \<Rightarrow> resource_catalog \<Rightarrow> bool \<Rightarrow> principal \<Rightarrow> json \<times> authz_decision \<Rightarrow> event list" where
  "tool_events ox cat run p x =
     (case x of (tc, d) \<Rightarrow> EvDecided Gate (tool_call_request ox cat p tc) d #
        (if ad_effect d = Allow \<and> run then [EvTool (tool_call_of (ox_parse_json ox) tc)] else []))"

definition let_through :: "(json \<times> authz_decision) list \<Rightarrow> json list" where
  "let_through xs = map fst (filter (\<lambda>x. ad_effect (snd x) = Allow) xs)"

definition same_gate :: "'ps world \<Rightarrow> 'ps world \<Rightarrow> bool" where
  "same_gate w w' \<longleftrightarrow> catalog_of w' = catalog_of w \<and> ae_bundle (as_engine (pw_app w')) = ae_bundle (as_engine (pw_app w)) \<and>
     as_cfg (pw_app w') = as_cfg (pw_app w)"

lemma same_gate_trans: "same_gate u v \<Longrightarrow> same_gate v w \<Longrightarrow> same_gate u w"
  by (simp add: same_gate_def)

abbreviation runs_tools :: "'ps world \<Rightarrow> bool" where
  "runs_tools w \<equiv> cn_execute_tools (px_connectors (as_cfg (pw_app w)))"

definition evaluates :: "('ps, 'rx, 'ctx, 'es, 'rq, 'k) outside \<Rightarrow> 'ps world \<Rightarrow> authz_request \<Rightarrow> authz_decision \<Rightarrow> bool" where
  "evaluates ox w req d \<longleftrightarrow>
     (\<exists>env. evaluate (ox_cedar ox) env req (to_evaluator_config (bc_load (ae_bundle (as_engine (pw_app w))))) = Ok d)"

lemma gated_check_same:
  assumes "gated_check ox req w = (Inr d, w1)"
  shows "same_gate w w1" "evaluates ox w req d"
  using assms by (cases rule: gated_check_cases [of ox w req]; auto simp: same_gate_def evaluates_def)+

lemma evaluates_same: "same_gate w w' \<Longrightarrow> evaluates ox w' = evaluates ox w"
  by (intro ext) (simp add: same_gate_def evaluates_def)

lemma filter_tool_call_eq:
  assumes "gated_check ox (tool_call_request ox (catalog_of w) p tc) w = (Ok d, w1)"
  shows "filter_tool_call ox p tc acc w =
    (if ad_effect d \<noteq> Allow then (Ok acc, w1)
     else (Ok (acc @ [tc]), if runs_tools w1 then record_event (EvTool (tool_call_of (ox_parse_json ox) tc)) w1 else w1))"
  using assms by (simp add: filter_tool_call_def st_bind_def execute_tool_def)

lemma filter_tool_call_step:
  assumes "filter_tool_call ox p tc acc w = (Ok out, w')"
  shows "\<exists>d. out = acc @ let_through [(tc, d)] \<and> same_gate w w' \<and>
    pw_trace w' = pw_trace w @ tool_events ox (catalog_of w) (runs_tools w) p (tc, d) \<and>
    evaluates ox w (tool_call_request ox (catalog_of w) p tc) d"
proof -
  obtain d w1 where g: "gated_check ox (tool_call_request ox (catalog_of w) p tc) w = (Ok d, w1)"
    using assms by (auto simp: filter_tool_call_def st_bind_Inr_iff)
  note w1 = gated_check_Ok(2) [OF g] gated_check_same [OF g]
  have r: "runs_tools w1 = runs_tools w" using w1(2) by (simp add: same_gate_def)
  have "same_gate w (record_event ev w1)" for ev using w1(2) by (simp add: same_gate_def)
  then show ?thesis
    using assms w1 r unfolding filter_tool_call_eq [OF g]
    by (intro exI [of _ d]) (auto simp: let_through_def tool_events_def split: if_split_asm)
qed

lemma filter_tool_fold:
  assumes "st_fold (filter_tool_call ox p) tcs acc w = (Ok out, w')"
  shows "\<exists>ds. length ds = length tcs \<and> out = acc @ let_through (zip tcs ds) \<and> same_gate w w' \<and>
    pw_trace w' = pw_trace w @ concat (map (tool_events ox (catalog_of w) (runs_tools w) p) (zip tcs ds)) \<and>
    (\<forall>x\<in>set (zip tcs ds). evaluates ox w (tool_call_request ox (catalog_of w) p (fst x)) (snd x))"
  using assms
proof (induction tcs arbitrary: acc w)
  case Nil
  then show ?case by (simp add: let_through_def same_gate_def)
next
  case (Cons tc tcs)
  obtain acc' w1 where 1: "filter_tool_call ox p tc acc w = (Ok acc', w1)" "st_fold (filter_tool_call ox p) tcs acc' w1 = (Ok out, w')"
    using Cons.prems unfolding st_fold.simps st_bind_Inr_iff by (elim exE conjE)
  obtain d where d: "acc' = acc @ let_through [(tc, d)]" "same_gate w w1"
      "pw_trace w1 = pw_trace w @ tool_events ox (catalog_of w) (runs_tools w) p (tc, d)"
      "evaluates ox w (tool_call_request ox (catalog_of w) p tc) d"
    using filter_tool_call_step [OF 1(1)] by (elim exE conjE)
  obtain ds where ds: "length ds = length tcs" "out = acc' @ let_through (zip tcs ds)" "same_gate w1 w'"
      "pw_trace w' = pw_trace w1 @ concat (map (tool_events ox (catalog_of w1) (runs_tools w1) p) (zip tcs ds))"
      "\<forall>x\<in>set (zip tcs ds). evaluates ox w1 (tool_call_request ox (catalog_of w1) p (fst x)) (snd x)"
    using Cons.IH [OF 1(2)] by (elim exE conjE)
  have same: "catalog_of w1 = catalog_of w" "runs_tools w1 = runs_tools w" "ae_bundle (as_engine (pw_app w1)) = ae_bundle (as_engine (pw_app w))"
    using d(2) by (simp_all add: same_gate_def)
  show ?case
  proof (intro exI [of _ "d # ds"] conjI)
    show "out = acc @ let_through (zip (tc # tcs) (d # ds))" using d(1) ds(2) by (simp add: let_through_def)
    show "same_gate w w'" by (rule same_gate_trans [OF d(2) ds(3)])
    show "pw_trace w' = pw_trace w @ concat (map (tool_events ox (catalog_of w) (runs_tools w) p) (zip (tc # tcs) (d # ds)))"
      using d(3) ds(4) unfolding same by simp
    show "\<forall>x\<in>set (zip (tc # tcs) (d # ds)). evaluates ox w (tool_call_request ox (catalog_of w) p (fst x)) (snd x)"
      using d(4) ds(5) unfolding same evaluates_same [OF d(2)] by simp
  qed (use ds(1) in simp)
qed

text \<open>C4: The filter asks for one decision for every tool call the model proposes, in order, on the request the
  catalogue builds from its name and arguments, by the loaded bundle; it keeps exactly the calls that are
  allowed, unchanged and in order, and, when execution is on, runs each of them right after its decision and no other.\<close>

theorem filter_tool_calls_exact:
  assumes "filter_tool_calls ox p (JArr tcs) w = (Ok out, w')"
  shows "\<exists>ds. length ds = length tcs \<and> out = let_through (zip tcs ds) \<and>
    pw_trace w' = pw_trace w @ concat (map (tool_events ox (catalog_of w) (runs_tools w) p) (zip tcs ds)) \<and>
    (\<forall>x\<in>set (zip tcs ds). evaluates ox w (tool_call_request ox (catalog_of w) p (fst x)) (snd x))"
  using filter_tool_fold [of ox p tcs "[]" w out w'] assms by (auto simp: filter_tool_calls_def)

section \<open>Where a chat request passes without a decision\<close>

lemma asking_trace: "pw_trace (snd (asking ox hs w)) = pw_trace w"
  by (simp add: asking_eq split: prod.split)

lemma authorize_utterance_Ok:
  assumes "authorize_utterance ox p u w = (Ok x, w')"
  shows "\<exists>req d. gated_check ox req w = (Ok d, w')"
  using assms unfolding authorize_utterance_def
  by (elim st_bind_OkE) (auto split: if_split_asm)

lemma relay_streamed:
  "relay ox p True ans w = (Ok r, w') \<Longrightarrow> ans = (rs_status r, snd ans) \<and> rs_body r = RStream (snd ans) \<and> w' = w"
  by (cases ans) (auto simp: relay_def split: if_split_asm)


section \<open>A gateway at work\<close>

text \<open>A Cedar that allows what is done to the resource \<open>lookup\<close>, and a development gateway on an empty catalogue
  with tool execution on, whose model proposes two tool calls.\<close>

definition lookup_call :: "cedar_call \<Rightarrow> string \<Rightarrow> string \<Rightarrow> cedar_response" where
  "lookup_call q x ps =
     (case q of (_, _, EntityUid _ i) \<Rightarrow> \<lparr>rp_decision = (if i = ''lookup'' then CAllow else CDeny), rp_reason = [], rp_errors = []\<rparr>)"

definition lookup_cedar :: "(string, string, string, string entity list, cedar_call \<times> string) cedar" where
  "lookup_cedar = reference_cedar Inr Inr lookup_call"

definition gate_engine :: "string authz_engine" where
  "gate_engine =
     \<lparr>ae_bundle = bundle_cache_new \<lparr>hb_policy_set = ''p'', hb_policy_revision = ''r1'', hb_policy_signature = Some ''k1'',
        hb_signature_key_id = Some ''k1'', hb_content_sha256 = None, hb_group_members = []\<rparr>,
      ae_catalog = catalog_default, ae_store = Some opened_store, ae_require_signed = True, ae_mode = Development\<rparr>"

definition gate_config :: proxy_config where
  "gate_config = (default_config example_upstream)
     \<lparr>px_identity := identity_config_default\<lparr>id_allow_header_identity := True\<rparr>,
      px_connectors := \<lparr>cn_execute_tools = True, cn_http_base_url = None\<rparr>\<rparr>"

definition named_call :: "string \<Rightarrow> json" where
  "named_call n = JObj [(''function'', JObj [(''name'', JStr n)])]"

definition gate_outside :: "(string, string, string, string entity list, cedar_call \<times> string, string) outside" where
  "gate_outside =
     \<lparr>ox_cedar = lookup_cedar, ox_store_codec = example_store_codec, ox_audit_codec = example_audit_codec, ox_jwt = two_token_lib,
      ox_now = 0, ox_later = 0, ox_env = (\<lambda>n. \<lparr>env_uuid = show_nat n, env_now = n\<rparr>), ox_elapsed_ms = (\<lambda>_. 1),
      ox_show_f32 = (\<lambda>_. ''0''), ox_show_json = (\<lambda>_. ''j''), ox_parse_json = (\<lambda>_. Inr (JObj [])),
      ox_decision_json = (\<lambda>_. JNull), ox_record_json = (\<lambda>_. JNull), ox_uuid = ''u1'',
      ox_upstream = (\<lambda>_ _ _. Inr (200, ''data: [DONE]'')), ox_tools = (\<lambda>_ _. Inr JNull)\<rparr>"

definition gate_world :: "string world" where
  "gate_world = world_new gate_config gate_engine empty_disk"

definition named_user :: headers where
  "named_user = [''x-paac-user'' \<mapsto> ''u'']"

lemma lookup_evaluates:
  assumes "validate req = Ok ()"
  shows "\<exists>d. evaluate lookup_cedar env req cfg = Ok d"
    and "evaluate lookup_cedar env req cfg = Ok d \<Longrightarrow> ad_effect d = (if resource_id (rq_resource req) = ''lookup'' then Allow else Deny)"
proof -
  have "is_ok (evaluate lookup_cedar env req cfg)"
    unfolding lookup_cedar_def by (rule evaluate_total [OF _ assms]) simp
  then show "\<exists>d. evaluate lookup_cedar env req cfg = Ok d" by (simp add: is_ok_iff)
  have uid: "request_uid_of lookup_cedar t i = Ok a \<Longrightarrow> a = EntityUid t i" for t i a
    by (simp add: request_uid_of_def lookup_cedar_def)
  assume "evaluate lookup_cedar env req cfg = Ok d"
  then show "ad_effect d = (if resource_id (rq_resource req) = ''lookup'' then Allow else Deny)"
    by (auto simp: evaluate_Ok_iff cedar_response_of_def and_then_Inr_iff decision_of_def Let_def dest!: uid)
      (auto simp: lookup_cedar_def lookup_call_def)
qed

lemma asking_named: "asking gate_outside named_user gate_world = (Ok (with_roles ''u'' []), gate_world)"
proof -
  have b: "bearer_token named_user = None" by (simp add: bearer_token_def header_text_def named_user_def)
  have "header_text named_user ''x-paac-user'' = Some ''u''" "header_roles named_user = []"
    by (simp_all add: header_text_def header_roles_def named_user_def visible_ascii_def)
  then show ?thesis
    by (simp add: asking_eq resolve_principal_def b gate_world_def world_new_def app_state_new_def gate_config_def default_config_def
        run_mode_default_def)
qed

lemma gate_catalog: "catalog_of gate_world = catalog_default" "ae_catalog gate_engine = catalog_default"
  by (simp_all add: gate_world_def world_new_def app_state_new_def gate_engine_def)

lemma gate_world_parts:
  "pw_trace gate_world = []" "as_connector (pw_app gate_world) = MockDataConnector" "as_engine (pw_app gate_world) = gate_engine"
  "as_cfg (pw_app gate_world) = gate_config"
  by (simp_all add: gate_world_def world_new_def app_state_new_def connector_of_config_def gate_config_def)

lemma unknown_tool:
  "authz_for_tool sh catalog_default p n args =
     \<lparr>rq_principal = p, rq_action = action_new ''TOOL_INVOKE'',
      rq_resource = \<lparr>rs_kind = ''TOOL_UNKNOWN'', rs_id = Some n, rs_attrs = []\<rparr>,
      rq_subject = None, rq_context = \<lparr>cx_values = tool_context sh n args\<rparr>, rq_relationships = [],
      rq_acting_as = Some proxy_agent, rq_on_behalf_of = None\<rparr>"
  by (simp add: authz_for_tool_def find_tool_def catalog_default_def)

lemma unknown_tool_valid: "validate (authz_for_tool sh catalog_default (with_roles ''u'' []) n args) = Ok ()"
  by (simp add: unknown_tool validate_def with_roles_def action_new_def trim_Nil_iff is_ws_def)

lemma gate_reached: "reached gate_outside gate_config gate_engine gate_world"
  unfolding gate_world_def by (rule reach_new)

lemma mcp_lookup:
  "\<exists>r w d. serve gate_outside (PostMcp named_user \<lparr>mp_name = ''lookup'', mp_arguments = JObj []\<rparr>) gate_world = (r, w) \<and>
     pw_trace w = [EvDecided Mcp (authz_for_tool (ox_show_json gate_outside) catalog_default (with_roles ''u'' []) ''lookup'' (JObj [])) d] @
       EvTool \<lparr>tl_id = ''u1'', tl_name = ''lookup'', tl_arguments = JObj []\<rparr> # []"
proof -
  let ?req = "authz_for_tool (ox_show_json gate_outside) catalog_default (with_roles ''u'' []) ''lookup'' (JObj [])"
  let ?p = "\<lparr>mp_name = ''lookup'', mp_arguments = JObj []\<rparr>"
  note ev = lookup_evaluates [OF unknown_tool_valid]
  have c: "ox_cedar gate_outside = lookup_cedar" "ox_uuid gate_outside = ''u1''" by (simp_all add: gate_outside_def)
  obtain d where d: "evaluate lookup_cedar (ox_env gate_outside (length (pw_trace gate_world))) ?req
      (to_evaluator_config (bc_load (ae_bundle (as_engine (pw_app gate_world))))) = Ok d"
    using ev(1) by blast
  define z where "z = \<lparr>az_allowed = (ad_effect d = Allow), az_decision = d\<rparr>"
  have "resource_id (rq_resource ?req) = ''lookup''" by (simp add: unknown_tool resource_id_def)
  then have allowed: "az_allowed z" using ev(2) [OF d] by (simp add: z_def)
  have checked: "mcp_check gate_outside catalog_default (with_roles ''u'' []) ?p gate_world =
      (Ok z, record_event (EvDecided Mcp ?req (az_decision z)) gate_world)"
    using d by (simp add: mcp_check_def direct_check_def authorize_mcp_tool_call_def Let_def c bc_evaluator_config_def z_def)
  obtain r w where "serve gate_outside (PostMcp named_user ?p) gate_world = (r, w)" by fastforce
  moreover from this have "pw_trace w = [EvDecided Mcp ?req (az_decision z)] @ EvTool \<lparr>tl_id = ''u1'', tl_name = ''lookup'', tl_arguments = JObj []\<rparr> # []"
    using allowed checked
    by (auto simp: serve_def mcp_tools_call_def st_bind_def asking_named gate_catalog execute_tool_def c gate_world_parts Let_def)
  ultimately show ?thesis by blast
qed

theorem nothing_leaves_undecided_witness:
  "\<exists>w before call og p d env bs. reached gate_outside gate_config gate_engine w \<and> pw_trace w = before @ [EvTool call] \<and>
     before = bs @ [EvDecided og (authz_for_tool (ox_show_json gate_outside) (ae_catalog gate_engine) p (tl_name call) (tl_arguments call)) d] \<and>
     ad_effect d = Allow \<and>
     evaluate (ox_cedar gate_outside) env (authz_for_tool (ox_show_json gate_outside) (ae_catalog gate_engine) p (tl_name call) (tl_arguments call))
       (to_evaluator_config (bc_load (ae_bundle gate_engine))) = Ok d"
proof -
  obtain r w before call where s: "serve gate_outside (PostMcp named_user \<lparr>mp_name = ''lookup'', mp_arguments = JObj []\<rparr>) gate_world = (r, w)"
      "pw_trace w = before @ EvTool call # []"
    using mcp_lookup by blast
  have w: "reached gate_outside gate_config gate_engine w"
    by (rule reach_serve [OF gate_reached _ s(1)]) (simp add: same_libraries_def)
  from nothing_leaves_undecided [OF w s(2), THEN conjunct1, rule_format, OF refl] w s(2) show ?thesis by blast
qed

theorem gateway_state_well_formed_witness:
  "\<exists>r w. serve gate_outside GetHealth gate_world = (r, w) \<and> app_ok gate_outside gate_config gate_engine (pw_app w) \<and>
     (\<exists>x. r = Some x \<and> valid_status (rs_status x))"
proof -
  obtain x where s: "serve gate_outside GetHealth gate_world = (Some x, gate_world)"
    by (simp add: serve_def health_def)
  have "same_libraries gate_outside gate_outside" by (simp add: same_libraries_def)
  from gateway_state_well_formed [OF gate_reached this s] s show ?thesis by auto
qed

theorem metrics_count_decisions_witness:
  "\<exists>w. reached gate_outside gate_config gate_engine w \<and> pw_trace w \<noteq> [] \<and>
     unat (mt_checks_total (as_metrics (pw_app w))) = tally gate_check (pw_trace w) mod 2 ^ 64"
proof -
  obtain r w before call where s: "serve gate_outside (PostMcp named_user \<lparr>mp_name = ''lookup'', mp_arguments = JObj []\<rparr>) gate_world = (r, w)"
      "pw_trace w = before @ EvTool call # []"
    using mcp_lookup by blast
  have "reached gate_outside gate_config gate_engine w"
    by (rule reach_serve [OF gate_reached _ s(1)]) (simp add: same_libraries_def)
  with metrics_count_decisions [OF this] s(2) show ?thesis by auto
qed



text \<open>The filter answers when the engine is ready and the evaluator decides every proposed call.\<close>

lemma is_ready_audit [simp]: "is_ready (audit_decision sc d l k e) = is_ready e"
  by (simp add: is_ready_def)

lemma gated_check_total:
  assumes "is_ready (as_engine (pw_app w)) = Ok ()" "\<And>env. \<exists>d. evaluate (ox_cedar ox) env req
      (to_evaluator_config (bc_load (ae_bundle (as_engine (pw_app w))))) = Ok d"
  shows "\<exists>d w'. gated_check ox req w = (Ok d, w') \<and> is_ready (as_engine (pw_app w')) = Ok ()"
proof -
  let ?n = "length (pw_trace w)" and ?e = "as_engine (pw_app w)"
  obtain d where d: "evaluate (ox_cedar ox) (ox_env ox ?n) req (to_evaluator_config (bc_load (ae_bundle ?e))) = Ok d"
    using assms(2) by blast
  have "\<exists>e'. check (ox_cedar ox) (ox_store_codec ox) (ox_env ox ?n) (ox_elapsed_ms ox ?n) req ?e = (Ok d, e')"
    using d assms(1) by (auto simp: check_def is_ready_def Let_def split: if_split_asm)
  then obtain w' where g: "gated_check ox req w = (Ok d, w')"
    by (auto simp: gated_check_def st_bind_def engine_check_def Let_def)
  then have "is_ready (as_engine (pw_app w')) = Ok ()"
    using assms(1) by (cases rule: gated_check_cases [of ox w req]) auto
  with g show ?thesis by blast
qed

lemma filter_fold_total:
  assumes "is_ready (as_engine (pw_app w)) = Ok ()"
    and "\<And>tc env. tc \<in> set tcs \<Longrightarrow> \<exists>d. evaluate (ox_cedar ox) env (tool_call_request ox (catalog_of w) p tc)
      (to_evaluator_config (bc_load (ae_bundle (as_engine (pw_app w))))) = Ok d"
  shows "\<exists>out w'. st_fold (filter_tool_call ox p) tcs acc w = (Ok out, w')"
  using assms
proof (induction tcs arbitrary: acc w)
  case (Cons tc tcs)
  obtain d w1 where g: "gated_check ox (tool_call_request ox (catalog_of w) p tc) w = (Ok d, w1)"
    and r: "is_ready (as_engine (pw_app w1)) = Ok ()"
    using gated_check_total [OF Cons.prems(1)] Cons.prems(2) by (metis list.set_intros(1))
  have same: "catalog_of w1 = catalog_of w" "ae_bundle (as_engine (pw_app w1)) = ae_bundle (as_engine (pw_app w))"
    using gated_check_same(1) [OF g] by (simp_all add: same_gate_def)
  obtain acc' w2 where f: "filter_tool_call ox p tc acc w = (Ok acc', w2)" "as_engine (pw_app w2) = as_engine (pw_app w1)"
    unfolding filter_tool_call_eq [OF g] by (cases "ad_effect d = Allow") auto
  have "\<exists>out w'. st_fold (filter_tool_call ox p) tcs acc' w2 = (Ok out, w')"
    using Cons.IH [of w2 acc'] Cons.prems(2) f(2) r same by simp
  then show ?case using f(1) by (simp add: st_bind_def)
qed simp

lemma filter_total:
  "is_ready (as_engine (pw_app w)) = Ok () \<Longrightarrow>
   (\<And>tc env. tc \<in> set tcs \<Longrightarrow> \<exists>d. evaluate (ox_cedar ox) env (tool_call_request ox (catalog_of w) p tc)
      (to_evaluator_config (bc_load (ae_bundle (as_engine (pw_app w))))) = Ok d) \<Longrightarrow>
   \<exists>out w'. filter_tool_calls ox p (JArr tcs) w = (Ok out, w')"
  unfolding filter_tool_calls_def json.case by (rule filter_fold_total)

lemma named_call_name: "tool_call_name (named_call n) = n"
  by (simp add: tool_call_name_def named_call_def pointer_text_def json_get_def json_as_str_def)

theorem filter_tool_calls_exact_witness:
  "\<exists>w. filter_tool_calls gate_outside (with_roles ''u'' []) (JArr [named_call ''drop'', named_call ''lookup'']) gate_world =
     (Ok [named_call ''lookup''], w) \<and>
     length (filter (\<lambda>ev. \<exists>call. ev = EvTool call) (pw_trace w)) = 1"
proof -
  let ?p = "with_roles ''u'' []" and ?tcs = "[named_call ''drop'', named_call ''lookup'']"
  have c: "ox_cedar gate_outside = lookup_cedar" by (simp add: gate_outside_def)
  have v: "validate (tool_call_request gate_outside catalog_default ?p tc) = Ok ()" for tc
    by (simp only: tool_call_request_def unknown_tool_valid)
  have rid: "resource_id (rq_resource (tool_call_request gate_outside catalog_default ?p (named_call n))) = n" for n
    by (simp add: tool_call_request_def unknown_tool resource_id_def named_call_name)
  have ready: "is_ready (as_engine (pw_app gate_world)) = Ok ()"
    by (simp add: gate_world_parts is_ready_def gate_engine_def bundle_cache_new_def bc_load_def)
  obtain out w where f: "filter_tool_calls gate_outside ?p (JArr ?tcs) gate_world = (Ok out, w)"
    using filter_total [OF ready, of ?tcs gate_outside ?p] lookup_evaluates(1) [OF v] unfolding c gate_catalog by blast
  obtain ds where ds: "length ds = length ?tcs" "out = let_through (zip ?tcs ds)"
      "pw_trace w = pw_trace gate_world @ concat (map (tool_events gate_outside (catalog_of gate_world) (runs_tools gate_world) ?p) (zip ?tcs ds))"
      "\<forall>x\<in>set (zip ?tcs ds). evaluates gate_outside gate_world (tool_call_request gate_outside (catalog_of gate_world) ?p (fst x)) (snd x)"
    using filter_tool_calls_exact [OF f] by (elim exE conjE) (rule that)
  then obtain d1 d2 where d: "ds = [d1, d2]" by (auto simp: length_Suc_conv)
  have eff: "ad_effect d = (if n = ''lookup'' then Allow else Deny)"
    if "evaluates gate_outside gate_world (tool_call_request gate_outside catalog_default ?p (named_call n)) d" for n d
    using that lookup_evaluates(2) [OF v] rid by (auto simp: evaluates_def c)
  have "ad_effect d1 = Deny" "ad_effect d2 = Allow"
    using ds(4) eff [of "''drop''" d1] eff [of "''lookup''" d2] by (simp_all add: d gate_catalog)
  then show ?thesis
    using f ds(2,3) by (simp add: d let_through_def tool_events_def gate_world_parts gate_config_def)
qed

end
