(* ===== verification/Proxy_Start.thy ===== *)
theory Proxy_Start
  imports Proxy_World
begin

text \<open>
  \<open>authz-llm-proxy/src/main.rs\<close>: how the proxy starts. The configuration comes from a file, or from defaults and
  the environment when there is none; the engine is then loaded and the state built. What the engine finds around it
  depends on the configuration's paths. (Arguments, tracing and listening are left out.)
\<close>

definition fallback_config :: "environment \<Rightarrow> proxy_config" where
  "fallback_config env =
     \<lparr>px_listen = ''127.0.0.1:8080'', px_mode = Development, px_require_signed_bundle = False,
      px_policy_dir = ''data/policies'', px_catalog_path = ''data/catalog/company_resources.yaml'',
      px_audit_path = ''data/audit/decisions.jsonl'', px_identity_dir = ''data/identity'',
      px_upstream = \<lparr>up_base_url = (case env ''PAAC_UPSTREAM_URL'' of Some v \<Rightarrow> v | None \<Rightarrow> ''http://127.0.0.1:9000''),
        up_api_key = env ''PAAC_UPSTREAM_API_KEY'', up_timeout_secs = 120\<rparr>,
      px_identity = identity_config_default, px_connectors = connectors_config_default\<rparr>"

text \<open>The file is \<open>None\<close> when it does not exist, otherwise what reading it answers.\<close>

definition startup_config ::
  "(string \<Rightarrow> string + proxy_config) \<Rightarrow> environment \<Rightarrow> (string + string) option \<Rightarrow> string option \<Rightarrow> (string, proxy_config) result" where
  "startup_config from_toml env config_file listen =
     and_then (case config_file of
                 Some data \<Rightarrow> load_config from_toml env data
               | None \<Rightarrow> Ok (apply_env env (fallback_config env))) (\<lambda>cfg.
       Ok (case listen of Some l \<Rightarrow> cfg\<lparr>px_listen := l\<rparr> | None \<Rightarrow> cfg))"

definition startup ::
  "('ps, 'rx, 'ctx, 'es, 'rq) cedar \<Rightarrow> crypto \<Rightarrow> codec \<Rightarrow> (proxy_config \<Rightarrow> surroundings) \<Rightarrow> (proxy_error \<Rightarrow> string) \<Rightarrow>
   (string, proxy_config) result \<Rightarrow> (disk, string, 'ps app_state) st" where
  "startup c cr js sr show_debug config =
     st_bind (st_lift config) (\<lambda>cfg.
     st_bind (st_map_err show_debug (from_config c cr js (sr cfg) cfg)) (\<lambda>engine.
       st_ret (app_state_new cfg engine)))"

section \<open>What a started proxy runs with\<close>

lemma startup_config_hardened:
  assumes "startup_config from_toml env config_file listen = Ok cfg"
  shows "hardened cfg"
  using assms apply_env_hardened
  by (auto simp: startup_config_def load_config_def and_then_Inr_iff Let_def hardened_def split: option.splits)

lemma startup_Ok:
  assumes "startup c cr js sr show_debug config d = (Ok a, d')"
  obtains cfg e where "config = Ok cfg" "from_config c cr js (sr cfg) cfg d = (Ok e, d')" "a = app_state_new cfg e"
proof -
  obtain cfg where c: "config = Ok cfg"
    using assms by (cases config) (simp_all add: startup_def)
  obtain r d1 where f: "from_config c cr js (sr cfg) cfg d = (r, d1)" by fastforce
  obtain e where "r = Ok e" "d1 = d'" "a = app_state_new cfg e"
    using assms c f by (cases r rule: result_cases) (simp_all add: startup_def st_bind_def st_map_err_def)
  then show thesis using that c f by simp
qed

text \<open>Whatever the file and the environment say, a proxy that starts in production holds the engine of the deployed, signed
  revision and takes no identity from headers.\<close>

lemma production_start:
  assumes "startup c cr js sr show_debug (startup_config from_toml env config_file listen) d = (Ok a, d')"
    and "px_mode (as_cfg a) = Production"
  shows "\<not> id_allow_header_identity (px_identity (as_cfg a)) \<and>
    (\<exists>st pset rv. load_deployed js st d' = (Ok (Some rv), d') \<and> rv_bundle rv \<noteq> None \<and>
       cd_parse_policies c (rv_cedar rv) = Inr pset \<and> ec_policy_set (bc_evaluator_config (ae_bundle (as_engine a))) = pset)"
proof -
  obtain cfg e where s: "startup_config from_toml env config_file listen = Ok cfg" "from_config c cr js (sr cfg) cfg d = (Ok e, d')"
      "a = app_state_new cfg e"
    using startup_Ok [OF assms(1)] by blast
  have m: "px_mode cfg = Production" using assms(2) s(3) by (simp add: app_state_new_def)
  then have "strict cfg" by (simp add: strict_def)
  then obtain st pset rv where r: "load_deployed js st d' = (Ok (Some rv), d')" "cd_parse_policies c (rv_cedar rv) = Inr pset"
      "from_deployed cr (sr cfg) cfg pset rv = Ok e"
    using s(2) unfolding from_config_strict [OF \<open>strict cfg\<close>] by blast
  have "rv_bundle rv \<noteq> None" using from_deployed_Ok(3) [OF r(3) \<open>strict cfg\<close>] .
  moreover have "ec_policy_set (bc_evaluator_config (ae_bundle (as_engine a))) = pset"
    using from_deployed_Ok(1) [OF r(3)] s(3)
    by (simp add: app_state_new_def bc_evaluator_config_def bc_load_def to_evaluator_config_def)
  moreover have "\<not> id_allow_header_identity (px_identity cfg)"
    using startup_config_hardened [OF s(1)] m by (simp add: hardened_def)
  ultimately show ?thesis using r(1,2) s(3) by (auto simp: app_state_new_def)
qed

text \<open>Without a configuration file the checks of \<open>validate_config\<close> are not made: production with no way to verify a
  token starts.\<close>

lemma production_without_validation:
  "\<exists>cfg. startup_config from_toml [''PAAC_MODE'' \<mapsto> ''production''] None None = Ok cfg \<and> px_mode cfg = Production \<and>
     validate_config cfg = Fail ''production mode requires jwt_hmac_secret or jwks_url''"
proof -
  let ?cfg = "apply_env [''PAAC_MODE'' \<mapsto> ''production''] (fallback_config [''PAAC_MODE'' \<mapsto> ''production''])"
  have m: "px_mode ?cfg = Production"
    by (simp add: mode_after_env parse_mode_def to_ascii_lowercase_def lower_char_def)
  have "id_jwt_hmac_secret (px_identity ?cfg) = None" "id_jwks_url (px_identity ?cfg) = None" "up_base_url (px_upstream ?cfg) = ''http://127.0.0.1:9000''"
    by (simp_all add: apply_env_def Let_def with_env_def harden_def set_identity_def fallback_config_def identity_config_default_def)
  then have "validate_config ?cfg = Fail ''production mode requires jwt_hmac_secret or jwks_url''"
    using m by (simp add: validate_config_def trim_Nil_iff is_ws_def)
  with m show ?thesis by (simp add: startup_config_def)
qed

end
