(* ===== verification/Policy_Schema.thy ===== *)
theory Policy_Schema
  imports Policy_Translate Catalog
begin

text \<open>
  The Cedar schema of \<open>authz-policy/src/schema.rs\<close>, as the JSON value its text denotes. Strict validation against
  it is Cedar's (\<open>cd_validation_errors\<close>); what can be said here is how the schema and the contexts the
  evaluator builds fit together.
\<close>

section \<open>The schema\<close>

definition required_attr :: "json \<Rightarrow> json" where
  "required_attr ty = (case ty of JObj kvs \<Rightarrow> JObj (kvs @ [(''required'', JBool True)]) | _ \<Rightarrow> ty)"

definition set_of_strings :: json where
  "set_of_strings = JObj [(''type'', JStr ''Set''), (''element'', JObj [(''type'', JStr ''String'')])]"

definition schema_type :: "string \<Rightarrow> json" where
  "schema_type t = JObj [(''type'', JStr t)]"

definition empty_entity :: json where
  "empty_entity = JObj [(''shape'', JObj [(''type'', JStr ''Record''), (''attributes'', JObj [])])]"

definition schema_attributes :: "(string \<times> json) list" where
  "schema_attributes =
     [(''principal_roles'', required_attr set_of_strings), (''action_name'', required_attr (schema_type ''String'')),
      (''resource_kind'', required_attr (schema_type ''String'')), (''subject_is_self'', required_attr (schema_type ''Boolean'')),
      (''subject_in_direct_reports'', required_attr (schema_type ''Boolean'')), (''subject_groups'', required_attr set_of_strings)]"

definition schema_action :: json where
  "schema_action =
     JObj [(''appliesTo'', JObj [(''principalTypes'', JArr [JStr ''User'']), (''resourceTypes'', JArr [JStr ''Resource'']),
       (''context'', JObj [(''type'', JStr ''Record''), (''attributes'', JObj schema_attributes)])])]"

definition default_cedar_schema :: json where
  "default_cedar_schema =
     JObj [([], JObj [(''entityTypes'', JObj [(''User'', empty_entity), (''Resource'', empty_entity)]),
       (''actions'', JObj [(''READ'', schema_action), (''TOOL_INVOKE'', schema_action), (''EXPORT'', schema_action)])])]"

section \<open>Schema and contexts\<close>

text \<open>The type of a context value, as the schema names it.\<close>

fun type_of_value :: "ctx_value \<Rightarrow> json" where
  "type_of_value (CStr s) = schema_type ''String''"
| "type_of_value (CBool b) = schema_type ''Boolean''"
| "type_of_value (CStrs ss) = set_of_strings"

definition schema_path :: "string list \<Rightarrow> json \<Rightarrow> json option" where
  "schema_path ks j = fold (\<lambda>k r. Option.bind r (\<lambda>v. json_get v k)) ks (Some j)"

definition schema_actions :: "string list" where
  "schema_actions = (case schema_path [[], ''actions''] default_cedar_schema of Some (JObj kvs) \<Rightarrow> map fst kvs | _ \<Rightarrow> [])"

lemma schema_actions_eq: "schema_actions = [''READ'', ''TOOL_INVOKE'', ''EXPORT'']"
  by (simp add: schema_actions_def schema_path_def default_cedar_schema_def json_get_def)

text \<open>Every attribute the schema requires is in the context of every request, with the required type, unless a
  context key of the caller shadows it.\<close>

lemma schema_attributes_supplied:
  assumes "own_context_keys req" "(k, t) \<in> set schema_attributes"
  shows "\<exists>v. context_of req k = Some v \<and> t = required_attr (type_of_value v)"
proof -
  have "distinct (map fst (context_values req))" using assms(1) by (simp add: own_context_keys_def)
  then have m: "(k, v) \<in> set (context_values req) \<Longrightarrow> context_of req k = Some v" for v
    by (simp add: context_of_def)
  have "\<exists>v. (k, v) \<in> set (context_values req) \<and> t = required_attr (type_of_value v)"
    using assms(2) unfolding schema_attributes_def context_values_def by fastforce
  then show ?thesis using m by blast
qed

text \<open>The converse fails: contexts carry attributes the schema does not declare.\<close>

lemma undeclared_attributes:
  "{''subject_id'', ''principal_groups''} \<subseteq> set (map fst (context_values req)) - set (map fst schema_attributes)"
  by (simp add: context_values_def schema_attributes_def)

end
