(* ===== verification/Identity_Idp.thy ===== *)
theory Identity_Idp
  imports Identity_Ldap Catalog "HOL-Library.Multiset"
begin

text \<open>
  \<open>authz-identity/src/idp.rs\<close>: the Active Directory, Entra ID, Cognito and SAML adapters, their draft
  generators, and the discovery of all stores. HTTP endpoints, base64 and UTF-8 decoding are
  parameters; the iteration order of a hash map is a permutation given as an argument.
\<close>

section \<open>Drafts\<close>

definition idp_gid :: "group \<Rightarrow> string" where
  "idp_gid g = replace_char SP ''_'' (to_ascii_uppercase (gr_name g))"

definition idp_header :: "string \<Rightarrow> string list" where
  "idp_header idp =
     [''# DRAFT policies from '' @ idp @ '' sync '' @ EM_DASH @ '' review, commit, sign, deploy. Never auto-applied.'', []]"

definition idp_block :: "string \<Rightarrow> group \<Rightarrow> string list" where
  "idp_block idp g =
     (let gid = idp_gid g in
      (self_profile_lines (''draft_'' @ idp @ ''_'' @ gid @ ''_self_profile'') gid @ [[]]) @
      (if contains gid ''EXEC'' \<or> contains gid ''FINANCE''
       then exec_expense_lines (''draft_'' @ idp @ ''_'' @ gid @ ''_protect_exec_expense'') @ [[]] else []) @
      (if contains gid ''PAYROLL'' then payroll_lines ''draft_payroll_export'' @ [[]] else []))"

definition default_drafts_from_groups :: "string \<Rightarrow> identity_snapshot \<Rightarrow> string" where
  "default_drafts_from_groups idp snap =
     fold (\<lambda>g out. out @ unlines (idp_block idp g)) (is_groups snap) (unlines (idp_header idp))"

definition idp_policies :: "string \<Rightarrow> group \<Rightarrow> dsl_policy list" where
  "idp_policies idp g =
     (let gid = idp_gid g in
      self_profile_policy (''draft_'' @ idp @ ''_'' @ gid @ ''_self_profile'') gid #
      (if contains gid ''EXEC'' \<or> contains gid ''FINANCE''
       then [exec_expense_policy (''draft_'' @ idp @ ''_'' @ gid @ ''_protect_exec_expense'')] else []) @
      (if contains gid ''PAYROLL'' then [payroll_policy ''draft_payroll_export''] else []))"

definition auto_header :: "string list" where
  "auto_header =
     [''# Auto-Discovered baseline policies across LDAP, AD, Entra ID, and Cognito stores.'',
      ''# Review and commit manually '' @ EM_DASH @ '' never auto-deployed.'', []]"

definition auto_block :: "group \<Rightarrow> string list" where
  "auto_block g =
     (let gid = idp_gid g in
      (self_profile_lines (''auto_discovered_'' @ gid @ ''_self_profile'') gid @ [[]]) @
      (if contains gid ''EXEC'' \<or> contains gid ''FINANCE''
       then exec_expense_lines (''auto_discovered_'' @ gid @ ''_protect_exec_expense'') @ [[]] else []) @
      (if contains gid ''PAYROLL'' then payroll_lines ''auto_discovered_payroll_salary_export'' @ [[]] else []))"

definition generate_auto_discovered_draft_policies :: "identity_snapshot \<Rightarrow> string" where
  "generate_auto_discovered_draft_policies snap =
     fold (\<lambda>g out. out @ unlines (auto_block g)) (is_groups snap) (unlines auto_header)"

definition auto_policies :: "group \<Rightarrow> dsl_policy list" where
  "auto_policies g =
     (let gid = idp_gid g in
      self_profile_policy (''auto_discovered_'' @ gid @ ''_self_profile'') gid #
      (if contains gid ''EXEC'' \<or> contains gid ''FINANCE''
       then [exec_expense_policy (''auto_discovered_'' @ gid @ ''_protect_exec_expense'')] else []) @
      (if contains gid ''PAYROLL'' then [payroll_policy ''auto_discovered_payroll_salary_export''] else []))"

lemma plain_name_gid: "plain_name (gr_name g) \<Longrightarrow> plain_name (idp_gid g)"
  by (simp add: idp_gid_def plain_name_replace)

lemma idp_block_gives:
  assumes "plain_name idp" "plain_name (gr_name g)"
  shows "gives (idp_block idp g) (idp_policies idp g)"
  unfolding idp_block_def idp_policies_def Let_def
  using assms plain_name_gid [OF assms(2)] gives_append [OF gives_stanza [OF gives_self_profile]
      gives_append [OF gives_if [OF gives_stanza [OF gives_exec_expense]] gives_if [OF gives_stanza [OF gives_payroll]]]]
  by fastforce

lemma auto_block_gives:
  assumes "plain_name (gr_name g)"
  shows "gives (auto_block g) (auto_policies g)"
  unfolding auto_block_def auto_policies_def Let_def
  using plain_name_gid [OF assms] gives_append [OF gives_stanza [OF gives_self_profile]
      gives_append [OF gives_if [OF gives_stanza [OF gives_exec_expense]] gives_if [OF gives_stanza [OF gives_payroll]]]]
  by fastforce

lemma idp_header_gives:
  assumes "one_line idp"
  shows "gives (idp_header idp) []"
proof -
  have "gives ([''# DRAFT policies from '' @ idp @ '' sync '' @ EM_DASH @ '' review, commit, sign, deploy. Never auto-applied.''] @ [[]]) ([] @ [])"
    using gives_comment [of "'' DRAFT policies from '' @ idp @ '' sync '' @ EM_DASH @ '' review, commit, sign, deploy. Never auto-applied.''"] assms
    by (intro gives_append gives_blank) (simp_all add: EM_DASH_def)
  then show ?thesis by (simp add: idp_header_def)
qed

lemma auto_header_gives: "gives auto_header []"
proof -
  have "gives ([''# Auto-Discovered baseline policies across LDAP, AD, Entra ID, and Cognito stores.''] @
      [''# Review and commit manually '' @ EM_DASH @ '' never auto-deployed.''] @ [[]]) ([] @ [] @ [])"
    using gives_comment [of "'' Review and commit manually '' @ EM_DASH @ '' never auto-deployed.''"]
      gives_comment [of "'' Auto-Discovered baseline policies across LDAP, AD, Entra ID, and Cognito stores.''"]
    by (intro gives_append gives_blank) (simp_all add: EM_DASH_def)
  then show ?thesis by (simp add: auto_header_def)
qed

lemma idp_generator:
  assumes "plain_name idp"
  shows "draft_generator (default_drafts_from_groups idp) (idp_header idp) (idp_block idp) (idp_policies idp)"
proof
  show "default_drafts_from_groups idp s = unlines (idp_header idp @ concat (map (idp_block idp) (is_groups s)))" for s
    by (simp add: default_drafts_from_groups_def push_blocks)
  show "gives (idp_header idp) []" using assms by (intro idp_header_gives plain_name_one_line)
  show "plain_name (gr_name g) \<Longrightarrow> gives (idp_block idp g) (idp_policies idp g)" for g
    by (rule idp_block_gives [OF assms])
  show "p \<in> set (idp_policies idp g) \<Longrightarrow> cautious p" for p g
    by (auto simp: idp_policies_def Let_def split: if_splits)
qed

text \<open>The four identity providers, the tags they draft under, and their drafts.\<close>

datatype idp = IdpAd | IdpEntra | IdpCognito | IdpSaml

fun idp_kind :: "idp \<Rightarrow> string" where
  "idp_kind IdpAd = ''ad''"
| "idp_kind IdpEntra = ''entra''"
| "idp_kind IdpCognito = ''cognito''"
| "idp_kind IdpSaml = ''saml2''"

definition idp_draft_policies :: "idp \<Rightarrow> identity_snapshot \<Rightarrow> string" where
  "idp_draft_policies i snap = default_drafts_from_groups (idp_kind i) snap"


interpretation ad_drafts: draft_generator "default_drafts_from_groups ''ad''" "idp_header ''ad''" "idp_block ''ad''" "idp_policies ''ad''"
  by (rule idp_generator) simp

interpretation entra_drafts: draft_generator
  "default_drafts_from_groups ''entra''" "idp_header ''entra''" "idp_block ''entra''" "idp_policies ''entra''"
  by (rule idp_generator) simp

interpretation cognito_drafts: draft_generator
  "default_drafts_from_groups ''cognito''" "idp_header ''cognito''" "idp_block ''cognito''" "idp_policies ''cognito''"
  by (rule idp_generator) simp

interpretation saml_drafts: draft_generator
  "default_drafts_from_groups ''saml2''" "idp_header ''saml2''" "idp_block ''saml2''" "idp_policies ''saml2''"
  by (rule idp_generator) simp

interpretation auto_drafts: draft_generator generate_auto_discovered_draft_policies auto_header auto_block auto_policies
proof unfold_locales
  show "generate_auto_discovered_draft_policies s = unlines (auto_header @ concat (map auto_block (is_groups s)))" for s
    by (simp add: generate_auto_discovered_draft_policies_def push_blocks)
  show "gives auto_header []" by (rule auto_header_gives)
  show "plain_name (gr_name g) \<Longrightarrow> gives (auto_block g) (auto_policies g)" for g by (rule auto_block_gives)
  show "p \<in> set (auto_policies g) \<Longrightarrow> cautious p" for p g
    by (auto simp: auto_policies_def Let_def split: if_splits)
qed

section \<open>Adapters\<close>

definition mock_directory_snapshot :: "string \<Rightarrow> string \<Rightarrow> identity_snapshot" where
  "mock_directory_snapshot now source =
     \<lparr>is_users = [mk_identity ''user:hr-head'' ''Alex HR'' (Some ''hr@example.com'') source [''HR_HEAD''] [''HR'']],
      is_groups =
        [\<lparr>gr_id = ''HR'', gr_name = ''HR'', gr_members = [''user:hr-head''], gr_source = source\<rparr>,
         \<lparr>gr_id = ''EXECUTIVE'', gr_name = ''EXECUTIVE'', gr_members = [''employee:CEO''], gr_source = source\<rparr>,
         \<lparr>gr_id = ''PAYROLL'', gr_name = ''PAYROLL'', gr_members = [], gr_source = source\<rparr>],
      is_relationships = [], is_synced_at = Some now\<rparr>"

record active_directory_config =
  ac_url :: string
  ac_bind_dn :: string
  ac_bind_password :: string
  ac_base_dn :: string
  ac_mock :: bool

definition ad_sync :: "ldap_server \<Rightarrow> string \<Rightarrow> active_directory_config \<Rightarrow> (identity_error, identity_snapshot) result" where
  "ad_sync sv now cf =
     (if ac_mock cf then Ok (mock_directory_snapshot now ''active_directory'')
      else ldap_sync sv now (ldap_from_config
        \<lparr>lc_url = ac_url cf, lc_bind_dn = ac_bind_dn cf, lc_bind_password = ac_bind_password cf, lc_base_dn = ac_base_dn cf,
         lc_mock = False, lc_user_filter = ''(objectClass=user)'', lc_group_filter = ''(objectClass=group)''\<rparr>))"

definition get_str :: "json \<Rightarrow> string \<Rightarrow> string option" where
  "get_str v k = Option.bind (json_get v k) json_as_str"

definition get_arr :: "json \<Rightarrow> string \<Rightarrow> json list" where
  "get_arr v k = (case json_get v k of Some (JArr xs) \<Rightarrow> xs | _ \<Rightarrow> [])"

definition str_or :: "string \<Rightarrow> string option \<Rightarrow> string" where
  "str_or d x = (case x of None \<Rightarrow> d | Some s \<Rightarrow> s)"

definition graph_user :: "json \<Rightarrow> canonical_identity" where
  "graph_user u =
     (let email = Option.bind (case json_get u ''mail'' of None \<Rightarrow> json_get u ''userPrincipalName'' | Some m \<Rightarrow> Some m) json_as_str
      in mk_identity (''user:'' @ str_or ''unknown'' (get_str u ''id'')) (str_or [] (get_str u ''displayName'')) email ''entra_id'' [] [])"

definition graph_group :: "json \<Rightarrow> group" where
  "graph_group g =
     (let i = str_or ''g'' (get_str g ''id'')
      in \<lparr>gr_id = i, gr_name = str_or i (get_str g ''displayName''), gr_members = [], gr_source = ''entra_id''\<rparr>)"

definition parse_graph_snapshot :: "string \<Rightarrow> json \<Rightarrow> json \<Rightarrow> (identity_error, identity_snapshot) result" where
  "parse_graph_snapshot now users groups =
     Ok \<lparr>is_users = map graph_user (get_arr users ''value''), is_groups = map graph_group (get_arr groups ''value''),
         is_relationships = [], is_synced_at = Some now\<rparr>"

record entra_config =
  ec_tenant_id :: string
  ec_client_id :: string
  ec_client_secret :: string
  ec_graph_base :: string
  ec_mock :: bool

definition default_graph :: string where
  "default_graph = ''https://graph.microsoft.com/v1.0''"

record entra_adapter =
  ea_config :: entra_config
  ea_mock_users :: "json option"
  ea_mock_groups :: "json option"

text \<open>HTTP: a form post and a bearer-authorised get, each ending in a JSON body or an error text.\<close>

record http =
  ht_post_form :: "string \<Rightarrow> (string \<times> string) list \<Rightarrow> string + json"
  ht_get_bearer :: "string \<Rightarrow> string \<Rightarrow> string + json"
  ht_get :: "string \<Rightarrow> string + json"

definition fetch_token :: "http \<Rightarrow> entra_config \<Rightarrow> (identity_error, string) result" where
  "fetch_token ht cf =
     and_then (lift_msg IdMsg (ht_post_form ht
        (''https://login.microsoftonline.com/'' @ ec_tenant_id cf @ ''/oauth2/v2.0/token'')
        [(''client_id'', ec_client_id cf), (''client_secret'', ec_client_secret cf),
         (''scope'', ''https://graph.microsoft.com/.default''), (''grant_type'', ''client_credentials'')])) (\<lambda>resp.
       ok_or (IdMsg ''entra token missing access_token'') (get_str resp ''access_token''))"

definition entra_sync :: "http \<Rightarrow> string \<Rightarrow> entra_adapter \<Rightarrow> (identity_error, identity_snapshot) result" where
  "entra_sync ht now ad =
     (let cf = ea_config ad in
      if ec_mock cf
      then (case (ea_mock_users ad, ea_mock_groups ad) of
              (Some u, Some g) \<Rightarrow> parse_graph_snapshot now u g
            | _ \<Rightarrow> Ok (mock_directory_snapshot now ''entra_id''))
      else and_then (fetch_token ht cf) (\<lambda>token.
        and_then (lift_msg IdMsg (ht_get_bearer ht
            (ec_graph_base cf @ ''/users?$select=id,displayName,mail,userPrincipalName'') token)) (\<lambda>users.
        and_then (lift_msg IdMsg (ht_get_bearer ht (ec_graph_base cf @ ''/groups?$select=id,displayName'') token)) (\<lambda>groups.
          parse_graph_snapshot now users groups))))"

record cognito_config =
  cc_region :: string
  cc_user_pool_id :: string
  cc_access_key_id :: string
  cc_secret_access_key :: string
  cc_mock :: bool
  cc_mock_endpoint :: "string option"

record cognito_adapter =
  co_config :: cognito_config
  co_mock_payload :: "json option"

text \<open>One attribute of a Cognito user: the last \<open>email\<close> and the last \<open>custom:roles\<close> win.\<close>

definition cognito_attr :: "json \<Rightarrow> string option \<times> string list \<Rightarrow> string option \<times> string list" where
  "cognito_attr a acc =
     (let name = str_or [] (get_str a ''Name''); val = str_or [] (get_str a ''Value'')
      in (if name = ''email'' then Some val else fst acc,
          if name = ''custom:roles'' then map trim (split_on (CHR '','') val) else snd acc))"

definition cognito_user :: "json \<Rightarrow> canonical_identity" where
  "cognito_user u =
     (let username = str_or ''unknown'' (get_str u ''Username'');
          acc = fold cognito_attr (get_arr u ''Attributes'') (None, [])
      in mk_identity (''user:'' @ username) username (fst acc) ''cognito'' (snd acc) [])"

definition cognito_group :: "json \<Rightarrow> group" where
  "cognito_group g =
     (let n = str_or ''group'' (get_str g ''GroupName'')
      in \<lparr>gr_id = n, gr_name = n, gr_members = [], gr_source = ''cognito''\<rparr>)"

definition parse_cognito_payload :: "string \<Rightarrow> json \<Rightarrow> (identity_error, identity_snapshot) result" where
  "parse_cognito_payload now p =
     Ok \<lparr>is_users = map cognito_user (get_arr p ''Users''), is_groups = map cognito_group (get_arr p ''Groups''),
         is_relationships = [], is_synced_at = Some now\<rparr>"

definition cognito_sync :: "http \<Rightarrow> string \<Rightarrow> cognito_adapter \<Rightarrow> (identity_error, identity_snapshot) result" where
  "cognito_sync ht now ad =
     (let cf = co_config ad in
      if cc_mock cf
      then (case co_mock_payload ad of Some p \<Rightarrow> parse_cognito_payload now p | None \<Rightarrow> Ok (mock_directory_snapshot now ''cognito''))
      else case cc_mock_endpoint cf of
        Some url \<Rightarrow> and_then (lift_msg IdMsg (ht_get ht url)) (parse_cognito_payload now)
      | None \<Rightarrow> Fail (IdMsg ''live Cognito requires AWS SigV4 client; set mock=true or mock_endpoint for demos''))"

text \<open>The sync of the SAML adapter answers the mock directory whatever its configuration says.\<close>

record saml2_config =
  sm_entity_id :: string
  sm_sso_url :: string
  sm_certificate_pem :: "string option"
  sm_mock :: bool

definition saml_sync :: "string \<Rightarrow> saml2_config \<Rightarrow> (identity_error, identity_snapshot) result" where
  "saml_sync now cf = Ok (mock_directory_snapshot now ''saml2'')"

section \<open>Discovery\<close>

text \<open>\<open>map.entry(id).or_insert(x)\<close> over a list: the first of every id stays. The map hands its values
  out in an order of its own, the argument \<open>order\<close>.\<close>

definition entry_or_insert :: "('x \<Rightarrow> string) \<Rightarrow> 'x \<Rightarrow> (string \<times> 'x) list \<Rightarrow> (string \<times> 'x) list" where
  "entry_or_insert key x m = (if map_of m (key x) = None then m @ [(key x, x)] else m)"

definition dedupe_first :: "('x \<Rightarrow> string) \<Rightarrow> 'x list \<Rightarrow> 'x list" where
  "dedupe_first key xs = map snd (fold (entry_or_insert key) xs [])"

definition discover_ad :: active_directory_config where
  "discover_ad = \<lparr>ac_url = ''ldap://localhost:389'', ac_bind_dn = ''cn=admin,dc=example,dc=com'', ac_bind_password = ''admin'',
     ac_base_dn = ''dc=example,dc=com'', ac_mock = True\<rparr>"

definition discover_entra :: entra_adapter where
  "discover_entra = \<lparr>ea_config = \<lparr>ec_tenant_id = ''auto-discovered-tenant'', ec_client_id = ''auto-discovered-client'',
     ec_client_secret = [], ec_graph_base = default_graph, ec_mock = True\<rparr>, ea_mock_users = None, ea_mock_groups = None\<rparr>"

definition discover_cognito :: cognito_adapter where
  "discover_cognito = \<lparr>co_config = \<lparr>cc_region = ''us-east-1'', cc_user_pool_id = ''auto-discovered-pool'', cc_access_key_id = [],
     cc_secret_access_key = [], cc_mock = True, cc_mock_endpoint = None\<rparr>, co_mock_payload = None\<rparr>"

text \<open>\<open>if let Ok(snap) = ...\<close>: a provider that fails contributes nothing.\<close>

definition snap_or_empty :: "(identity_error, identity_snapshot) result \<Rightarrow> identity_snapshot" where
  "snap_or_empty r = unwrap_or snapshot_default r"

definition merge_snapshots ::
  "(canonical_identity list \<Rightarrow> canonical_identity list) \<Rightarrow> (group list \<Rightarrow> group list) \<Rightarrow> string \<Rightarrow>
   identity_snapshot \<Rightarrow> identity_snapshot \<Rightarrow> identity_snapshot \<Rightarrow> identity_snapshot" where
  "merge_snapshots uo go now ad entra cognito =
     \<lparr>is_users = uo (dedupe_first ci_id (is_users ad @ is_users entra @ is_users cognito)),
      is_groups = go (dedupe_first gr_id (is_groups ad @ is_groups entra @ is_groups cognito)),
      is_relationships = is_relationships ad, is_synced_at = Some now\<rparr>"

definition discover_all_stores ::
  "(canonical_identity list \<Rightarrow> canonical_identity list) \<Rightarrow> (group list \<Rightarrow> group list) \<Rightarrow> ldap_server \<Rightarrow> http \<Rightarrow> string \<Rightarrow>
   (identity_error, identity_snapshot \<times> string) result" where
  "discover_all_stores uo go sv ht now =
     (let final = merge_snapshots uo go now (snap_or_empty (ad_sync sv now discover_ad))
            (snap_or_empty (entra_sync ht now discover_entra)) (snap_or_empty (cognito_sync ht now discover_cognito))
      in Ok (final, generate_auto_discovered_draft_policies final))"

text \<open>The specification of the merge: what comes first in the list with an id.\<close>

definition first_with :: "('x \<Rightarrow> string) \<Rightarrow> 'x list \<Rightarrow> string \<Rightarrow> 'x option" where
  "first_with key xs k = List.find (\<lambda>x. key x = k) xs"

lemma first_with_append: "first_with key (xs @ ys) k = (case first_with key xs k of None \<Rightarrow> first_with key ys k | Some x \<Rightarrow> Some x)"
  by (induction xs) (auto simp: first_with_def)

lemma first_with_single: "first_with key [x] k = (if key x = k then Some x else None)"
  by (simp add: first_with_def)

lemma map_of_entry:
  "map_of (entry_or_insert key x m) k = (case map_of m k of None \<Rightarrow> if k = key x then Some x else None | Some v \<Rightarrow> Some v)"
  by (auto simp: entry_or_insert_def map_add_def split: option.splits)

lemma entry_keys:
  assumes "distinct (map fst m)" "\<forall>p\<in>set m. fst p = key (snd p)"
  shows "distinct (map fst (entry_or_insert key x m)) \<and> (\<forall>p\<in>set (entry_or_insert key x m). fst p = key (snd p))"
  using assms by (auto simp: entry_or_insert_def map_of_eq_None_iff)

lemma fold_entries:
  "map_of (fold (entry_or_insert key) xs []) k = first_with key xs k"
  "distinct (map fst (fold (entry_or_insert key) xs [])) \<and> (\<forall>p\<in>set (fold (entry_or_insert key) xs []). fst p = key (snd p))"
proof -
  show "map_of (fold (entry_or_insert key) xs []) k = first_with key xs k"
    by (induction xs rule: rev_induct) (simp_all add: map_of_entry first_with_append first_with_single first_with_def [of _ "[]"] split: option.split)
  show "distinct (map fst (fold (entry_or_insert key) xs [])) \<and> (\<forall>p\<in>set (fold (entry_or_insert key) xs []). fst p = key (snd p))"
  proof (induction xs rule: rev_induct)
    case (snoc x xs)
    have "fold (entry_or_insert key) (xs @ [x]) [] = entry_or_insert key x (fold (entry_or_insert key) xs [])" by simp
    then show ?case using entry_keys [of "fold (entry_or_insert key) xs []" key x] snoc.IH by simp
  qed simp
qed

lemma dedupe_first_ids: "distinct (map key (dedupe_first key xs))"
proof -
  have "map key (dedupe_first key xs) = map fst (fold (entry_or_insert key) xs [])"
    using fold_entries(2) [of key xs] by (simp add: dedupe_first_def)
  then show ?thesis using fold_entries(2) [of key xs] by simp
qed

lemma dedupe_first_mem: "x \<in> set (dedupe_first key xs) \<longleftrightarrow> first_with key xs (key x) = Some x"
proof -
  let ?m = "fold (entry_or_insert key) xs []"
  have *: "map_of ?m k = first_with key xs k" "distinct (map fst ?m)" "\<forall>p\<in>set ?m. fst p = key (snd p)" for k
    using fold_entries [of key xs] by simp_all
  have "x \<in> set (dedupe_first key xs) \<longleftrightarrow> (key x, x) \<in> set ?m"
    unfolding dedupe_first_def using *(3) by force
  also have "\<dots> \<longleftrightarrow> map_of ?m (key x) = Some x"
    using *(2) by simp
  finally show ?thesis by (simp add: *)
qed

text \<open>Merging the providers keeps exactly one user and one group per id, the one of the first
  provider that has it (Active Directory before Entra ID before Cognito), whatever order the hash maps
  iterate in; no entry is invented and none is lost. The relationships are Active Directory's alone. The drafted
  document is always accepted by the parser when the group names stay on their line, and allows at
  most reading one's own profile.\<close>

theorem merge_first_wins:
  assumes uo: "\<forall>us. mset (uo us) = mset us" and go: "\<forall>gs. mset (go gs) = mset gs"
    and s: "s = merge_snapshots uo go now ad entra cognito"
  shows "distinct (map ci_id (is_users s)) \<and> distinct (map gr_id (is_groups s)) \<and>
    (\<forall>u. u \<in> set (is_users s) \<longleftrightarrow> first_with ci_id (is_users ad @ is_users entra @ is_users cognito) (ci_id u) = Some u) \<and>
    (\<forall>g. g \<in> set (is_groups s) \<longleftrightarrow> first_with gr_id (is_groups ad @ is_groups entra @ is_groups cognito) (gr_id g) = Some g) \<and>
    is_relationships s = is_relationships ad \<and>
    ((\<forall>g\<in>set (is_groups s). plain_name (gr_name g)) \<longrightarrow>
       (\<exists>ps. parse_dsl (generate_auto_discovered_draft_policies s) = Ok ps \<and> (\<forall>p\<in>set ps. cautious p)))"
proof -
  let ?us = "is_users ad @ is_users entra @ is_users cognito" and ?gs = "is_groups ad @ is_groups entra @ is_groups cognito"
  have u: "mset (is_users s) = mset (dedupe_first ci_id ?us)" and g: "mset (is_groups s) = mset (dedupe_first gr_id ?gs)"
    using uo go by (simp_all add: s merge_snapshots_def)
  have "distinct (map ci_id (is_users s))" "distinct (map gr_id (is_groups s))"
    using dedupe_first_ids [of ci_id ?us] dedupe_first_ids [of gr_id ?gs] u g
    by (metis mset_eq_imp_distinct_iff mset_map)+
  moreover have "set (is_users s) = set (dedupe_first ci_id ?us)" "set (is_groups s) = set (dedupe_first gr_id ?gs)"
    using u g mset_eq_setD by blast+
  moreover have "is_relationships s = is_relationships ad" by (simp add: s merge_snapshots_def)
  moreover have "\<exists>ps. parse_dsl (generate_auto_discovered_draft_policies s) = Ok ps \<and> (\<forall>p\<in>set ps. cautious p)"
    if n: "\<forall>g\<in>set (is_groups s). plain_name (gr_name g)"
    using auto_drafts.drafts_parse [OF n] auto_drafts.drafts_cautious [OF n] by blast
  ultimately show ?thesis by (simp add: dedupe_first_mem)
qed

theorem merge_first_wins_witness:
  "map ci_source (is_users (merge_snapshots id id ''now'' (mock_directory_snapshot ''now'' ''active_directory'')
     (mock_directory_snapshot ''now'' ''entra_id'') (mock_directory_snapshot ''now'' ''cognito''))) = [''active_directory''] \<and>
   distinct (map gr_id (is_groups (merge_snapshots id id ''now'' (mock_directory_snapshot ''now'' ''active_directory'')
     (mock_directory_snapshot ''now'' ''entra_id'') (mock_directory_snapshot ''now'' ''cognito''))))"
  using merge_first_wins [of id id, OF _ _ refl]
  by (simp add: merge_snapshots_def dedupe_first_def entry_or_insert_def mock_directory_snapshot_def mk_identity_def)

end
