(* ===== verification/Cli.thy ===== *)
theory Cli
  imports Identity_Idp Llm_Bridge Audit_Log Board Audit_Store
begin

text \<open>
  \<open>authz-cli/src/main.rs\<close>: the command line. A command is a computation on the disk and the text printed so
  far, ending in an exit code or in the chain of messages of an error. The commands are the values of a datatype, as
  the argument parser delivers them. Clocks, random bytes, the JSON and YAML forms, the directories asked and the
  orders in which hash maps hand out their entries are the fields of \<open>cli_outside\<close>.
\<close>

section \<open>The world of a command\<close>

record cli_world =
  cw_disk :: disk
  cw_out :: string

type_synonym 'a cli_io = "(cli_world, string list, 'a) st"

record ('ps, 'rx, 'ctx, 'es, 'rq) cli_outside =
  co_cedar :: "('ps, 'rx, 'ctx, 'es, 'rq) cedar"
  co_crypto :: crypto
  co_codec :: codec
  co_audit :: audit_codec
  co_clock :: store_clock
  co_now :: string
  co_eval :: "nat \<Rightarrow> eval_env"
  co_secret :: string
  co_pair_json :: "signing_key_pair \<Rightarrow> string + string"
  co_parse_pair :: "string \<Rightarrow> string + signing_key_pair"
  co_snapshot_json :: "identity_snapshot \<Rightarrow> string + string"
  co_parse_snapshot :: "string \<Rightarrow> string + identity_snapshot"
  co_request_json :: "authz_request \<Rightarrow> string + string"
  co_decision_json :: "authz_decision \<Rightarrow> string + string"
  co_catalog_json :: "string \<Rightarrow> string + resource_catalog"
  co_catalog_yaml :: "string \<Rightarrow> string + resource_catalog"
  co_show_f32 :: "rat \<Rightarrow> string"
  co_ldap :: ldap_server
  co_http :: http
  co_user_order :: "canonical_identity list \<Rightarrow> canonical_identity list"
  co_group_order :: "group list \<Rightarrow> group list"
  co_member_order :: "string list index_map \<Rightarrow> string list index_map"
  co_count_order :: "((string \<times> string) \<times> nat) list \<Rightarrow> ((string \<times> string) \<times> nat) list"

record cli_paths =
  pt_policy_dir :: string
  pt_identity_dir :: string
  pt_audit_path :: string
  pt_key_path :: string

definition cli_print :: "string \<Rightarrow> unit cli_io" where
  "cli_print s = st_modify (\<lambda>w. w\<lparr>cw_out := cw_out w @ s\<rparr>)"

definition cli_println :: "string \<Rightarrow> unit cli_io" where
  "cli_println s = cli_print (s @ [NL])"

definition cli_lines :: "string list \<Rightarrow> unit cli_io" where
  "cli_lines ls = cli_print (unlines ls)"

text \<open>Work on the disk whose error, shown as a text, becomes the error of the command.\<close>

definition cli_disk :: "('e \<Rightarrow> string) \<Rightarrow> (disk, 'e, 'a) st \<Rightarrow> 'a cli_io" where
  "cli_disk show m = st_map_err (\<lambda>e. [show e]) (st_zoom cw_disk (\<lambda>d w. w\<lparr>cw_disk := d\<rparr>) m)"

definition cli_try :: "('e \<Rightarrow> string) \<Rightarrow> ('e, 'a) result \<Rightarrow> 'a cli_io" where
  "cli_try show r = st_lift (map_err (\<lambda>e. [show e]) r)"

definition with_context :: "string \<Rightarrow> 'a cli_io \<Rightarrow> 'a cli_io" where
  "with_context msg m = st_map_err (\<lambda>chain. msg # chain) m"

text \<open>An error of the file system as \<open>std::io::Error\<close> prints it.\<close>

definition os_text :: "policy_error \<Rightarrow> string" where
  "os_text e = policy_error_text e"

definition snapshot_path :: "cli_paths \<Rightarrow> path" where
  "snapshot_path pt = path_join (path_of (pt_identity_dir pt)) ''snapshot.json''"

definition show_join :: "string \<Rightarrow> string \<Rightarrow> string" where
  "show_join dir name = (if dir = [] \<or> last dir = CHR ''/'' then dir @ name else dir @ ''/'' @ name)"

definition ARROW :: string where
  "ARROW = [CHR 0xE2, CHR 0x86, CHR 0x92]"

definition cli_open :: "cli_paths \<Rightarrow> policy_store cli_io" where
  "cli_open pt = cli_disk policy_error_text (store_open (path_of (pt_policy_dir pt)))"

section \<open>Identity\<close>

definition identity_discover ::
  "('ps, 'rx, 'ctx, 'es, 'rq) cli_outside \<Rightarrow> cli_paths \<Rightarrow> bool \<Rightarrow> unit cli_io" where
  "identity_discover co pt drafts =
     st_bind (cli_try identity_error_text
       (discover_all_stores (co_user_order co) (co_group_order co) (co_ldap co) (co_http co) (co_now co))) (\<lambda>(snap, draft_dsl).
     st_bind (cli_disk os_text (fs_create_dir_all (path_of (pt_identity_dir pt)))) (\<lambda>_.
     st_bind (cli_disk identity_error_text (save_snapshot (co_snapshot_json co) (snapshot_path pt) snap)) (\<lambda>_.
     st_bind (cli_println (''Auto-Discovered across all stores (AD, LDAP, Entra ID, Cognito): '' @ show_nat (length (is_users snap)) @
       '' users, '' @ show_nat (length (is_groups snap)) @ '' groups '' @ ARROW @ '' '' @ show_join (pt_identity_dir pt) ''snapshot.json'')) (\<lambda>_.
       if drafts
       then st_bind (cli_open pt) (\<lambda>store.
            st_bind (cli_disk policy_error_text (write_draft store ''auto-discovered'' draft_dsl)) (\<lambda>_.
              cli_lines [''wrote DRAFT policies to '' @ pt_policy_dir pt @ ''/drafts/auto-discovered.dsl (never auto-deployed)'',
                ''--- auto-discovered draft preview ---'' @ [NL] @ draft_dsl]))
       else st_ret ()))))"

text \<open>The draft an identity provider writes during its own sync.\<close>

definition provider_draft :: "cli_paths \<Rightarrow> string \<Rightarrow> string \<Rightarrow> unit cli_io" where
  "provider_draft pt name dsl =
     st_bind (cli_open pt) (\<lambda>store.
     st_bind (cli_disk policy_error_text (write_draft store name dsl)) (\<lambda>_.
       cli_println (''wrote DRAFT policies drafts/'' @ name @ ''.dsl'')))"

definition sync_provider ::
  "cli_paths \<Rightarrow> bool \<Rightarrow> string \<Rightarrow> idp \<Rightarrow> (identity_error, identity_snapshot) result \<Rightarrow> identity_snapshot cli_io" where
  "sync_provider pt drafts name i r =
     st_bind (cli_try identity_error_text r) (\<lambda>snap.
     st_bind (if drafts then provider_draft pt name (idp_draft_policies i snap) else st_ret ()) (\<lambda>_.
       st_ret snap))"

definition cli_ad :: active_directory_config where
  "cli_ad = \<lparr>ac_url = ''ldap://localhost:389'', ac_bind_dn = ''cn=admin,dc=example,dc=com'', ac_bind_password = ''admin'',
     ac_base_dn = ''dc=example,dc=com'', ac_mock = True\<rparr>"

definition cli_entra :: entra_adapter where
  "cli_entra = \<lparr>ea_config = \<lparr>ec_tenant_id = ''demo'', ec_client_id = ''demo'', ec_client_secret = [],
     ec_graph_base = ''https://graph.microsoft.com/v1.0'', ec_mock = True\<rparr>, ea_mock_users = None, ea_mock_groups = None\<rparr>"

definition cli_cognito :: cognito_adapter where
  "cli_cognito = \<lparr>co_config = \<lparr>cc_region = ''us-east-1'', cc_user_pool_id = ''demo'', cc_access_key_id = [],
     cc_secret_access_key = [], cc_mock = True, cc_mock_endpoint = None\<rparr>, co_mock_payload = None\<rparr>"

definition sync_source ::
  "('ps, 'rx, 'ctx, 'es, 'rq) cli_outside \<Rightarrow> cli_paths \<Rightarrow> string \<Rightarrow> bool \<Rightarrow> identity_snapshot cli_io" where
  "sync_source co pt source drafts =
     (if source = ''ldap'' \<or> source = ''mock-ldap''
      then cli_try identity_error_text (ldap_sync (co_ldap co) (co_now co) ldap_mock_demo)
      else if source = ''ad'' \<or> source = ''active_directory''
      then sync_provider pt drafts ''ad-sync'' IdpAd (ad_sync (co_ldap co) (co_now co) cli_ad)
      else if source = ''entra'' \<or> source = ''entra_id''
      then sync_provider pt drafts ''entra-sync'' IdpEntra (entra_sync (co_http co) (co_now co) cli_entra)
      else if source = ''cognito''
      then sync_provider pt drafts ''cognito-sync'' IdpCognito (cognito_sync (co_http co) (co_now co) cli_cognito)
      else if source = ''local''
      then cli_disk identity_error_text
             (local_sync (co_parse_snapshot co) (path_join (path_of (pt_identity_dir pt)) ''fixtures.json''))
      else st_fail [''unknown identity source: '' @ source @ '' (use ldap|ad|entra|cognito|local|all)''])"

definition identity_sync ::
  "('ps, 'rx, 'ctx, 'es, 'rq) cli_outside \<Rightarrow> cli_paths \<Rightarrow> string \<Rightarrow> bool \<Rightarrow> unit cli_io" where
  "identity_sync co pt source drafts =
     (if source = ''all'' \<or> source = ''discover'' then identity_discover co pt drafts
      else
        st_bind (sync_source co pt source drafts) (\<lambda>snap.
        st_bind (cli_disk os_text (fs_create_dir_all (path_of (pt_identity_dir pt)))) (\<lambda>_.
        st_bind (cli_disk identity_error_text (save_snapshot (co_snapshot_json co) (snapshot_path pt) snap)) (\<lambda>_.
        st_bind (cli_println (''synced '' @ show_nat (length (is_users snap)) @ '' users, '' @ show_nat (length (is_groups snap)) @
          '' groups via '' @ source @ '' '' @ ARROW @ '' '' @ show_join (pt_identity_dir pt) ''snapshot.json'')) (\<lambda>_.
          if drafts
          then st_bind (cli_open pt) (\<lambda>store.
               st_bind (cli_disk identity_error_text (write_drafts_to_store snap store)) (\<lambda>dsl.
                 cli_lines [''wrote DRAFT policies to '' @ pt_policy_dir pt @ ''/drafts/ldap-sync.dsl (not deployed)'',
                   ''--- draft preview ---'' @ [NL] @ dsl]))
          else st_ret ())))))"

section \<open>The policy life cycle\<close>

definition policy_validate ::
  "('ps, 'rx, 'ctx, 'es, 'rq) cli_outside \<Rightarrow> cli_paths \<Rightarrow> string option \<Rightarrow> unit cli_io" where
  "policy_validate co pt doc =
     st_bind (cli_open pt) (\<lambda>store.
     st_bind (case doc of
                Some p \<Rightarrow> cli_disk os_text (fs_read (path_of p))
              | None \<Rightarrow> cli_disk policy_error_text (read_active_dsl store)) (\<lambda>dsl.
     st_bind (cli_try policy_error_text (validate_dsl (co_cedar co) dsl)) (\<lambda>policies.
       cli_lines ((''OK: '' @ show_nat (length policies) @ '' policies validated (DSL '' @ ARROW @ '' Cedar)'') #
         map (\<lambda>p. ''  - '' @ dp_id p @ '' ('' @ debug_dsl_effect (dp_effect p) @ '' '' @ dp_action p @ '' '' @ dp_resource p @ '')'')
           policies))))"

definition ceo_expense_deny :: authz_request where
  "ceo_expense_deny =
     \<lparr>rq_principal = with_roles ''user:hr-head'' [''HR_HEAD''], rq_action = action_new ''READ'',
      rq_resource = resource_of_kind ''TRAVEL_EXPENSE'',
      rq_subject = Some \<lparr>sj_id = ''employee:CEO'', sj_kind = ''Employee'', sj_groups = [''EXECUTIVE''], sj_attrs = []\<rparr>,
      rq_context = \<lparr>cx_values = [(''time_range'', ''LAST_WEEK'')]\<rparr>,
      rq_relationships = [\<lparr>rl_kind = DirectReports, rl_from = ''user:hr-head'', rl_to = ''employee:alice''\<rparr>],
      rq_acting_as = None, rq_on_behalf_of = None\<rparr>"

definition direct_report_allow :: authz_request where
  "direct_report_allow =
     \<lparr>rq_principal = with_roles ''user:hr-head'' [''HR_HEAD''], rq_action = action_new ''READ'',
      rq_resource = resource_of_kind ''TRAVEL_EXPENSE'',
      rq_subject = Some \<lparr>sj_id = ''employee:alice'', sj_kind = ''Employee'', sj_groups = [''ENGINEERING''], sj_attrs = []\<rparr>,
      rq_context = empty_context,
      rq_relationships = [\<lparr>rl_kind = DirectReports, rl_from = ''user:hr-head'', rl_to = ''employee:alice''\<rparr>],
      rq_acting_as = None, rq_on_behalf_of = None\<rparr>"

definition demo_test_cases :: "(string \<times> authz_request \<times> decision_effect) list" where
  "demo_test_cases =
     [(''ceo_expense_deny'', ceo_expense_deny, Deny), (''direct_report_allow'', direct_report_allow, Allow)]"

text \<open>The policies under test: what is deployed, or else the active document compiled in memory.\<close>

definition policies_under_test ::
  "('ps, 'rx, 'ctx, 'es, 'rq) cli_outside \<Rightarrow> policy_store \<Rightarrow> ('ps \<times> string \<times> string option) cli_io" where
  "policies_under_test co store =
     st_bind (st_try (cli_disk policy_error_text (policy_set_from_deployed (co_cedar co) (co_codec co) store))) (\<lambda>r.
       case r of
         Inr (pset, rv) \<Rightarrow> st_ret (pset, rv_revision rv, map_option sb_key_id (rv_bundle rv))
       | Inl (Panic m) \<Rightarrow> st_lift (Inl (Panic m))
       | Inl (Err _) \<Rightarrow>
           st_bind (cli_disk policy_error_text (read_active_dsl store)) (\<lambda>dsl.
           st_bind (cli_try policy_error_text (validate_dsl (co_cedar co) dsl)) (\<lambda>policies.
           st_bind (cli_try policy_error_text (cedar_policy_set_from_dsl (co_cedar co) policies)) (\<lambda>pset.
             st_ret (pset, ''uncommitted'', None)))))"

definition run_test_case ::
  "('ps, 'rx, 'ctx, 'es, 'rq) cli_outside \<Rightarrow> 'ps \<times> string \<times> string option \<Rightarrow>
   nat \<times> (string \<times> authz_request \<times> decision_effect) \<Rightarrow> nat \<Rightarrow> nat cli_io" where
  "run_test_case co tested c failed =
     (let (pset, revision, signature) = tested; (n, name, req, expect) = c in
      st_bind (cli_try authz_error_text (evaluate (co_cedar co) (co_eval co n) req
        \<lparr>ec_policy_set = pset, ec_policy_revision = revision, ec_policy_signature = signature, ec_group_members = []\<rparr>)) (\<lambda>d.
      st_bind (cli_println ((if ad_effect d = expect then ''PASS'' else ''FAIL'') @ '' '' @ name @ '' '' @ EM_DASH @ '' expected '' @
        debug_effect expect @ '', got '' @ debug_effect (ad_effect d) @ '' (rev '' @ ev_policy_revision (ad_evidence d) @ '')'')) (\<lambda>_.
        st_ret (if ad_effect d = expect then failed else failed + 1))))"

definition policy_test :: "('ps, 'rx, 'ctx, 'es, 'rq) cli_outside \<Rightarrow> cli_paths \<Rightarrow> unit cli_io" where
  "policy_test co pt =
     st_bind (cli_open pt) (\<lambda>store.
     st_bind (policies_under_test co store) (\<lambda>tested.
     st_bind (st_fold (run_test_case co tested) (enumerate 0 demo_test_cases) 0) (\<lambda>failed.
       if failed > 0 then st_fail [show_nat failed @ '' policy tests failed''] else st_ret ())))"

definition policy_diff ::
  "('ps, 'rx, 'ctx, 'es, 'rq) cli_outside \<Rightarrow> cli_paths \<Rightarrow> string option \<Rightarrow> unit cli_io" where
  "policy_diff co pt revision =
     st_bind (cli_open pt) (\<lambda>store.
     st_bind (case revision of
                Some r \<Rightarrow> st_ret r
              | None \<Rightarrow>
                  st_bind (cli_disk policy_error_text (head_revision store)) (\<lambda>h.
                    st_lift (ok_or [''no HEAD revision; commit first''] h))) (\<lambda>rev.
     st_bind (cli_disk policy_error_text (diff_active_vs_revision (co_codec co) store rev)) cli_print))"

definition policy_commit ::
  "('ps, 'rx, 'ctx, 'es, 'rq) cli_outside \<Rightarrow> cli_paths \<Rightarrow> string \<Rightarrow> unit cli_io" where
  "policy_commit co pt message =
     st_bind (cli_open pt) (\<lambda>store.
     st_bind (cli_disk policy_error_text (commit (co_cedar co) (co_crypto co) (co_codec co) (co_clock co) store message)) (\<lambda>rev.
       cli_println (''committed revision '' @ rv_revision rev @ '' '' @ EM_DASH @ '' '' @ rv_message rev)))"

definition ensure_key :: "('ps, 'rx, 'ctx, 'es, 'rq) cli_outside \<Rightarrow> cli_paths \<Rightarrow> local_signer cli_io" where
  "ensure_key co pt =
     (let p = path_of (pt_key_path pt) in
      st_bind (st_gets (\<lambda>w. fs_exists p (cw_disk w))) (\<lambda>present.
        if present
        then st_bind (cli_disk os_text (fs_read p)) (\<lambda>data.
             st_bind (st_lift (lift_msg (\<lambda>e. [e]) (co_parse_pair co data))) (\<lambda>pair.
               cli_try policy_error_text (signer_from_keypair (co_crypto co) pair)))
        else st_bind (if p = [] then st_ret () else cli_disk os_text (fs_create_dir_all (butlast p))) (\<lambda>_.
             let (signer, pair) = signer_generate (co_crypto co) (co_secret co) ''key-local-mvp'' in
             st_bind (st_lift (lift_msg (\<lambda>e. [e]) (co_pair_json co pair))) (\<lambda>json.
             st_bind (cli_disk os_text (fs_write p json)) (\<lambda>_.
             st_bind (cli_println (''generated local signing key '' @ ARROW @ '' '' @ pt_key_path pt)) (\<lambda>_.
               st_ret signer))))))"

definition policy_sign :: "('ps, 'rx, 'ctx, 'es, 'rq) cli_outside \<Rightarrow> cli_paths \<Rightarrow> unit cli_io" where
  "policy_sign co pt =
     st_bind (cli_open pt) (\<lambda>store.
     st_bind (ensure_key co pt) (\<lambda>signer.
     st_bind (cli_disk policy_error_text
       (sign_head (co_crypto co) (co_codec co) (co_clock co) store (local_bundle_signer (co_crypto co) signer))) (\<lambda>b.
       cli_println (''signed revision '' @ sb_revision b @ '' with '' @ sb_key_id b @ '' (sha256 '' @ sb_content_sha256 b @ '')''))))"

definition policy_deploy :: "('ps, 'rx, 'ctx, 'es, 'rq) cli_outside \<Rightarrow> cli_paths \<Rightarrow> unit cli_io" where
  "policy_deploy co pt =
     st_bind (cli_open pt) (\<lambda>store.
     st_bind (cli_disk policy_error_text (deploy_head (co_codec co) store)) (\<lambda>rev.
       cli_println (''deployed revision '' @ rv_revision rev)))"

section \<open>Suggestions\<close>

definition load_snapshot ::
  "('ps, 'rx, 'ctx, 'es, 'rq) cli_outside \<Rightarrow> cli_paths \<Rightarrow> identity_snapshot option cli_io" where
  "load_snapshot co pt =
     st_bind (st_gets (\<lambda>w. fs_exists (snapshot_path pt) (cw_disk w))) (\<lambda>present.
       if present
       then st_bind (cli_disk os_text (fs_read (snapshot_path pt))) (\<lambda>data.
            st_bind (st_lift (lift_msg (\<lambda>e. [e]) (co_parse_snapshot co data))) (\<lambda>snap. st_ret (Some snap)))
       else st_ret None)"

definition suggest_cmd :: "('ps, 'rx, 'ctx, 'es, 'rq) cli_outside \<Rightarrow> cli_paths \<Rightarrow> unit cli_io" where
  "suggest_cmd co pt =
     st_bind (cli_open pt) (\<lambda>store.
     st_bind (load_snapshot co pt) (\<lambda>snap.
     st_bind (cli_disk suggest_error_text (suggest_from_audit (co_count_order co) (co_audit co) (path_of (pt_audit_path pt)))) (\<lambda>denied.
       let suggestions = (case snap of Some s \<Rightarrow> suggest_from_snapshot s | None \<Rightarrow> []) @ denied in
       if suggestions = [] then cli_println ''no suggestions (sync identity or accumulate audit first)''
       else st_bind (cli_disk suggest_error_text (write_suggestions store suggestions)) (\<lambda>written.
              cli_lines ((''wrote '' @ show_nat (length written) @ '' draft(s):'') #
                map (\<lambda>n. ''  - drafts/'' @ n @ ''.dsl'') written)))))"

section \<open>Checks and explanations\<close>

record check_args =
  ch_principal :: string
  ch_action :: string
  ch_resource :: string
  ch_subject :: "string option"
  ch_role :: "string list"
  ch_subject_group :: "string list"
  ch_direct_report :: "string list"
  ch_nl :: "string option"

definition check_request ::
  "(rat \<Rightarrow> string) \<Rightarrow> check_args \<Rightarrow> (bridge_error, authz_request) result" where
  "check_request show_f32 a =
     (case ch_nl a of
        Some utterance \<Rightarrow> mock_build_request show_f32 (with_roles (ch_principal a) (ch_role a)) utterance
      | None \<Rightarrow>
          Ok \<lparr>rq_principal = with_roles (ch_principal a) (ch_role a), rq_action = action_new (ch_action a),
              rq_resource = resource_of_kind (ch_resource a),
              rq_subject = map_option (\<lambda>i. \<lparr>sj_id = i, sj_kind = ''Employee'', sj_groups = ch_subject_group a, sj_attrs = []\<rparr>) (ch_subject a),
              rq_context = empty_context,
              rq_relationships = map (\<lambda>dr. \<lparr>rl_kind = DirectReports, rl_from = ch_principal a, rl_to = dr\<rparr>) (ch_direct_report a),
              rq_acting_as = None, rq_on_behalf_of = None\<rparr>)"

text \<open>The groups of a snapshot as the entries of a hash map: a later group replaces an earlier one with its id.\<close>

definition group_entries :: "identity_snapshot \<Rightarrow> string list index_map" where
  "group_entries snap = fold (\<lambda>g m. im_insert (gr_id g) (gr_members g) m) (is_groups snap) []"

definition decision_lines :: "authz_decision \<Rightarrow> string list" where
  "decision_lines d =
     (let ev = ad_evidence d in
      [''DECISION: '' @ debug_effect (ad_effect d), ''decision_id: '' @ ev_decision_id ev,
       ''policy_revision: '' @ ev_policy_revision ev] @
      (case ev_policy_signature ev of Some sig \<Rightarrow> [''policy_signature: '' @ sig] | None \<Rightarrow> []) @
      [''engine_version: '' @ ev_engine_version ev] @
      (case ev_determining_policy ev of
         Some det \<Rightarrow> [''determining_policy: '' @ mp_id det @ '' ('' @ debug_effect (mp_effect det) @ '')'']
       | None \<Rightarrow> []) @
      map (\<lambda>p. ''matched_policy: '' @ mp_id p) (ev_matched_policies ev) @
      map (\<lambda>n. ''note: '' @ n) (ev_notes ev))"

definition check_config ::
  "('ps, 'rx, 'ctx, 'es, 'rq) cli_outside \<Rightarrow> 'ps \<Rightarrow> policy_revision \<Rightarrow> identity_snapshot option \<Rightarrow> 'ps evaluator_config" where
  "check_config co pset rv snap =
     \<lparr>ec_policy_set = pset, ec_policy_revision = rv_revision rv, ec_policy_signature = map_option sb_key_id (rv_bundle rv),
      ec_group_members = (case snap of Some s \<Rightarrow> co_member_order co (group_entries s) | None \<Rightarrow> [])\<rparr>"

definition check_cmd ::
  "('ps, 'rx, 'ctx, 'es, 'rq) cli_outside \<Rightarrow> cli_paths \<Rightarrow> check_args \<Rightarrow> nat cli_io" where
  "check_cmd co pt a =
     st_bind (cli_try bridge_error_text (check_request (co_show_f32 co) a)) (\<lambda>req.
     st_bind (cli_open pt) (\<lambda>store.
     st_bind (with_context (''no deployed policies '' @ EM_DASH @ '' run: authz policy commit/sign/deploy'')
       (cli_disk policy_error_text (policy_set_from_deployed (co_cedar co) (co_codec co) store))) (\<lambda>(pset, rv).
     st_bind (load_snapshot co pt) (\<lambda>snap.
     st_bind (cli_try authz_error_text (evaluate (co_cedar co) (co_eval co 0) req (check_config co pset rv snap))) (\<lambda>d.
     st_bind (st_try (cli_disk suggest_error_text (append_audit (co_audit co) (path_of (pt_audit_path pt)) d))) (\<lambda>_.
     st_bind (cli_lines (decision_lines d)) (\<lambda>_.
     st_bind (st_lift (lift_msg (\<lambda>e. [e]) (co_request_json co (ev_request (ad_evidence d))))) (\<lambda>json.
     st_bind (cli_println (''request: '' @ json)) (\<lambda>_.
       st_ret (if ad_effect d = Deny then 2 else 0))))))))))"

definition explain_cmd ::
  "('ps, 'rx, 'ctx, 'es, 'rq) cli_outside \<Rightarrow> cli_paths \<Rightarrow> string \<Rightarrow> unit cli_io" where
  "explain_cmd co pt decision_id =
     st_bind (with_context (''audit log '' @ pt_audit_path pt) (cli_disk os_text (fs_read (path_of (pt_audit_path pt))))) (\<lambda>data.
       case List.find (\<lambda>line. contains line decision_id) (str_lines data) of
         Some line \<Rightarrow>
           st_bind (st_lift (lift_msg (\<lambda>e. [e]) (al_parse_decision (co_audit co) line))) (\<lambda>d.
           st_bind (st_lift (lift_msg (\<lambda>e. [e]) (co_decision_json co d))) cli_println)
       | None \<Rightarrow> st_fail [''decision '' @ decision_id @ '' not found in audit log''])"

section \<open>The commands\<close>

datatype identity_command = IdSync string bool | IdDiscover bool

datatype policy_command =
    PcValidate "string option"
  | PcTest
  | PcDiff "string option"
  | PcCommit string
  | PcSign
  | PcDeploy
  | PcSuggest

datatype cli_command =
    CmdIdentity identity_command
  | CmdPolicy policy_command
  | CmdCheck check_args
  | CmdExplain string
  | CmdSuggest
  | CmdCatalogValidate string
  | CmdProxyRun string "string option"

definition catalog_validate :: "('ps, 'rx, 'ctx, 'es, 'rq) cli_outside \<Rightarrow> string \<Rightarrow> unit cli_io" where
  "catalog_validate co p =
     st_bind (st_try (cli_disk os_text (fs_read (path_of p)))) (\<lambda>r.
     st_bind (cli_try catalog_error_text (load_catalog (co_catalog_json co) (co_catalog_yaml co) p
       (case r of Inr data \<Rightarrow> Inr data | Inl (Err chain) \<Rightarrow> Inl (concat chain) | Inl (Panic m) \<Rightarrow> Inl m))) (\<lambda>cat.
     st_bind (cli_try catalog_error_text (validate_catalog cat)) (\<lambda>_.
       cli_println (''OK: catalog '' @ p @ '' ('' @ show_nat (length (ct_resources cat)) @ '' resources, '' @
         show_nat (length (ct_tools cat)) @ '' tools)''))))"

definition proxy_run :: "string \<Rightarrow> string option \<Rightarrow> unit cli_io" where
  "proxy_run config listen =
     (let flag = (case listen of Some l \<Rightarrow> '' --listen '' @ l | None \<Rightarrow> []) in
      cli_lines [''Start the gateway with:'',
        ''  cargo run -p authz-llm-proxy -- --config '' @ config @ flag,
        ''Or: ./target/release/paac-proxy --config '' @ config @ flag])"

definition done_ok :: "unit cli_io \<Rightarrow> nat cli_io" where
  "done_ok m = st_bind m (\<lambda>_. st_ret 0)"

fun run_policy_command ::
  "('ps, 'rx, 'ctx, 'es, 'rq) cli_outside \<Rightarrow> cli_paths \<Rightarrow> policy_command \<Rightarrow> unit cli_io" where
  "run_policy_command co pt (PcValidate doc) = policy_validate co pt doc"
| "run_policy_command co pt PcTest = policy_test co pt"
| "run_policy_command co pt (PcDiff r) = policy_diff co pt r"
| "run_policy_command co pt (PcCommit m) = policy_commit co pt m"
| "run_policy_command co pt PcSign = policy_sign co pt"
| "run_policy_command co pt PcDeploy = policy_deploy co pt"
| "run_policy_command co pt PcSuggest = suggest_cmd co pt"

fun run_command :: "('ps, 'rx, 'ctx, 'es, 'rq) cli_outside \<Rightarrow> cli_paths \<Rightarrow> cli_command \<Rightarrow> nat cli_io" where
  "run_command co pt (CmdIdentity (IdSync source drafts)) = done_ok (identity_sync co pt source drafts)"
| "run_command co pt (CmdIdentity (IdDiscover drafts)) = done_ok (identity_discover co pt drafts)"
| "run_command co pt (CmdPolicy pc) = done_ok (run_policy_command co pt pc)"
| "run_command co pt (CmdCheck a) = check_cmd co pt a"
| "run_command co pt (CmdExplain i) = done_ok (explain_cmd co pt i)"
| "run_command co pt CmdSuggest = done_ok (suggest_cmd co pt)"
| "run_command co pt (CmdCatalogValidate p) = done_ok (catalog_validate co p)"
| "run_command co pt (CmdProxyRun config listen) = done_ok (proxy_run config listen)"

text \<open>The exit status the shell sees: an error is 1, a panic 101.\<close>

definition exit_status :: "(string list, nat) result \<Rightarrow> nat" where
  "exit_status r = (case r of Inr n \<Rightarrow> n | Inl (Err _) \<Rightarrow> 1 | Inl (Panic _) \<Rightarrow> 101)"

definition cli_main ::
  "('ps, 'rx, 'ctx, 'es, 'rq) cli_outside \<Rightarrow> cli_paths \<Rightarrow> cli_command \<Rightarrow> disk \<Rightarrow> nat \<times> string \<times> disk" where
  "cli_main co pt cmd d =
     (case run_command co pt cmd \<lparr>cw_disk = d, cw_out = []\<rparr> of
        (r, w) \<Rightarrow> (exit_status r, cw_out w, cw_disk w))"

text \<open>The entries are those of the map of \<open>group_members_map\<close>.\<close>

lemma im_insert_map_of: "map_of (im_insert k v m) = (map_of m)(k \<mapsto> v)"
  by (simp add: im_insert_def update_conv')

lemma group_entries_map: "map_of (group_entries snap) = group_members_map snap"
proof -
  have "map_of (fold (\<lambda>g m. im_insert (gr_id g) (gr_members g) m) gs m) = fold (\<lambda>g m. hm_insert (gr_id g) (gr_members g) m) gs (map_of m)"
    for gs m by (induction gs arbitrary: m) (simp_all add: im_insert_map_of hm_insert_def)
  from this [of "is_groups snap" "[]"] show ?thesis by (simp add: group_entries_def group_members_map_def)
qed

end
