(* ===== verification/Cli_Safety.thy ===== *)
theory Cli_Safety
  imports Cli
begin

text \<open>
  What commands do to the policy store. The interface \<open>store_guard\<close> is an invariant of the disk that looks only at the
  store's own files (the head, the revisions, the deployed document); its client lemmas show once that every command
  but commit, sign and deploy keeps it. It is interpreted for two invariants: the deployed document
  staying what it was, and the signed state of \<open>Policy_Store\<close>.
\<close>

section \<open>Lifting to the world\<close>

definition on_world :: "(disk \<Rightarrow> bool) \<Rightarrow> cli_world \<Rightarrow> bool" where
  "on_world J w \<longleftrightarrow> J (cw_disk w)"

lemma cli_disk_apply: "cli_disk sh m w = (map_err (\<lambda>e. [sh e]) (fst (m (cw_disk w))), w\<lparr>cw_disk := snd (m (cw_disk w))\<rparr>)"
  by (simp add: cli_disk_def st_map_err_def st_zoom_def split: prod.split)

lemma cli_disk_Inr_iff: "cli_disk sh m w = (Inr x, w') \<longleftrightarrow> (\<exists>d. m (cw_disk w) = (Inr x, d) \<and> w' = w\<lparr>cw_disk := d\<rparr>)"
  by (cases "m (cw_disk w)") (auto simp: cli_disk_apply)

lemma preserves_cli_disk: "preserves J m \<Longrightarrow> preserves (on_world J) (cli_disk sh m)"
  by (auto simp: preserves_def on_world_def cli_disk_apply)

lemma preserves_print:
  "preserves (on_world J) (cli_print s)" "preserves (on_world J) (cli_println s)" "preserves (on_world J) (cli_lines ls)"
  by (simp_all add: preserves_def on_world_def cli_print_def cli_println_def cli_lines_def)

lemma preserves_cli_try: "preserves I (cli_try sh r)"
  by (simp add: cli_try_def)

lemma preserves_with_context: "preserves I m \<Longrightarrow> preserves I (with_context c m)"
  unfolding with_context_def by (rule preserves_map_err)

lemma preserves_if: "(b \<Longrightarrow> preserves I m) \<Longrightarrow> (\<not> b \<Longrightarrow> preserves I n) \<Longrightarrow> preserves I (if b then m else n)"
  by simp

lemma preserves_option: "preserves I m \<Longrightarrow> (\<And>x. preserves I (f x)) \<Longrightarrow> preserves I (case o' of None \<Rightarrow> m | Some x \<Rightarrow> f x)"
  by (cases o') simp_all

lemma preserves_prod: "(\<And>x y. preserves I (f x y)) \<Longrightarrow> preserves I (case p of (x, y) \<Rightarrow> f x y)"
  by (cases p) simp

lemmas preserves_reading = preserves_reads preserves_pure preserves_bind preserves_cli_disk preserves_print preserves_cli_try
  preserves_with_context preserves_if preserves_option preserves_prod preserves_try preserves_map_err

lemma preserves_done: "preserves I m \<Longrightarrow> preserves I (done_ok m)"
  unfolding done_ok_def by (intro preserves_reading)

definition the_store :: "cli_paths \<Rightarrow> policy_store" where
  "the_store pt = \<lparr>po_root = path_of (pt_policy_dir pt)\<rparr>"

text \<open>The files of the command line lie outside the files of the store that guards look at.\<close>

definition separate_paths :: "cli_paths \<Rightarrow> bool" where
  "separate_paths pt \<longleftrightarrow> (\<forall>p\<in>{snapshot_path pt, path_of (pt_audit_path pt), path_of (pt_key_path pt)}. \<not> store_path (the_store pt) p)"

lemma store_open_Inr: "store_open dir d = (Inr store, d') \<Longrightarrow> store = \<lparr>po_root = dir\<rparr>"
  by (auto simp: store_open_def result_simps)

section \<open>Guards of the store\<close>

text \<open>The three commands that publish.\<close>

definition publishes :: "cli_command \<Rightarrow> bool" where
  "publishes cmd \<longleftrightarrow> (\<exists>m. cmd = CmdPolicy (PcCommit m)) \<or> cmd = CmdPolicy PcSign \<or> cmd = CmdPolicy PcDeploy"

locale store_guard =
  fixes J :: "disk \<Rightarrow> bool" and pt :: cli_paths
  assumes dirs: "J d \<Longrightarrow> J (d\<lparr>dk_dirs := D\<rparr>)"
    and other: "J d \<Longrightarrow> \<not> store_path (the_store pt) p \<Longrightarrow> J (file_put p s d)"
begin

lemma guards_mkdir: "preserves J (fs_create_dir_all p)"
  by (auto simp: preserves_def fs_create_dir_all_def dirs split: option.split)

lemma guards_write: "\<not> store_path (the_store pt) p \<Longrightarrow> preserves J (fs_write p s)"
  by (auto simp: preserves_def fs_write_def other split: option.split)

lemma guards_store_open: "preserves J (store_open dir)"
  unfolding store_open_def by (intro preserves_reading guards_mkdir)

lemma guards_draft: "preserves J (write_draft store name dsl)"
proof -
  obtain u where "last (draft_path store name) = u @ ''.dsl''" using draft_path_last by blast
  then have "\<not> store_path (the_store pt) (draft_path store name)" by (rule dsl_path_not_store)
  then show ?thesis unfolding write_draft_def by (intro preserves_reading guards_write)
qed

lemma guards_snapshot: "\<not> store_path (the_store pt) p \<Longrightarrow> preserves J (save_snapshot js p snap)"
  unfolding save_snapshot_def by (intro preserves_reading guards_mkdir guards_write)

lemma guards_append: "\<not> store_path (the_store pt) p \<Longrightarrow> preserves J (append_audit al p d)"
  unfolding append_audit_def append_audit_record_def sg_io_def
  by (intro preserves_reading guards_mkdir)
     (auto simp: preserves_def fs_append_line_def fs_write_def other split: option.split)

lemma reads_only:
  "preserves J (read_audit_records al p)" "preserves J (local_sync rd p)"
  "preserves J (policy_set_from_deployed c js store)" "preserves J (diff_active_vs_revision js store r)"
proof -
  show "preserves J (read_audit_records al p)"
  proof -
    have "snd (read_audit_records al p d) = d" for d
      by (simp add: read_audit_records_def sg_io_def st_map_err_def fs_read_def st_bind_def split: option.split prod.split sum.split)
    then show ?thesis by (simp add: preserves_def)
  qed
  show "preserves J (local_sync rd p)" "preserves J (policy_set_from_deployed c js store)"
      "preserves J (diff_active_vs_revision js store r)"
    unfolding local_sync_def policy_set_from_deployed_def diff_active_vs_revision_def by (intro preserves_reading)+
qed

lemma guards_suggest: "preserves J (suggest_from_audit o' al p)" "preserves J (write_suggestions store ss)"
proof -
  show "preserves J (suggest_from_audit o' al p)"
    unfolding suggest_from_audit_def by (intro preserves_reading reads_only)
  show "preserves J (write_suggestions store ss)"
    unfolding write_suggestions_def write_suggestion_def
    by (intro preserves_fold preserves_reading guards_draft)
qed

lemmas guarded_steps = preserves_reading guards_mkdir guards_store_open guards_draft guards_snapshot guards_append
  reads_only guards_suggest

lemma guards_open: "preserves (on_world J) (cli_open pt')"
  unfolding cli_open_def by (intro guarded_steps)

lemma guards_discover:
  "\<not> store_path (the_store pt) (snapshot_path pt) \<Longrightarrow> preserves (on_world J) (identity_discover co pt drafts)"
  unfolding identity_discover_def by (intro guarded_steps guards_open)

lemma guards_sync:
  assumes "\<not> store_path (the_store pt) (snapshot_path pt)"
  shows "preserves (on_world J) (identity_sync co pt source drafts)"
proof -
  have p: "preserves (on_world J) (sync_provider pt drafts name i r)" for name i r
    unfolding sync_provider_def provider_draft_def by (intro guarded_steps guards_open)
  have s: "preserves (on_world J) (sync_source co pt source drafts)"
    unfolding sync_source_def by (intro guarded_steps p)
  have w: "preserves J (write_drafts_to_store snap store)" for snap store
    unfolding write_drafts_to_store_def Let_def by (intro guarded_steps)
  show ?thesis
    unfolding identity_sync_def by (intro guarded_steps guards_open guards_discover s w assms)
qed

lemma guards_load_snapshot: "preserves (on_world J) (load_snapshot co pt')"
  unfolding load_snapshot_def by (intro guarded_steps)

lemma guards_suggest_cmd: "preserves (on_world J) (suggest_cmd co pt')"
  unfolding suggest_cmd_def Let_def by (intro guarded_steps guards_open guards_load_snapshot)

lemma guards_check:
  "\<not> store_path (the_store pt) (path_of (pt_audit_path pt)) \<Longrightarrow> preserves (on_world J) (check_cmd co pt a)"
  unfolding check_cmd_def by (intro guarded_steps guards_open guards_load_snapshot)

lemma guards_explain: "preserves (on_world J) (explain_cmd co pt' i)"
  unfolding explain_cmd_def by (intro guarded_steps)

lemma guards_catalog: "preserves (on_world J) (catalog_validate co p)"
  unfolding catalog_validate_def by (intro guarded_steps)

lemma guards_proxy_run: "preserves (on_world J) (proxy_run cfg listen)"
  unfolding proxy_run_def Let_def by (intro guarded_steps)

lemma guards_validate: "preserves (on_world J) (policy_validate co pt' doc)"
  unfolding policy_validate_def by (intro guarded_steps guards_open)

lemma guards_test: "preserves (on_world J) (policy_test co pt')"
proof -
  have c: "preserves (on_world J) (run_test_case co tested c n)" for tested c n
    unfolding run_test_case_def Let_def by (intro guarded_steps)
  have u: "preserves (on_world J) (policies_under_test co store)" for store
    unfolding policies_under_test_def
  proof (intro preserves_bind)
    fix r :: "(string list, 'a \<times> policy_revision) result"
    show "preserves (on_world J) (case r of
         Inr (pset, rv) \<Rightarrow> st_ret (pset, rv_revision rv, map_option sb_key_id (rv_bundle rv))
       | Inl (Panic m) \<Rightarrow> st_lift (Inl (Panic m))
       | Inl (Err _) \<Rightarrow>
           st_bind (cli_disk policy_error_text (read_active_dsl store)) (\<lambda>dsl.
           st_bind (cli_try policy_error_text (validate_dsl (co_cedar co) dsl)) (\<lambda>policies.
           st_bind (cli_try policy_error_text (cedar_policy_set_from_dsl (co_cedar co) policies)) (\<lambda>pset.
             st_ret (pset, ''uncommitted'', None)))))"
      by (cases r rule: result_cases) (auto intro!: guarded_steps split: prod.split)
  qed (intro guarded_steps)
  show ?thesis
    unfolding policy_test_def by (intro guarded_steps guards_open u preserves_fold c)
qed

lemma guards_diff: "preserves (on_world J) (policy_diff co pt' r)"
  unfolding policy_diff_def by (intro guarded_steps guards_open)

lemma guards_command:
  assumes "separate_paths pt" "\<not> publishes cmd"
  shows "preserves (on_world J) (run_command co pt cmd)"
proof -
  have sep: "\<not> store_path (the_store pt) (snapshot_path pt)" "\<not> store_path (the_store pt) (path_of (pt_audit_path pt))"
    using assms(1) by (simp_all add: separate_paths_def)
  note quiet = guards_sync [OF sep(1)] guards_discover [OF sep(1)] guards_validate guards_test guards_diff guards_suggest_cmd
    guards_check [OF sep(2)] guards_explain guards_catalog guards_proxy_run preserves_done
  show ?thesis
  proof (cases cmd)
    case (CmdIdentity ic)
    then show ?thesis by (cases ic) (auto intro: quiet)
  next
    case (CmdPolicy pc)
    then show ?thesis using assms(2) by (cases pc) (auto simp: publishes_def intro: quiet)
  qed (auto intro: quiet)
qed

lemma guards_ensure_key:
  "\<not> store_path (the_store pt) (path_of (pt_key_path pt)) \<Longrightarrow> preserves (on_world J) (ensure_key co pt)"
  unfolding ensure_key_def Let_def signer_generate_def prod.case by (intro guarded_steps guards_write)

end

section \<open>What is deployed\<close>

text \<open>The deployed document is \<open>D\<close>, and the head names a revision by a plain file name.\<close>

definition deploy_guard :: "policy_store \<Rightarrow> string option \<Rightarrow> disk \<Rightarrow> bool" where
  "deploy_guard st D d \<longleftrightarrow> file_get d (deployed_path st) = D \<and> (\<forall>h. file_get d (head_path st) = Some h \<longrightarrow> slash_free h)"

lemma file_get_dirs [simp]: "file_get (d\<lparr>dk_dirs := D\<rparr>) p = file_get d p"
  by (simp add: file_get_def)

interpretation kept: store_guard "deploy_guard (the_store pt) D" pt for pt D
  by unfold_locales (auto simp: deploy_guard_def store_path_def)

interpretation signed: store_guard "store_inv cr js pk (the_store pt)" pt for cr js pk pt
  by unfold_locales (simp add: store_inv_def, rule store_inv_put_other)

lemma revision_not_deployed: "slash_free r \<Longrightarrow> revision_path st r \<noteq> deployed_path st \<and> revision_path st r \<noteq> head_path st \<and> head_path st \<noteq> revision_path st r"
  by (simp add: revision_path_slash_free store_paths)

lemma guarded_head:
  assumes "deploy_guard st D d" "head_revision st d = (Ok (Some r), d')"
  shows "slash_free r"
  using assms set_trim
  by (fastforce simp: head_revision_def fs_read_def st_bind_def ok_or_def deploy_guard_def slash_free_def split: if_splits option.splits)

lemma guarded_write_revision: "slash_free r \<Longrightarrow> preserves (deploy_guard st D) (fs_write (revision_path st r) s)"
  using revision_not_deployed [of r st] by (auto simp: preserves_def deploy_guard_def fs_write_def split: option.split)

lemma guarded_write_head: "slash_free r \<Longrightarrow> preserves (deploy_guard st D) (fs_write (head_path st) r)"
  by (auto simp: preserves_def deploy_guard_def fs_write_def store_paths split: option.split)

lemma commit_guarded: "crypto_documented cr \<Longrightarrow> preserves (deploy_guard st D) (commit c cr js ck st msg)"
  unfolding commit_def Let_def
  by (intro preserves_reading guarded_write_revision guarded_write_head) (simp_all add: revision_id_clean)

lemma sign_head_guarded: "preserves (deploy_guard st D) (sign_head cr js ck st signer)"
  unfolding preserves_def sign_head_def
proof (intro allI impI)
  fix d
  let ?I = "deploy_guard st D"
  assume inv: "?I d"
  show "?I (snd (st_bind (head_revision st) (\<lambda>h.
     st_bind (st_lift (ok_or (PolicyStoreErr ''no HEAD revision; run policy commit first'') h)) (\<lambda>rev_id.
     st_bind (load_revision js st rev_id) (\<lambda>rev.
     st_bind (st_lift (sign_bundle cr ck signer (rv_revision rev) (rv_cedar rev) (rv_dsl rev))) (\<lambda>b.
     st_bind (fs_write (revision_path st rev_id) (jc_revision js (rev\<lparr>rv_bundle := Some b\<rparr>))) (\<lambda>_. st_ret b))))) d))"
  proof (rule inv_read [of ?I d "head_revision st", OF inv reads_keep(3)], rule inv_lift [of ?I, OF inv])
    fix h r
    assume h: "head_revision st d = (Ok h, d)" "ok_or (PolicyStoreErr ''no HEAD revision; run policy commit first'') h = Ok r"
    then have free: "slash_free r" using guarded_head [OF inv] by (auto simp: ok_or_Inr_iff)
    have "preserves ?I (st_bind (load_revision js st r) (\<lambda>rev.
       st_bind (st_lift (sign_bundle cr ck signer (rv_revision rev) (rv_cedar rev) (rv_dsl rev))) (\<lambda>b.
       st_bind (fs_write (revision_path st r) (jc_revision js (rev\<lparr>rv_bundle := Some b\<rparr>))) (\<lambda>_. st_ret b))))"
      by (intro preserves_reading guarded_write_revision free)
    then show "?I (snd (st_bind (load_revision js st r) (\<lambda>rev.
       st_bind (st_lift (sign_bundle cr ck signer (rv_revision rev) (rv_cedar rev) (rv_dsl rev))) (\<lambda>b.
       st_bind (fs_write (revision_path st r) (jc_revision js (rev\<lparr>rv_bundle := Some b\<rparr>))) (\<lambda>_. st_ret b))) d))"
      using inv by (rule preserves_at)
  qed
qed

text \<open>The rest of a command that has opened its store runs on the store of its policy directory.\<close>

lemma preserves_opened:
  assumes "preserves (on_world J) (cli_open pt)" "preserves (on_world J) (f (the_store pt))"
  shows "preserves (on_world J) (st_bind (cli_open pt) f)"
  unfolding preserves_def
proof (intro allI impI)
  fix w assume w: "on_world J w"
  show "on_world J (snd (st_bind (cli_open pt) f w))"
  proof (rule inv_bind [of "on_world J", OF w])
    show "cli_open pt w = (r, u) \<Longrightarrow> on_world J u" for r u by (rule preservesD [OF assms(1) w])
    fix store u assume o: "cli_open pt w = (Inr store, u)" and u: "on_world J u"
    have "store = the_store pt"
      using o store_open_Inr by (fastforce simp: cli_open_def cli_disk_Inr_iff the_store_def)
    then show "on_world J (snd (f store u))" using preserves_at [OF assms(2) u] by simp
  qed
qed

lemma commands_keep_deployed:
  assumes "crypto_documented (co_crypto co)" "separate_paths pt" "cmd \<noteq> CmdPolicy PcDeploy"
  shows "preserves (on_world (deploy_guard (the_store pt) D)) (run_command co pt cmd)"
proof (cases "publishes cmd")
  case True
  have key: "\<not> store_path (the_store pt) (path_of (pt_key_path pt))"
    using assms(2) by (simp add: separate_paths_def)
  from True assms(3) consider m where "cmd = CmdPolicy (PcCommit m)" | "cmd = CmdPolicy PcSign"
    by (auto simp: publishes_def)
  then show ?thesis
  proof cases
    case 1
    have "preserves (on_world (deploy_guard (the_store pt) D)) (policy_commit co pt m)"
      unfolding policy_commit_def
      by (intro preserves_opened kept.guards_open preserves_reading commit_guarded assms(1))
    then show ?thesis using 1 by (simp add: preserves_done)
  next
    case 2
    have "preserves (on_world (deploy_guard (the_store pt) D)) (policy_sign co pt)"
      unfolding policy_sign_def
      by (intro preserves_opened kept.guards_open preserves_reading kept.guards_ensure_key sign_head_guarded key)
    then show ?thesis using 2 by (simp add: preserves_done)
  qed
qed (rule kept.guards_command [OF assms(2)])

lemma deploy_head_cases:
  obtains "snd (deploy_head js st d) = d"
  | r rv where "head_revision st d = (Ok (Some r), d)" "load_revision js st r d = (Ok rv, d)" "rv_bundle rv \<noteq> None"
      "deploy_head js st d = (Ok rv, file_put (deployed_path st) (jc_revision js rv) d)"
proof (cases "\<exists>r rv. head_revision st d = (Ok (Some r), d) \<and> load_revision js st r d = (Ok rv, d) \<and> rv_bundle rv \<noteq> None \<and>
    dk_denied d (deployed_path st) = None")
  case True
  then obtain r rv where h: "head_revision st d = (Ok (Some r), d)" "load_revision js st r d = (Ok rv, d)" "rv_bundle rv \<noteq> None"
      "dk_denied d (deployed_path st) = None"
    by (elim exE conjE)
  then have "deploy_head js st d = (Ok rv, file_put (deployed_path st) (jc_revision js rv) d)"
    by (simp add: deploy_head_def st_bind_def fs_write_Ok)
  then show thesis by (rule that(2) [OF h(1,2,3)])
next
  case False
  have "snd (deploy_head js st d) = d"
    unfolding deploy_head_def
  proof (rule inv_read [of "\<lambda>x. x = d" d "head_revision st", OF refl reads_keep(3)], rule inv_lift [of "\<lambda>x. x = d", OF refl],
      rule inv_read [of "\<lambda>x. x = d" d "load_revision js st _", OF refl reads_keep(4)])
    fix h r rv
    assume "head_revision st d = (Ok h, d)" "ok_or (PolicyStoreErr ''no HEAD revision'') h = Ok r" "load_revision js st r d = (Ok rv, d)"
    then have "rv_bundle rv = None \<or> dk_denied d (deployed_path st) \<noteq> None" using False by (auto simp: ok_or_Inr_iff)
    then show "snd ((if rv_bundle rv = None then st_fail (PolicyStoreErr ''HEAD is not signed; run policy sign first'')
        else st_bind (fs_write (deployed_path st) (jc_revision js rv)) (\<lambda>_. st_ret rv)) d) = d"
      by (auto simp: fs_write_def st_bind_def)
  qed
  then show thesis by (rule that(1))
qed

lemma cli_open_cases:
  obtains e w' where "cli_open pt w = (Inl e, w')" "\<And>p. file_get (cw_disk w') p = file_get (cw_disk w) p"
  | d where "cli_open pt w = (Inr (the_store pt), w\<lparr>cw_disk := d\<rparr>)" "\<And>p. file_get d p = file_get (cw_disk w) p"
      "dk_denied d = dk_denied (cw_disk w)"
proof -
  let ?I = "\<lambda>x. (\<forall>p. file_get x p = file_get (cw_disk w) p) \<and> dk_denied x = dk_denied (cw_disk w)"
  have "preserves ?I (store_open (path_of (pt_policy_dir pt)))"
    unfolding store_open_def by (intro preserves_reading) (auto simp: preserves_def fs_create_dir_all_def split: option.split)
  from preserves_at [OF this, of "cw_disk w"]
  have f: "?I (snd (store_open (path_of (pt_policy_dir pt)) (cw_disk w)))" by simp
  show thesis
  proof (cases "fst (store_open (path_of (pt_policy_dir pt)) (cw_disk w))")
    case (Inl e)
    obtain e' where "map_err (\<lambda>e. [policy_error_text e]) (Inl e :: (policy_error, policy_store) result) = Inl e'"
      by (cases e) simp_all
    then have "cli_open pt w = (Inl e', w\<lparr>cw_disk := snd (store_open (path_of (pt_policy_dir pt)) (cw_disk w))\<rparr>)"
      using Inl by (simp add: cli_open_def cli_disk_apply)
    then show thesis by (rule that(1)) (simp add: f)
  next
    case (Inr store)
    then have "store = the_store pt"
      using store_open_Inr [of "path_of (pt_policy_dir pt)"] by (metis prod.collapse the_store_def)
    then have "cli_open pt w = (Inr (the_store pt), w\<lparr>cw_disk := snd (store_open (path_of (pt_policy_dir pt)) (cw_disk w))\<rparr>)"
      using Inr by (simp add: cli_open_def cli_disk_apply)
    then show thesis by (rule that(2)) (simp_all add: f)
  qed
qed

lemma same_reads:
  assumes "\<And>p. file_get d p = file_get d' p"
  shows "fst (head_revision st d) = fst (head_revision st d')" "fst (load_revision js st r d) = fst (load_revision js st r d')"
    "fst (load_deployed js st d) = fst (load_deployed js st d')"
  by (simp_all add: head_revision_def load_revision_def load_deployed_def fs_exists_def fs_read_def st_bind_def assms ok_or_def
      lift_msg_def split: option.split sum.split)

end
