(* ===== verification/Gateway.thy ===== *)
theory Gateway
  imports Proxy_Engine Board
begin

text \<open>
  \<open>authz-gateway/src/main.rs\<close>: the stand-alone decision server. Its state holds the store, the path of the audit log,
  the decisions answered so far and the disk it shares with the command line; every handler is a computation on that
  state, and a run interleaves requests with changes of the disk made by others.
\<close>

section \<open>State\<close>

record gateway =
  gt_store :: policy_store
  gt_audit_path :: path
  gt_decisions :: "(string \<times> authz_decision) list"
  gt_disk :: disk

text \<open>A refused request: the status and the text of the answer.\<close>

datatype gateway_error = Refused nat string

type_synonym 'a gateway_io = "(gateway, gateway_error, 'a) st"

text \<open>What the server runs on: Cedar, the JSON forms, the identifier and time each decision gets, the board's page.\<close>

record ('ps, 'rx, 'ctx, 'es, 'rq) gateway_libraries =
  gl_cedar :: "('ps, 'rx, 'ctx, 'es, 'rq) cedar"
  gl_codec :: codec
  gl_audit :: audit_codec
  gl_board_html :: string

definition gt_on_disk :: "(disk, 'e, 'a) st \<Rightarrow> (gateway, 'e, 'a) st" where
  "gt_on_disk m = st_zoom gt_disk (\<lambda>d g. g\<lparr>gt_disk := d\<rparr>) m"

definition refuse :: "nat \<Rightarrow> ('e \<Rightarrow> string) \<Rightarrow> ('s, 'e, 'a) st \<Rightarrow> ('s, gateway_error, 'a) st" where
  "refuse code show m = st_map_err (\<lambda>e. Refused code (show e)) m"

definition gateway_start :: "path \<Rightarrow> path \<Rightarrow> disk \<Rightarrow> (policy_error, gateway) result \<times> disk" where
  "gateway_start policy_dir audit_path =
     st_bind (store_open policy_dir) (\<lambda>store d.
       (Ok \<lparr>gt_store = store, gt_audit_path = audit_path, gt_decisions = [], gt_disk = d\<rparr>, d))"

section \<open>Handlers\<close>

definition gateway_health :: "json gateway_io" where
  "gateway_health =
     st_ret (JObj [(''status'', JStr ''ok''), (''service'', JStr ''authz-gateway''), (''version'', JStr ''0.1.0'')])"

text \<open>A slice \<open>&s[..n]\<close> in bytes; it panics inside a character and past the end.\<close>

fun bytes_upto :: "nat \<Rightarrow> string \<Rightarrow> string option" where
  "bytes_upto n [] = (if n = 0 then Some [] else None)"
| "bytes_upto n (c # s) =
     (if n = 0 then Some []
      else if n < char_len c then None
      else map_option ((#) c) (bytes_upto (n - char_len c) s))"

definition signature_label :: "signed_bundle \<Rightarrow> (gateway_error, string) result" where
  "signature_label b =
     (case bytes_upto (min 16 (str_len (sb_signature_b64 b))) (sb_signature_b64 b) of
        None \<Rightarrow> Inl (Panic ''byte index is not a char boundary'')
      | Some s \<Rightarrow> Ok (sb_key_id b @ '':'' @ s))"

definition revision_label :: "policy_revision \<Rightarrow> (gateway_error, string option) result" where
  "revision_label rv =
     (case rv_bundle rv of None \<Rightarrow> Ok None | Some b \<Rightarrow> and_then (signature_label b) (\<lambda>s. Ok (Some s)))"

definition gateway_config :: "'ps \<Rightarrow> policy_revision \<Rightarrow> string option \<Rightarrow> 'ps evaluator_config" where
  "gateway_config pset rv label =
     \<lparr>ec_policy_set = pset, ec_policy_revision = rv_revision rv, ec_policy_signature = label, ec_group_members = []\<rparr>"

definition remember :: "authz_decision \<Rightarrow> gateway \<Rightarrow> gateway" where
  "remember d g = g\<lparr>gt_decisions := AList.update (ev_decision_id (ad_evidence d)) d (gt_decisions g)\<rparr>"

definition gateway_check ::
  "('ps, 'rx, 'ctx, 'es, 'rq) gateway_libraries \<Rightarrow> eval_env \<Rightarrow> authz_request \<Rightarrow> authz_decision gateway_io" where
  "gateway_check gl env req g =
     st_bind (refuse 503 policy_error_text (gt_on_disk (policy_set_from_deployed (gl_cedar gl) (gl_codec gl) (gt_store g)))) (\<lambda>(pset, rv).
     st_bind (st_lift (revision_label rv)) (\<lambda>label.
     st_bind (st_lift (map_err (\<lambda>e. Refused 400 (authz_error_text e))
               (evaluate (gl_cedar gl) env req (gateway_config pset rv label)))) (\<lambda>d.
     st_bind (st_try (gt_on_disk (append_audit (gl_audit gl) (gt_audit_path g) d))) (\<lambda>_.
     st_bind (st_modify (remember d)) (\<lambda>_. st_ret d))))) g"

definition gateway_explain :: "string \<Rightarrow> authz_decision gateway_io" where
  "gateway_explain i =
     st_bind (st_gets (\<lambda>g. map_of (gt_decisions g) i)) (\<lambda>d. st_lift (ok_or (Refused 404 ''decision not found'') d))"

definition gateway_board_page :: "('ps, 'rx, 'ctx, 'es, 'rq) gateway_libraries \<Rightarrow> string gateway_io" where
  "gateway_board_page gl = st_ret (gl_board_html gl)"

definition gateway_board_matrix :: "policy_matrix gateway_io" where
  "gateway_board_matrix g =
     st_bind (refuse 500 policy_error_text (gt_on_disk (read_active_dsl (gt_store g)))) (\<lambda>dsl.
       st_ret (build_matrix (unwrap_or [] (parse_dsl dsl)))) g"

section \<open>The router and runs\<close>

datatype gateway_call =
    GtHealth
  | GtCheck eval_env authz_request
  | GtExplain string
  | GtBoard
  | GtBoardMatrix

datatype gateway_answer =
    AnHealth json
  | AnDecision authz_decision
  | AnPage string
  | AnMatrix policy_matrix

fun gateway_handler ::
  "('ps, 'rx, 'ctx, 'es, 'rq) gateway_libraries \<Rightarrow> gateway_call \<Rightarrow> gateway_answer gateway_io" where
  "gateway_handler gl GtHealth = st_bind gateway_health (\<lambda>j. st_ret (AnHealth j))"
| "gateway_handler gl (GtCheck env req) = st_bind (gateway_check gl env req) (\<lambda>d. st_ret (AnDecision d))"
| "gateway_handler gl (GtExplain i) = st_bind (gateway_explain i) (\<lambda>d. st_ret (AnDecision d))"
| "gateway_handler gl GtBoard = st_bind (gateway_board_page gl) (\<lambda>s. st_ret (AnPage s))"
| "gateway_handler gl GtBoardMatrix = st_bind gateway_board_matrix (\<lambda>m. st_ret (AnMatrix m))"

text \<open>A run: requests, and between them anything another program does to the disk.\<close>

datatype gateway_event = Request gateway_call | DiskBecomes disk

fun gateway_run ::
  "('ps, 'rx, 'ctx, 'es, 'rq) gateway_libraries \<Rightarrow> gateway_event list \<Rightarrow> gateway \<Rightarrow>
   (gateway_call \<times> (gateway_error, gateway_answer) result) list \<times> gateway" where
  "gateway_run gl [] g = ([], g)"
| "gateway_run gl (DiskBecomes d # evs) g = gateway_run gl evs (g\<lparr>gt_disk := d\<rparr>)"
| "gateway_run gl (Request cl # evs) g =
     (case gateway_handler gl cl g of
        (r, g1) \<Rightarrow> (case gateway_run gl evs g1 of (log, g2) \<Rightarrow> ((cl, r) # log, g2)))"

fun checked :: "gateway_call \<times> (gateway_error, gateway_answer) result \<Rightarrow> authz_decision option" where
  "checked (GtCheck env req, Inr (AnDecision d)) = Some d"
| "checked _ = None"

section \<open>Byte slices\<close>

lemma bytes_upto_0 [simp]: "bytes_upto 0 s = Some []"
  by (cases s) simp_all

lemma str_len_simps [simp]: "str_len [] = 0" "str_len (c # s) = char_len c + str_len s"
  by (simp_all add: str_len_def)

lemma bytes_upto_ascii:
  "\<forall>c\<in>set s. of_char c < (128::nat) \<Longrightarrow> bytes_upto n s = (if n \<le> length s then Some (take n s) else None)"
proof (induction s arbitrary: n)
  case (Cons c s)
  then show ?case by (cases n) (auto simp: char_len_def)
qed simp

lemma str_len_ascii: "\<forall>c\<in>set s. of_char c < (128::nat) \<Longrightarrow> str_len s = length s"
  by (induction s) (auto simp: char_len_def)

lemma bytes_upto_all: "bytes_upto (str_len s) s = Some s"
  by (induction s) (auto simp: char_len_def)

text \<open>The label of a bundle with an ASCII signature, such as the base64 text signing writes: never a panic.\<close>

lemma signature_label_ascii:
  "\<forall>c\<in>set (sb_signature_b64 b). of_char c < (128::nat) \<Longrightarrow>
   signature_label b = Ok (sb_key_id b @ '':'' @ take 16 (sb_signature_b64 b))"
  by (simp add: signature_label_def bytes_upto_ascii str_len_ascii min_def)

text \<open>A signature that is not ASCII can make every check panic.\<close>

lemma signature_label_panics:
  "signature_label \<lparr>sb_revision = r, sb_content_sha256 = h, sb_cedar = c, sb_dsl = l,
     sb_signature_b64 = replicate 15 (CHR ''a'') @ [CHR 0xE9], sb_key_id = k, sb_signed_at = t\<rparr>
   = Inl (Panic ''byte index is not a char boundary'')"
  by (simp add: signature_label_def char_len_def numeral_eq_Suc)

section \<open>What a check does\<close>

lemma gt_on_disk_apply:
  "gt_on_disk m g = (fst (m (gt_disk g)), g\<lparr>gt_disk := snd (m (gt_disk g))\<rparr>)"
  by (simp add: gt_on_disk_def st_zoom_def split: prod.split)

lemma gateway_read:
  "snd (m (gt_disk g)) = gt_disk g \<Longrightarrow> refuse code sh (gt_on_disk m) g = (map_err (\<lambda>e. Refused code (sh e)) (fst (m (gt_disk g))), g)"
  by (simp add: refuse_def st_map_err_def gt_on_disk_apply)

lemma policy_set_from_deployed_reads [simp]: "snd (policy_set_from_deployed c js st d) = d"
proof -
  have "preserves (\<lambda>x. x = d) (policy_set_from_deployed c js st)"
    unfolding policy_set_from_deployed_def by (intro preserves_bind preserves_reads preserves_pure)
  then show ?thesis by (simp add: preserves_def)
qed

definition gateway_verdict ::
  "('ps, 'rx, 'ctx, 'es, 'rq) gateway_libraries \<Rightarrow> eval_env \<Rightarrow> authz_request \<Rightarrow> gateway \<Rightarrow> (gateway_error, authz_decision) result" where
  "gateway_verdict gl env req g =
     and_then (map_err (\<lambda>e. Refused 503 (policy_error_text e))
        (fst (policy_set_from_deployed (gl_cedar gl) (gl_codec gl) (gt_store g) (gt_disk g)))) (\<lambda>(pset, rv).
     and_then (revision_label rv) (\<lambda>label.
       map_err (\<lambda>e. Refused 400 (authz_error_text e)) (evaluate (gl_cedar gl) env req (gateway_config pset rv label))))"

definition gateway_logged ::
  "('ps, 'rx, 'ctx, 'es, 'rq) gateway_libraries \<Rightarrow> authz_decision \<Rightarrow> gateway \<Rightarrow> gateway" where
  "gateway_logged gl d g = remember d (g\<lparr>gt_disk := snd (append_audit (gl_audit gl) (gt_audit_path g) d (gt_disk g))\<rparr>)"

text \<open>A check answers from the deployed revision on the disk at that moment; only a decision changes the state.\<close>

lemma gateway_check_eq:
  "gateway_check gl env req g =
     (case gateway_verdict gl env req g of
        Inl e \<Rightarrow> (Inl e, g)
      | Inr d \<Rightarrow> (Ok d, gateway_logged gl d g))"
proof -
  let ?m = "policy_set_from_deployed (gl_cedar gl) (gl_codec gl) (gt_store g)"
  have r: "refuse 503 policy_error_text (gt_on_disk ?m) g = (map_err (\<lambda>e. Refused 503 (policy_error_text e)) (fst (?m (gt_disk g))), g)"
    by (rule gateway_read) simp
  show ?thesis
  proof (cases "map_err (\<lambda>e. Refused 503 (policy_error_text e)) (fst (?m (gt_disk g)))")
    case (Inl e)
    then show ?thesis unfolding gateway_check_def gateway_verdict_def by (simp add: st_bind_def r)
  next
    case (Inr pr)
    obtain pset rv where pr: "pr = (pset, rv)" by (cases pr)
    let ?rest = "\<lambda>label. map_err (\<lambda>e. Refused 400 (authz_error_text e)) (evaluate (gl_cedar gl) env req (gateway_config pset rv label))"
    have v: "gateway_verdict gl env req g = and_then (revision_label rv) ?rest"
      unfolding gateway_verdict_def Inr pr by simp
    show ?thesis
    proof (cases "revision_label rv")
      case (Inl e)
      then show ?thesis using Inr pr v unfolding gateway_check_def by (simp add: st_bind_def r)
    next
      case l: (Inr label)
      show ?thesis
      proof (cases "?rest label")
        case (Inl e)
        then show ?thesis using Inr pr v l unfolding gateway_check_def by (simp add: st_bind_def r)
      next
        case (Inr d)
        then show ?thesis using \<open>map_err _ _ = Inr pr\<close> pr v l unfolding gateway_check_def
          by (simp add: st_bind_def r st_try_def gt_on_disk_apply gateway_logged_def)
      qed
    qed
  qed
qed

lemma gateway_check_cases:
  obtains e where "gateway_verdict gl env req g = Inl e" "gateway_check gl env req g = (Inl e, g)"
  | d where "gateway_verdict gl env req g = Ok d" "gateway_check gl env req g = (Ok d, gateway_logged gl d g)"
  using gateway_check_eq [of gl env req g] by (cases "gateway_verdict gl env req g") auto

section \<open>Decisions are remembered\<close>

lemma remembered: "map_of (gt_decisions (gateway_logged gl d g)) =
    (map_of (gt_decisions g)) (ev_decision_id (ad_evidence d) \<mapsto> d)"
  by (simp add: gateway_logged_def remember_def update_conv')

lemma quiet_calls:
  "snd (gateway_handler gl GtHealth g) = g" "snd (gateway_handler gl (GtExplain i) g) = g"
  "snd (gateway_handler gl GtBoard g) = g" "snd (gateway_handler gl GtBoardMatrix g) = g"
  by (simp_all add: gateway_health_def gateway_explain_def gateway_board_page_def gateway_board_matrix_def st_bind_def gateway_read
      split: sum.split)

definition decisions_of :: "(gateway_call \<times> (gateway_error, gateway_answer) result) list \<Rightarrow> authz_decision list" where
  "decisions_of log = List.map_filter checked log"

lemma decisions_of_Nil [simp]: "decisions_of [] = []"
  by (simp add: decisions_of_def map_filter_def)

lemma decisions_of_Cons:
  "decisions_of (e # log) = (case checked e of None \<Rightarrow> decisions_of log | Some d \<Rightarrow> d # decisions_of log)"
  by (simp add: decisions_of_def map_filter_def split: option.split)

definition latest :: "string \<Rightarrow> authz_decision list \<Rightarrow> authz_decision option" where
  "latest i ds = find (\<lambda>d. ev_decision_id (ad_evidence d) = i) (rev ds)"

lemma find_append: "find P (xs @ ys) = (case find P xs of None \<Rightarrow> find P ys | Some x \<Rightarrow> Some x)"
  by (induction xs) auto

lemma latest_Cons:
  "latest i (d # ds) =
     (case latest i ds of None \<Rightarrow> if ev_decision_id (ad_evidence d) = i then Some d else None | Some x \<Rightarrow> Some x)"
  by (simp add: latest_def find_append split: option.split)

lemma run_remembers:
  "gateway_run gl evs g = (log, g') \<Longrightarrow>
   map_of (gt_decisions g') i = (case latest i (decisions_of log) of None \<Rightarrow> map_of (gt_decisions g) i | Some d \<Rightarrow> Some d)"
proof (induction gl evs g arbitrary: log rule: gateway_run.induct)
  case (1 gl g)
  then show ?case by (simp add: latest_def decisions_of_def map_filter_def)
next
  case (2 gl d evs g)
  from 2(2) have "gateway_run gl evs (g\<lparr>gt_disk := d\<rparr>) = (log, g')" by simp
  from 2(1) [OF this] show ?case by (simp cong: option.case_cong)
next
  case (3 gl cl evs g)
  obtain r g1 where h: "gateway_handler gl cl g = (r, g1)" by fastforce
  obtain log2 where l: "gateway_run gl evs g1 = (log2, g')" "log = (cl, r) # log2"
    using 3(2) h by (auto split: prod.splits)
  note IH = 3(1) [OF h [symmetric] l(1)]
  have quiet: "snd (gateway_handler gl cl g) = g \<Longrightarrow> map_of (gt_decisions g1) = map_of (gt_decisions g)"
    by (simp add: h)
  show ?case
  proof (cases cl)
    case (GtCheck env req)
    show ?thesis
    proof (cases rule: gateway_check_cases [of gl env req g])
      case (1 e)
      then have "r = Inl e" "g1 = g" using h GtCheck by (simp_all add: st_bind_def)
      then show ?thesis using IH l(2) GtCheck by (simp add: decisions_of_Cons cong: option.case_cong)
    next
      case (2 d)
      then have "r = Inr (AnDecision d)" "g1 = gateway_logged gl d g" using h GtCheck by (simp_all add: st_bind_def)
      then show ?thesis using IH l(2) GtCheck by (simp add: decisions_of_Cons latest_Cons remembered split: option.split)
    qed
  qed (use IH l(2) quiet quiet_calls [where gl = gl and g = g] in \<open>simp_all add: decisions_of_Cons del: gateway_handler.simps cong: option.case_cong\<close>)
qed

text \<open>C13: However requests and foreign changes of the disk are interleaved, explaining an identifier answers the
  newest decision a check returned under it since the server started, unchanged, and 404 when there is none.\<close>

theorem explain_answers_last_check:
  assumes "gateway_start policy_dir audit_path d0 = (Ok g0, d1)"
  shows "fst (gateway_explain i (snd (gateway_run gl evs g0))) =
    ok_or (Refused 404 ''decision not found'') (latest i (decisions_of (fst (gateway_run gl evs g0))))"
proof -
  obtain log g where r: "gateway_run gl evs g0 = (log, g)" by fastforce
  have "gt_decisions g0 = []" using assms by (auto simp: gateway_start_def result_simps)
  with run_remembers [OF r, of i] show ?thesis
    by (simp add: r gateway_explain_def split: option.split)
qed

section \<open>A tampered revision served\<close>

text \<open>The gateway has no key to verify with: the tampered deployment of \<open>Proxy_Engine\<close> is served like any other.\<close>

definition example_libraries :: "(string, string, string, string entity list, cedar_call \<times> string) gateway_libraries" where
  "example_libraries =
     \<lparr>gl_cedar = permit_cedar, gl_codec = reference_codec, gl_audit = example_audit_codec, gl_board_html = ''<html>''\<rparr>"

lemma tampered_gateway:
  obtains g d1 d where "gateway_start (path_of (px_policy_dir production_config)) [''audit''] tampered_disk = (Ok g, d1)"
    "gateway_verdict example_libraries example_env (read_request ''X'') g = Ok d" "ad_effect d = Allow"
    "ev_decision_id (ad_evidence d) = ''id''"
proof -
  obtain d1 where d1: "store_open (path_of (px_policy_dir production_config)) tampered_disk = (Ok deployed_store, d1)"
    "load_deployed reference_codec deployed_store d1 = (Ok (Some tampered_revision), d1)"
    by (rule tampered_loads)
  let ?g = "\<lparr>gt_store = deployed_store, gt_audit_path = [''audit''], gt_decisions = [], gt_disk = d1\<rparr>"
  have g: "gateway_start (path_of (px_policy_dir production_config)) [''audit''] tampered_disk = (Ok ?g, d1)"
    by (simp add: gateway_start_def st_bind_def d1(1))
  have p: "policy_set_from_deployed permit_cedar reference_codec deployed_store d1 = (Ok (''permit'', tampered_revision), d1)"
    unfolding policy_set_from_deployed_Ok using d1(2) tampered_config(2) by simp
  let ?cfg = "gateway_config ''permit'' tampered_revision (Some ''k1:sig'')"
  have l: "revision_label tampered_revision = Ok (Some ''k1:sig'')"
    using signature_label_ascii [of tampered_bundle] tampered_config(1) by (simp add: revision_label_def) (simp add: tampered_bundle_def)
  obtain d where d: "evaluate permit_cedar example_env (read_request ''X'') ?cfg = Ok d" "ad_effect d = Allow"
    using permit_evaluates [OF read_request_valid, of example_env ?cfg] by (auto simp: gateway_config_def)
  have "gateway_verdict example_libraries example_env (read_request ''X'') ?g = Ok d"
    by (simp add: gateway_verdict_def example_libraries_def p l d(1))
  moreover have "ev_decision_id (ad_evidence d) = ''id''"
    using d(1) by (auto simp: evaluate_Ok_iff decision_of_def Let_def example_env_def)
  ultimately show thesis using that g d(2) by blast
qed

theorem explain_answers_last_check_witness:
  "\<exists>g d1 d. gateway_start (path_of (px_policy_dir production_config)) [''audit''] tampered_disk = (Ok g, d1) \<and> ad_effect d = Allow \<and>
     fst (gateway_explain ''id'' (snd (gateway_run example_libraries
       [Request (GtCheck example_env (read_request ''X'')), DiskBecomes empty_disk, Request (GtCheck example_env (read_request ''X''))] g))) = Ok d"
proof -
  obtain g d1 d where g: "gateway_start (path_of (px_policy_dir production_config)) [''audit''] tampered_disk = (Ok g, d1)"
    and v: "gateway_verdict example_libraries example_env (read_request ''X'') g = Ok d" "ad_effect d = Allow"
      "ev_decision_id (ad_evidence d) = ''id''"
    by (rule tampered_gateway)
  let ?g1 = "(gateway_logged example_libraries d g)\<lparr>gt_disk := empty_disk\<rparr>"
  have e: "gateway_verdict example_libraries example_env (read_request ''X'') ?g1 = Fail (Refused 503 (policy_error_text (PolicyStoreErr ''no deployed policy bundle'')))"
    by (simp add: gateway_verdict_def example_libraries_def policy_set_from_deployed_def load_deployed_def fs_exists_def empty_disk_def
        file_get_def st_bind_def)
  have "fst (gateway_run example_libraries
      [Request (GtCheck example_env (read_request ''X'')), DiskBecomes empty_disk, Request (GtCheck example_env (read_request ''X''))] g) =
    [(GtCheck example_env (read_request ''X''), Ok (AnDecision d)),
     (GtCheck example_env (read_request ''X''), Fail (Refused 503 (policy_error_text (PolicyStoreErr ''no deployed policy bundle''))))]"
    by (simp add: st_bind_def gateway_check_eq v e)
  with explain_answers_last_check [OF g, of "''id''" example_libraries
      "[Request (GtCheck example_env (read_request ''X'')), DiskBecomes empty_disk, Request (GtCheck example_env (read_request ''X''))]"]
  show ?thesis using g v by (auto simp: decisions_of_Cons latest_def)
qed

end
