(* ===== verification/Effect_Order.thy ===== *)
theory Effect_Order
  imports Policy_Decision "HOL-Library.Multiset"
begin

text \<open>
  The verdict of a policy document on a request, and the order of effects from permissive to restrictive. With the
  effects as a linear order the library's \<open>max\<close> and its lemmas apply: adding deny or review policies to a document
  never loosens a verdict, and joining two documents is never stricter than the stricter of the two.
\<close>

definition verdict :: "dsl_policy list \<Rightarrow> authz_request \<Rightarrow> decision_effect" where
  "verdict ps req = (if permitted ps req then Allow else Deny)"

fun strictness :: "decision_effect \<Rightarrow> nat" where
  "strictness Allow = 0"
| "strictness Review = 1"
| "strictness Deny = 2"

lemma strictness_inject: "strictness a = strictness b \<Longrightarrow> a = b"
  by (cases a; cases b) simp_all

instantiation decision_effect :: linorder
begin

definition less_eq_decision_effect :: "decision_effect \<Rightarrow> decision_effect \<Rightarrow> bool" where
  "a \<le> b \<longleftrightarrow> strictness a \<le> strictness b"

definition less_decision_effect :: "decision_effect \<Rightarrow> decision_effect \<Rightarrow> bool" where
  "a < b \<longleftrightarrow> strictness a < strictness b"

instance
  by standard (auto simp: less_eq_decision_effect_def less_decision_effect_def intro: strictness_inject)

end

lemma Allow_least [simp]: "Allow \<le> e"
  by (simp add: less_eq_decision_effect_def)

lemma Deny_greatest [simp]: "e \<le> Deny"
  by (cases e) (simp_all add: less_eq_decision_effect_def)

lemma verdict_le_iff: "verdict ps req \<le> verdict qs rq \<longleftrightarrow> (permitted qs rq \<longrightarrow> permitted ps req)"
  by (auto simp: verdict_def less_eq_decision_effect_def)

lemma stricter_document: "(\<forall>q\<in>set qs. dp_effect q \<noteq> DAllow) \<Longrightarrow> verdict ps req \<le> verdict (ps @ qs) req"
  unfolding verdict_le_iff permitted_def by auto

lemma joined_documents: "verdict (ps @ qs) req \<le> max (verdict ps req) (verdict qs req)"
proof (cases "permitted ps req \<and> permitted qs req")
  case True
  then have "permitted (ps @ qs) req" by (auto simp: permitted_def)
  then show ?thesis by (simp add: verdict_def)
next
  case False
  then have "max (verdict ps req) (verdict qs req) = Deny" by (auto simp: verdict_def max_def less_eq_decision_effect_def)
  then show ?thesis by simp
qed

lemma verdict_order: "mset ps = mset qs \<Longrightarrow> verdict ps req = verdict qs req"
  using mset_eq_setD [of ps qs] by (simp add: verdict_def permitted_def)

end
