(* ===== verification/Publishing.thy ===== *)
theory Publishing
  imports Cli_Safety Gateway Effect_Order
begin

text \<open>
  Publishing through the command line, step by step: what the files of the store hold after \<open>policy commit\<close>,
  \<open>policy sign\<close> and \<open>policy deploy\<close>, and what the two readers of the deployed document (the command \<open>check\<close> and the
  stand-alone gateway) make of it.
\<close>

section \<open>Deciding by a document\<close>

text \<open>The request passes everything before Cedar's verdict: validation, entities, context.\<close>

definition engine_answers :: "('ps, 'rx, 'ctx, 'es, 'rq) cedar \<Rightarrow> authz_request \<Rightarrow> bool" where
  "engine_answers c req \<longleftrightarrow> (\<forall>cfg. ec_group_members cfg = [] \<longrightarrow> is_ok (cedar_response_of c req cfg))"

text \<open>Cedar as documented, for a document: its entities, contexts, policies and its authorization.\<close>

definition cedar_documented ::
  "('ps, 'rx, 'ctx, 'es, 'rq) cedar \<Rightarrow> ('ps \<Rightarrow> cedar_policy list) \<Rightarrow> ('ctx \<Rightarrow> string \<rightharpoonup> ctx_value) \<Rightarrow> dsl_policy list \<Rightarrow> bool" where
  "cedar_documented c policies_reading context_reading ps \<longleftrightarrow>
     cedar_entities_documented c \<and> cedar_reads_context c context_reading \<and>
     cedar_reads_policies c policies_reading (map policy_ast ps) \<and> cedar_authorizes c policies_reading context_reading"

lemma evaluate_answers:
  "engine_answers c req \<Longrightarrow> ec_group_members cfg = [] \<Longrightarrow> \<exists>d. evaluate c env req cfg = Ok d"
  by (auto simp: engine_answers_def is_ok_iff evaluate_Ok_iff)

lemma evaluate_request: "evaluate c env req cfg = Ok d \<Longrightarrow> ev_request (ad_evidence d) = req"
  by (auto simp: evaluate_Ok_iff decision_of_def Let_def)

lemma document_decides:
  assumes "cedar_policy_set_from_dsl c ps = Ok (ec_policy_set cfg)" "cedar_documented c pr cx ps" "request_readable req"
    and "evaluate c env req cfg = Ok d"
  shows "ad_effect d = verdict ps req"
proof -
  have "cfg\<lparr>ec_policy_set := ec_policy_set cfg\<rparr> = cfg" by simp
  then show ?thesis
    using policies_decide [OF assms(1), of cx pr req env cfg d] assms(2-4) by (simp add: cedar_documented_def verdict_def)
qed

section \<open>The steps\<close>

definition writable :: "disk \<Rightarrow> bool" where
  "writable d \<longleftrightarrow> (\<forall>p. dk_denied d p = None)"

text \<open>The head names the revision \<open>r\<close>, which is stored as \<open>rv\<close>.\<close>

definition staged :: "codec \<Rightarrow> policy_store \<Rightarrow> string \<Rightarrow> policy_revision \<Rightarrow> disk \<Rightarrow> bool" where
  "staged js st r rv d \<longleftrightarrow> writable d \<and> slash_free r \<and> trim r = r \<and> file_get d (head_path st) = Some r \<and>
     file_get d (revision_path st r) = Some (jc_revision js rv)"

lemma writable_frame [simp]: "writable (file_put p s d) = writable d" "writable (d\<lparr>dk_dirs := D\<rparr>) = writable d"
  by (simp_all add: writable_def)

lemma writable_mkdir: "writable d \<Longrightarrow> \<exists>D. fs_create_dir_all p d = (Ok (), d\<lparr>dk_dirs := D\<rparr>)"
  by (auto simp: writable_def fs_create_dir_all_def)

lemma writable_write: "writable d \<Longrightarrow> fs_write p s d = (Ok (), file_put p s d)"
  by (simp add: writable_def fs_write_Ok)

lemma cli_open_writable:
  assumes "writable (cw_disk w)"
  obtains d where "cli_open pt w = (Ok (the_store pt), w\<lparr>cw_disk := d\<rparr>)" "writable d" "\<And>p. file_get d p = file_get (cw_disk w) p"
proof (cases rule: cli_open_cases [of pt w])
  case (1 e w')
  have "\<exists>D. store_open (path_of (pt_policy_dir pt)) (cw_disk w) = (Ok (the_store pt), (cw_disk w)\<lparr>dk_dirs := D\<rparr>)"
    using assms by (auto simp: store_open_def st_bind_def fs_create_dir_all_def writable_def the_store_def)
  then have False using 1(1) by (auto simp: cli_open_def cli_disk_apply)
  then show thesis ..
next
  case (2 d)
  then show thesis using assms by (intro that [of d]) (simp_all add: writable_def)
qed

lemma head_staged: "staged js st r rv d \<Longrightarrow> head_revision st d = (Ok (Some r), d)"
  by (simp add: staged_def head_stored)

lemma load_staged: "codec_documented js \<Longrightarrow> staged js st r rv d \<Longrightarrow> load_revision js st r d = (Ok rv, d)"
  by (rule load_stored_revision) (simp_all add: staged_def)

lemma staged_cong: "staged js st r rv d \<Longrightarrow> writable d' \<Longrightarrow> (\<And>p. file_get d' p = file_get d p) \<Longrightarrow> staged js st r rv d'"
  by (simp add: staged_def)

lemma commit_stages:
  assumes "crypto_documented cr" "validate_dsl c dsl = Ok ps" "file_get d (active_path st) = Some dsl" "writable d"
  obtains rv d' where "commit c cr js ck st msg d = (Ok rv, d')" "staged js st (rv_revision rv) rv d'"
    "dsl_to_cedar ps = Ok (rv_cedar rv)" "\<And>p. \<not> store_path st p \<Longrightarrow> file_get d' p = file_get d p"
proof -
  obtain cedar where cedar: "dsl_to_cedar ps = Ok cedar"
    and com: "commit c cr js ck st msg d =
       (let r = revision_id cr ck cedar msg;
            rv = \<lparr>rv_revision = r, rv_message = msg, rv_created_at = ck_rfc3339 ck, rv_cedar = cedar, rv_dsl = dsl, rv_bundle = None\<rparr>
        in (Ok rv, file_put (head_path st) r (file_put (revision_path st r) (jc_revision js rv) d)))"
    using commit_Ok [OF assms(2,3)] assms(4) unfolding writable_def by metis
  let ?r = "revision_id cr ck cedar msg"
  have r: "slash_free ?r" "trim ?r = ?r" using revision_id_clean [OF assms(1)] by auto
  let ?rv = "\<lparr>rv_revision = ?r, rv_message = msg, rv_created_at = ck_rfc3339 ck, rv_cedar = cedar, rv_dsl = dsl, rv_bundle = None\<rparr>"
  let ?d = "file_put (head_path st) ?r (file_put (revision_path st ?r) (jc_revision js ?rv) d)"
  have paths: "\<not> store_path st p \<Longrightarrow> p \<noteq> head_path st \<and> p \<noteq> revision_path st ?r" for p
    using r(1) by (auto simp: store_path_def)
  have "commit c cr js ck st msg d = (Ok ?rv, ?d)" by (simp add: com Let_def)
  then show thesis
  proof (rule that)
    show "staged js st (rv_revision ?rv) ?rv ?d"
      using r revision_not_deployed [OF r(1), of st] assms(4) by (simp add: staged_def)
  qed (use cedar paths in simp_all)
qed

lemma sign_stages:
  assumes "codec_documented js" "staged js st r rv d"
  obtains b d' where "sign_head cr js ck st (local_bundle_signer cr k) d = (Ok b, d')" "staged js st r (rv\<lparr>rv_bundle := Some b\<rparr>) d'"
    "\<exists>m. sb_signature_b64 b = cr_b64 cr (cr_sign cr (ls_signing k) m)"
proof -
  obtain b where b: "sign_bundle cr ck (local_bundle_signer cr k) (rv_revision rv) (rv_cedar rv) (rv_dsl rv) = Ok b"
      "\<exists>m. sb_signature_b64 b = cr_b64 cr (cr_sign cr (ls_signing k) m)"
    unfolding sign_bundle_Ok by auto
  let ?d = "file_put (revision_path st r) (jc_revision js (rv\<lparr>rv_bundle := Some b\<rparr>)) d"
  have s: "writable d" "slash_free r" using assms(2) by (simp_all add: staged_def)
  have "sign_head cr js ck st (local_bundle_signer cr k) d = (Ok b, ?d)"
    by (simp add: sign_head_def st_bind_def head_staged [OF assms(2)] load_staged [OF assms] b(1) writable_write [OF s(1)])
  moreover have "staged js st r (rv\<lparr>rv_bundle := Some b\<rparr>) ?d"
    using assms(2) revision_not_deployed [OF s(2), of st] by (simp add: staged_def)
  ultimately show thesis using b(2) by (rule that)
qed

lemma deploy_staged:
  assumes "codec_documented js" "staged js st r rv d" "rv_bundle rv \<noteq> None"
  shows "deploy_head js st d = (Ok rv, file_put (deployed_path st) (jc_revision js rv) d)"
  using assms(3) writable_write [of d "deployed_path st"] assms(2)
  by (simp add: deploy_head_def st_bind_def head_staged [OF assms(2)] load_staged [OF assms(1,2)]) (simp add: staged_def)

text \<open>A key the command can use: a readable key file, or none and a pair that can be printed.\<close>

definition key_usable :: "('ps, 'rx, 'ctx, 'es, 'rq) cli_outside \<Rightarrow> cli_paths \<Rightarrow> disk \<Rightarrow> bool" where
  "key_usable co pt d \<longleftrightarrow>
     (case file_get d (path_of (pt_key_path pt)) of
        Some data \<Rightarrow> (\<exists>pair k. co_parse_pair co data = Inr pair \<and> signer_from_keypair (co_crypto co) pair = Ok k)
      | None \<Rightarrow> (\<exists>json. co_pair_json co (snd (signer_generate (co_crypto co) (co_secret co) ''key-local-mvp'')) = Inr json))"

lemma ensure_key_usable:
  assumes "key_usable co pt (cw_disk w)" "writable (cw_disk w)"
  obtains k w' where "ensure_key co pt w = (Ok k, w')" "writable (cw_disk w')"
    "\<And>p. p \<noteq> path_of (pt_key_path pt) \<Longrightarrow> file_get (cw_disk w') p = file_get (cw_disk w) p"
proof (cases "file_get (cw_disk w) (path_of (pt_key_path pt))")
  case (Some data)
  then obtain pair k where "co_parse_pair co data = Inr pair" "signer_from_keypair (co_crypto co) pair = Ok k"
    using assms(1) by (auto simp: key_usable_def)
  then have "ensure_key co pt w = (Ok k, w)"
    using Some by (simp add: ensure_key_def Let_def fs_exists_def st_bind_def cli_disk_apply fs_read_def cli_try_def)
  then show thesis by (rule that) (simp_all add: assms(2))
next
  case None
  let ?p = "path_of (pt_key_path pt)" and ?k = "fst (signer_generate (co_crypto co) (co_secret co) ''key-local-mvp'')"
  obtain json where j: "co_pair_json co (snd (signer_generate (co_crypto co) (co_secret co) ''key-local-mvp'')) = Inr json"
    using assms(1) None by (auto simp: key_usable_def)
  obtain D where D: "fs_create_dir_all (butlast ?p) (cw_disk w) = (Ok (), (cw_disk w)\<lparr>dk_dirs := D\<rparr>)"
    using writable_mkdir [OF assms(2)] by blast
  have "\<exists>D t. ensure_key co pt w = (Ok ?k, w\<lparr>cw_disk := file_put ?p json ((cw_disk w)\<lparr>dk_dirs := D\<rparr>), cw_out := t\<rparr>)"
  proof (cases "?p = []")
    case True
    have "cw_disk w = (cw_disk w)\<lparr>dk_dirs := dk_dirs (cw_disk w)\<rparr>" by simp
    then show ?thesis using None j assms(2) True
      by (auto simp: ensure_key_def Let_def fs_exists_def st_bind_def cli_disk_apply writable_write cli_println_def cli_print_def
          signer_generate_def intro!: exI [of _ "dk_dirs (cw_disk w)"])
  next
    case False
    then show ?thesis using None j assms(2) D
      by (auto simp: ensure_key_def Let_def fs_exists_def st_bind_def cli_disk_apply writable_write cli_println_def cli_print_def
          signer_generate_def)
  qed
  then obtain D t where "ensure_key co pt w = (Ok ?k, w\<lparr>cw_disk := file_put ?p json ((cw_disk w)\<lparr>dk_dirs := D\<rparr>), cw_out := t\<rparr>)"
    by blast
  then show thesis by (rule that) (simp_all add: assms(2))
qed

section \<open>The three commands\<close>

lemma cli_commit:
  assumes "crypto_documented (co_crypto co)" "validate_dsl (co_cedar co) dsl = Ok ps"
    and "file_get d (active_path (the_store pt)) = Some dsl" "writable d"
  obtains rv out d' where "cli_main co pt (CmdPolicy (PcCommit msg)) d = (0, out, d')"
    "staged (co_codec co) (the_store pt) (rv_revision rv) rv d'" "dsl_to_cedar ps = Ok (rv_cedar rv)"
    "\<And>p. \<not> store_path (the_store pt) p \<Longrightarrow> file_get d' p = file_get d p"
proof -
  obtain d1 where o: "cli_open pt \<lparr>cw_disk = d, cw_out = []\<rparr> = (Ok (the_store pt), \<lparr>cw_disk = d1, cw_out = []\<rparr>)"
      "writable d1" "\<And>p. file_get d1 p = file_get d p"
    using cli_open_writable [of "\<lparr>cw_disk = d, cw_out = []\<rparr>" pt] assms(4) by auto
  obtain rv d2 where c: "commit (co_cedar co) (co_crypto co) (co_codec co) (co_clock co) (the_store pt) msg d1 = (Ok rv, d2)"
      "staged (co_codec co) (the_store pt) (rv_revision rv) rv d2" "dsl_to_cedar ps = Ok (rv_cedar rv)"
      "\<And>p. \<not> store_path (the_store pt) p \<Longrightarrow> file_get d2 p = file_get d1 p"
    using commit_stages [OF assms(1,2) _ o(2)] assms(3) o(3) by metis
  have "\<exists>out. cli_main co pt (CmdPolicy (PcCommit msg)) d = (0, out, d2)"
    by (simp add: cli_main_def done_ok_def policy_commit_def st_bind_def o(1) cli_disk_apply c(1) cli_println_def cli_print_def exit_status_def)
  then show thesis using that c o(3) by auto
qed

lemma cli_sign:
  assumes "codec_documented (co_codec co)" "staged (co_codec co) (the_store pt) r rv d" "key_usable co pt d" "separate_paths pt"
  obtains b out d' where "cli_main co pt (CmdPolicy PcSign) d = (0, out, d')"
    "staged (co_codec co) (the_store pt) r (rv\<lparr>rv_bundle := Some b\<rparr>) d'"
    "\<exists>k m. sb_signature_b64 b = cr_b64 (co_crypto co) (cr_sign (co_crypto co) k m)"
proof -
  have wr: "writable d" using assms(2) by (simp add: staged_def)
  obtain d1 where o: "cli_open pt \<lparr>cw_disk = d, cw_out = []\<rparr> = (Ok (the_store pt), \<lparr>cw_disk = d1, cw_out = []\<rparr>)"
      "writable d1" "\<And>p. file_get d1 p = file_get d p"
    using cli_open_writable [of "\<lparr>cw_disk = d, cw_out = []\<rparr>" pt] wr by auto
  have "key_usable co pt d1" using assms(3) by (simp add: key_usable_def o(3))
  then obtain k w where k: "ensure_key co pt \<lparr>cw_disk = d1, cw_out = []\<rparr> = (Ok k, w)" "writable (cw_disk w)"
      "\<And>p. p \<noteq> path_of (pt_key_path pt) \<Longrightarrow> file_get (cw_disk w) p = file_get d1 p"
    using ensure_key_usable [of co pt "\<lparr>cw_disk = d1, cw_out = []\<rparr>"] o(2) by auto
  have "store_path (the_store pt) (head_path (the_store pt))" "store_path (the_store pt) (revision_path (the_store pt) r)"
    using assms(2) by (auto simp: store_path_def staged_def)
  then have "path_of (pt_key_path pt) \<noteq> head_path (the_store pt)" "path_of (pt_key_path pt) \<noteq> revision_path (the_store pt) r"
    using assms(4) by (auto simp: separate_paths_def)
  then have "staged (co_codec co) (the_store pt) r rv (cw_disk w)"
    using assms(2) k(2,3) o(3) by (auto simp: staged_def)
  from sign_stages [OF assms(1) this] obtain b d' where
    s: "sign_head (co_crypto co) (co_codec co) (co_clock co) (the_store pt) (local_bundle_signer (co_crypto co) k) (cw_disk w) = (Ok b, d')"
      "staged (co_codec co) (the_store pt) r (rv\<lparr>rv_bundle := Some b\<rparr>) d'"
      "\<exists>m. sb_signature_b64 b = cr_b64 (co_crypto co) (cr_sign (co_crypto co) (ls_signing k) m)"
    by blast
  have "\<exists>out. cli_main co pt (CmdPolicy PcSign) d = (0, out, d')"
    by (simp add: cli_main_def done_ok_def policy_sign_def st_bind_def o(1) k(1) cli_disk_apply s(1) cli_println_def cli_print_def exit_status_def)
  then show thesis using that s(2,3) by blast
qed

lemma cli_deploy:
  assumes "codec_documented (co_codec co)" "staged (co_codec co) (the_store pt) r rv d" "rv_bundle rv \<noteq> None"
  obtains out d' where "cli_main co pt (CmdPolicy PcDeploy) d = (0, out, d')" "writable d'"
    "file_get d' (deployed_path (the_store pt)) = Some (jc_revision (co_codec co) rv)"
proof -
  have wr: "writable d" using assms(2) by (simp add: staged_def)
  obtain d1 where o: "cli_open pt \<lparr>cw_disk = d, cw_out = []\<rparr> = (Ok (the_store pt), \<lparr>cw_disk = d1, cw_out = []\<rparr>)"
      "writable d1" "\<And>p. file_get d1 p = file_get d p"
    using cli_open_writable [of "\<lparr>cw_disk = d, cw_out = []\<rparr>" pt] wr by auto
  have "staged (co_codec co) (the_store pt) r rv d1" using staged_cong [OF assms(2) o(2)] o(3) by simp
  note dep = deploy_staged [OF assms(1) this assms(3)]
  have "\<exists>out. cli_main co pt (CmdPolicy PcDeploy) d =
      (0, out, file_put (deployed_path (the_store pt)) (jc_revision (co_codec co) rv) d1)"
    by (simp add: cli_main_def done_ok_def policy_deploy_def st_bind_def o(1) cli_disk_apply dep cli_println_def cli_print_def exit_status_def)
  then show thesis using that o(2) by auto
qed

section \<open>The two readers\<close>

definition ascii :: "string \<Rightarrow> bool" where
  "ascii s \<longleftrightarrow> (\<forall>c\<in>set s. of_char c < (128::nat))"

text \<open>The deployed revision on a disk is the translation of the policies \<open>ps\<close>, with a bundle whose signature text is ASCII.\<close>

definition published :: "('ps, 'rx, 'ctx, 'es, 'rq) cedar \<Rightarrow> codec \<Rightarrow> policy_store \<Rightarrow> dsl_policy list \<Rightarrow> disk \<Rightarrow> bool" where
  "published c js st ps d \<longleftrightarrow> writable d \<and> is_ok (cedar_policy_set_from_dsl c ps) \<and>
     (\<exists>rv b. file_get d (deployed_path st) = Some (jc_revision js rv) \<and> dsl_to_cedar ps = Ok (rv_cedar rv) \<and>
        rv_bundle rv = Some b \<and> ascii (sb_signature_b64 b))"

lemma published_set:
  assumes "published c js st ps d" "codec_documented js"
  obtains pset rv b where "\<And>d'. file_get d' = file_get d \<Longrightarrow> policy_set_from_deployed c js st d' = (Ok (pset, rv), d')"
    "cedar_policy_set_from_dsl c ps = Ok pset" "rv_bundle rv = Some b" "ascii (sb_signature_b64 b)"
proof -
  obtain pset rv b where p: "cedar_policy_set_from_dsl c ps = Ok pset" "file_get d (deployed_path st) = Some (jc_revision js rv)"
      "dsl_to_cedar ps = Ok (rv_cedar rv)" "rv_bundle rv = Some b" "ascii (sb_signature_b64 b)"
    using assms(1) by (auto simp: published_def is_ok_iff)
  have "cd_parse_policies c (rv_cedar rv) = Inr pset"
    using p(1,3) by (auto simp: cedar_policy_set_from_dsl_def lift_msg_Inr_iff)
  then have "policy_set_from_deployed c js st d' = (Ok (pset, rv), d')" if "file_get d' = file_get d" for d'
    using assms(2) p(2) that
    by (simp add: policy_set_from_deployed_def load_deployed_def fs_exists_def fs_read_def st_bind_def codec_documented_def)
  then show thesis using p by (intro that)
qed

lemma gateway_decides:
  assumes "published (gl_cedar gl) (gl_codec gl) (gt_store g) ps (gt_disk g)" "codec_documented (gl_codec gl)"
    and "cedar_documented (gl_cedar gl) pr cx ps" "request_readable req" "engine_answers (gl_cedar gl) req"
  shows "\<exists>d. fst (gateway_check gl env req g) = Ok d \<and> ad_effect d = verdict ps req"
proof -
  obtain pset rv b where p: "policy_set_from_deployed (gl_cedar gl) (gl_codec gl) (gt_store g) (gt_disk g) = (Ok (pset, rv), gt_disk g)"
      "cedar_policy_set_from_dsl (gl_cedar gl) ps = Ok pset" "rv_bundle rv = Some b" "ascii (sb_signature_b64 b)"
    by (rule published_set [OF assms(1,2)]) (rule that, simp_all)
  obtain label where l: "revision_label rv = Ok (Some label)"
    using p(3,4) by (simp add: revision_label_def signature_label_ascii ascii_def)
  let ?cfg = "gateway_config pset rv (Some label)"
  have cfg: "ec_group_members ?cfg = []" "ec_policy_set ?cfg = pset" by (simp_all add: gateway_config_def)
  obtain d where d: "evaluate (gl_cedar gl) env req ?cfg = Ok d" using evaluate_answers [OF assms(5) cfg(1)] by blast
  have "gateway_verdict gl env req g = Ok d"
    by (simp add: gateway_verdict_def p(1) l d)
  moreover have "ad_effect d = verdict ps req"
    using document_decides [OF _ assms(3,4) d] p(2) cfg(2) by simp
  ultimately show ?thesis by (simp add: gateway_check_eq)
qed

lemma check_decides:
  assumes "published (co_cedar co) (co_codec co) (the_store pt) ps d" "codec_documented (co_codec co)"
    and "cedar_documented (co_cedar co) pr cx ps" "request_readable req" "engine_answers (co_cedar co) req"
    and "check_request (co_show_f32 co) a = Ok req" "file_get d (snapshot_path pt) = None" "is_ok (lift_msg id (co_request_json co req))"
  shows "fst (cli_main co pt (CmdCheck a) d) = (if verdict ps req = Deny then 2 else 0)"
proof -
  have "writable d" using assms(1) by (simp add: published_def)
  then obtain d1 where o: "cli_open pt \<lparr>cw_disk = d, cw_out = []\<rparr> = (Ok (the_store pt), \<lparr>cw_disk = d1, cw_out = []\<rparr>)"
      "writable d1" "\<And>p. file_get d1 p = file_get d p"
    using cli_open_writable [of "\<lparr>cw_disk = d, cw_out = []\<rparr>" pt] by auto
  obtain pset rv where p: "policy_set_from_deployed (co_cedar co) (co_codec co) (the_store pt) d1 = (Ok (pset, rv), d1)"
      "cedar_policy_set_from_dsl (co_cedar co) ps = Ok pset"
    using published_set [OF assms(1,2)] ext [of "file_get d1" "file_get d", OF o(3)] by metis
  let ?cfg = "check_config co pset rv None"
  have cfg: "ec_group_members ?cfg = []" "ec_policy_set ?cfg = pset" by (simp_all add: check_config_def)
  obtain dc where dc: "evaluate (co_cedar co) (co_eval co 0) req ?cfg = Ok dc" using evaluate_answers [OF assms(5) cfg(1)] by blast
  have eff: "ad_effect dc = verdict ps req"
    using document_decides [OF _ assms(3,4) dc] p(2) cfg(2) by simp
  have snap: "load_snapshot co pt w = (Ok None, w)" if "cw_disk w = d1" for w
    using assms(7) that by (simp add: load_snapshot_def fs_exists_def o(3))
  obtain json where json: "co_request_json co req = Inr json"
    using assms(8) by (cases "co_request_json co req") simp_all
  have rq: "ev_request (ad_evidence dc) = req" by (rule evaluate_request [OF dc])
  have "fst (check_cmd co pt a \<lparr>cw_disk = d, cw_out = []\<rparr>) = Ok (if ad_effect dc = Deny then 2 else 0)"
    by (simp add: check_cmd_def cli_try_def assms(6) st_bind_def o(1) with_context_def st_map_err_def cli_disk_apply p(1)
        snap dc st_try_def cli_lines_def cli_println_def cli_print_def rq json)
  then obtain w where "check_cmd co pt a \<lparr>cw_disk = d, cw_out = []\<rparr> = (Ok (if ad_effect dc = Deny then 2 else 0), w)"
    by (metis prod.collapse)
  then show ?thesis
    by (simp add: cli_main_def exit_status_def eff)
qed

end
