(* ===== verification/Spec2Isabelle.thy ===== *)
theory Spec2Isabelle
  imports Identity_Jwt Identity_Saml Proxy_Gate Proxy_Start Policy_Schema Cli_Properties
begin

text \<open>
  The verification development of PAAC, a policy-based access-control engine for the traffic of language-model
  agents (the Rust workspace under \<open>src/crates\<close>).

  \<^bold>\<open>The program.\<close> Policies are written in a small language (\<open>authz-policy/src/dsl.rs\<close>), translated to Cedar
  text (\<open>translate.rs\<close>), committed, signed and deployed in a store of files (\<open>store.rs\<close>, \<open>sign.rs\<close>). A request
  (\<open>authz-core/src/request.rs\<close>, built by \<open>builder.rs\<close>, by the chat extractor of \<open>authz-llm-bridge\<close> or from a
  tool call by \<open>authz-catalog\<close>) becomes Cedar entities (\<open>entities.rs\<close>) and a JSON context (\<open>evaluate.rs\<close>), on which Cedar
  decides. Three programs decide with the deployed policy: the command line (\<open>authz-cli\<close>), the stand-alone gateway
  (\<open>authz-gateway\<close>) and the proxy in front of a model (\<open>authz-llm-proxy\<close>), which takes identities from
  \<open>authz-identity\<close> and audits into \<open>authz-store\<close> and \<open>authz-suggest\<close>.

  \<^bold>\<open>The model, theory by theory.\<close> A record, datatype or function has the name of the Rust one where HOL allows it; fields
  carry a short prefix. Errors are values (\<open>Fail e\<close>), panics are values of their own (\<open>Inl (Panic m)\<close>).

  \<^item> \<open>Paac_Prelude\<close>, \<open>Rust_Strings\<close>, \<open>Keyed_Store\<close>, \<open>Effects\<close>: results and the question-mark operator, the string functions of
    Rust's library, the interface of everything written and read by key (locale \<open>keyed_store\<close>, interpreted for maps, files and
    caches), state computations with a calculus of invariants and triples.
  \<^item> \<open>Core_Request\<close>, \<open>Core_Entities\<close>, \<open>Core_Evaluate\<close>, \<open>Json_Context\<close>: \<open>authz-core\<close>. What Cedar offers is the
    record \<open>cedar\<close>. Lemmas: which requests the builder can build, the parents of the principal's entity, the faults of an
    evaluation, the consistency of the evidence, what the JSON context denotes under a JSON reader written out here.
  \<^item> \<open>Policy_Dsl\<close>, \<open>Policy_Translate\<close>, \<open>Policy_Decision\<close>, \<open>Effect_Order\<close>, \<open>Policy_Schema\<close>, \<open>Policy_Store\<close>: \<open>authz-policy\<close>.
    Lemmas: the parser's round trip and well-formedness, the meaning of a translated policy, the refinement of
    \<open>permitted\<close> (an allow policy applies and no other does) by the evaluator, the order of effects, the fit of schema and
    contexts, the life cycle of the store (\<open>store_run\<close>) and what it can deploy.
  \<^item> \<open>Catalog\<close>, \<open>Llm_Bridge\<close>: requests from tool calls and from utterances; neither gives the caller authority through
    tool arguments, while an utterance can state a relationship.
  \<^item> \<open>Identity_Cache\<close>, \<open>Identity_Jwt\<close>, \<open>Identity_Ldap\<close>, \<open>Identity_Idp\<close>, \<open>Identity_Saml\<close>, \<open>Draft_Policies\<close>: \<open>authz-identity\<close>. Lemmas:
    the cache against its history, which tokens give an identity, that drafts (locale \<open>draft_generator\<close>, one interpretation per
    generator) parse, allow only one's own profile and are never deployed, the SAML parser on written and on arbitrary text.
  \<^item> \<open>Audit_Log\<close>, \<open>Audit_Store\<close>, \<open>Board\<close>: the audit file and the suggestions, the database with its writer thread
    (\<open>writer_step\<close>, which drains), the matrix of the policy board.
  \<^item> \<open>Proxy_Config\<close>, \<open>Proxy_Auth\<close>, \<open>Proxy_Engine\<close>, \<open>Proxy_World\<close>, \<open>Proxy_Routes\<close>, \<open>Proxy_Start\<close>: the proxy, with every
    handler of \<open>routes.rs\<close> on a world that records what was decided and what left the process.
    \<open>Proxy_Invariants\<close> (locale \<open>world_invariant\<close>), \<open>Proxy_Safety\<close> (reachable worlds, its interpretations) and \<open>Proxy_Gate\<close> hold
    the invariants: nothing leaves undecided on the gated routes, counters, audit trail, well-formed state.
  \<^item> \<open>Gateway\<close>: the handlers of the stand-alone gateway and runs that interleave requests with changes of the disk.
  \<^item> \<open>Cli\<close>, \<open>Cli_Safety\<close> (locale \<open>store_guard\<close>, interpreted for the deployed document and for the signed store),
    \<open>Publishing\<close>, \<open>Cli_Properties\<close>: every command with its exit status, which of them can change what is deployed, and the
    steps of publishing. This theory states what spans the command line, the store, the evaluator and the gateway.

  \<^bold>\<open>Parameters.\<close> Code outside the repository is an argument: Cedar, hashing, Ed25519, base64 (\<open>crypto\<close>), JSON and TOML readers and
  printers of whole values (\<open>codec\<close>, \<open>audit_codec\<close>, \<open>store_codec\<close>), token libraries (\<open>jwt_lib\<close>), LDAP, HTTP, clocks, random
  bytes, and the order in which a hash map hands out its entries. What is relied on is a named predicate
  (\<open>crypto_documented\<close>, \<open>codec_documented\<close>, \<open>cedar_entities_documented\<close>, \<open>cedar_authorizes\<close> and others), each satisfied by a concrete instance that
  the witnesses run on.

  \<^bold>\<open>Bounds.\<close> Metrics and latencies are 64-bit words: counters wrap as release builds do, and the latency is shown
  as a signed number. The batch of the audit writer is \<open>BATCH_MAX\<close>. No definition needs fuel: the loops run over lists or
  fall in a measure. Characters are the scalars up to U+00FF; other constants in the sources (dash, arrow) are their UTF-8 bytes.
  Paths are lists of components, without links or dot components.

  \<^bold>\<open>Not modelled.\<close> Argument parsing, tracing and listening sockets; the embedded HTML page (a parameter); module lists and
  re-exports; tests, benchmarks, examples, deployment files. Handlers run atomically on the world: a race between two
  handlers inside one is not represented, and the key set fetched for a token does not change during a run. SQL is the
  table operations the statements mean; error sources behind the first message of an error are left out.
\<close>

section \<open>From a document to decisions\<close>


section \<open>A run of the whole\<close>

definition open_policy :: dsl_policy where
  "open_policy =
     \<lparr>dp_id = ''open_read'', dp_effect = DAllow, dp_action = ''READ'', dp_resource = ''TRAVEL_EXPENSE'', dp_when_roles = [],
      dp_where_subjects = [], dp_unless_roles = [], dp_where_subject_groups = [],
      dp_raw = join [NL] [''policy '' @ quoted ''open_read'', ''allow READ TRAVEL_EXPENSE'']\<rparr>"

lemma open_policy_printable: "printable open_policy"
  by (simp add: printable_def open_policy_def upper_word_def word_def is_ws_def to_ascii_uppercase_def
      upper_char_def policy_lines_def role_clause_def)

abbreviation open_cedar ::
  "(cedar_policy list, string, (string \<times> ctx_value) list, string entity list, cedar_call \<times> (string \<times> ctx_value) list) cedar" where
  "open_cedar \<equiv> reading_cedar (map policy_ast [open_policy])"

lemma open_document_valid: "validate_dsl open_cedar (print_policies [open_policy]) = Ok [open_policy]"
proof -
  have "parse_dsl (print_policies [open_policy]) = Ok [open_policy]"
    using parse_policies [of "[open_policy]" "\<lparr>ds_policies = [], ds_current = None\<rparr>" "[]" 0]
      str_lines_block [of "policy_lines open_policy" "[]"] policy_lines_clean [OF open_policy_printable]
    by (simp add: print_policies_def parse_dsl_def take_current_def open_policy_printable one_line_def)
  then show ?thesis
    by (simp add: validate_dsl_def dsl_to_cedar_document cedar_policy_set_from_dsl_def reading_cedar_def validate_cedar_policy_set_def)
qed

definition open_args :: check_args where
  "open_args = \<lparr>ch_principal = ''user:u'', ch_action = ''READ'', ch_resource = ''TRAVEL_EXPENSE'', ch_subject = None, ch_role = [],
     ch_subject_group = [], ch_direct_report = [], ch_nl = None\<rparr>"

definition open_request :: authz_request where
  "open_request =
     \<lparr>rq_principal = with_roles ''user:u'' [], rq_action = action_new ''READ'', rq_resource = resource_of_kind ''TRAVEL_EXPENSE'',
      rq_subject = None, rq_context = empty_context, rq_relationships = [], rq_acting_as = None, rq_on_behalf_of = None\<rparr>"

lemma open_request_args: "check_request show_f32 open_args = Ok open_request"
  by (simp add: check_request_def open_args_def open_request_def)

lemma open_request_readable: "request_readable open_request"
  by (simp add: request_readable_def open_request_def action_new_def resource_of_kind_def own_context_keys_def empty_context_def
      context_values_def free_texts_def with_roles_def json_clean_def is_control_def)

lemma open_request_answered: "engine_answers open_cedar open_request"
proof -
  have "parse_context (build_context_json open_request) = Some (context_values open_request)"
    using open_request_readable by (simp add: parse_context_build request_readable_def)
  moreover have "validate open_request = Ok ()"
    by (simp add: validate_def open_request_def with_roles_def action_new_def resource_of_kind_def trim_Nil_iff is_ws_def)
  ultimately have "is_ok (evaluate open_cedar env open_request cfg)" for env cfg
    unfolding reading_cedar_def by (intro evaluate_total) simp_all
  then show ?thesis by (auto simp: engine_answers_def is_ok_iff evaluate_Ok_iff)
qed

lemma open_request_permitted: "permitted [open_policy] open_request"
  by (simp add: permitted_def policy_applies_def open_request_def open_policy_def action_new_def resource_of_kind_def
      to_ascii_uppercase_def upper_char_def)

definition open_disk :: disk where
  "open_disk = file_put (active_path (the_store example_paths)) (print_policies [open_policy]) empty_disk"


end
